(* ===== verification/GoPrelude.thy ===== *)
theory GoPrelude
  imports Main "HOL-Library.Word"
begin

text \<open>
  The Go language and standard library features the SDK is written against, shared by all the
  component theories: results with errors and panics, fixed-width integers, byte strings and the
  functions of \<^verbatim>\<open>strings\<close>, \<^verbatim>\<open>strconv\<close>, \<^verbatim>\<open>encoding/hex\<close> and \<^verbatim>\<open>math/big\<close> the sources call.

  \<^item> A Go \<^verbatim>\<open>string\<close> is a \<^typ>\<open>string\<close> (a list of 8-bit characters, so \<open>length\<close> counts bytes
    as Go's \<^verbatim>\<open>len\<close> does). Case mapping is modelled on ASCII; bytes outside ASCII are left alone.
  \<^item> A \<^verbatim>\<open>(T, error)\<close> result is a sum \<open>failure + 'a\<close>. An error carries its text;
    where an operand is a floating-point number or an error of a library, it is left out of the text. A panic is a failure of its own kind,
    so that every \<^verbatim>\<open>panic\<close> of the source is a branch of the model.
  \<^item> \<^verbatim>\<open>int64\<close>, \<^verbatim>\<open>int32\<close> and \<^verbatim>\<open>time.Duration\<close> are \<^typ>\<open>int\<close> with the wrap-around written out.
\<close>

named_theorems go_simps \<open>unfolding rules for the Go runtime model\<close>

subsection \<open>Results\<close>

datatype failure = Error string | Panic string

type_synonym 'a result = "failure + 'a"

type_synonym byte = "8 word"
type_synonym bytes = "byte list"

fun bind_res :: "'a result \<Rightarrow> ('a \<Rightarrow> 'b result) \<Rightarrow> 'b result" where
  "bind_res (Inl e) f = Inl e"
| "bind_res (Inr a) f = f a"

fun is_ok :: "'a result \<Rightarrow> bool" where
  "is_ok (Inl e) = False"
| "is_ok (Inr a) = True"

fun is_panic :: "'a result \<Rightarrow> bool" where
  "is_panic (Inl (Panic s)) = True"
| "is_panic _ = False"

lemma bind_res_eq_Inr [simp]:
  "bind_res r f = Inr b \<longleftrightarrow> (\<exists>a. r = Inr a \<and> f a = Inr b)"
  by (cases r) auto

lemma bind_res_eq_Inl:
  "bind_res r f = Inl e \<longleftrightarrow> r = Inl e \<or> (\<exists>a. r = Inr a \<and> f a = Inl e)"
  by (cases r) auto

lemma bind_res_assoc: "bind_res (bind_res r f) g = bind_res r (\<lambda>a. bind_res (f a) g)"
  by (cases r) auto

lemma is_panic_bind:
  "is_panic (bind_res r f) \<longleftrightarrow> is_panic r \<or> (\<exists>a. r = Inr a \<and> is_panic (f a))"
proof (cases r)
  case (Inl e)
  then show ?thesis by (cases e) simp_all
qed simp

lemma is_ok_iff: "is_ok r \<longleftrightarrow> (\<exists>a. r = Inr a)"
  by (cases r) auto

subsection \<open>Fixed-width integers\<close>

definition int64 :: "int \<Rightarrow> int" where
  "int64 x = (x + 2 ^ 63) mod 2 ^ 64 - 2 ^ 63"

definition int32 :: "int \<Rightarrow> int" where
  "int32 x = (x + 2 ^ 31) mod 2 ^ 32 - 2 ^ 31"

abbreviation fits64 :: "int \<Rightarrow> bool" where
  "fits64 x \<equiv> - (2 ^ 63) \<le> x \<and> x < 2 ^ 63"

lemma int64_id [simp]: "- (2 ^ 63) \<le> x \<Longrightarrow> x < 2 ^ 63 \<Longrightarrow> int64 x = x"
  by (simp add: int64_def)

lemma int32_id [simp]: "- (2 ^ 31) \<le> x \<Longrightarrow> x < 2 ^ 31 \<Longrightarrow> int32 x = x"
  by (simp add: int32_def)

lemma int64_range: "- (2 ^ 63) \<le> int64 x" "int64 x < 2 ^ 63"
  by (simp_all add: int64_def)

lemma int64_idem [simp]: "int64 (int64 x) = int64 x"
  by (rule int64_id) (rule int64_range)+

text \<open>Go's integer division truncates towards zero.\<close>

definition quot :: "int \<Rightarrow> int \<Rightarrow> int" where
  "quot a b = sgn a * sgn b * (\<bar>a\<bar> div \<bar>b\<bar>)"

lemma quot_nonneg [simp]: "0 \<le> a \<Longrightarrow> 0 < b \<Longrightarrow> quot a b = a div b"
  by (cases "a = 0") (simp_all add: quot_def)

subsection \<open>Decimal digits: strconv.FormatInt, strconv.Atoi, big.Int.SetString\<close>

definition digit_char :: "int \<Rightarrow> char" where
  "digit_char d = char_of (48 + d)"

definition char_digit :: "char \<Rightarrow> int option" where
  "char_digit c = (let n = of_char c :: int in if 48 \<le> n \<and> n \<le> 57 then Some (n - 48) else None)"

lemma char_digit_digit_char [simp]: "0 \<le> d \<Longrightarrow> d < 10 \<Longrightarrow> char_digit (digit_char d) = Some d"
  by (simp add: char_digit_def digit_char_def Let_def)

lemma char_digit_nonneg: "char_digit c = Some d \<Longrightarrow> 0 \<le> d"
  by (auto simp: char_digit_def Let_def split: if_splits)

text \<open>The decimal digits of a non-negative integer.\<close>

function nat_str :: "int \<Rightarrow> string" where
  "nat_str n = (if n < 10 then [digit_char n] else nat_str (n div 10) @ [digit_char (n mod 10)])"
  by pat_completeness auto
termination by (relation "measure nat") auto

declare nat_str.simps [simp del]

fun digits_val :: "int \<Rightarrow> string \<Rightarrow> int option" where
  "digits_val acc [] = Some acc"
| "digits_val acc (c # cs) =
     (case char_digit c of None \<Rightarrow> None | Some d \<Rightarrow> digits_val (10 * acc + d) cs)"

definition parse_nat :: "string \<Rightarrow> int option" where
  "parse_nat s = (if s = [] then None else digits_val 0 s)"

lemma digits_val_append:
  "digits_val acc (xs @ ys) =
     (case digits_val acc xs of None \<Rightarrow> None | Some a \<Rightarrow> digits_val a ys)"
  by (induction acc xs rule: digits_val.induct) (auto split: option.splits)

lemma nat_str_nonempty [simp]: "nat_str n \<noteq> []"
  by (subst nat_str.simps) simp

lemma digits_val_nat_str: "0 \<le> n \<Longrightarrow> digits_val 0 (nat_str n) = Some n"
proof (induction n rule: nat_str.induct)
  case (1 n)
  show ?case
  proof (cases "n < 10")
    case True
    with "1.prems" show ?thesis by (simp add: nat_str.simps [of n])
  next
    case False
    with "1.IH" show ?thesis
      by (simp add: nat_str.simps [of n] digits_val_append)
  qed
qed

lemma digits_val_zeros: "digits_val 0 (replicate k CHR ''0'' @ s) = digits_val 0 s"
  by (induction k) (simp_all add: char_digit_def)

lemma parse_nat_nat_str [simp]: "0 \<le> n \<Longrightarrow> parse_nat (nat_str n) = Some n"
  by (simp add: parse_nat_def digits_val_nat_str)

lemma nat_str_digits: "0 \<le> n \<Longrightarrow> c \<in> set (nat_str n) \<Longrightarrow> char_digit c \<noteq> None"
proof (induction n rule: nat_str.induct)
  case (1 n)
  then show ?case
    by (cases "n < 10") (auto simp: nat_str.simps [of n])
qed

definition int_str :: "int \<Rightarrow> string" where
  "int_str n = (if n < 0 then CHR ''-'' # nat_str (- n) else nat_str n)"

text \<open>\<^verbatim>\<open>new(big.Int).SetString(s, 10)\<close>: an optional sign, then decimal digits up to the end.\<close>

definition setString10 :: "string \<Rightarrow> int option" where
  "setString10 s = (case s of
       [] \<Rightarrow> None
     | c # cs \<Rightarrow>
         if c = CHR ''-'' then map_option uminus (parse_nat cs)
         else if c = CHR ''+'' then parse_nat cs
         else parse_nat s)"

text \<open>\<^verbatim>\<open>strconv.Atoi\<close> on a 64-bit platform: the same syntax, and a range check.\<close>

definition atoi :: "string \<Rightarrow> int option" where
  "atoi s = (case setString10 s of
       None \<Rightarrow> None | Some n \<Rightarrow> if fits64 n then Some n else None)"

lemma nat_str_hd_not_sign:
  "0 \<le> n \<Longrightarrow> nat_str n = c # cs \<Longrightarrow> c \<noteq> CHR ''-'' \<and> c \<noteq> CHR ''+''"
proof -
  assume "0 \<le> n" and "nat_str n = c # cs"
  then have "char_digit c \<noteq> None" using nat_str_digits [of n c] by simp
  then show ?thesis by (auto simp: char_digit_def Let_def)
qed

lemma setString10_int_str [simp]: "setString10 (int_str n) = Some n"
proof (cases "n < 0")
  case True
  then show ?thesis by (simp add: int_str_def setString10_def)
next
  case False
  obtain c cs where s: "nat_str n = c # cs"
    by (cases "nat_str n") auto
  moreover from this False have "parse_nat (c # cs) = Some n"
    using parse_nat_nat_str [of n] by simp
  ultimately show ?thesis
    using nat_str_hd_not_sign [OF _ s] False by (simp add: int_str_def setString10_def)
qed

lemma atoi_int_str: "fits64 n \<Longrightarrow> atoi (int_str n) = Some n"
  by (simp add: atoi_def)

subsection \<open>Package strings\<close>

definition is_upper :: "char \<Rightarrow> bool" where
  "is_upper c \<longleftrightarrow> 65 \<le> (of_char c :: nat) \<and> (of_char c :: nat) \<le> 90"

definition is_lower :: "char \<Rightarrow> bool" where
  "is_lower c \<longleftrightarrow> 97 \<le> (of_char c :: nat) \<and> (of_char c :: nat) \<le> 122"

definition lower_char :: "char \<Rightarrow> char" where
  "lower_char c = (if is_upper c then char_of ((of_char c :: nat) + 32) else c)"

definition upper_char :: "char \<Rightarrow> char" where
  "upper_char c = (if is_lower c then char_of ((of_char c :: nat) - 32) else c)"

definition toLower :: "string \<Rightarrow> string" where
  "toLower = map lower_char"

definition toUpper :: "string \<Rightarrow> string" where
  "toUpper = map upper_char"

lemma upper_lower_char [simp]: "upper_char (lower_char c) = upper_char c"
proof (cases "is_upper c")
  case True
  then have b: "65 \<le> (of_char c :: nat)" "(of_char c :: nat) \<le> 90"
    by (simp_all add: is_upper_def)
  then have "(of_char c + 32 :: nat) < 256" by simp
  with b True show ?thesis
    by (simp add: upper_char_def lower_char_def is_lower_def)
qed (simp add: lower_char_def)

lemma toUpper_toLower [simp]: "toUpper (toLower s) = toUpper s"
  by (simp add: toUpper_def toLower_def)

lemma toUpper_append: "toUpper (s @ t) = toUpper s @ toUpper t"
  by (simp add: toUpper_def)

definition hasPrefix :: "string \<Rightarrow> string \<Rightarrow> bool" where
  "hasPrefix s p \<longleftrightarrow> take (length p) s = p"

definition hasSuffix :: "string \<Rightarrow> string \<Rightarrow> bool" where
  "hasSuffix s p \<longleftrightarrow> length p \<le> length s \<and> drop (length s - length p) s = p"

definition trimPrefix :: "string \<Rightarrow> string \<Rightarrow> string" where
  "trimPrefix s p = (if hasPrefix s p then drop (length p) s else s)"

fun contains :: "string \<Rightarrow> string \<Rightarrow> bool" where
  "contains [] p = (p = [])"
| "contains (c # cs) p = (hasPrefix (c # cs) p \<or> contains cs p)"

text \<open>\<^verbatim>\<open>strings.Replace(s, old, "", 1)\<close>: the first occurrence of a non-empty \<open>old\<close> is cut out.\<close>

fun remove_first :: "string \<Rightarrow> string \<Rightarrow> string" where
  "remove_first [] p = []"
| "remove_first (c # cs) p =
     (if hasPrefix (c # cs) p then drop (length p) (c # cs) else c # remove_first cs p)"

fun join :: "string list \<Rightarrow> string \<Rightarrow> string" where
  "join [] sep = []"
| "join [x] sep = x"
| "join (x # xs) sep = x @ sep @ join xs sep"

fun trimRight :: "char \<Rightarrow> string \<Rightarrow> string" where
  "trimRight c s = rev (dropWhile (\<lambda>x. x = c) (rev s))"

text \<open>\<^verbatim>\<open>strings.TrimSpace\<close> on ASCII: tab, newline, vertical tab, form feed, return, space.\<close>

definition is_space :: "char \<Rightarrow> bool" where
  "is_space c \<longleftrightarrow> (let n = of_char c :: nat in (9 \<le> n \<and> n \<le> 13) \<or> n = 32)"

definition trimSpace :: "string \<Rightarrow> string" where
  "trimSpace s = rev (dropWhile is_space (rev (dropWhile is_space s)))"

lemma hasPrefix_append [simp]: "hasPrefix (p @ s) p"
  by (simp add: hasPrefix_def)

lemma hasSuffix_append [simp]: "hasSuffix (s @ p) p"
  by (simp add: hasSuffix_def)

lemma remove_first_no_occ: "\<not> contains s p \<Longrightarrow> remove_first s p = s"
  by (induction s p rule: contains.induct) auto

subsection \<open>Bytes and encoding/hex\<close>

definition byte_of_char :: "char \<Rightarrow> byte" where
  "byte_of_char c = of_nat (of_char c)"

definition char_of_byte :: "byte \<Rightarrow> char" where
  "char_of_byte b = char_of (unat b)"

definition bytes_of :: "string \<Rightarrow> bytes" where
  "bytes_of = map byte_of_char"

definition string_of :: "bytes \<Rightarrow> string" where
  "string_of = map char_of_byte"

lemma of_char_less: "(of_char c :: nat) < 256"
proof -
  have "(of_char c :: nat) = of_char c mod 256" by simp
  also have "\<dots> < 256" by (rule mod_less_divisor) simp
  finally show ?thesis .
qed

lemma char_of_byte_of_char [simp]: "char_of_byte (byte_of_char c) = c"
  using of_char_less [of c]
  by (simp add: char_of_byte_def byte_of_char_def unat_of_nat)

lemma byte_of_char_of_byte [simp]: "byte_of_char (char_of_byte b) = b"
proof -
  have "unat b < 256" using unsigned_less [where 'b = 8, of b] by simp
  then show ?thesis by (simp add: char_of_byte_def byte_of_char_def)
qed

lemma string_of_bytes_of [simp]: "string_of (bytes_of s) = s"
  by (simp add: string_of_def bytes_of_def comp_def)

lemma bytes_of_string_of [simp]: "bytes_of (string_of b) = b"
  by (simp add: string_of_def bytes_of_def comp_def)

lemma length_bytes_of [simp]: "length (bytes_of s) = length s"
  by (simp add: bytes_of_def)

text \<open>\<^verbatim>\<open>hex.EncodeToString\<close> and \<^verbatim>\<open>hex.DecodeString\<close>.\<close>

definition hex_char :: "nat \<Rightarrow> char" where
  "hex_char d = (if d < 10 then char_of (48 + d) else char_of (87 + d))"

definition hex_val :: "char \<Rightarrow> nat option" where
  "hex_val c = (let n = of_char c :: nat in
     if 48 \<le> n \<and> n \<le> 57 then Some (n - 48)
     else if 97 \<le> n \<and> n \<le> 102 then Some (n - 87)
     else if 65 \<le> n \<and> n \<le> 70 then Some (n - 55)
     else None)"

fun hex_encode :: "bytes \<Rightarrow> string" where
  "hex_encode [] = []"
| "hex_encode (b # bs) = hex_char (unat b div 16) # hex_char (unat b mod 16) # hex_encode bs"

fun hex_decode :: "string \<Rightarrow> bytes result" where
  "hex_decode [] = Inr []"
| "hex_decode [c] = (case hex_val c of
       None \<Rightarrow> Inl (Error ''encoding/hex: invalid byte'')
     | Some _ \<Rightarrow> Inl (Error ''encoding/hex: odd length hex string''))"
| "hex_decode (c # d # cs) = (case (hex_val c, hex_val d) of
       (Some a, Some b) \<Rightarrow> bind_res (hex_decode cs) (\<lambda>bs. Inr (of_nat (16 * a + b) # bs))
     | _ \<Rightarrow> Inl (Error ''encoding/hex: invalid byte''))"

lemma hex_val_hex_char [simp]: "d < 16 \<Longrightarrow> hex_val (hex_char d) = Some d"
  by (simp add: hex_val_def hex_char_def Let_def)

lemma unat_byte_less [simp]: "unat (b :: byte) < 256"
  using unsigned_less [where 'b = 8, of b] by simp

lemma hex_decode_encode [simp]: "hex_decode (hex_encode bs) = Inr bs"
proof (induction bs)
  case (Cons b bs)
  have "unat b div 16 < 16" by (rule less_mult_imp_div_less) simp
  moreover have "16 * (unat b div 16) + unat b mod 16 = unat b" by simp
  ultimately show ?case using Cons by simp
qed simp

lemma length_hex_encode [simp]: "length (hex_encode bs) = 2 * length bs"
  by (induction bs) auto

text \<open>\<^verbatim>\<open>big.Int.Bytes\<close>, big-endian and without leading zeroes, and fixed-width encodings.\<close>

fun be_bytes :: "nat \<Rightarrow> bytes" where
  "be_bytes n = (if n = 0 then [] else be_bytes (n div 256) @ [of_nat (n mod 256)])"

declare be_bytes.simps [simp del]

definition be_val :: "bytes \<Rightarrow> nat" where
  "be_val bs = foldl (\<lambda>a b. 256 * a + unat b) 0 bs"

text \<open>Zero bytes on the left up to length \<open>n\<close>, never a truncation.\<close>

definition left_pad :: "bytes \<Rightarrow> nat \<Rightarrow> bytes" where
  "left_pad bs n = replicate (n - length bs) 0 @ bs"

lemma be_val_Nil [simp]: "be_val [] = 0"
  by (simp add: be_val_def)

lemma be_val_snoc [simp]: "be_val (bs @ [b]) = 256 * be_val bs + unat b"
  by (simp add: be_val_def)

lemma be_val_be_bytes [simp]: "be_val (be_bytes n) = n"
proof (induction n rule: be_bytes.induct)
  case (1 n)
  show ?case
  proof (cases "n = 0")
    case True
    then show ?thesis by (simp add: be_bytes.simps)
  next
    case False
    with 1 show ?thesis by (simp add: be_bytes.simps [of n] unat_of_nat)
  qed
qed

lemma be_val_replicate [simp]: "be_val (replicate k 0 @ bs) = be_val bs"
proof -
  have "foldl (\<lambda>a b. 256 * a + unat b) 0 (replicate k (0 :: byte)) = 0"
    by (induction k) simp_all
  then show ?thesis by (simp add: be_val_def)
qed

lemma be_val_left_pad [simp]: "be_val (left_pad bs n) = be_val bs"
  by (simp add: left_pad_def)

lemma length_be_bytes: "n < 256 ^ k \<Longrightarrow> length (be_bytes n) \<le> k"
proof (induction n arbitrary: k rule: be_bytes.induct)
  case (1 n)
  show ?case
  proof (cases "n = 0")
    case True
    then show ?thesis by (simp add: be_bytes.simps)
  next
    case False
    with "1.prems" obtain j where k: "k = Suc j" by (cases k) auto
    have "n div 256 < 256 ^ j"
      using "1.prems" k by (simp add: div_less_iff_less_mult mult.commute)
    then have "length (be_bytes (n div 256)) \<le> j" using "1.IH" False by blast
    then show ?thesis using False k by (simp add: be_bytes.simps [of n])
  qed
qed

lemma length_left_pad_be: "n < 256 ^ k \<Longrightarrow> length (left_pad (be_bytes n) k) = k"
  using length_be_bytes [of n k] by (simp add: left_pad_def)

end
