(* ===== verification/GoFloat.thy ===== *)
theory GoFloat
  imports GoPrelude Complex_Main
begin

text \<open>
  Go's \<^verbatim>\<open>float64\<close>: a finite value is a rational number, every operation rounds its exact result to
  the nearest double with ties to even, and NaN and the infinities behave as in IEEE 754. The two
  zeroes are identified, which no expression of the SDK can tell apart.
  Also here: \<^verbatim>\<open>strconv.ParseFloat\<close> (decimal literals, \<^verbatim>\<open>inf\<close>, \<^verbatim>\<open>nan\<close>; the hexadecimal and underscore
  forms are not part of the model) and the shortest round-tripping decimal of
  \<^verbatim>\<open>strconv.FormatFloat(x, 'f', -1, 64)\<close>.
\<close>

datatype float64 = NaN | PInf | NInf | Fin rat

subsection \<open>Rounding to the nearest double\<close>

function bit_length :: "int \<Rightarrow> int" where
  "bit_length n = (if n \<le> 0 then 0 else 1 + bit_length (n div 2))"
  by pat_completeness auto
termination by (relation "measure nat") auto

declare bit_length.simps [simp del]

definition p2 :: "int \<Rightarrow> rat" where
  "p2 e = (if 0 \<le> e then 2 ^ nat e else 1 / 2 ^ nat (- e))"

text \<open>For positive \<open>r\<close>: the exponent \<open>e\<close> with \<open>p2 e \<le> r < p2 (e + 1)\<close>.\<close>

definition ilog2 :: "rat \<Rightarrow> int" where
  "ilog2 r = (let (p, q) = quotient_of r; e = bit_length p - bit_length q
     in if p2 e \<le> r then e else e - 1)"

text \<open>Round half to even.\<close>

definition rhe :: "rat \<Rightarrow> int" where
  "rhe r = (let f = \<lfloor>r\<rfloor>; d = r - of_int f in
     if d < 1 / 2 then f else if 1 / 2 < d then f + 1 else if even f then f else f + 1)"

definition quantum :: "rat \<Rightarrow> int" where
  "quantum r = max (ilog2 \<bar>r\<bar> - 52) (- 1074)"

text \<open>
  The significand \<open>r / p2 m\<close> is at most \<open>2 ^ 53\<close>, so only an exponent \<open>m\<close> above 970 can overflow.
\<close>

definition clip64 :: "int \<Rightarrow> rat \<Rightarrow> float64" where
  "clip64 m v = (if 970 < m \<and> p2 1024 \<le> \<bar>v\<bar> then (if 0 < v then PInf else NInf) else Fin v)"

definition round64 :: "rat \<Rightarrow> float64" where
  "round64 r = (if r = 0 then Fin 0 else
     let m = quantum r in clip64 m (of_int (rhe (r / p2 m)) * p2 m))"

text \<open>A value of the type \<^typ>\<open>float64\<close> that a Go program can hold.\<close>

fun is_f64 :: "float64 \<Rightarrow> bool" where
  "is_f64 (Fin r) \<longleftrightarrow> round64 r = Fin r"
| "is_f64 _ \<longleftrightarrow> True"

lemma p2_pos [simp]: "0 < p2 e"
  by (simp add: p2_def)

lemma p2_neq_0 [simp]: "p2 e \<noteq> 0"
  using p2_pos [of e] by linarith

lemma p2_not_nonpos [simp]: "\<not> p2 e \<le> 0"
  by (simp add: not_le)

lemma p2_add: "p2 (a + b) = p2 a * p2 b"
proof -
  have p: "p2 e = 2 powi e" for e
    by (simp add: p2_def power_int_def inverse_eq_divide power_one_over)
  show ?thesis unfolding p by (simp add: power_int_add)
qed

lemma rhe_of_int [simp]: "rhe (of_int n) = n"
  by (simp add: rhe_def)

lemma rhe_half: "\<bar>of_int (rhe r) - r\<bar> \<le> 1 / 2"
proof -
  have "of_int \<lfloor>r\<rfloor> \<le> r" "r < of_int \<lfloor>r\<rfloor> + 1" by linarith+
  then show ?thesis unfolding rhe_def Let_def
    by (simp only: abs_le_iff split: if_split) linarith
qed

lemma rhe_mono:
  assumes "a \<le> b" shows "rhe a \<le> rhe b"
proof (cases "\<lfloor>a\<rfloor> = \<lfloor>b\<rfloor>")
  case True
  with assms show ?thesis by (auto simp: rhe_def Let_def)
next
  case False
  with assms have "\<lfloor>a\<rfloor> + 1 \<le> \<lfloor>b\<rfloor>" using floor_mono [of a b] by linarith
  moreover have "rhe a \<le> \<lfloor>a\<rfloor> + 1" "\<lfloor>b\<rfloor> \<le> rhe b"
    by (auto simp: rhe_def Let_def)
  ultimately show ?thesis by linarith
qed

text \<open>A double is an integer multiple of a power of two.\<close>

lemma is_f64_dyadic:
  assumes "is_f64 (Fin r)" and "r \<noteq> 0"
  shows "r = of_int \<lfloor>r / p2 (quantum r)\<rfloor> * p2 (quantum r)"
proof -
  let ?n = "rhe (r / p2 (quantum r))"
  from assms have r: "r = of_int ?n * p2 (quantum r)"
    by (simp add: round64_def clip64_def Let_def split: if_splits)
  then have "r / p2 (quantum r) = of_int ?n" by (metis nonzero_mult_div_cancel_right p2_neq_0)
  then have "\<lfloor>r / p2 (quantum r)\<rfloor> = ?n" by linarith
  with r show ?thesis by simp
qed

subsection \<open>Arithmetic and comparison\<close>

instantiation float64 :: "{plus, minus, times, ord}"
begin

fun plus_float64 :: "float64 \<Rightarrow> float64 \<Rightarrow> float64" where
  "plus_float64 (Fin a) (Fin b) = round64 (a + b)"
| "plus_float64 NaN _ = NaN"
| "plus_float64 _ NaN = NaN"
| "plus_float64 PInf NInf = NaN"
| "plus_float64 NInf PInf = NaN"
| "plus_float64 PInf _ = PInf"
| "plus_float64 _ PInf = PInf"
| "plus_float64 NInf _ = NInf"
| "plus_float64 _ NInf = NInf"

fun minus_float64 :: "float64 \<Rightarrow> float64 \<Rightarrow> float64" where
  "minus_float64 a (Fin b) = a + Fin (- b)"
| "minus_float64 a PInf = a + NInf"
| "minus_float64 a NInf = a + PInf"
| "minus_float64 a NaN = NaN"

definition inf_sign :: "rat \<Rightarrow> float64" where
  "inf_sign s = (if s = 0 then NaN else if 0 < s then PInf else NInf)"

fun times_float64 :: "float64 \<Rightarrow> float64 \<Rightarrow> float64" where
  "times_float64 (Fin a) (Fin b) = round64 (a * b)"
| "times_float64 NaN _ = NaN"
| "times_float64 _ NaN = NaN"
| "times_float64 PInf PInf = PInf"
| "times_float64 NInf NInf = PInf"
| "times_float64 PInf NInf = NInf"
| "times_float64 NInf PInf = NInf"
| "times_float64 PInf (Fin b) = inf_sign b"
| "times_float64 (Fin a) PInf = inf_sign a"
| "times_float64 NInf (Fin b) = inf_sign (- b)"
| "times_float64 (Fin a) NInf = inf_sign (- a)"

fun less_eq_float64 :: "float64 \<Rightarrow> float64 \<Rightarrow> bool" where
  "less_eq_float64 (Fin a) (Fin b) = (a \<le> b)"
| "less_eq_float64 NaN _ = False"
| "less_eq_float64 _ NaN = False"
| "less_eq_float64 NInf _ = True"
| "less_eq_float64 _ PInf = True"
| "less_eq_float64 _ _ = False"

fun less_float64 :: "float64 \<Rightarrow> float64 \<Rightarrow> bool" where
  "less_float64 (Fin a) (Fin b) = (a < b)"
| "less_float64 NaN _ = False"
| "less_float64 _ NaN = False"
| "less_float64 NInf NInf = False"
| "less_float64 NInf _ = True"
| "less_float64 PInf _ = False"
| "less_float64 _ PInf = True"
| "less_float64 _ _ = False"

instance ..

end

text \<open>Go's \<^verbatim>\<open>==\<close> on floats.\<close>

fun f_eq :: "float64 \<Rightarrow> float64 \<Rightarrow> bool" where
  "f_eq NaN _ = False"
| "f_eq _ NaN = False"
| "f_eq a b = (a = b)"

subsection \<open>Decimal literals\<close>

definition p10 :: "int \<Rightarrow> rat" where
  "p10 e = (if 0 \<le> e then 10 ^ nat e else 1 / 10 ^ nat (- e))"

lemma p10_pos [simp]: "0 < p10 e"
  by (simp add: p10_def)

lemma p10_neq_0 [simp]: "p10 e \<noteq> 0"
  using p10_pos [of e] by linarith

lemma p10_powi: "p10 e = 10 powi e"
  by (simp add: p10_def power_int_def inverse_eq_divide power_one_over)

lemma p10_add: "p10 (a + b) = p10 a * p10 b"
  unfolding p10_powi by (simp add: power_int_add)

lemma p10_0 [simp]: "p10 0 = 1"
  by (simp add: p10_def)

lemma p10_uminus: "p10 (- e) = 1 / p10 e"
  unfolding p10_powi by (simp add: power_int_minus divide_inverse)

lemma p10_int: "0 \<le> e \<Longrightarrow> p10 e = of_int (10 ^ nat e)"
  by (simp add: p10_def)

text \<open>Split at the first occurrence of a character.\<close>

fun split_at :: "(char \<Rightarrow> bool) \<Rightarrow> string \<Rightarrow> string \<times> string option" where
  "split_at p [] = ([], None)"
| "split_at p (c # cs) = (if p c then ([], Some cs)
     else let (a, b) = split_at p cs in (c # a, b))"

text \<open>A mantissa \<open>digits [. digits]\<close> with at least one digit, as a coefficient and its scale.\<close>

definition parse_mantissa :: "string \<Rightarrow> (int \<times> nat) option" where
  "parse_mantissa s = (case split_at (\<lambda>c. c = CHR ''.'') s of
       (a, None) \<Rightarrow> map_option (\<lambda>n. (n, 0)) (parse_nat a)
     | (a, Some b) \<Rightarrow> map_option (\<lambda>n. (n, length b)) (parse_nat (a @ b)))"

definition parse_unsigned :: "string \<Rightarrow> rat option" where
  "parse_unsigned s = (case split_at (\<lambda>c. c = CHR ''e'' \<or> c = CHR ''E'') s of
       (m, None) \<Rightarrow> map_option (\<lambda>(n, k). of_int n * p10 (- int k)) (parse_mantissa m)
     | (m, Some x) \<Rightarrow> (case (parse_mantissa m, setString10 x) of
           (Some (n, k), Some e) \<Rightarrow> Some (of_int n * p10 (e - int k))
         | _ \<Rightarrow> None))"

definition finish_float :: "rat \<Rightarrow> float64 result" where
  "finish_float r = (case round64 r of
       Fin v \<Rightarrow> Inr (Fin v) | _ \<Rightarrow> Inl (Error ''value out of range''))"

definition parseFloat :: "string \<Rightarrow> float64 result" where
  "parseFloat s = (let (neg, u) = (case s of
         c # cs \<Rightarrow> if c = CHR ''-'' then (True, cs) else if c = CHR ''+'' then (False, cs) else (False, s)
       | [] \<Rightarrow> (False, s)); l = toLower u in
     if l = ''inf'' \<or> l = ''infinity'' then Inr (if neg then NInf else PInf)
     else if toLower s = ''nan'' then Inr NaN
     else case parse_unsigned u of
         None \<Rightarrow> Inl (Error ''invalid syntax'')
       | Some r \<Rightarrow> finish_float (if neg then - r else r))"

lemma finish_float_f64: "finish_float r = Inr x \<Longrightarrow> \<exists>v. x = Fin v \<and> round64 r = Fin v"
  by (cases "round64 r") (auto simp: finish_float_def)

subsection \<open>Positional notation\<close>

text \<open>\<open>dec_str c e\<close> writes \<open>c * 10 ^ e\<close> without an exponent.\<close>

definition nat_dec_str :: "int \<Rightarrow> int \<Rightarrow> string" where
  "nat_dec_str c e = (if 0 \<le> e then
       (if c = 0 then ''0'' else nat_str c @ replicate (nat e) CHR ''0'')
     else let k = nat (- e); s = nat_str c; s' = replicate (Suc k - length s) CHR ''0'' @ s
       in take (length s' - k) s' @ CHR ''.'' # drop (length s' - k) s')"

definition dec_str :: "int \<Rightarrow> int \<Rightarrow> string" where
  "dec_str c e = (if c < 0 then CHR ''-'' # nat_dec_str (- c) e else nat_dec_str c e)"

fun dec_exp :: "nat \<Rightarrow> rat \<Rightarrow> int" where
  "dec_exp 0 r = 0"
| "dec_exp (Suc f) r =
     (if r < 1 then dec_exp f (10 * r) - 1 else if 10 \<le> r then dec_exp f (r / 10) + 1 else 0)"

text \<open>
  The shortest decimal that reads back as the double \<open>r > 0\<close>: the candidates with \<open>n\<close> significant
  digits are the two neighbours of \<open>r\<close>; of those that round to \<open>r\<close> the closer one is taken.
  Seventeen digits are always enough for a double; the exact expansion closes the search.
\<close>

definition round_trips :: "rat \<Rightarrow> int \<Rightarrow> int \<Rightarrow> bool" where
  "round_trips r c e \<longleftrightarrow> round64 (of_int c * p10 e) = Fin r"

definition exact_dec :: "rat \<Rightarrow> int \<times> int" where
  "exact_dec r = (let m = quantum r; n = \<lfloor>r / p2 m\<rfloor> in
     if 0 \<le> m then (n * 2 ^ nat m, 0) else (n * 5 ^ nat (- m), m))"

fun shortest_from :: "nat \<Rightarrow> rat \<Rightarrow> int \<Rightarrow> int \<times> int" where
  "shortest_from 0 r e = exact_dec r"
| "shortest_from (Suc k) r e = (let x = r / p10 e; lo = \<lfloor>x\<rfloor>; hi = \<lceil>x\<rceil>;
       a = round_trips r lo e; b = round_trips r hi e in
     if a \<and> (\<not> b \<or> x - of_int lo \<le> of_int hi - x) then (lo, e)
     else if b then (hi, e) else shortest_from k r (e - 1))"

definition shortest_dec :: "rat \<Rightarrow> int \<times> int" where
  "shortest_dec r = (if r = 0 then (0, 0) else
     let (c, e) = shortest_from 17 \<bar>r\<bar> (dec_exp 400 \<bar>r\<bar>) in (if r < 0 then - c else c, e))"

fun formatFloat :: "float64 \<Rightarrow> string" where
  "formatFloat NaN = ''NaN''"
| "formatFloat PInf = ''+Inf''"
| "formatFloat NInf = ''-Inf''"
| "formatFloat (Fin r) = (let (c, e) = shortest_dec r in dec_str c e)"

subsection \<open>Reading an integer\<close>

lemma split_at_no: "\<forall>c \<in> set s. \<not> p c \<Longrightarrow> split_at p s = (s, None)"
  by (induction s) auto

lemma digit_chars:
  assumes "char_digit c \<noteq> None" shows "c \<in> set ''0123456789''"
proof -
  have "48 \<le> (of_char c :: int)" "(of_char c :: int) \<le> 57"
    using assms by (auto simp: char_digit_def Let_def split: if_splits)
  then have "(of_char c :: int) = 48 \<or> (of_char c :: int) = 49 \<or> (of_char c :: int) = 50 \<or>
      (of_char c :: int) = 51 \<or> (of_char c :: int) = 52 \<or> (of_char c :: int) = 53 \<or>
      (of_char c :: int) = 54 \<or> (of_char c :: int) = 55 \<or> (of_char c :: int) = 56 \<or> (of_char c :: int) = 57"
    by presburger
  moreover have "c = char_of (of_char c :: int)" by simp
  ultimately show ?thesis by (elim disjE) (simp_all add: char_of_def)
qed

lemma digit_plain:
  assumes "char_digit c \<noteq> None"
  shows "c \<noteq> CHR ''.''" "c \<noteq> CHR ''e''" "c \<noteq> CHR ''E''" "lower_char c \<noteq> CHR ''i''" "lower_char c \<noteq> CHR ''n''"
  using digit_chars [OF assms] by (auto simp: lower_char_def is_upper_def)

lemma parse_unsigned_nat_str:
  assumes "0 \<le> n" shows "parse_unsigned (nat_str n) = Some (of_int n)"
proof -
  have p: "c \<noteq> CHR ''.'' \<and> c \<noteq> CHR ''e'' \<and> c \<noteq> CHR ''E''" if "c \<in> set (nat_str n)" for c
    using digit_plain(1-3) [OF nat_str_digits [OF assms that]] by simp
  then have "split_at (\<lambda>c. c = CHR ''e'' \<or> c = CHR ''E'') (nat_str n) = (nat_str n, None)"
    "split_at (\<lambda>c. c = CHR ''.'') (nat_str n) = (nat_str n, None)"
    using p by (auto intro!: split_at_no)
  then show ?thesis using assms by (simp add: parse_unsigned_def parse_mantissa_def)
qed

lemma lower_nat_str:
  assumes "0 \<le> n" shows "\<exists>c cs. toLower (nat_str n) = lower_char c # cs \<and> char_digit c \<noteq> None"
proof -
  obtain c cs where "nat_str n = c # cs" by (cases "nat_str n") auto
  then show ?thesis using nat_str_digits [OF assms, of c] by (auto simp: toLower_def)
qed

lemma parseFloat_int_str: "parseFloat (int_str n) = finish_float (of_int n)"
proof (cases "n < 0")
  case True
  then obtain c cs where "toLower (nat_str (- n)) = lower_char c # cs" "char_digit c \<noteq> None"
    using lower_nat_str [of "- n"] by auto
  moreover have "lower_char CHR ''-'' \<noteq> CHR ''n''" by (simp add: lower_char_def is_upper_def)
  ultimately show ?thesis
    using True parse_unsigned_nat_str [of "- n"] digit_plain(4,5) [of c]
    by (auto simp: parseFloat_def int_str_def toLower_def)
next
  case False
  then obtain c cs where l: "toLower (nat_str n) = lower_char c # cs" "char_digit c \<noteq> None"
    using lower_nat_str [of n] by auto
  obtain d ds where s: "nat_str n = d # ds" by (cases "nat_str n") auto
  show ?thesis
    using False s l nat_str_hd_not_sign [OF _ s] parse_unsigned_nat_str [of n] digit_plain(4,5) [of c]
    by (auto simp: parseFloat_def int_str_def)
qed

end
