(* ===== verification/DecimalLib.thy ===== *)
theory DecimalLib
  imports GoFloat
begin

text \<open>
  The decimal package \<^verbatim>\<open>github.com/shopspring/decimal\<close> is not part of the repository: its operations
  are a parameter of the model, the record \<open>decimal_lib\<close>, which every definition that computes with
  decimals takes as its first argument. The locale \<open>decimal_laws\<close> states the documented behaviour
  the SDK relies on, over the number \<open>val d\<close> a decimal \<open>d\<close> stands for. The interpretation at the end
  discharges it for coefficient/exponent pairs, the representation the package documents, so the
  laws are satisfiable and the theorems that rest on them can be evaluated.
\<close>

record 'd decimal_lib =
  dNewFromFloat :: "float64 \<Rightarrow> 'd result"
  dNewFromString :: "string \<Rightarrow> 'd result"
  dNew :: "int \<Rightarrow> int \<Rightarrow> 'd"
  dExponent :: "'d \<Rightarrow> int"
  dMul :: "'d \<Rightarrow> 'd \<Rightarrow> 'd"
  dDiv :: "'d \<Rightarrow> 'd \<Rightarrow> 'd result"
  dRound :: "'d \<Rightarrow> int \<Rightarrow> 'd"
  dFloor :: "'d \<Rightarrow> 'd"
  dCeil :: "'d \<Rightarrow> 'd"
  dTruncate :: "'d \<Rightarrow> int \<Rightarrow> 'd"
  dShift :: "'d \<Rightarrow> int \<Rightarrow> 'd"
  dBigInt :: "'d \<Rightarrow> int"
  dString :: "'d \<Rightarrow> string"

subsection \<open>Rounding rules of the documentation\<close>

text \<open>Half away from zero, and truncation towards zero.\<close>

definition round_away :: "rat \<Rightarrow> int" where
  "round_away r = (if 0 \<le> r then \<lfloor>r + 1 / 2\<rfloor> else - \<lfloor>1 / 2 - r\<rfloor>)"

definition trunc0 :: "rat \<Rightarrow> int" where
  "trunc0 r = (if 0 \<le> r then \<lfloor>r\<rfloor> else \<lceil>r\<rceil>)"

text \<open>Apply an integer rounding rule at \<open>n\<close> decimal places.\<close>

definition at_places :: "(rat \<Rightarrow> int) \<Rightarrow> rat \<Rightarrow> int \<Rightarrow> rat" where
  "at_places f r n = of_int (f (r * p10 n)) * p10 (- n)"

text \<open>\<open>r\<close> has at most \<open>n\<close> decimal places.\<close>

definition on_grid :: "rat \<Rightarrow> int \<Rightarrow> bool" where
  "on_grid r n \<longleftrightarrow> r * p10 n \<in> \<int>"

lemma round_away_of_int [simp]: "round_away (of_int n) = n"
proof (cases "0 \<le> n")
  case True
  then show ?thesis by (simp add: round_away_def) linarith
next
  case False
  then show ?thesis by (simp add: round_away_def) linarith
qed

lemma trunc0_of_int [simp]: "trunc0 (of_int n) = n"
  by (simp add: trunc0_def)

lemma p10_mult_uminus [simp]: "p10 n * p10 (- n) = 1" "p10 (- n) * p10 n = 1"
  by (simp_all add: p10_uminus)

lemma on_grid_at_places:
  assumes "on_grid r n" and "\<And>k. f (of_int k) = k"
  shows "at_places f r n = r"
proof -
  from assms(1) obtain k where k: "r * p10 n = of_int k"
    by (auto simp: on_grid_def elim: Ints_cases)
  then have "at_places f r n = r * p10 n * p10 (- n)"
    by (simp add: at_places_def assms(2))
  then show ?thesis by (simp add: mult.assoc)
qed

lemma at_places_on_grid [simp]: "on_grid (at_places f r n) n"
  by (simp add: on_grid_def at_places_def mult.assoc)

lemma on_grid_mono:
  assumes "on_grid r m" and "m \<le> n" shows "on_grid r n"
proof -
  have "p10 n = p10 m * p10 (n - m)" by (simp flip: p10_add)
  moreover have "p10 (n - m) \<in> \<int>" using assms(2) by (simp add: p10_int)
  ultimately show ?thesis
    using assms(1) unfolding on_grid_def by (metis Ints_mult mult.assoc)
qed

lemma on_grid_mult:
  assumes "on_grid a m" and "on_grid b n" shows "on_grid (a * b) (m + n)"
proof -
  have "a * b * p10 (m + n) = (a * p10 m) * (b * p10 n)"
    by (simp add: p10_add algebra_simps)
  then show ?thesis using assms unfolding on_grid_def by (metis Ints_mult)
qed

lemma on_grid_coeff: "- n \<le> e \<Longrightarrow> on_grid (of_int c * p10 e) n"
  by (simp add: on_grid_def mult.assoc flip: p10_add) (simp add: p10_int)

lemma at_places_floor_le: "at_places floor r n \<le> r"
proof -
  have "of_int \<lfloor>r * p10 n\<rfloor> * p10 (- n) \<le> r * p10 n * p10 (- n)"
    by (intro mult_right_mono) (simp_all add: order_less_imp_le)
  then show ?thesis by (simp add: at_places_def mult.assoc)
qed

lemma at_places_floor_gt: "r < at_places floor r n + p10 (- n)"
proof -
  have "r * p10 n * p10 (- n) < (of_int \<lfloor>r * p10 n\<rfloor> + 1) * p10 (- n)"
    by (intro mult_strict_right_mono) (linarith, simp)
  then show ?thesis by (simp add: at_places_def algebra_simps)
qed

lemma at_places_ceiling: "at_places ceiling r n = - at_places floor (- r) n"
  by (simp add: at_places_def ceiling_def)

lemma at_places_ceiling_bounds:
  "r \<le> at_places ceiling r n" "at_places ceiling r n < r + p10 (- n)"
  using at_places_floor_le [of "- r" n] at_places_floor_gt [of "- r" n]
  by (simp_all add: at_places_ceiling)

lemma at_places_round_away_close: "\<bar>at_places round_away r n - r\<bar> \<le> p10 (- n) / 2"
proof -
  let ?x = "r * p10 n"
  have "of_int (round_away ?x) \<le> ?x + 1 / 2" "?x - 1 / 2 \<le> of_int (round_away ?x)"
    unfolding round_away_def by (simp_all split: if_split) linarith+
  then have "(of_int (round_away ?x) - ?x) * p10 (- n) \<le> 1 / 2 * p10 (- n)"
    "(?x - of_int (round_away ?x)) * p10 (- n) \<le> 1 / 2 * p10 (- n)"
    by (intro mult_right_mono; simp add: order_less_imp_le)+
  then have "\<bar>(of_int (round_away ?x) - ?x) * p10 (- n)\<bar> \<le> 1 / 2 * p10 (- n)"
    by (simp only: abs_le_iff) (simp add: algebra_simps)
  moreover have "(of_int (round_away ?x) - ?x) * p10 (- n) = at_places round_away r n - r"
    by (simp add: at_places_def left_diff_distrib mult.assoc)
  ultimately show ?thesis by simp
qed

lemma at_places_trunc0_le: "0 \<le> r \<Longrightarrow> at_places trunc0 r n \<le> r"
  using at_places_floor_le [of r n] by (simp add: at_places_def trunc0_def order_less_imp_le)

lemma at_places_floor_nonneg: "0 \<le> r \<Longrightarrow> 0 \<le> at_places floor r n"
  by (simp add: at_places_def order_less_imp_le)

lemma at_places_round_away_nonneg: "0 \<le> r \<Longrightarrow> 0 \<le> at_places round_away r n"
proof -
  assume "0 \<le> r"
  then have "0 \<le> r * p10 n" by (simp add: order_less_imp_le)
  then have "0 \<le> round_away (r * p10 n)" unfolding round_away_def by simp
  then show ?thesis by (simp add: at_places_def order_less_imp_le)
qed

subsection \<open>The laws\<close>

locale decimal_laws =
  fixes D :: "'d decimal_lib" and val :: "'d \<Rightarrow> rat"
  assumes new_from_float:
      "is_f64 (Fin r) \<Longrightarrow> \<exists>d. dNewFromFloat D (Fin r) = Inr d \<and> round64 (val d) = Fin r"
    and new_from_float_panic: "(\<And>r. x \<noteq> Fin r) \<Longrightarrow> is_panic (dNewFromFloat D x)"
    and new_val: "val (dNew D v e) = of_int v * p10 e"
    and coefficient: "\<exists>c. val d = of_int c * p10 (dExponent D d)"
    and mul_val: "val (dMul D a b) = val a * val b"
    and div_zero: "val b = 0 \<Longrightarrow> is_panic (dDiv D a b)"
    and div_val:
      "val b \<noteq> 0 \<Longrightarrow> \<exists>q. dDiv D a b = Inr q \<and> val q = at_places round_away (val a / val b) 16"
    and round_val: "val (dRound D d n) = at_places round_away (val d) n"
    and floor_val: "val (dFloor D d) = of_int \<lfloor>val d\<rfloor>"
    and ceil_val: "val (dCeil D d) = of_int \<lceil>val d\<rceil>"
    and truncate_val: "0 \<le> n \<Longrightarrow> val (dTruncate D d n) = at_places trunc0 (val d) n"
    and shift_val: "val (dShift D d n) = val d * p10 n"
    and big_int_val: "dBigInt D d = trunc0 (val d)"
    and string_val: "\<exists>d'. dNewFromString D (dString D d) = Inr d' \<and> val d' = val d"
begin

lemma on_grid_exponent: "- n \<le> dExponent D d \<Longrightarrow> on_grid (val d) n"
  using coefficient [of d] on_grid_coeff by force

lemma div_exact:
  assumes "val b \<noteq> 0" and "on_grid (val a / val b) 16"
  shows "\<exists>q. dDiv D a b = Inr q \<and> val q = val a / val b"
  using div_val [OF assms(1), of a] on_grid_at_places [OF assms(2), of round_away] by auto

end

subsection \<open>Coefficient/exponent pairs satisfy the laws\<close>

type_synonym coeff_exp = "int \<times> int"

fun ce_val :: "coeff_exp \<Rightarrow> rat" where
  "ce_val (c, e) = of_int c * p10 e"

function ce_strip :: "coeff_exp \<Rightarrow> coeff_exp" where
  "ce_strip (c, e) = (if e < 0 \<and> c mod 10 = 0 then ce_strip (c div 10, e + 1) else (c, e))"
  by pat_completeness auto
termination by (relation "measure (\<lambda>(c, e). nat (- e))") auto

declare ce_strip.simps [simp del]

definition ce_parse :: "string \<Rightarrow> coeff_exp option" where
  "ce_parse s = (let (neg, u) = (case s of
         c # cs \<Rightarrow> if c = CHR ''-'' then (True, cs) else if c = CHR ''+'' then (False, cs) else (False, s)
       | [] \<Rightarrow> (False, s)) in
     map_option (\<lambda>(n, k). (if neg then - n else n, - int k)) (parse_mantissa u))"

definition ce_lib :: "coeff_exp decimal_lib" where
  "ce_lib = \<lparr>
     dNewFromFloat = (\<lambda>x. case x of Fin r \<Rightarrow> Inr (shortest_dec r)
       | _ \<Rightarrow> Inl (Panic ''Cannot create a Decimal from a non-finite float'')),
     dNewFromString = (\<lambda>s. case ce_parse s of Some d \<Rightarrow> Inr d
       | None \<Rightarrow> Inl (Error ''can't convert %s to decimal'')),
     dNew = (\<lambda>v e. (v, e)),
     dExponent = snd,
     dMul = (\<lambda>(a, e) (b, f). (a * b, e + f)),
     dDiv = (\<lambda>a b. if fst b = 0 then Inl (Panic ''decimal division by 0'')
       else Inr (round_away (ce_val a / ce_val b * p10 16), - 16)),
     dRound = (\<lambda>d n. (round_away (ce_val d * p10 n), - n)),
     dFloor = (\<lambda>d. if 0 \<le> snd d then d else (\<lfloor>ce_val d\<rfloor>, 0)),
     dCeil = (\<lambda>d. if 0 \<le> snd d then d else (\<lceil>ce_val d\<rceil>, 0)),
     dTruncate = (\<lambda>d n. if snd d < - n then (trunc0 (ce_val d * p10 n), - n) else d),
     dShift = (\<lambda>(c, e) n. (c, e + n)),
     dBigInt = (\<lambda>d. trunc0 (ce_val d)),
     dString = (\<lambda>d. case ce_strip d of (c, e) \<Rightarrow> dec_str c e)\<rparr>"

lemma ce_val_strip [simp]: "ce_val (ce_strip d) = ce_val d"
proof (induction d rule: ce_strip.induct)
  case (1 c e)
  show ?case
  proof (cases "e < 0 \<and> c mod 10 = 0")
    case True
    then have "c = c div 10 * 10" by presburger
    then have "rat_of_int c = of_int (c div 10) * 10" by (metis of_int_mult of_int_numeral)
    moreover have "p10 (e + 1) = p10 e * 10" by (simp add: p10_add p10_int [of 1])
    ultimately show ?thesis
      using True 1 by (simp add: ce_strip.simps [of c e])
  next
    case False
    then have "ce_strip (c, e) = (c, e)" by (subst ce_strip.simps) auto
    then show ?thesis by simp
  qed
qed

lemma split_at_none: "\<forall>c \<in> set s. \<not> p c \<Longrightarrow> split_at p s = (s, None)"
  by (induction s) auto

lemma split_at_some: "\<forall>c \<in> set a. \<not> p c \<Longrightarrow> p x \<Longrightarrow> split_at p (a @ x # b) = (a, Some b)"
  by (induction a) auto

lemma digits_val_pad: "0 \<le> a \<Longrightarrow> digits_val a (replicate k CHR ''0'') = Some (a * 10 ^ k)"
  by (induction k arbitrary: a) (simp_all add: char_digit_def)

lemma digit_not_dot: "char_digit c \<noteq> None \<Longrightarrow> c \<noteq> CHR ''.''"
  by (auto simp: char_digit_def Let_def)

lemma parse_nat_dec_str:
  assumes "0 \<le> c"
  shows "\<exists>n k. parse_mantissa (nat_dec_str c e) = Some (n, k) \<and> of_int n * p10 (- int k) = of_int c * p10 e"
proof (cases "0 \<le> e")
  case True
  have nd: "\<forall>x \<in> set (nat_str c @ replicate (nat e) CHR ''0''). x \<noteq> CHR ''.''"
    using nat_str_digits [OF assms] digit_not_dot by auto
  have "parse_nat (nat_str c @ replicate (nat e) CHR ''0'') = Some (c * 10 ^ nat e)"
    using assms by (simp add: parse_nat_def digits_val_append digits_val_nat_str digits_val_pad)
  moreover have "parse_nat ''0'' = Some 0" by (simp add: parse_nat_def char_digit_def)
  ultimately show ?thesis
    using True split_at_none [OF nd]
    by (cases "c = 0") (auto simp: nat_dec_str_def parse_mantissa_def p10_int)
next
  case False
  define k where "k = nat (- e)"
  define s where "s = replicate (Suc k - length (nat_str c)) CHR ''0'' @ nat_str c"
  define i where "i = length s - k"
  have ds: "\<forall>x \<in> set s. x \<noteq> CHR ''.''"
    using nat_str_digits [OF assms] digit_not_dot by (auto simp: s_def)
  have len: "k < length s" by (auto simp: s_def)
  have str: "nat_dec_str c e = take i s @ CHR ''.'' # drop i s"
    using False by (simp add: nat_dec_str_def k_def s_def i_def Let_def)
  have "split_at (\<lambda>c. c = CHR ''.'') (take i s @ CHR ''.'' # drop i s) = (take i s, Some (drop i s))"
    using ds by (intro split_at_some) (auto dest: in_set_takeD)
  moreover have "parse_nat s = Some c"
    using assms by (simp add: parse_nat_def s_def digits_val_zeros digits_val_nat_str)
  moreover have "length (drop i s) = k" using len by (simp add: i_def)
  ultimately have "parse_mantissa (nat_dec_str c e) = Some (c, k)"
    by (simp add: parse_mantissa_def str)
  then show ?thesis using False by (simp add: k_def)
qed

lemma nat_dec_str_hd:
  assumes "0 \<le> c" obtains x xs where "nat_dec_str c e = x # xs" "x \<noteq> CHR ''-''" "x \<noteq> CHR ''+''"
proof -
  have dig: "\<forall>x \<in> set (nat_str c). char_digit x \<noteq> None" using nat_str_digits [OF assms] by blast
  have "\<exists>x xs. nat_dec_str c e = x # xs \<and> char_digit x \<noteq> None"
  proof (cases "0 \<le> e")
    case True
    obtain y ys where "nat_str c = y # ys" by (cases "nat_str c") auto
    with True dig show ?thesis by (auto simp: nat_dec_str_def char_digit_def)
  next
    case False
    define k where "k = nat (- e)"
    define s where "s = replicate (Suc k - length (nat_str c)) CHR ''0'' @ nat_str c"
    have "k < length s" by (auto simp: s_def)
    then obtain j where j: "length s - k = Suc j" by (cases "length s - k") auto
    have "\<forall>x \<in> set s. char_digit x \<noteq> None" using dig by (auto simp: s_def char_digit_def)
    moreover obtain y ys where ys: "s = y # ys" using \<open>k < length s\<close> by (cases s) auto
    ultimately have y: "char_digit y \<noteq> None" by simp
    have "nat_dec_str c e = take (length s - k) s @ CHR ''.'' # drop (length s - k) s"
      using False by (simp add: nat_dec_str_def k_def s_def Let_def)
    also have "\<dots> = y # (take j ys @ CHR ''.'' # drop j ys)" unfolding j by (simp add: ys)
    finally show ?thesis using y by blast
  qed
  then obtain x xs where "nat_dec_str c e = x # xs" "char_digit x \<noteq> None" by blast
  moreover from this have "x \<noteq> CHR ''-''" "x \<noteq> CHR ''+''" by (auto simp: char_digit_def Let_def)
  ultimately show thesis using that by blast
qed

lemma ce_parse_dec_str: "\<exists>d. ce_parse (dec_str c e) = Some d \<and> ce_val d = of_int c * p10 e"
proof (cases "c < 0")
  case True
  then obtain n k where "parse_mantissa (nat_dec_str (- c) e) = Some (n, k)"
    "of_int n * p10 (- int k) = of_int (- c) * p10 e"
    using parse_nat_dec_str [of "- c" e] by auto
  with True show ?thesis by (simp add: ce_parse_def dec_str_def)
next
  case False
  then have c: "0 \<le> c" by simp
  obtain n k where m: "parse_mantissa (nat_dec_str c e) = Some (n, k)"
    "of_int n * p10 (- int k) = of_int c * p10 e"
    using parse_nat_dec_str [OF c, of e] by auto
  obtain x xs where h: "nat_dec_str c e = x # xs" "x \<noteq> CHR ''-''" "x \<noteq> CHR ''+''"
    using nat_dec_str_hd [OF c] by metis
  have "ce_parse (dec_str c e) = Some (n, - int k)"
    using False h m(1) by (simp add: ce_parse_def dec_str_def)
  with m(2) show ?thesis by simp
qed

lemma exact_dec_val:
  assumes "is_f64 (Fin r)" and "r \<noteq> 0"
  shows "ce_val (exact_dec r) = r"
proof -
  let ?m = "quantum r" and ?n = "\<lfloor>r / p2 (quantum r)\<rfloor>"
  have r: "r = of_int ?n * p2 ?m" using assms by (rule is_f64_dyadic)
  show ?thesis
  proof (cases "0 \<le> ?m")
    case True
    then have "of_int (2 ^ nat ?m) = p2 ?m" by (simp add: p2_def)
    with True r show ?thesis by (simp add: exact_dec_def Let_def)
  next
    case False
    have "(10 :: rat) ^ nat (- ?m) = 2 ^ nat (- ?m) * 5 ^ nat (- ?m)"
      by (simp flip: power_mult_distrib)
    then have "of_int (5 ^ nat (- ?m)) * p10 ?m = p2 ?m"
      using False by (simp add: p10_def p2_def)
    with False have "ce_val (exact_dec r) = of_int ?n * p2 ?m"
      by (simp add: exact_dec_def Let_def mult.assoc)
    with r show ?thesis by simp
  qed
qed

lemma shortest_from_rounds:
  "is_f64 (Fin r) \<Longrightarrow> r \<noteq> 0 \<Longrightarrow> round64 (ce_val (shortest_from k r e)) = Fin r"
  by (induction k r e rule: shortest_from.induct)
    (auto simp: exact_dec_val round_trips_def Let_def)

lemma quantum_uminus [simp]: "quantum (- r) = quantum r"
  by (simp add: quantum_def)

lemma rhe_uminus: "rhe (- x) = - rhe x"
proof (cases "x \<in> \<int>")
  case True
  then obtain n where x: "x = of_int n" by (auto elim: Ints_cases)
  show ?thesis unfolding x by (metis of_int_minus rhe_of_int)
next
  case False
  then have "x \<noteq> of_int \<lfloor>x\<rfloor>" by (metis Ints_of_int)
  then have fl: "\<lfloor>- x\<rfloor> = - \<lfloor>x\<rfloor> - 1" by (simp add: floor_minus ceiling_altdef)
  show ?thesis unfolding rhe_def Let_def fl by (simp split: if_split)
qed

lemma clip64_uminus:
  "clip64 m (- v) = (case clip64 m v of Fin v \<Rightarrow> Fin (- v) | PInf \<Rightarrow> NInf | NInf \<Rightarrow> PInf | NaN \<Rightarrow> NaN)"
  by (auto simp: clip64_def)

lemma round64_uminus:
  "round64 (- r) = (case round64 r of Fin v \<Rightarrow> Fin (- v) | PInf \<Rightarrow> NInf | NInf \<Rightarrow> PInf | NaN \<Rightarrow> NaN)"
proof (cases "r = 0")
  case False
  then show ?thesis
    using clip64_uminus rhe_uminus [of "r / p2 (quantum r)"] by (simp add: round64_def Let_def)
qed (simp add: round64_def)

lemma shortest_dec_rounds:
  assumes "is_f64 (Fin r)"
  shows "round64 (ce_val (shortest_dec r)) = Fin r"
proof -
  have pos: "round64 (ce_val (shortest_from k r e)) = Fin r"
    if "r \<noteq> 0" for k e using shortest_from_rounds assms that by blast
  show ?thesis
  proof (cases "r < 0")
    case True
    have "is_f64 (Fin (- r))" using assms by (simp add: round64_uminus)
    with True have rr: "round64 (ce_val (shortest_from k (- r) e)) = Fin (- r)" for k e
      using shortest_from_rounds by simp
    obtain c e where ce: "shortest_from 17 (- r) (dec_exp 400 (- r)) = (c, e)"
      by (cases "shortest_from 17 (- r) (dec_exp 400 (- r))")
    have "round64 (- (of_int c * p10 e)) = Fin r"
      using rr [of 17 "dec_exp 400 (- r)"] by (simp add: ce round64_uminus)
    with True ce show ?thesis by (simp add: shortest_dec_def)
  next
    case False
    then show ?thesis
      using pos by (cases "r = 0") (auto simp: shortest_dec_def round64_def split: prod.splits)
  qed
qed

lemma ce_places: "ce_val (f (ce_val d * p10 n), - n) = at_places f (ce_val d) n"
  by (simp add: at_places_def)

lemma ce_integral: "0 \<le> snd d \<Longrightarrow> \<exists>k. ce_val d = of_int k"
  by (cases d) (auto simp: p10_int intro: exI [of _ "fst d * 10 ^ nat (snd d)"])

interpretation ce: decimal_laws ce_lib ce_val
proof unfold_locales
  fix r assume "is_f64 (Fin r)"
  then show "\<exists>d. dNewFromFloat ce_lib (Fin r) = Inr d \<and> round64 (ce_val d) = Fin r"
    using shortest_dec_rounds by (simp add: ce_lib_def)
next
  fix x :: float64 assume "\<And>r. x \<noteq> Fin r"
  then show "is_panic (dNewFromFloat ce_lib x)" by (cases x) (auto simp: ce_lib_def)
next
  fix a b :: coeff_exp
  show "ce_val (dMul ce_lib a b) = ce_val a * ce_val b"
    by (cases a; cases b) (simp add: ce_lib_def p10_add)
  show "ce_val b = 0 \<Longrightarrow> is_panic (dDiv ce_lib a b)"
    by (cases b) (simp add: ce_lib_def)
  show "ce_val b \<noteq> 0 \<Longrightarrow> \<exists>q. dDiv ce_lib a b = Inr q \<and>
      ce_val q = at_places round_away (ce_val a / ce_val b) 16"
    by (cases b) (simp add: ce_lib_def at_places_def)
next
  fix d :: coeff_exp and n :: int
  show "\<exists>c. ce_val d = of_int c * p10 (dExponent ce_lib d)"
    by (cases d) (auto simp: ce_lib_def)
  show "ce_val (dRound ce_lib d n) = at_places round_away (ce_val d) n"
    using ce_places by (simp add: ce_lib_def)
  show "ce_val (dFloor ce_lib d) = of_int \<lfloor>ce_val d\<rfloor>"
    using ce_integral [of d] by (auto simp: ce_lib_def)
  show "ce_val (dCeil ce_lib d) = of_int \<lceil>ce_val d\<rceil>"
    using ce_integral [of d] by (auto simp: ce_lib_def)
  show "ce_val (dTruncate ce_lib d n) = at_places trunc0 (ce_val d) n" if "0 \<le> n"
  proof (cases "snd d < - n")
    case True
    then show ?thesis using ce_places by (simp add: ce_lib_def)
  next
    case False
    then have "on_grid (ce_val d) n" using on_grid_coeff [of n "snd d" "fst d"] by (cases d) simp
    with False show ?thesis by (simp add: ce_lib_def on_grid_at_places)
  qed
  show "ce_val (dShift ce_lib d n) = ce_val d * p10 n"
    by (cases d) (simp add: ce_lib_def p10_add)
  show "dBigInt ce_lib d = trunc0 (ce_val d)" by (simp add: ce_lib_def)
  show "\<exists>d'. dNewFromString ce_lib (dString ce_lib d) = Inr d' \<and> ce_val d' = ce_val d"
  proof -
    obtain c e where ce: "ce_strip d = (c, e)" by (cases "ce_strip d")
    obtain d' where "ce_parse (dec_str c e) = Some d'" "ce_val d' = of_int c * p10 e"
      using ce_parse_dec_str by blast
    moreover have "of_int c * p10 e = ce_val d" using ce_val_strip [of d] by (simp add: ce)
    ultimately show ?thesis by (simp add: ce_lib_def ce)
  qed
qed (simp add: ce_lib_def)

end
