(* ===== verification/JsonLib.thy ===== *)
theory JsonLib
  imports GoFloat
begin

text \<open>
  The JSON reader \<^verbatim>\<open>github.com/tidwall/gjson\<close> is not part of the repository: the record \<open>gjson_lib\<close>
  is a parameter of every definition that reads a message or a response, with the operations of
  \<^verbatim>\<open>gjson.Result\<close> the SDK calls. The reader over document trees at the end is a concrete instance,
  for evaluating the definitions on concrete messages.
\<close>

datatype json_type = JNull | JFalse | JNumber | JString | JTrue | JJson

record 'j gjson_lib =
  gParse :: "string \<Rightarrow> 'j"
  gGet :: "'j \<Rightarrow> string \<Rightarrow> 'j"
  gString :: "'j \<Rightarrow> string"
  gInt :: "'j \<Rightarrow> int"
  gFloat :: "'j \<Rightarrow> float64"
  gBool :: "'j \<Rightarrow> bool"
  gArray :: "'j \<Rightarrow> 'j list"
  gIsArray :: "'j \<Rightarrow> bool"
  gType :: "'j \<Rightarrow> json_type"
  gRaw :: "'j \<Rightarrow> string"

text \<open>\<^verbatim>\<open>obj.Get(path).String()\<close> and its siblings.\<close>

abbreviation getS :: "'j gjson_lib \<Rightarrow> 'j \<Rightarrow> string \<Rightarrow> string" where
  "getS J r p \<equiv> gString J (gGet J r p)"

abbreviation getI :: "'j gjson_lib \<Rightarrow> 'j \<Rightarrow> string \<Rightarrow> int" where
  "getI J r p \<equiv> gInt J (gGet J r p)"

abbreviation getF :: "'j gjson_lib \<Rightarrow> 'j \<Rightarrow> string \<Rightarrow> float64" where
  "getF J r p \<equiv> gFloat J (gGet J r p)"

abbreviation getB :: "'j gjson_lib \<Rightarrow> 'j \<Rightarrow> string \<Rightarrow> bool" where
  "getB J r p \<equiv> gBool J (gGet J r p)"

abbreviation getA :: "'j gjson_lib \<Rightarrow> 'j \<Rightarrow> string \<Rightarrow> 'j list" where
  "getA J r p \<equiv> gArray J (gGet J r p)"

subsection \<open>A reader over document trees\<close>

datatype doc = DNull | DBool bool | DNum string | DStr string | DArr "doc list" | DObj "(string \<times> doc) list"

text \<open>A dotted path selects nested members.\<close>

fun doc_path :: "string \<Rightarrow> string \<Rightarrow> string list" where
  "doc_path acc [] = [rev acc]"
| "doc_path acc (c # cs) = (if c = CHR ''.'' then rev acc # doc_path [] cs else doc_path (c # acc) cs)"

fun doc_member :: "doc \<Rightarrow> string \<Rightarrow> doc" where
  "doc_member (DObj kvs) k = (case map_of kvs k of None \<Rightarrow> DNull | Some d \<Rightarrow> d)"
| "doc_member _ k = DNull"

definition doc_get :: "doc \<Rightarrow> string \<Rightarrow> doc" where
  "doc_get d p = fold (\<lambda>k d. doc_member d k) (doc_path [] p) d"

fun doc_string :: "doc \<Rightarrow> string" where
  "doc_string (DStr s) = s"
| "doc_string (DNum s) = s"
| "doc_string (DBool b) = (if b then ''true'' else ''false'')"
| "doc_string _ = []"

fun doc_num :: "doc \<Rightarrow> string" where
  "doc_num (DStr s) = s" | "doc_num (DNum s) = s" | "doc_num _ = []"

fun doc_array :: "doc \<Rightarrow> doc list" where
  "doc_array (DArr ds) = ds"
| "doc_array DNull = []"
| "doc_array d = [d]"

fun doc_type :: "doc \<Rightarrow> json_type" where
  "doc_type DNull = JNull"
| "doc_type (DBool b) = (if b then JTrue else JFalse)"
| "doc_type (DNum s) = JNumber"
| "doc_type (DStr s) = JString"
| "doc_type _ = JJson"

text \<open>\<open>parse\<close> maps a text to its tree.\<close>

definition doc_lib :: "(string \<Rightarrow> doc) \<Rightarrow> doc gjson_lib" where
  "doc_lib parse = \<lparr>
     gParse = parse,
     gGet = doc_get,
     gString = doc_string,
     gInt = (\<lambda>d. case setString10 (doc_num d) of Some n \<Rightarrow> n | None \<Rightarrow> 0),
     gFloat = (\<lambda>d. case parseFloat (doc_num d) of Inr x \<Rightarrow> x | Inl _ \<Rightarrow> Fin 0),
     gBool = (\<lambda>d. d = DBool True),
     gArray = doc_array,
     gIsArray = (\<lambda>d. case d of DArr _ \<Rightarrow> True | _ \<Rightarrow> False),
     gType = doc_type,
     gRaw = doc_string\<rparr>"

end
