(* ===== verification/Utils.thy ===== *)
theory Utils
  imports DecimalLib JsonLib
begin

text \<open>
  The package \<^verbatim>\<open>utils\<close> (\<^verbatim>\<open>utils/utils.go\<close>): decimal rounding at a number of places, conversion to
  base units, float printing, JSON array readers and the generic helpers. The rounding functions
  are generic over \<^verbatim>\<open>float64\<close> and \<^verbatim>\<open>decimal.Decimal\<close>; their correctness is proved inside the locale
  \<open>decimal_laws\<close> and used from there by the order theories. The exponent of a decimal is modelled
  as an unbounded integer, so its negation does not wrap.
\<close>

subsection \<open>Rounding\<close>

datatype 'd roundable = RFloat float64 | RDec 'd

text \<open>The type switch at the head of \<^verbatim>\<open>DecimalPlaces\<close>, \<^verbatim>\<open>RoundNormal\<close>, \<^verbatim>\<open>RoundDown\<close>, \<^verbatim>\<open>RoundUp\<close>.\<close>

fun asDecimal :: "'d decimal_lib \<Rightarrow> 'd roundable \<Rightarrow> 'd result" where
  "asDecimal D (RFloat v) = dNewFromFloat D v"
| "asDecimal D (RDec v) = Inr v"

definition AlreadyWithinScale :: "'d decimal_lib \<Rightarrow> 'd \<Rightarrow> int \<Rightarrow> bool" where
  "AlreadyWithinScale D d decimals = (let exp = dExponent D d in
     if 0 \<le> exp then True else - exp \<le> decimals)"

definition DecimalPlaces :: "'d decimal_lib \<Rightarrow> 'd roundable \<Rightarrow> int result" where
  "DecimalPlaces D num = bind_res (asDecimal D num) (\<lambda>d. let exp = dExponent D d in
     if 0 \<le> exp then Inr 0 else Inr (- exp))"

definition RoundNormal :: "'d decimal_lib \<Rightarrow> 'd roundable \<Rightarrow> int \<Rightarrow> 'd result" where
  "RoundNormal D num decimals = bind_res (asDecimal D num) (\<lambda>d.
     if AlreadyWithinScale D d decimals then Inr d
     else let scale = dNew D 1 (int32 (- decimals)) in
       bind_res (dDiv D d scale) (\<lambda>q. Inr (dMul D (dRound D q 0) scale)))"

definition RoundDown :: "'d decimal_lib \<Rightarrow> 'd roundable \<Rightarrow> int \<Rightarrow> 'd result" where
  "RoundDown D num decimals = bind_res (asDecimal D num) (\<lambda>d.
     if AlreadyWithinScale D d decimals then Inr d
     else let scale = dNew D 1 (int32 (- decimals)) in
       bind_res (dDiv D d scale) (\<lambda>q. Inr (dMul D (dFloor D q) scale)))"

definition RoundUp :: "'d decimal_lib \<Rightarrow> 'd roundable \<Rightarrow> int \<Rightarrow> 'd result" where
  "RoundUp D num decimals = bind_res (asDecimal D num) (\<lambda>d.
     if AlreadyWithinScale D d decimals then Inr d
     else let scale = dNew D 1 (int32 (- decimals)) in
       bind_res (dDiv D d scale) (\<lambda>q. Inr (dMul D (dCeil D q) scale)))"

definition ParseUnits :: "'d decimal_lib \<Rightarrow> string \<Rightarrow> int \<Rightarrow> int result" where
  "ParseUnits D amount decimals = bind_res (dNewFromString D amount) (\<lambda>d.
     Inr (dBigInt D (dShift D d decimals)))"

subsection \<open>Floats as text\<close>

text \<open>\<^verbatim>\<open>math.Trunc\<close>, and the conversion \<^verbatim>\<open>int64(x)\<close>, whose result out of range is the one of amd64.\<close>

fun f_trunc :: "float64 \<Rightarrow> float64" where
  "f_trunc (Fin r) = Fin (of_int (trunc0 r))"
| "f_trunc x = x"

fun f_int64 :: "float64 \<Rightarrow> int" where
  "f_int64 (Fin r) = (if fits64 (trunc0 r) then trunc0 r else - (2 ^ 63))"
| "f_int64 _ = - (2 ^ 63)"

definition FloatToString :: "float64 \<Rightarrow> int \<Rightarrow> string" where
  "FloatToString num maxDecimals =
     (if f_eq num (f_trunc num) then int_str (f_int64 num)
      else let s = formatFloat num in
        if 0 < maxDecimals then
          (case split_at (\<lambda>c. c = CHR ''.'') s of
             (p0, Some p1) \<Rightarrow>
               if maxDecimals < int (length p1) then
                 let frac = trimRight CHR ''0'' (take (nat maxDecimals) p1) in
                 if frac = [] then p0 else p0 @ ''.'' @ frac
               else s
           | (p0, None) \<Rightarrow> s)
        else s)"

subsection \<open>JSON arrays\<close>

text \<open>A Go slice of strings that may be nil.\<close>

definition GetStringArray :: "'j gjson_lib \<Rightarrow> 'j \<Rightarrow> string \<Rightarrow> string list option" where
  "GetStringArray J obj path = (let tmp = gGet J obj path in
     if gIsArray J tmp then Some (map (gString J) (gArray J tmp))
     else if gType J tmp = JString then Some (map (gString J) (gArray J (gParse J (gString J tmp))))
     else None)"

definition GetFloatArray :: "'j gjson_lib \<Rightarrow> 'j \<Rightarrow> string \<Rightarrow> float64 list option" where
  "GetFloatArray J obj path = (case GetStringArray J obj path of
       None \<Rightarrow> None
     | Some strArr \<Rightarrow> if strArr = [] then None
         else Some (map (\<lambda>item. case parseFloat item of Inl _ \<Rightarrow> Fin 0 | Inr f \<Rightarrow> f) strArr))"

subsection \<open>Generic helpers\<close>

text \<open>
  \<^verbatim>\<open>SafeCall\<close> runs a handler and swallows its panic: the state the handler reached is kept.
\<close>

definition SafeCall :: "('s \<Rightarrow> unit result \<times> 's) \<Rightarrow> 's \<Rightarrow> 's" where
  "SafeCall fn s = snd (fn s)"

text \<open>\<^verbatim>\<open>Keys\<close> lists a map's keys in an order that Go leaves open.\<close>

definition Keys :: "('k \<rightharpoonup> 'v) \<Rightarrow> 'k list \<Rightarrow> bool" where
  "Keys m ks \<longleftrightarrow> distinct ks \<and> set ks = dom m"

text \<open>\<^verbatim>\<open>Map\<close> fills the output slice by index.\<close>

fun MapSlice :: "('a \<Rightarrow> 'b) \<Rightarrow> 'a list \<Rightarrow> 'b list" where
  "MapSlice fn [] = []"
| "MapSlice fn (v # vs) = fn v # MapSlice fn vs"

lemma MapSlice_map [simp]: "MapSlice f xs = map f xs"
  by (induction xs) auto

subsection \<open>Correctness of the rounding functions\<close>

lemma int32_scale: "0 \<le> n \<Longrightarrow> n \<le> 1000 \<Longrightarrow> int32 (- n) = - n"
  by (rule int32_id) auto

context decimal_laws
begin

lemma within_scale_grid: "0 \<le> n \<Longrightarrow> AlreadyWithinScale D d n \<Longrightarrow> on_grid (val d) n"
  by (auto simp: AlreadyWithinScale_def Let_def intro!: on_grid_exponent split: if_splits)

text \<open>The quotient by the scale: total, and exact on decimals with at most \<open>n + 16\<close> places.\<close>

lemma scale_div:
  assumes "0 \<le> n" and "n \<le> 1000"
  obtains q where "dDiv D d (dNew D 1 (int32 (- n))) = Inr q"
    and "val q = at_places round_away (val d * p10 n) 16"
proof -
  have v: "val (dNew D 1 (int32 (- n))) = p10 (- n)"
    using assms by (simp add: new_val int32_scale)
  then show thesis
    using div_val [of "dNew D 1 (int32 (- n))" d] that by (auto simp: p10_uminus)
qed

lemma scaled_grid: "on_grid r (n + 16) \<Longrightarrow> on_grid (r * p10 n) 16"
  by (simp add: on_grid_def p10_add mult.assoc)

lemma RoundDown_val:
  assumes "0 \<le> n" "n \<le> 1000" "on_grid (val d) (n + 16)"
  shows "\<exists>r. RoundDown D (RDec d) n = Inr r \<and> val r = at_places floor (val d) n"
proof (cases "AlreadyWithinScale D d n")
  case True
  with assms(1) have "on_grid (val d) n" by (rule within_scale_grid)
  with True show ?thesis by (simp add: RoundDown_def on_grid_at_places)
next
  case False
  obtain q where q: "dDiv D d (dNew D 1 (int32 (- n))) = Inr q" "val q = val d * p10 n"
    using assms by (metis scale_div on_grid_at_places scaled_grid round_away_of_int)
  with False show ?thesis
    using assms by (simp add: RoundDown_def Let_def mul_val floor_val new_val int32_scale at_places_def)
qed

lemma RoundUp_val:
  assumes "0 \<le> n" "n \<le> 1000" "on_grid (val d) (n + 16)"
  shows "\<exists>r. RoundUp D (RDec d) n = Inr r \<and> val r = at_places ceiling (val d) n"
proof (cases "AlreadyWithinScale D d n")
  case True
  with assms(1) have "on_grid (val d) n" by (rule within_scale_grid)
  with True show ?thesis by (simp add: RoundUp_def on_grid_at_places)
next
  case False
  obtain q where q: "dDiv D d (dNew D 1 (int32 (- n))) = Inr q" "val q = val d * p10 n"
    using assms by (metis scale_div on_grid_at_places scaled_grid round_away_of_int)
  with False show ?thesis
    using assms by (simp add: RoundUp_def Let_def mul_val ceil_val new_val int32_scale at_places_def)
qed

lemma RoundNormal_val:
  assumes "0 \<le> n" "n \<le> 1000" "on_grid (val d) (n + 16)"
  shows "\<exists>r. RoundNormal D (RDec d) n = Inr r \<and> val r = at_places round_away (val d) n"
proof (cases "AlreadyWithinScale D d n")
  case True
  with assms(1) have "on_grid (val d) n" by (rule within_scale_grid)
  with True show ?thesis by (simp add: RoundNormal_def on_grid_at_places)
next
  case False
  obtain q where q: "dDiv D d (dNew D 1 (int32 (- n))) = Inr q" "val q = val d * p10 n"
    using assms by (metis scale_div on_grid_at_places scaled_grid round_away_of_int)
  with False show ?thesis
    using assms
    by (simp add: RoundNormal_def Let_def mul_val round_val new_val int32_scale at_places_def)
qed

text \<open>On any decimal: no panic, and the result has at most \<open>n\<close> places.\<close>

lemma RoundDown_grid:
  assumes "0 \<le> n" "n \<le> 1000"
  shows "\<exists>r. RoundDown D (RDec d) n = Inr r \<and> on_grid (val r) n"
proof (cases "AlreadyWithinScale D d n")
  case True
  then show ?thesis using assms within_scale_grid by (simp add: RoundDown_def)
next
  case False
  obtain q where "dDiv D d (dNew D 1 (int32 (- n))) = Inr q" using assms by (rule scale_div)
  with False show ?thesis
    using assms on_grid_coeff [of n "- n"]
    by (simp add: RoundDown_def Let_def mul_val floor_val new_val int32_scale)
qed

lemma RoundNormal_grid:
  assumes "0 \<le> n" "n \<le> 1000"
  shows "\<exists>r. RoundNormal D (RDec d) n = Inr r \<and> on_grid (val r) n"
proof (cases "AlreadyWithinScale D d n")
  case True
  then show ?thesis using assms within_scale_grid by (simp add: RoundNormal_def)
next
  case False
  obtain q where "dDiv D d (dNew D 1 (int32 (- n))) = Inr q" using assms by (rule scale_div)
  with False show ?thesis
    using assms on_grid_coeff [of n "- n"]
    by (simp add: RoundNormal_def Let_def mul_val round_val new_val int32_scale at_places_def)
qed

lemma Round_float:
  "dNewFromFloat D x = Inr d \<Longrightarrow> RoundDown D (RFloat x) n = RoundDown D (RDec d) n"
  "dNewFromFloat D x = Inr d \<Longrightarrow> RoundNormal D (RFloat x) n = RoundNormal D (RDec d) n"
  by (simp_all add: RoundDown_def RoundNormal_def)

lemma Round_float_panic:
  assumes "\<And>r. x \<noteq> Fin r"
  shows "is_panic (RoundDown D (RFloat x) n)" "is_panic (RoundNormal D (RFloat x) n)"
  using new_from_float_panic [OF assms]
  by (cases "dNewFromFloat D x"; simp add: RoundDown_def RoundNormal_def)+

lemma DecimalPlaces_grid:
  "DecimalPlaces D (RDec d) = Inr k \<Longrightarrow> k \<le> n \<Longrightarrow> on_grid (val d) n"
  by (rule on_grid_exponent) (auto simp: DecimalPlaces_def Let_def split: if_splits)

lemma DecimalPlaces_total: "\<exists>k. DecimalPlaces D (RDec d) = Inr k"
  by (simp add: DecimalPlaces_def Let_def)

lemma ParseUnits_String:
  "ParseUnits D (dString D d) n = Inr (trunc0 (val d * p10 n))"
  using string_val [of d] by (auto simp: ParseUnits_def big_int_val shift_val)

lemma ParseUnits_exact:
  assumes "on_grid (val d) n"
  shows "\<exists>k. ParseUnits D (dString D d) n = Inr k \<and> of_int k = val d * p10 n"
proof -
  from assms obtain k where "val d * p10 n = of_int k" by (auto simp: on_grid_def elim: Ints_cases)
  then show ?thesis by (simp add: ParseUnits_String)
qed

end

subsection \<open>Properties\<close>

text \<open>
  C24: the three rounding functions are correct. On a decimal with at most 16 places more than asked
  for (the precision of the package's division), \<open>RoundDown\<close> gives the largest value with \<open>n\<close> places
  that is not above the number, \<open>RoundUp\<close> the smallest that is not below it, and \<open>RoundNormal\<close> one
  within half a unit of the last place.
\<close>

theorem rounding_correct:
  assumes D: "decimal_laws D val" and n: "0 \<le> n" "n \<le> 1000" and d: "on_grid (val d) (n + 16)"
  shows "\<exists>lo up mid. RoundDown D (RDec d) n = Inr lo \<and> RoundUp D (RDec d) n = Inr up \<and>
    RoundNormal D (RDec d) n = Inr mid \<and>
    on_grid (val lo) n \<and> on_grid (val up) n \<and> on_grid (val mid) n \<and>
    val lo \<le> val d \<and> val d < val lo + p10 (- n) \<and>
    val d \<le> val up \<and> val up < val d + p10 (- n) \<and>
    \<bar>val mid - val d\<bar> \<le> p10 (- n) / 2"
proof -
  obtain lo up mid where r: "RoundDown D (RDec d) n = Inr lo" "val lo = at_places floor (val d) n"
      "RoundUp D (RDec d) n = Inr up" "val up = at_places ceiling (val d) n"
      "RoundNormal D (RDec d) n = Inr mid" "val mid = at_places round_away (val d) n"
    using decimal_laws.RoundDown_val [OF D n d] decimal_laws.RoundUp_val [OF D n d]
      decimal_laws.RoundNormal_val [OF D n d] by blast
  then show ?thesis
    using at_places_floor_le at_places_floor_gt at_places_ceiling_bounds at_places_round_away_close
    by auto
qed

theorem rounding_correct_witness:
  "\<exists>lo up mid. RoundDown ce_lib (RDec (12345, - 4)) 2 = Inr lo \<and>
    RoundUp ce_lib (RDec (12345, - 4)) 2 = Inr up \<and> RoundNormal ce_lib (RDec (12345, - 4)) 2 = Inr mid \<and>
    ce_val lo \<le> ce_val (12345, - 4) \<and> ce_val (12345, - 4) \<le> ce_val up \<and>
    \<bar>ce_val mid - ce_val (12345, - 4)\<bar> \<le> p10 (- 2) / 2"
proof -
  have "on_grid (ce_val (12345, - 4)) (2 + 16)" unfolding ce_val.simps by (rule on_grid_coeff) simp
  then show ?thesis
    using rounding_correct [OF ce.decimal_laws_axioms, of 2 "(12345, - 4)"] by fastforce
qed

end
