(* ===== verification/FloatOrder.thy ===== *)
theory FloatOrder
  imports DecimalLib
begin

text \<open>
  Rounding to the nearest double is monotone (\<open>round64_mono\<close>): what lets a comparison of floats
  decide a comparison of the decimal quotes they were read from.
\<close>

lemma bit_length_bounds: "0 < n \<Longrightarrow> 2 ^ nat (bit_length n - 1) \<le> n \<and> n < 2 ^ nat (bit_length n) \<and> 1 \<le> bit_length n"
proof (induction n rule: bit_length.induct)
  case (1 n)
  show ?case
  proof (cases "n = 1")
    case True
    have "bit_length 0 = 0" by (simp add: bit_length.simps)
    then show ?thesis by (simp add: True bit_length.simps [of 1])
  next
    case False
    define b where "b = bit_length (n div 2)"
    have n: "0 < n div 2" "n = 2 * (n div 2) + n mod 2" "0 \<le> n mod 2" "n mod 2 < 2" using 1 False by auto
    have ih: "2 ^ nat (b - 1) \<le> n div 2" "n div 2 < 2 ^ nat b" "1 \<le> b"
      using "1.IH" n(1) "1.prems" by (auto simp: b_def)
    have s: "nat (b + 1) = Suc (nat b)" "nat b = Suc (nat (b - 1))" using ih(3) by auto
    have bl: "bit_length n = b + 1" using "1.prems" by (simp add: bit_length.simps [of n] b_def)
    have "(2::int) ^ nat b \<le> n" using ih(1) n s by (simp only: s(2) power_Suc)
    moreover have "n < 2 ^ nat (b + 1)" using ih(2) n by (simp only: s(1) power_Suc)
    ultimately show ?thesis using bl ih(3) by simp
  qed
qed

lemma p2_split: "p2 b = p2 (b - a) * p2 a"
  by (simp flip: p2_add)

lemma p2_nat: "0 \<le> e \<Longrightarrow> p2 e = of_int (2 ^ nat e)"
  by (simp add: p2_def)

lemma p2_mono: "a \<le> b \<Longrightarrow> p2 a \<le> p2 b"
  using p2_split [of b a] p2_nat [of "b - a"] by simp

lemma ilog2_bounds:
  assumes "0 < r" shows "p2 (ilog2 r) \<le> r" "r < p2 (ilog2 r + 1)"
proof -
  obtain p q where pq: "quotient_of r = (p, q)" by (cases "quotient_of r")
  then have q: "0 < q" by (rule quotient_of_denom_pos)
  have r: "r = of_int p / of_int q" using pq by (rule quotient_of_div)
  then have p: "0 < p" using assms q by (metis of_int_0_less_iff zero_less_divide_iff order_less_asym)
  define e where "e = bit_length p - bit_length q"
  have bp: "p2 (bit_length p - 1) \<le> of_int p" "of_int p < p2 (bit_length p)"
    and bq: "p2 (bit_length q - 1) \<le> of_int q" "of_int q < p2 (bit_length q)"
    using bit_length_bounds [OF p] bit_length_bounds [OF q]
    by (auto simp: p2_def simp flip: of_int_less_iff of_int_le_iff)
  have up: "r < p2 (e + 1)"
  proof -
    have "of_int p < p2 (e + 1) * p2 (bit_length q - 1)"
      using bp(2) by (simp add: e_def flip: p2_add)
    also have "\<dots> \<le> p2 (e + 1) * of_int q" using bq(1) by (simp add: mult_left_mono order_less_imp_le)
    finally show ?thesis using q by (simp add: r pos_divide_less_eq)
  qed
  have lo: "p2 (e - 1) \<le> r"
  proof -
    have "p2 (e - 1) * of_int q \<le> p2 (e - 1) * p2 (bit_length q)"
      using bq(2) by (simp add: mult_left_mono order_less_imp_le)
    also have "\<dots> \<le> of_int p" using bp(1) by (simp add: e_def flip: p2_add)
    finally show ?thesis using q by (simp add: r pos_le_divide_eq)
  qed
  have "ilog2 r = (if p2 e \<le> r then e else e - 1)" by (simp add: ilog2_def pq e_def)
  with up lo show "p2 (ilog2 r) \<le> r" "r < p2 (ilog2 r + 1)" by (auto split: if_splits)
qed

lemma p2_less_imp: "p2 a < p2 b \<Longrightarrow> a < b"
  using p2_mono by (meson linorder_not_less)

lemma ilog2_mono: "0 < a \<Longrightarrow> a \<le> b \<Longrightarrow> ilog2 a \<le> ilog2 b"
proof -
  assume "0 < a" "a \<le> b"
  then have "p2 (ilog2 a) < p2 (ilog2 b + 1)"
    using ilog2_bounds(1) [of a] ilog2_bounds(2) [of b] by linarith
  then show ?thesis using p2_less_imp by fastforce
qed

text \<open>The rounded significand never crosses a power of two above it.\<close>

definition round_q :: "rat \<Rightarrow> rat" where
  "round_q r = of_int (rhe (r / p2 (quantum r))) * p2 (quantum r)"

lemma p2_le_iff_div: "x / p2 m \<le> of_int k \<longleftrightarrow> x \<le> of_int k * p2 m"
    "of_int k \<le> x / p2 m \<longleftrightarrow> of_int k * p2 m \<le> x"
  by (simp_all add: pos_divide_le_eq pos_le_divide_eq)

lemma round_q_le:
  assumes "r \<le> p2 e" "quantum r \<le> e" shows "round_q r \<le> p2 e"
proof -
  define k where "k = (2 :: int) ^ nat (e - quantum r)"
  have k: "p2 e = of_int k * p2 (quantum r)"
    using p2_split [of e "quantum r"] p2_nat [of "e - quantum r"] assms(2) by (simp add: k_def)
  then have "rhe (r / p2 (quantum r)) \<le> k"
    using assms(1) rhe_mono [of "r / p2 (quantum r)" "of_int k"] by (simp add: p2_le_iff_div)
  then show ?thesis unfolding k round_q_def by (simp add: mult_right_mono order_less_imp_le)
qed

lemma round_q_ge:
  assumes "p2 e \<le> r" "quantum r \<le> e" shows "p2 e \<le> round_q r"
proof -
  define k where "k = (2 :: int) ^ nat (e - quantum r)"
  have k: "p2 e = of_int k * p2 (quantum r)"
    using p2_split [of e "quantum r"] p2_nat [of "e - quantum r"] assms(2) by (simp add: k_def)
  then have "k \<le> rhe (r / p2 (quantum r))"
    using assms(1) rhe_mono [of "of_int k" "r / p2 (quantum r)"] by (simp add: p2_le_iff_div)
  then show ?thesis unfolding k round_q_def by (simp add: mult_right_mono order_less_imp_le)
qed

lemma round_q_mono:
  assumes "0 < a" "a \<le> b" shows "round_q a \<le> round_q b"
proof (cases "quantum a = quantum b")
  case True
  have "a / p2 (quantum a) \<le> b / p2 (quantum a)"
    using assms(2) by (simp add: divide_right_mono order_less_imp_le)
  then show ?thesis
    using rhe_mono True by (simp add: round_q_def mult_right_mono order_less_imp_le)
next
  case False
  let ?e = "ilog2 b"
  have il: "ilog2 a \<le> ?e" using assms ilog2_mono by simp
  have q: "quantum a < quantum b" "quantum b = ?e - 52"
    using False il assms by (auto simp: quantum_def max_def split: if_splits)
  then have "ilog2 a < ?e" using False assms by (auto simp: quantum_def)
  then have "a \<le> p2 ?e"
    using ilog2_bounds(2) [OF assms(1)] p2_mono [of "ilog2 a + 1" ?e] by linarith
  then have "round_q a \<le> p2 ?e" using q by (intro round_q_le) auto
  also have "p2 ?e \<le> round_q b" using q assms ilog2_bounds(1) [of b] by (intro round_q_ge) auto
  finally show ?thesis .
qed

lemma round_q_nonneg: "0 < r \<Longrightarrow> 0 \<le> round_q r"
proof -
  assume "0 < r"
  then have "rhe 0 \<le> rhe (r / p2 (quantum r))" by (intro rhe_mono) (simp add: order_less_imp_le)
  moreover have "rhe 0 = 0" using rhe_of_int [of 0] by simp
  ultimately show ?thesis by (simp add: round_q_def order_less_imp_le)
qed


lemma quantum_mono: "0 < a \<Longrightarrow> a \<le> b \<Longrightarrow> quantum a \<le> quantum b"
  using ilog2_mono [of a b] by (simp add: quantum_def)

lemma round64_q: "r \<noteq> 0 \<Longrightarrow> round64 r = clip64 (quantum r) (round_q r)"
  by (simp add: round64_def round_q_def Let_def)

lemma round64_pos: "0 < r \<Longrightarrow> round64 r = PInf \<or> (\<exists>v. round64 r = Fin v \<and> 0 \<le> v)"
proof -
  assume r: "0 < r"
  have "0 < p2 1024" by simp
  then show ?thesis
    using r round_q_nonneg [OF r] by (auto simp: round64_q clip64_def simp del: p2_pos)
qed

lemma round64_mono_pos:
  assumes "0 < a" "a \<le> b" shows "round64 a \<le> round64 b"
proof -
  have q: "quantum a \<le> quantum b" "0 \<le> round_q a" "round_q a \<le> round_q b"
    using assms quantum_mono round_q_nonneg round_q_mono by auto
  have "a \<noteq> 0" "b \<noteq> 0" "0 < b" using assms by auto
  then show ?thesis
    using q round64_pos [of b] by (auto simp: round64_q clip64_def split: if_splits)
qed

lemma float_uminus_mono:
  "x \<le> y \<Longrightarrow> (case y of Fin v \<Rightarrow> Fin (- v) | PInf \<Rightarrow> NInf | NInf \<Rightarrow> PInf | NaN \<Rightarrow> NaN) \<le>
     (case x of Fin v \<Rightarrow> Fin (- v) | PInf \<Rightarrow> NInf | NInf \<Rightarrow> PInf | NaN \<Rightarrow> NaN)"
  by (cases x; cases y) auto

lemma round64_sign:
  "0 \<le> r \<Longrightarrow> Fin 0 \<le> round64 r" "r \<le> 0 \<Longrightarrow> round64 r \<le> Fin 0"
proof -
  have nn: "Fin 0 \<le> round64 r" if "0 \<le> r" for r
    using that round64_pos [of r] by (cases "r = 0") (auto simp: round64_def)
  show "0 \<le> r \<Longrightarrow> Fin 0 \<le> round64 r" by (rule nn)
  show "r \<le> 0 \<Longrightarrow> round64 r \<le> Fin 0"
    using float_uminus_mono [OF nn [of "- r"]] by (simp add: round64_uminus split: float64.splits)
qed

lemma float_le_trans: "x \<le> Fin 0 \<Longrightarrow> Fin 0 \<le> y \<Longrightarrow> x \<le> y"
  by (cases x; cases y) auto

text \<open>Rounding to the nearest double is monotone.\<close>

lemma round64_mono: "a \<le> b \<Longrightarrow> round64 a \<le> round64 b"
proof -
  assume ab: "a \<le> b"
  consider "0 < a" | "b < 0" | "a \<le> 0" "0 \<le> b" by linarith
  then show ?thesis
  proof cases
    case 2
    then have "round64 (- b) \<le> round64 (- a)" using ab round64_mono_pos by simp
    then show ?thesis using float_uminus_mono by (fastforce simp: round64_uminus split: float64.splits)
  next
    case 3
    then show ?thesis using round64_sign float_le_trans by blast
  qed (use ab round64_mono_pos in simp)
qed

end
