(* ===== verification/OrderTypes.thy ===== *)
theory OrderTypes
  imports Utils FloatOrder
begin

text \<open>
  The data model of the package \<^verbatim>\<open>orders\<close> (\<^verbatim>\<open>orders/types.go\<close>, \<^verbatim>\<open>orders/model.go\<close>, the constants of
  \<^verbatim>\<open>orders/constants.go\<close>) and the tick-size operations of \<^verbatim>\<open>orders/types_impl.go\<close> and
  \<^verbatim>\<open>orders/utils.go\<close>. The string types of the source stay strings, so an unlisted value is still a
  value; the abstract ticks at the end, ordered by their size, are what the string operations refine.
  An optional pointer is an \<^typ>\<open>'a option\<close>, a \<^verbatim>\<open>*big.Int\<close> an \<^typ>\<open>int\<close>, an address or a hash a byte list.
\<close>

type_synonym address = bytes
type_synonym hash32 = bytes

subsection \<open>String constants\<close>

definition MARKET_FOK :: string where "MARKET_FOK = ''FOK''"
definition MARKET_FAK :: string where "MARKET_FAK = ''FAK''"

definition TickSize01 :: string where "TickSize01 = ''0.1''"
definition TickSize001 :: string where "TickSize001 = ''0.01''"
definition TickSize0001 :: string where "TickSize0001 = ''0.001''"
definition TickSize00001 :: string where "TickSize00001 = ''0.0001''"

definition BUY :: string where "BUY = ''BUY''"
definition SELL :: string where "SELL = ''SELL''"

lemmas side_defs = BUY_def SELL_def
lemmas tick_defs = TickSize01_def TickSize001_def TickSize0001_def TickSize00001_def

text \<open>Signature types and verifying contracts are Go \<^verbatim>\<open>int\<close>s numbered by \<^verbatim>\<open>iota\<close>.\<close>

definition EOA :: int where "EOA = 0"
definition POLY_PROXY :: int where "POLY_PROXY = 1"
definition POLY_GNOSIS_SAFE :: int where "POLY_GNOSIS_SAFE = 2"
definition POLY_1271 :: int where "POLY_1271 = 3"

definition CTFExchange :: int where "CTFExchange = 0"
definition NegRiskCTFExchange :: int where "NegRiskCTFExchange = 1"

definition CollateralTokenDecimals :: int where "CollateralTokenDecimals = 6"

subsection \<open>Structs\<close>

record RoundConfig =
  rcPrice :: int
  rcSize :: int
  rcAmount :: int

record Book =
  bkPrice :: float64
  bkSize :: float64

record CreateOrderOptions =
  coTickSize :: "string option"
  coSignatureType :: "int option"
  coNegRisk :: "bool option"

record UserOrder =
  uoTokenID :: string
  uoPrice :: float64
  uoSize :: float64
  uoSide :: string
  uoMetadata :: "string option"
  uoBuilderCode :: "string option"
  uoExpiration :: "string option"

record UserMarketOrder =
  umTokenID :: string
  umPrice :: "float64 option"
  umAmount :: float64
  umSide :: string
  umOrderType :: string
  umUserUSDCBalance :: "float64 option"
  umMetadata :: "string option"
  umBuilderCode :: "string option"

record OrderData =
  odMaker :: string
  odTokenId :: string
  odMakerAmount :: string
  odTakerAmount :: string
  odSide :: string
  odSigner :: "string option"
  odSignatureType :: "int option"
  odTimestamp :: "string option"
  odMetadata :: "string option"
  odBuilder :: "string option"
  odExpiration :: "string option"

record Order =
  orSalt :: int
  orMaker :: address
  orSigner :: address
  orTokenId :: int
  orMakerAmount :: int
  orTakerAmount :: int
  orSide :: int
  orSignatureType :: int
  orTimestamp :: int
  orMetadata :: hash32
  orBuilder :: hash32
  orExpiration :: string

text \<open>\<^verbatim>\<open>SignedOrder\<close> embeds \<^verbatim>\<open>Order\<close>: a record extension.\<close>

record SignedOrder = Order +
  soSignature :: bytes

record OrderDTO =
  dtSalt :: int
  dtMaker :: string
  dtSigner :: string
  dtTokenId :: string
  dtMakerAmount :: string
  dtTakerAmount :: string
  dtSide :: string
  dtSignatureType :: int
  dtTimestamp :: string
  dtExpiration :: string
  dtMetadata :: string
  dtBuilder :: string
  dtSignature :: string

record PostOrderDTO =
  poDeferExec :: bool
  poOrder :: OrderDTO
  poOwner :: string
  poOrderType :: string

record OpenOrder =
  ooId :: string
  ooStatus :: string
  ooOwner :: string
  ooMakerAddress :: string
  ooMarket :: string
  ooAssetId :: string
  ooSide :: string
  ooOriginalSize :: float64
  ooSizeMatched :: float64
  ooPrice :: float64
  ooAssociateTrades :: "string list option"
  ooOutcome :: string
  ooCreatedAt :: int
  ooExpiration :: string
  ooOrderType :: string

record OpenOrderParams =
  opId :: "string option"
  opMarket :: "string option"
  opAssetId :: "string option"

subsection \<open>Tick sizes\<close>

definition IsValid :: "string \<Rightarrow> bool" where
  "IsValid t \<longleftrightarrow> t = TickSize01 \<or> t = TickSize001 \<or> t = TickSize0001 \<or> t = TickSize00001"

definition NewTickSize :: "string \<Rightarrow> string result" where
  "NewTickSize v = (if \<not> IsValid v then Inl (Error (''invalid TickSize: '' @ v)) else Inr v)"

definition GetRoundConfig :: "string \<Rightarrow> RoundConfig result" where
  "GetRoundConfig t =
     (if t = TickSize01 then Inr \<lparr>rcPrice = 1, rcSize = 2, rcAmount = 3\<rparr>
      else if t = TickSize001 then Inr \<lparr>rcPrice = 2, rcSize = 2, rcAmount = 4\<rparr>
      else if t = TickSize0001 then Inr \<lparr>rcPrice = 3, rcSize = 2, rcAmount = 5\<rparr>
      else if t = TickSize00001 then Inr \<lparr>rcPrice = 4, rcSize = 2, rcAmount = 6\<rparr>
      else Inl (Panic (''invalid TickSize: '' @ t)))"

definition IsTickSizeSmaller :: "string \<Rightarrow> string \<Rightarrow> bool" where
  "IsTickSizeSmaller a b = (case parseFloat a of Inl _ \<Rightarrow> False
     | Inr a1 \<Rightarrow> (case parseFloat b of Inl _ \<Rightarrow> False | Inr b1 \<Rightarrow> a1 < b1))"

definition PriceValid :: "float64 \<Rightarrow> string \<Rightarrow> bool" where
  "PriceValid price tickSize = (case parseFloat tickSize of Inl _ \<Rightarrow> False
     | Inr tickSize1 \<Rightarrow> tickSize1 \<le> price \<and> price \<le> Fin 1 - tickSize1)"

definition ConvertTickSize :: "string \<Rightarrow> float64" where
  "ConvertTickSize tickSize = (case parseFloat tickSize of Inl _ \<Rightarrow> Fin 0 | Inr t \<Rightarrow> t)"

text \<open>
  \<^verbatim>\<open>rand.Int(rand.Reader, max)\<close> draws from \<open>0 .. max - 1\<close>: the draw is an argument.
\<close>

definition GenerateRandomSalt :: "(int \<Rightarrow> int) \<Rightarrow> int" where
  "GenerateRandomSalt randInt = int64 (randInt (2 ^ 32))"

subsection \<open>Abstract ticks\<close>

datatype tick = Tick01 | Tick001 | Tick0001 | Tick00001

fun tick_places :: "tick \<Rightarrow> nat" where
  "tick_places Tick01 = 1" | "tick_places Tick001 = 2"
| "tick_places Tick0001 = 3" | "tick_places Tick00001 = 4"

definition tick_size :: "tick \<Rightarrow> rat" where
  "tick_size t = 1 / 10 ^ tick_places t"

fun tick_string :: "tick \<Rightarrow> string" where
  "tick_string Tick01 = TickSize01" | "tick_string Tick001 = TickSize001"
| "tick_string Tick0001 = TickSize0001" | "tick_string Tick00001 = TickSize00001"

text \<open>Ticks are ordered by their size: more places make a smaller tick.\<close>

instantiation tick :: linorder
begin

definition less_eq_tick :: "tick \<Rightarrow> tick \<Rightarrow> bool" where
  "less_eq_tick a b \<longleftrightarrow> tick_places b \<le> tick_places a"

definition less_tick :: "tick \<Rightarrow> tick \<Rightarrow> bool" where
  "less_tick a b \<longleftrightarrow> tick_places b < tick_places a"

instance
proof
  fix a b c :: tick
  show "a \<le> b \<Longrightarrow> b \<le> a \<Longrightarrow> a = b"
    by (cases a; cases b; simp add: less_eq_tick_def)
qed (auto simp: less_eq_tick_def less_tick_def)

end

lemma tick_less_size: "a < b \<longleftrightarrow> tick_size a < tick_size b"
  by (cases a; cases b) (simp_all add: less_tick_def tick_size_def)

lemma IsValid_tick: "IsValid s \<longleftrightarrow> (\<exists>t. s = tick_string t)"
proof
  assume "IsValid s"
  then show "\<exists>t. s = tick_string t"
    unfolding IsValid_def by (metis tick_string.simps)
next
  assume "\<exists>t. s = tick_string t"
  then obtain t where "s = tick_string t" ..
  then show "IsValid s" by (cases t) (simp_all add: IsValid_def)
qed

text \<open>The four tick strings read as the doubles nearest to the tick.\<close>

lemma parse_tick01: "parseFloat TickSize01 = Inr (Fin (3602879701896397 / 36028797018963968))"
  unfolding TickSize01_def by code_simp
lemma parse_tick001: "parseFloat TickSize001 = Inr (Fin (5764607523034235 / 576460752303423488))"
  unfolding TickSize001_def by code_simp
lemma parse_tick0001: "parseFloat TickSize0001 = Inr (Fin (1152921504606847 / 1152921504606846976))"
  unfolding TickSize0001_def by code_simp
lemma parse_tick00001:
  "parseFloat TickSize00001 = Inr (Fin (7378697629483821 / 73786976294838206464))"
  unfolding TickSize00001_def by code_simp

lemmas parse_tick_simps = parse_tick01 parse_tick001 parse_tick0001 parse_tick00001

definition tick_double :: "tick \<Rightarrow> rat" where
  "tick_double t = (case t of
       Tick01 \<Rightarrow> 3602879701896397 / 36028797018963968
     | Tick001 \<Rightarrow> 5764607523034235 / 576460752303423488
     | Tick0001 \<Rightarrow> 1152921504606847 / 1152921504606846976
     | Tick00001 \<Rightarrow> 7378697629483821 / 73786976294838206464)"

lemma parse_tick: "parseFloat (tick_string t) = Inr (Fin (tick_double t))"
  by (cases t) (simp_all add: parse_tick_simps tick_double_def)

lemma round64_tick: "round64 (tick_size t) = Fin (tick_double t)"
proof -
  have "round64 (1 / 10) = Fin (3602879701896397 / 36028797018963968)" by code_simp
  moreover have "round64 (1 / 100) = Fin (5764607523034235 / 576460752303423488)" by code_simp
  moreover have "round64 (1 / 1000) = Fin (1152921504606847 / 1152921504606846976)" by code_simp
  moreover have "round64 (1 / 10000) = Fin (7378697629483821 / 73786976294838206464)" by code_simp
  ultimately show ?thesis by (cases t) (simp_all add: tick_size_def tick_double_def)
qed

text \<open>The float subtraction \<open>1 - tick\<close> hits the double nearest to the exact upper bound.\<close>

lemma one_minus_tick: "Fin 1 - Fin (tick_double t) = round64 (1 - tick_size t)"
proof (cases t)
  case Tick01
  have "round64 (1 - 3602879701896397 / 36028797018963968) = round64 (9 / 10)" by code_simp
  then show ?thesis by (simp add: Tick01 tick_double_def tick_size_def)
next
  case Tick001
  have "round64 (1 - 5764607523034235 / 576460752303423488) = round64 (99 / 100)" by code_simp
  then show ?thesis by (simp add: Tick001 tick_double_def tick_size_def)
next
  case Tick0001
  have "round64 (1 - 1152921504606847 / 1152921504606846976) = round64 (999 / 1000)" by code_simp
  then show ?thesis by (simp add: Tick0001 tick_double_def tick_size_def)
next
  case Tick00001
  have "round64 (1 - 7378697629483821 / 73786976294838206464) = round64 (9999 / 10000)" by code_simp
  then show ?thesis by (simp add: Tick00001 tick_double_def tick_size_def)
qed

lemma tick_double_less: "a < b \<longleftrightarrow> tick_double a < tick_double b"
  by (cases a; cases b) (simp_all add: less_tick_def tick_double_def)

lemma GetRoundConfig_tick:
  "GetRoundConfig (tick_string t) =
     Inr \<lparr>rcPrice = int (tick_places t), rcSize = 2, rcAmount = int (tick_places t) + 2\<rparr>"
  by (cases t) (simp_all add: GetRoundConfig_def tick_defs)

lemma tick_upper: "case round64 (1 - tick_size t) of Fin h \<Rightarrow> h < 1 | _ \<Rightarrow> False"
proof -
  have "round64 (9 / 10) = Fin (8106479329266893 / 9007199254740992)"
    "round64 (99 / 100) = Fin (8917127262193582 / 9007199254740992)"
    "round64 (999 / 1000) = Fin (8998192055486251 / 9007199254740992)"
    "round64 (9999 / 10000) = Fin (9006298534815518 / 9007199254740992)" by code_simp+
  then show ?thesis by (cases t) (simp_all add: tick_size_def)
qed

lemma tick_double_pos: "0 < tick_double t"
  by (cases t) (simp_all add: tick_double_def)

lemma le_Fin_trans: "Fin a \<le> x \<Longrightarrow> x \<le> Fin b \<Longrightarrow> a \<le> b"
  by (cases x) auto

subsection \<open>Properties\<close>

text \<open>
  C23: the tick-size strings implement the four ticks. The valid strings are exactly the strings of
  the ticks, comparing two of them as floats is comparing the tick sizes, and each has a rounding
  configuration whose amount places are the price places plus the size places.
\<close>

theorem tick_strings_refine:
  "(IsValid s \<longleftrightarrow> (\<exists>t. s = tick_string t)) \<and>
   (IsTickSizeSmaller (tick_string a) (tick_string b) \<longleftrightarrow> tick_size a < tick_size b) \<and>
   GetRoundConfig (tick_string a) =
     Inr \<lparr>rcPrice = int (tick_places a), rcSize = 2, rcAmount = int (tick_places a) + 2\<rparr>"
  using tick_double_less tick_less_size
  by (simp add: IsValid_tick IsTickSizeSmaller_def parse_tick GetRoundConfig_tick)

text \<open>
  C12: the price check is exact on the tick grid. For the double nearest to the decimal price
  \<open>k / 10 ^ n\<close> of a tick with \<open>n\<close> places, the float comparisons accept exactly the prices from one tick
  to one minus one tick.
\<close>

theorem price_valid_on_grid:
  "PriceValid (round64 (of_int k / 10 ^ tick_places t)) (tick_string t) \<longleftrightarrow>
     1 \<le> k \<and> k \<le> 10 ^ tick_places t - 1"
proof -
  let ?r = "of_int k / 10 ^ tick_places t :: rat" and ?n = "10 ^ tick_places t :: int"
  have n: "rat_of_int ?n = 10 ^ tick_places t" "0 < (10 :: rat) ^ tick_places t" by simp_all
  obtain h where h: "round64 (1 - tick_size t) = Fin h" "h < 1"
    using tick_upper [of t] by (simp split: float64.splits)
  have pv: "PriceValid (round64 ?r) (tick_string t) \<longleftrightarrow>
      Fin (tick_double t) \<le> round64 ?r \<and> round64 ?r \<le> Fin h"
    by (simp only: PriceValid_def parse_tick sum.case one_minus_tick h)
  consider "k \<le> 0" | "?n \<le> k" | "1 \<le> k" "k \<le> ?n - 1" by linarith
  then show ?thesis
  proof cases
    case 1
    then have "?r \<le> 0" by (simp add: divide_nonpos_pos)
    then have "\<not> Fin (tick_double t) \<le> round64 ?r"
      using round64_sign(2) [of ?r] le_Fin_trans tick_double_pos [of t] by fastforce
    then show ?thesis using pv 1 by simp
  next
    case 2
    then have "1 \<le> ?r" using n by (metis divide_right_mono divide_self_if of_int_le_iff order_less_imp_le order_less_irrefl)
    moreover have "round64 1 = Fin 1" by code_simp
    ultimately have "Fin 1 \<le> round64 ?r" using round64_mono [of 1 ?r] by simp
    then have "\<not> round64 ?r \<le> Fin h" using le_Fin_trans h(2) by fastforce
    then show ?thesis using pv 2 by simp
  next
    case 3
    have "rat_of_int 1 \<le> of_int k" "rat_of_int k \<le> of_int (?n - 1)" using 3 of_int_le_iff by blast+
    then have "tick_size t \<le> ?r" "?r \<le> 1 - tick_size t"
      using n(2) by (simp_all add: tick_size_def field_simps)
    then have "Fin (tick_double t) \<le> round64 ?r" "round64 ?r \<le> Fin h"
      using round64_mono round64_tick h(1) by metis+
    then show ?thesis using pv 3 by simp
  qed
qed

end
