(* ===== verification/EthLib.thy ===== *)
theory EthLib
  imports OrderTypes
begin

text \<open>
  The Ethereum packages the SDK calls (\<^verbatim>\<open>go-ethereum\<close>'s \<^verbatim>\<open>common\<close>, \<^verbatim>\<open>crypto\<close> and \<^verbatim>\<open>accounts/abi\<close>,
  \<^verbatim>\<open>ethsig\<close>, \<^verbatim>\<open>polymarket-go-contracts\<close>) are not part of the repository: the record \<open>eth_lib\<close> holds
  their operations, over a type \<open>'k\<close> of private keys and \<open>'p\<close> of public keys. What the code relies
  on is stated where it is used, as hypotheses named here.
\<close>

text \<open>The argument types the SDK encodes with \<^verbatim>\<open>abi.Arguments.Pack\<close> and \<^verbatim>\<open>abi.ABI.Pack\<close>.\<close>

datatype abi_value =
    AbiBytes32 bytes
  | AbiUint256 int
  | AbiUint8 byte
  | AbiAddress bytes
  | AbiBytes bytes
  | AbiUint256s "int list"

text \<open>The contract interfaces (the JSON texts of \<^verbatim>\<open>relayer/abi.go\<close> and the generated bindings).\<close>

datatype abi_name = MultisendABI | ERC20TransferABI | ConditionalTokensABI | NegRiskAdapterABI

text \<open>An EIP-712 message: the primary type, the domain and the fields, nested for the 1271 form.\<close>

datatype eip_value =
    EipInt int
  | EipString string
  | EipHash bytes
  | EipStruct "(string \<times> eip_value) list"

record eip_domain =
  edName :: string
  edVersion :: string
  edChainId :: string
  edVerifyingContract :: string

record typed_data =
  tdTypes :: "(string \<times> (string \<times> string) list) list"
  tdPrimaryType :: string
  tdDomain :: eip_domain
  tdMessage :: "(string \<times> eip_value) list"

text \<open>\<^verbatim>\<open>pgc.GetContractConfig(chainId)\<close>.\<close>

record contract_config =
  ccExchangeV2 :: address
  ccNegRiskExchangeV2 :: address
  ccSafeProxyFactory :: address
  ccCollateralToken :: address
  ccCtfCollateralAdapter :: address
  ccNegRiskCtfCollateralAdapter :: address

record ('k, 'p) eth_lib =
  hexToAddress :: "string \<Rightarrow> address"
  addressHex :: "address \<Rightarrow> string"
  hexToHash :: "string \<Rightarrow> hash32"
  hashHex :: "hash32 \<Rightarrow> string"
  fromHex :: "string \<Rightarrow> bytes"
  bytesToHash :: "bytes \<Rightarrow> hash32"
  bytesToAddress :: "bytes \<Rightarrow> address"
  bytes2Hex :: "bytes \<Rightarrow> string"
  leftPadBytes :: "bytes \<Rightarrow> nat \<Rightarrow> bytes"
  hexToECDSA :: "string \<Rightarrow> 'k result"
  keccak256 :: "bytes \<Rightarrow> bytes"
  cryptoSign :: "bytes \<Rightarrow> 'k \<Rightarrow> bytes result"
  ecrecover :: "bytes \<Rightarrow> bytes \<Rightarrow> bytes result"
  unmarshalPubkey :: "bytes \<Rightarrow> 'p result"
  pubkeyToAddress :: "'p \<Rightarrow> address"
  keyAddress :: "'k \<Rightarrow> address"
  abiArguments :: "abi_value list \<Rightarrow> bytes result"
  abiParse :: "abi_name \<Rightarrow> unit result"
  abiCall :: "abi_name \<Rightarrow> string \<Rightarrow> abi_value list \<Rightarrow> bytes result"
  typedDataAndHash :: "typed_data \<Rightarrow> bytes result"
  hashStruct :: "typed_data \<Rightarrow> string \<Rightarrow> bytes result"
  personalSign :: "'k \<Rightarrow> string \<Rightarrow> bytes result"
  newEIP712Error :: "string \<Rightarrow> string \<Rightarrow> string"
  newSignatureError :: "string \<Rightarrow> string option \<Rightarrow> string"
  getContractConfig :: "int \<Rightarrow> contract_config"
  buildSafeTransactionTypedData ::
    "int \<Rightarrow> address \<Rightarrow> address \<Rightarrow> int \<Rightarrow> bytes \<Rightarrow> int \<Rightarrow> int \<Rightarrow> int \<Rightarrow> int \<Rightarrow> address \<Rightarrow> address \<Rightarrow> int \<Rightarrow> typed_data"
  safeOperationCall :: int
  safeOperationDelegateCall :: int

text \<open>
  Documented behaviour of \<^verbatim>\<open>crypto.Sign\<close> and \<^verbatim>\<open>crypto.Ecrecover\<close>: the signature has the 65-byte
  format \<^verbatim>\<open>[R || S || V]\<close> with \<^verbatim>\<open>V\<close> 0 or 1, and the key recovered from it is the signer's.
\<close>

definition sign_recovers :: "('k, 'p) eth_lib \<Rightarrow> bool" where
  "sign_recovers E \<longleftrightarrow> (\<forall>h k s. length h = 32 \<longrightarrow> cryptoSign E h k = Inr s \<longrightarrow>
     length s = 65 \<and> (s ! 64 = 0 \<or> s ! 64 = 1) \<and>
     (\<exists>pk p. ecrecover E h s = Inr pk \<and> unmarshalPubkey E pk = Inr p \<and>
        pubkeyToAddress E p = keyAddress E k))"

text \<open>\<^verbatim>\<open>crypto.Keccak256\<close> returns 32 bytes.\<close>

definition keccak_length :: "('k, 'p) eth_lib \<Rightarrow> bool" where
  "keccak_length E \<longleftrightarrow> (\<forall>b. length (keccak256 E b) = 32)"

text \<open>\<^verbatim>\<open>common.LeftPadBytes\<close> adds zero bytes on the left up to the given length.\<close>

definition left_pad_zeroes :: "('k, 'p) eth_lib \<Rightarrow> bool" where
  "left_pad_zeroes E \<longleftrightarrow> (\<forall>b n. leftPadBytes E b n = left_pad b n)"

text \<open>A \<^verbatim>\<open>common.Address\<close> has 20 bytes, a \<^verbatim>\<open>common.Hash\<close> 32.\<close>

definition fixed_lengths :: "('k, 'p) eth_lib \<Rightarrow> bool" where
  "fixed_lengths E \<longleftrightarrow> (\<forall>s. length (hexToAddress E s) = 20) \<and> (\<forall>b. length (bytesToAddress E b) = 20) \<and>
     (\<forall>s. length (hexToHash E s) = 32) \<and> (\<forall>b. length (bytesToHash E b) = 32)"

text \<open>\<^verbatim>\<open>common.HexToAddress\<close> reads what \<^verbatim>\<open>Address.String\<close> prints.\<close>

definition address_roundtrip :: "('k, 'p) eth_lib \<Rightarrow> bool" where
  "address_roundtrip E \<longleftrightarrow> (\<forall>a. length a = 20 \<longrightarrow> hexToAddress E (addressHex E a) = a) \<and> (\<forall>k. length (keyAddress E k) = 20)"

subsection \<open>A library for evaluation\<close>

text \<open>
  A small instance, for evaluating the definitions on concrete inputs: keys are their addresses and
  a signature carries the signer's address. It is no cryptography; it satisfies the hypotheses above.
\<close>

definition fit :: "nat \<Rightarrow> bytes \<Rightarrow> bytes" where
  "fit n b = drop (length b - n) (left_pad b n)"

lemma length_fit [simp]: "length (fit n b) = n"
  by (simp add: fit_def left_pad_def)

definition unhex :: "string \<Rightarrow> bytes" where
  "unhex s = (case hex_decode (trimPrefix s ''0x'') of Inr b \<Rightarrow> b | Inl _ \<Rightarrow> [])"

definition toy_contracts :: contract_config where
  "toy_contracts = \<lparr>ccExchangeV2 = fit 20 [1], ccNegRiskExchangeV2 = fit 20 [2], ccSafeProxyFactory = fit 20 [3],
     ccCollateralToken = fit 20 [4], ccCtfCollateralAdapter = fit 20 [5], ccNegRiskCtfCollateralAdapter = fit 20 [6]\<rparr>"

definition toy_eth :: "(address, address) eth_lib" where
  "toy_eth = \<lparr>
     hexToAddress = (\<lambda>s. fit 20 (unhex s)),
     addressHex = (\<lambda>a. ''0x'' @ hex_encode a),
     hexToHash = (\<lambda>s. fit 32 (unhex s)),
     hashHex = (\<lambda>h. ''0x'' @ hex_encode h),
     fromHex = unhex,
     bytesToHash = fit 32,
     bytesToAddress = fit 20,
     bytes2Hex = hex_encode,
     leftPadBytes = left_pad,
     hexToECDSA = (\<lambda>s. bind_res (hex_decode s) (\<lambda>b. Inr (fit 20 b))),
     keccak256 = (\<lambda>b. fit 32 [of_nat (length b)]),
     cryptoSign = (\<lambda>h k. if length h = 32 then Inr (fit 64 k @ [0]) else Inl (Error ''hash is required to be exactly 32 bytes'')),
     ecrecover = (\<lambda>h s. Inr (take 64 s)),
     unmarshalPubkey = (\<lambda>b. if length b = 64 then Inr (drop 44 b) else Inl (Error ''invalid secp256k1 public key'')),
     pubkeyToAddress = fit 20,
     keyAddress = fit 20,
     abiArguments = (\<lambda>vs. Inr (concat (map (\<lambda>v. case v of AbiBytes32 b \<Rightarrow> fit 32 b | AbiUint256 n \<Rightarrow> fit 32 (be_bytes (nat n))
        | AbiUint8 b \<Rightarrow> fit 32 [b] | AbiAddress a \<Rightarrow> fit 32 a | AbiBytes b \<Rightarrow> b | AbiUint256s ns \<Rightarrow> []) vs))),
     abiParse = (\<lambda>_. Inr ()),
     abiCall = (\<lambda>c m vs. Inr (bytes_of m @ concat (map (\<lambda>v. case v of AbiBytes b \<Rightarrow> b | _ \<Rightarrow> []) vs))),
     typedDataAndHash = (\<lambda>td. Inr (fit 32 (bytes_of (tdPrimaryType td)))),
     hashStruct = (\<lambda>td s. Inr (fit 32 (bytes_of s))),
     personalSign = (\<lambda>k s. Inr (fit 64 k @ [27])),
     newEIP712Error = (\<lambda>m e. m @ '': '' @ e),
     newSignatureError = (\<lambda>m e. m),
     getContractConfig = (\<lambda>c. toy_contracts),
     buildSafeTransactionTypedData = (\<lambda>c s t v d k g b p r f n. \<lparr>tdTypes = [], tdPrimaryType = ''SafeTx'',
        tdDomain = \<lparr>edName = [], edVersion = [], edChainId = int_str c, edVerifyingContract = []\<rparr>, tdMessage = []\<rparr>),
     safeOperationCall = 0,
     safeOperationDelegateCall = 1\<rparr>"

lemma fit_fit: "fit 20 (drop 44 (fit 64 k)) = fit 20 k"
proof -
  have "drop 44 (fit 64 k) = fit 20 k"
  proof (cases "length k \<le> 20")
    case True
    then show ?thesis by (simp add: fit_def left_pad_def)
  next
    case False
    then show ?thesis by (cases "length k \<le> 64") (simp_all add: fit_def left_pad_def)
  qed
  then show ?thesis by (simp add: fit_def left_pad_def)
qed

lemma toy_hypotheses:
  "sign_recovers toy_eth" "keccak_length toy_eth" "left_pad_zeroes toy_eth" "fixed_lengths toy_eth"
  by (auto simp: toy_eth_def sign_recovers_def keccak_length_def left_pad_zeroes_def fixed_lengths_def
      nth_append fit_fit split: if_splits)

lemma toy_address_roundtrip: "address_roundtrip toy_eth"
  by (auto simp: address_roundtrip_def toy_eth_def unhex_def trimPrefix_def hasPrefix_def fit_def left_pad_def)

end
