(* ===== verification/Sha256.thy ===== *)
theory Sha256
  imports GoPrelude
begin

text \<open>
  The hashing and encoding part of Go's standard library that the SDK uses: \<^verbatim>\<open>crypto/sha256\<close>,
  \<^verbatim>\<open>crypto/hmac\<close> and the URL-safe alphabet of \<^verbatim>\<open>encoding/base64\<close>.
\<close>

unbundle bit_operations_syntax

type_synonym w32 = "32 word"

subsection \<open>SHA-256\<close>

definition sha_k :: "w32 list" where
  "sha_k = [0x428A2F98, 0x71374491, 0xB5C0FBCF, 0xE9B5DBA5, 0x3956C25B, 0x59F111F1, 0x923F82A4, 0xAB1C5ED5,
     0xD807AA98, 0x12835B01, 0x243185BE, 0x550C7DC3, 0x72BE5D74, 0x80DEB1FE, 0x9BDC06A7, 0xC19BF174,
     0xE49B69C1, 0xEFBE4786, 0x0FC19DC6, 0x240CA1CC, 0x2DE92C6F, 0x4A7484AA, 0x5CB0A9DC, 0x76F988DA,
     0x983E5152, 0xA831C66D, 0xB00327C8, 0xBF597FC7, 0xC6E00BF3, 0xD5A79147, 0x06CA6351, 0x14292967,
     0x27B70A85, 0x2E1B2138, 0x4D2C6DFC, 0x53380D13, 0x650A7354, 0x766A0ABB, 0x81C2C92E, 0x92722C85,
     0xA2BFE8A1, 0xA81A664B, 0xC24B8B70, 0xC76C51A3, 0xD192E819, 0xD6990624, 0xF40E3585, 0x106AA070,
     0x19A4C116, 0x1E376C08, 0x2748774C, 0x34B0BCB5, 0x391C0CB3, 0x4ED8AA4A, 0x5B9CCA4F, 0x682E6FF3,
     0x748F82EE, 0x78A5636F, 0x84C87814, 0x8CC70208, 0x90BEFFFA, 0xA4506CEB, 0xBEF9A3F7, 0xC67178F2]"

definition sha_h0 :: "w32 list" where
  "sha_h0 = [0x6A09E667, 0xBB67AE85, 0x3C6EF372, 0xA54FF53A, 0x510E527F, 0x9B05688C, 0x1F83D9AB, 0x5BE0CD19]"

definition sig0 :: "w32 \<Rightarrow> w32" where
  "sig0 x = word_rotr 7 x XOR word_rotr 18 x XOR drop_bit 3 x"

definition sig1 :: "w32 \<Rightarrow> w32" where
  "sig1 x = word_rotr 17 x XOR word_rotr 19 x XOR drop_bit 10 x"

definition Sig0 :: "w32 \<Rightarrow> w32" where
  "Sig0 x = word_rotr 2 x XOR word_rotr 13 x XOR word_rotr 22 x"

definition Sig1 :: "w32 \<Rightarrow> w32" where
  "Sig1 x = word_rotr 6 x XOR word_rotr 11 x XOR word_rotr 25 x"

definition be32 :: "bytes \<Rightarrow> w32" where
  "be32 bs = foldl (\<lambda>a b. push_bit 8 a OR ucast b) 0 bs"

definition be32_bytes :: "w32 \<Rightarrow> bytes" where
  "be32_bytes w = [ucast (drop_bit 24 w), ucast (drop_bit 16 w), ucast (drop_bit 8 w), ucast w]"

fun sha_extend :: "nat \<Rightarrow> w32 list \<Rightarrow> w32 list" where
  "sha_extend 0 ws = ws"
| "sha_extend (Suc k) ws = (let t = length ws in
     sha_extend k (ws @ [sig1 (ws ! (t - 2)) + ws ! (t - 7) + sig0 (ws ! (t - 15)) + ws ! (t - 16)]))"

text \<open>One round on the working variables \<open>a .. h\<close>.\<close>

fun sha_round :: "w32 \<times> w32 \<Rightarrow> w32 list \<Rightarrow> w32 list" where
  "sha_round (k, w) [a, b, c, d, e, f, g, h] =
     (let t1 = h + Sig1 e + ((e AND f) XOR (NOT e AND g)) + k + w;
          t2 = Sig0 a + ((a AND b) XOR (a AND c) XOR (b AND c))
      in [t1 + t2, a, b, c, d + t1, e, f, g])"
| "sha_round _ st = st"

fun groups :: "nat \<Rightarrow> nat \<Rightarrow> 'a list \<Rightarrow> 'a list list" where
  "groups 0 n xs = []"
| "groups (Suc k) n xs = take n xs # groups k n (drop n xs)"

definition sha_block :: "bytes \<Rightarrow> w32 list \<Rightarrow> w32 list" where
  "sha_block blk st = (let ws = sha_extend 48 (map be32 (groups 16 4 blk))
     in map2 (+) st (fold sha_round (zip sha_k ws) st))"

definition sha_pad :: "bytes \<Rightarrow> bytes" where
  "sha_pad m = (let l = length m; z = (119 - l mod 64) mod 64 in
     m @ [0x80] @ replicate z 0 @ left_pad (be_bytes (8 * l)) 8)"

definition sha256 :: "bytes \<Rightarrow> bytes" where
  "sha256 m = (let p = sha_pad m in
     concat (map be32_bytes (fold sha_block (groups (length p div 64) 64 p) sha_h0)))"

lemma length_sha_round [simp]: "length (sha_round kw st) = length st"
  by (cases "(kw, st)" rule: sha_round.cases) (auto simp: Let_def)

lemma length_sha_rounds [simp]: "length (fold sha_round kws st) = length st"
  by (induction kws arbitrary: st) simp_all

lemma length_sha_blocks [simp]: "length (fold sha_block bs st) = length st"
  by (induction bs arbitrary: st) (simp_all add: sha_block_def Let_def)

lemma length_sha256 [simp]: "length (sha256 m) = 32"
proof -
  have "length (concat (map be32_bytes ws)) = 4 * length ws" for ws
    by (induction ws) (simp_all add: be32_bytes_def)
  then show ?thesis by (simp add: sha256_def Let_def sha_h0_def)
qed

subsection \<open>HMAC-SHA256\<close>

definition hmac_sha256 :: "bytes \<Rightarrow> bytes \<Rightarrow> bytes" where
  "hmac_sha256 key msg = (let k = (if 64 < length key then sha256 key else key);
       k' = k @ replicate (64 - length k) 0
     in sha256 (map (\<lambda>b. b XOR 0x5C) k' @ sha256 (map (\<lambda>b. b XOR 0x36) k' @ msg)))"

lemma length_hmac [simp]: "length (hmac_sha256 k m) = 32"
  by (simp add: hmac_sha256_def Let_def)

subsection \<open>URL-safe base64\<close>

definition b64_char :: "nat \<Rightarrow> char" where
  "b64_char n = (if n < 26 then char_of (65 + n) else if n < 52 then char_of (71 + n)
     else if n < 62 then char_of (n - 4) else if n = 62 then CHR ''-'' else CHR ''_'')"

definition b64_val :: "char \<Rightarrow> nat option" where
  "b64_val c = (let n = of_char c :: nat in
     if 65 \<le> n \<and> n \<le> 90 then Some (n - 65) else if 97 \<le> n \<and> n \<le> 122 then Some (n - 71)
     else if 48 \<le> n \<and> n \<le> 57 then Some (n + 4) else if c = CHR ''-'' then Some 62
     else if c = CHR ''_'' then Some 63 else None)"

fun b64_encode :: "bytes \<Rightarrow> string" where
  "b64_encode [] = []"
| "b64_encode [a] = [b64_char (unat a div 4), b64_char (unat a mod 4 * 16), CHR ''='', CHR ''='']"
| "b64_encode [a, b] = [b64_char (unat a div 4), b64_char (unat a mod 4 * 16 + unat b div 16),
     b64_char (unat b mod 16 * 4), CHR ''='']"
| "b64_encode (a # b # c # bs) =
     b64_char (unat a div 4) # b64_char (unat a mod 4 * 16 + unat b div 16) #
     b64_char (unat b mod 16 * 4 + unat c div 64) # b64_char (unat c mod 64) # b64_encode bs"

text \<open>
  \<^verbatim>\<open>base64.URLEncoding.DecodeString\<close>: line breaks are skipped, padding is required, and the unused
  bits of a final group are not checked.
\<close>

fun b64_groups :: "string \<Rightarrow> bytes option" where
  "b64_groups [] = Some []"
| "b64_groups (c1 # c2 # c3 # c4 # cs) =
     (case (b64_val c1, b64_val c2) of
        (Some a, Some b) \<Rightarrow>
          if c3 = CHR ''='' then
            (if c4 = CHR ''='' \<and> cs = [] then Some [of_nat (a * 4 + b div 16)] else None)
          else (case b64_val c3 of None \<Rightarrow> None | Some c \<Rightarrow>
            if c4 = CHR ''='' then
              (if cs = [] then Some [of_nat (a * 4 + b div 16), of_nat (b mod 16 * 16 + c div 4)] else None)
            else (case b64_val c4 of None \<Rightarrow> None | Some d \<Rightarrow>
              map_option (\<lambda>bs. of_nat (a * 4 + b div 16) # of_nat (b mod 16 * 16 + c div 4) #
                of_nat (c mod 4 * 64 + d) # bs) (b64_groups cs)))
      | _ \<Rightarrow> None)"
| "b64_groups _ = None"

definition b64_decode :: "string \<Rightarrow> bytes result" where
  "b64_decode s = (case b64_groups (filter (\<lambda>c. of_char c \<noteq> (10 :: nat) \<and> of_char c \<noteq> (13 :: nat)) s) of
       None \<Rightarrow> Inl (Error ''illegal base64 data at input byte'') | Some b \<Rightarrow> Inr b)"

lemma b64_val_char [simp]: "n < 64 \<Longrightarrow> b64_val (b64_char n) = Some n"
  by (auto simp: b64_val_def b64_char_def Let_def)

lemma b64_val_pad [simp]: "b64_val CHR ''='' = None"
  by (simp add: b64_val_def)

lemma b64_char_plain [simp]: "n < 64 \<Longrightarrow> b64_char n \<noteq> CHR ''=''"
  using b64_val_char [of n] by force

lemma b64_char_no_break: "n < 64 \<Longrightarrow> of_char (b64_char n) \<noteq> (10 :: nat) \<and> of_char (b64_char n) \<noteq> (13 :: nat)"
  by (auto simp: b64_char_def)

lemma of_nat_unat_byte: "n = unat (b :: byte) \<Longrightarrow> of_nat n = b"
  by simp

lemma byte_split:
  fixes a b c :: byte
  shows "unat a div 4 < 64" "unat a mod 4 * 16 + unat b div 16 < 64" "unat a mod 4 * 16 < 64"
    "unat b mod 16 * 4 + unat c div 64 < 64" "unat b mod 16 * 4 < 64" "unat c mod 64 < 64"
proof -
  have "unat a div 4 < 64" "unat b div 16 < 16" "unat c div 64 < 4"
    by (rule less_mult_imp_div_less, simp)+
  then show "unat a div 4 < 64" "unat a mod 4 * 16 + unat b div 16 < 64" "unat a mod 4 * 16 < 64"
    "unat b mod 16 * 4 + unat c div 64 < 64" "unat b mod 16 * 4 < 64" "unat c mod 64 < 64"
    by (auto intro: order_less_le_trans)
qed

lemma byte_join:
  fixes b c :: byte
  shows "unat b div 16 div 16 = 0" "unat b div 16 mod 16 = unat b div 16"
    "unat c div 64 div 4 = 0" "unat c div 64 mod 4 = unat c div 64"
proof -
  have "unat b div 16 < 16" "unat c div 64 < 4" by (rule less_mult_imp_div_less, simp)+
  then show "unat b div 16 div 16 = 0" "unat b div 16 mod 16 = unat b div 16"
    "unat c div 64 div 4 = 0" "unat c div 64 mod 4 = unat c div 64" by simp_all
qed

lemma b64_groups_encode: "b64_groups (b64_encode bs) = Some bs"
  by (induction bs rule: b64_encode.induct)
    (simp_all add: byte_split byte_join of_nat_unat_byte del: of_nat_add of_nat_mult)

lemma b64_encode_no_break:
  "filter (\<lambda>c. of_char c \<noteq> (10 :: nat) \<and> of_char c \<noteq> (13 :: nat)) (b64_encode bs) = b64_encode bs"
  by (induction bs rule: b64_encode.induct) (simp_all add: byte_split b64_char_no_break)

lemma b64_decode_encode [simp]: "b64_decode (b64_encode bs) = Inr bs"
  unfolding b64_decode_def b64_encode_no_break by (simp add: b64_groups_encode)

lemma length_b64_encode: "length (b64_encode bs) = 4 * ((length bs + 2) div 3)"
proof (induction bs rule: b64_encode.induct)
  case (4 a b c bs)
  have "(length (a # b # c # bs) + 2) div 3 = Suc ((length bs + 2) div 3)"
    by (simp add: div_add_self1 [symmetric])
  with 4 show ?case by simp
qed simp_all

end
