(* ===== verification/Signature.thy ===== *)
theory Signature
  imports EthLib Sha256
begin

text \<open>
  The packages \<^verbatim>\<open>signature\<close> and \<^verbatim>\<open>headers\<close>: the HMAC request signature, ECDSA signing and validation of
  a hash, and the header maps of the CLOB and the relayer. A header map is \<open>(string \<rightharpoonup> string) option\<close>:
  a Go map variable may be nil.
\<close>

subsection \<open>signature/sign.go\<close>

definition GenSignature :: "string \<Rightarrow> int \<Rightarrow> string \<Rightarrow> string \<Rightarrow> string option \<Rightarrow> string" where
  "GenSignature secret timestamp method requestPath body =
     (let message = int_str timestamp @ method @ requestPath;
          message = (case body of None \<Rightarrow> message | Some b \<Rightarrow> message @ b);
          base64Secret = (case b64_decode secret of Inl _ \<Rightarrow> bytes_of secret | Inr k \<Rightarrow> k);
          sig = hmac_sha256 base64Secret (bytes_of message)
      in b64_encode sig)"

subsection \<open>signature/signer.go\<close>

definition Sign :: "('k, 'p) eth_lib \<Rightarrow> 'k \<Rightarrow> hash32 \<Rightarrow> bytes result" where
  "Sign E privateKey hashedData = bind_res (cryptoSign E hashedData privateKey) (\<lambda>sign.
     if length sign \<le> 64 then Inl (Panic ''index out of range'')
     else Inr (sign[64 := sign ! 64 + 27]))"

definition ValidateSignature :: "('k, 'p) eth_lib \<Rightarrow> address \<Rightarrow> hash32 \<Rightarrow> bytes \<Rightarrow> bool result" where
  "ValidateSignature E signer hashedData sig =
     (if length sig \<noteq> 65 then Inl (Error ''invalid signature length'')
      else
        let sigCopy = (if sig ! 64 \<noteq> 0 \<and> sig ! 64 \<noteq> 1 then sig[64 := sig ! 64 - 27] else sig) in
        bind_res (ecrecover E hashedData sigCopy) (\<lambda>sigPublicKey.
        bind_res (unmarshalPubkey E sigPublicKey) (\<lambda>recoveredPublicKey.
        Inr (signer = pubkeyToAddress E recoveredPublicKey))))"

subsection \<open>headers\<close>

record ApiKeyCreds =
  akKey :: string
  akSecret :: string
  akPassphrase :: string

record L2HeaderArgs =
  lhMethod :: string
  lhRequestPath :: string
  lhBody :: "string option"

record RelayerKey =
  rkApiKey :: string
  rkApiKeyAddress :: string

type_synonym headers = "string \<rightharpoonup> string"

definition MethodGet :: string where "MethodGet = ''GET''"
definition MethodPost :: string where "MethodPost = ''POST''"
definition MethodDelete :: string where "MethodDelete = ''DELETE''"

definition CreateRelayerHeaders :: "RelayerKey option \<Rightarrow> headers result" where
  "CreateRelayerHeaders relayerKey = (case relayerKey of
       None \<Rightarrow> Inl (Panic ''relayerKey is nil'')
     | Some k \<Rightarrow> Inr [''RELAYER_API_KEY'' \<mapsto> rkApiKey k, ''RELAYER_API_KEY_ADDRESS'' \<mapsto> rkApiKeyAddress k])"

text \<open>\<open>now\<close> is the reading of \<^verbatim>\<open>time.Now().Unix()\<close>, used when no timestamp is given.\<close>

definition CreateL2Headers ::
  "('k, 'p) eth_lib \<Rightarrow> int \<Rightarrow> address \<Rightarrow> ApiKeyCreds option \<Rightarrow> L2HeaderArgs option \<Rightarrow> int option \<Rightarrow> headers result" where
  "CreateL2Headers E now signer creds l2HeaderArgs timestamp =
     (let ts = (case timestamp of None \<Rightarrow> now | Some t \<Rightarrow> t) in
      case creds of None \<Rightarrow> Inl (Panic ''creds is nil'')
      | Some c \<Rightarrow> (case l2HeaderArgs of None \<Rightarrow> Inl (Panic ''l2HeaderArgs is nil'')
      | Some a \<Rightarrow>
          let signature = GenSignature (akSecret c) ts (lhMethod a) (lhRequestPath a) (lhBody a) in
          Inr [''POLY_ADDRESS'' \<mapsto> addressHex E signer,
               ''POLY_SIGNATURE'' \<mapsto> signature,
               ''POLY_TIMESTAMP'' \<mapsto> int_str ts,
               ''POLY_API_KEY'' \<mapsto> akKey c,
               ''POLY_PASSPHRASE'' \<mapsto> akPassphrase c]))"

definition CreateBuilderHeaders ::
  "int \<Rightarrow> ApiKeyCreds option \<Rightarrow> string \<Rightarrow> string \<Rightarrow> string option \<Rightarrow> int option \<Rightarrow> headers result" where
  "CreateBuilderHeaders now builderCreds method path body timestamp =
     (let ts = (case timestamp of None \<Rightarrow> now | Some t \<Rightarrow> t) in
      case builderCreds of None \<Rightarrow> Inl (Panic ''builderCreds is nil'')
      | Some c \<Rightarrow>
          let signature = GenSignature (akSecret c) ts method path body in
          Inr [''POLY_BUILDER_API_KEY'' \<mapsto> akKey c,
               ''POLY_BUILDER_PASSPHRASE'' \<mapsto> akPassphrase c,
               ''POLY_BUILDER_SIGNATURE'' \<mapsto> signature,
               ''POLY_BUILDER_TIMESTAMP'' \<mapsto> int_str ts])"

text \<open>
  The overload functions write into the map they are given; the result is the caller's map
  afterwards. A nil map is replaced by a new one in a local variable only, so the caller's stays nil.
\<close>

definition OverloadHeaders :: "string \<Rightarrow> headers option \<Rightarrow> headers option" where
  "OverloadHeaders method hs = map_option (\<lambda>h.
     let h1 = h(''User-Agent'' \<mapsto> ''Mozilla/5.0 (Macintosh; Intel Mac OS X 10_15_7) AppleWebKit/537.36 (KHTML, like Gecko) Chrome/143.0.0.0 Safari/537.36'',
                ''Accept'' \<mapsto> ''*/*'', ''Connection'' \<mapsto> ''keep-alive'',
                ''Content-Type'' \<mapsto> ''application/json'')
     in if method = MethodGet \<or> method = MethodPost then h1(''Accept-Encoding'' \<mapsto> ''gzip'') else h1) hs"

definition OverloadRelayHeaders :: "string \<Rightarrow> headers option \<Rightarrow> headers option" where
  "OverloadRelayHeaders method hs = map_option (\<lambda>h.
     let h1 = h(''User-Agent'' \<mapsto> ''@polymarket/relay-client'',
                ''Accept'' \<mapsto> ''*/*'', ''Connection'' \<mapsto> ''keep-alive'',
                ''Content-Type'' \<mapsto> ''application/json'',
                ''Access-Control-Allow-Credentials'' \<mapsto> ''true'')
     in if method = MethodGet then h1(''Accept-Encoding'' \<mapsto> ''gzip'') else h1) hs"

subsection \<open>Signing and validation\<close>

lemma Sign_validates:
  assumes E: "sign_recovers E" and h: "length h = 32" and s: "Sign E k h = Inr sig"
  shows "length sig = 65" "ValidateSignature E a h sig = Inr (a = keyAddress E k)"
proof -
  obtain s0 where s0: "cryptoSign E h k = Inr s0" and sig: "sig = s0[64 := s0 ! 64 + 27]"
    using s by (auto simp: Sign_def split: if_splits)
  then have len: "length s0 = 65" and v: "s0 ! 64 = 0 \<or> s0 ! 64 = 1"
    and rec: "\<exists>pk p. ecrecover E h s0 = Inr pk \<and> unmarshalPubkey E pk = Inr p \<and>
      pubkeyToAddress E p = keyAddress E k"
    using E h unfolding sign_recovers_def by blast+
  show "length sig = 65" using len sig by simp
  have "sig ! 64 = s0 ! 64 + 27" using len sig by simp
  then have "sig ! 64 \<noteq> 0 \<and> sig ! 64 \<noteq> 1" "sig ! 64 - 27 = s0 ! 64" using v by auto
  then have "(if sig ! 64 \<noteq> 0 \<and> sig ! 64 \<noteq> 1 then sig[64 := sig ! 64 - 27] else sig) = s0"
    using sig by (simp add: list_update_overwrite)
  then show "ValidateSignature E a h sig = Inr (a = keyAddress E k)"
    using rec len sig by (auto simp: ValidateSignature_def Let_def)
qed

lemma Sign_total:
  "sign_recovers E \<Longrightarrow> length h = 32 \<Longrightarrow> cryptoSign E h k = Inr s0 \<Longrightarrow> \<exists>s. Sign E k h = Inr s"
  unfolding sign_recovers_def Sign_def by fastforce

subsection \<open>Properties\<close>

text \<open>
  C20: a signature made by \<open>Sign\<close> has 65 bytes, validates for the address of the signing key and is
  rejected for every other address, both in the 27/28 form and after the recovery byte is reset to
  the 0/1 form of hardware wallets.
\<close>

theorem sign_then_validate:
  assumes "sign_recovers E" "length h = 32" "Sign E k h = Inr sig"
  shows "length sig = 65 \<and> ValidateSignature E a h sig = Inr (a = keyAddress E k) \<and>
    ValidateSignature E a h (sig[64 := sig ! 64 - 27]) = Inr (a = keyAddress E k)"
proof -
  obtain s0 where s0: "cryptoSign E h k = Inr s0" and sig: "sig = s0[64 := s0 ! 64 + 27]"
    using assms(3) by (auto simp: Sign_def split: if_splits)
  then have s: "length s0 = 65" "s0 ! 64 = 0 \<or> s0 ! 64 = 1"
    "\<exists>pk p. ecrecover E h s0 = Inr pk \<and> unmarshalPubkey E pk = Inr p \<and> pubkeyToAddress E p = keyAddress E k"
    using assms unfolding sign_recovers_def by blast+
  have "sig[64 := sig ! 64 - 27] = s0" using s(1) sig by simp
  then show ?thesis using Sign_validates [OF assms] s by (auto simp: ValidateSignature_def Let_def)
qed

theorem sign_then_validate_witness:
  "\<exists>sig. Sign toy_eth [7, 8] (replicate 32 5) = Inr sig \<and>
     ValidateSignature toy_eth (keyAddress toy_eth [7, 8]) (replicate 32 5) sig = Inr True"
proof -
  have "\<exists>s0. cryptoSign toy_eth (replicate 32 5) [7, 8] = Inr s0" by (simp add: toy_eth_def)
  then obtain sig where sig: "Sign toy_eth [7, 8] (replicate 32 5) = Inr sig"
    using Sign_total [of toy_eth "replicate 32 5" "[7, 8]"] toy_hypotheses(1) by auto
  then show ?thesis using sign_then_validate [OF toy_hypotheses(1) _ sig] by simp
qed

text \<open>
  C21: the request signature is the URL-safe base64 text, 44 characters long, of the HMAC-SHA256 of
  timestamp, method, path and body under the base64-decoded secret; a secret that is not base64 is
  used as raw bytes, and an absent body signs as an empty one.
\<close>

theorem gen_signature_spec:
  "length (GenSignature secret ts method path body) = 44 \<and>
   b64_decode (GenSignature secret ts method path body) =
     Inr (hmac_sha256 (case b64_decode secret of Inr k \<Rightarrow> k | Inl _ \<Rightarrow> bytes_of secret)
       (bytes_of (int_str ts @ method @ path @ (case body of None \<Rightarrow> '''' | Some b \<Rightarrow> b)))) \<and>
   GenSignature (b64_encode key) ts method path None = GenSignature (b64_encode key) ts method path (Some [])"
  by (auto simp: GenSignature_def Let_def length_b64_encode split: option.splits sum.splits)

end
