(* ===== verification/GoContext.thy ===== *)
theory GoContext
  imports GoPrelude
begin

text \<open>
  What the SDK uses of Go's \<^verbatim>\<open>context\<close>: the time at which somebody cancels a context, if ever, and its
  deadline, in nanoseconds. A context derived with \<^verbatim>\<open>WithoutCancel\<close> is never done and, as the package
  documents, returns no deadline.
\<close>

record context_t =
  cxCancelAt :: "int option"
  cxDeadline :: "int option"

definition Background :: context_t where
  "Background = \<lparr>cxCancelAt = None, cxDeadline = None\<rparr>"

definition WithoutCancel :: "context_t \<Rightarrow> context_t" where
  "WithoutCancel ctx = Background"

text \<open>When the channel of \<^verbatim>\<open>ctx.Done()\<close> is closed.\<close>

definition done_at :: "context_t \<Rightarrow> int option" where
  "done_at ctx = (case cxCancelAt ctx of None \<Rightarrow> cxDeadline ctx
     | Some c \<Rightarrow> (case cxDeadline ctx of None \<Rightarrow> Some c | Some d \<Rightarrow> Some (min c d)))"

text \<open>\<^verbatim>\<open>ctx.Err()\<close> at time \<open>now\<close>: none before the context is done, then what happened first.\<close>

definition ctxErr :: "int \<Rightarrow> context_t \<Rightarrow> failure option" where
  "ctxErr now ctx = (case done_at ctx of None \<Rightarrow> None
     | Some t \<Rightarrow> if now < t then None
         else if cxCancelAt ctx = Some t then Some (Error ''context canceled'')
         else Some (Error ''context deadline exceeded''))"

lemma ctxErr_Background [simp]: "ctxErr now Background = None"
  by (simp add: ctxErr_def done_at_def Background_def)

lemma ctxErr_done: "done_at ctx = Some t \<Longrightarrow> t \<le> now \<Longrightarrow> \<exists>e. ctxErr now ctx = Some (Error e)"
  by (simp add: ctxErr_def)

lemma done_at_deadline: "cxDeadline ctx = Some d \<Longrightarrow> \<exists>t. done_at ctx = Some t \<and> t \<le> d"
  by (simp add: done_at_def split: option.split)

end
