(* ===== verification/HttpClient.thy ===== *)
theory HttpClient
  imports Signature GoContext JsonLib
begin

text \<open>
  The request layer of \<^verbatim>\<open>polymarket/polymarket.go\<close>: the configuration, the client record, and \<^verbatim>\<open>Get\<close>,
  \<^verbatim>\<open>GetContext\<close> with its retry loop, \<^verbatim>\<open>Post\<close> and \<^verbatim>\<open>Del\<close>. The HTTP library \<^verbatim>\<open>resty\<close> and the server behind
  it are parameters: \<open>hDo\<close> answers a request from the server's state and says how long that took.
  The world the client runs in is part of its record: the clock in nanoseconds, the server's state
  and the trace of what was sent and waited for.
\<close>

subsection \<open>Configuration\<close>

record PolymarketConfig =
  pmChainID :: int
  pmFunderAddress :: string
  pmClobBaseURL :: string
  pmClobWSBaseURL :: string
  pmLiveWSBaseURL :: string
  pmGammaBaseURL :: string
  pmRelayerBaseURL :: string
  pmDataAPIBaseURL :: string
  pmSignatureType :: int
  pmCryptoPriceURL :: string
  pmOwnerKey :: string
  pmBuilderCode :: "string option"
  pmCLOBCreds :: "ApiKeyCreds option"
  pmBuilderCreds :: "ApiKeyCreds option"
  pmRelayerKey :: "RelayerKey option"

record Config =
  cfHttpTimeout :: int
  cfSocksProxy :: string
  cfHttpDebug :: bool
  cfDisableHTTP2 :: bool
  cfRateLimitMaxRetries :: int
  cfRateLimitBaseDelay :: int
  cfRateLimitRetryBudget :: int
  cfPolymarket :: PolymarketConfig

definition HasCLOBAuth :: "PolymarketConfig \<Rightarrow> bool" where
  "HasCLOBAuth c \<longleftrightarrow> pmCLOBCreds c \<noteq> None"

definition HasBuilderAuth :: "PolymarketConfig \<Rightarrow> bool" where
  "HasBuilderAuth c \<longleftrightarrow> pmBuilderCreds c \<noteq> None"

definition HasRelayerAuth :: "PolymarketConfig \<Rightarrow> bool" where
  "HasRelayerAuth c \<longleftrightarrow> pmRelayerKey c \<noteq> None"

definition millisecond :: int where "millisecond = 1000000"
definition seconds :: int where "seconds = 1000000000"

definition DefaultConfig :: Config where
  "DefaultConfig = \<lparr>cfHttpTimeout = 10 * seconds, cfSocksProxy = [], cfHttpDebug = False, cfDisableHTTP2 = True,
     cfRateLimitMaxRetries = 3, cfRateLimitBaseDelay = 500 * millisecond, cfRateLimitRetryBudget = 0,
     cfPolymarket = \<lparr>pmChainID = 137, pmFunderAddress = [],
       pmClobBaseURL = ''https://clob.polymarket.com'',
       pmClobWSBaseURL = ''wss://ws-subscriptions-clob.polymarket.com'',
       pmLiveWSBaseURL = ''wss://ws-live-data.polymarket.com'',
       pmGammaBaseURL = ''https://gamma-api.polymarket.com'',
       pmRelayerBaseURL = ''https://relayer-v2.polymarket.com'',
       pmDataAPIBaseURL = ''https://data-api.polymarket.com'',
       pmSignatureType = POLY_GNOSIS_SAFE,
       pmCryptoPriceURL = ''https://polymarket.com/api/crypto/crypto-price'',
       pmOwnerKey = ''1111111111111111111111111111111111111111111111111111111111111111'',
       pmBuilderCode = None, pmCLOBCreds = None, pmBuilderCreds = None, pmRelayerKey = None\<rparr>\<rparr>"

subsection \<open>The world\<close>

record http_request =
  rqMethod :: string
  rqURL :: string
  rqParams :: headers
  rqBody :: "string option"
  rqHeaders :: headers

record http_response =
  rsStatus :: int
  rsRetryAfter :: string
  rsBody :: string

text \<open>A request with its answer, or a wait with the time it started and the delay asked for.\<close>

datatype net_event = Sent http_request "http_response result" | Waited int int

record 's world =
  wNow :: int
  wServer :: 's
  wTrace :: "net_event list"

text \<open>
  \<open>hLate\<close> is how much later than asked a timer fires, \<open>hTimer\<close> which branch a \<^verbatim>\<open>select\<close> takes when the
  timer and the context are both ready, \<open>hRand\<close> the source behind \<^verbatim>\<open>rand.Int63n\<close>.
\<close>

record 's http_lib =
  hDo :: "context_t \<Rightarrow> http_request \<Rightarrow> 's world \<Rightarrow> http_response result \<times> 's \<times> nat"
  hLate :: "'s world \<Rightarrow> nat"
  hTimer :: "'s world \<Rightarrow> bool"
  hRand :: "'s world \<Rightarrow> int"

definition do_request ::
  "'s http_lib \<Rightarrow> context_t \<Rightarrow> http_request \<Rightarrow> 's world \<Rightarrow> http_response result \<times> 's world" where
  "do_request L ctx rq w = (let (r, s, t) = hDo L ctx rq w in
     (r, w\<lparr>wNow := wNow w + int t, wServer := s, wTrace := wTrace w @ [Sent rq r]\<rparr>))"

text \<open>\<^verbatim>\<open>select { case <-ctx.Done(): ... case <-time.After(delay): ... }\<close>: true when the timer is taken.\<close>

definition wait_ctx :: "'s http_lib \<Rightarrow> context_t \<Rightarrow> int \<Rightarrow> 's world \<Rightarrow> bool \<times> 's world" where
  "wait_ctx L ctx delay w =
     (let fire = wNow w + max 0 delay + int (hLate L w);
          tr = wTrace w @ [Waited (wNow w) delay]
      in case done_at ctx of
           None \<Rightarrow> (True, w\<lparr>wNow := fire, wTrace := tr\<rparr>)
         | Some d \<Rightarrow> (let d' = max (wNow w) d in
             if d' < fire \<or> (d' = fire \<and> \<not> hTimer L w) then (False, w\<lparr>wNow := d', wTrace := tr\<rparr>)
             else (True, w\<lparr>wNow := fire, wTrace := tr\<rparr>)))"

text \<open>\<^verbatim>\<open>utils.SleepWithCtx\<close>: the same wait on a timer of its own.\<close>

definition SleepWithCtx :: "'s http_lib \<Rightarrow> context_t \<Rightarrow> int \<Rightarrow> 's world \<Rightarrow> bool \<times> 's world" where
  "SleepWithCtx L ctx d w = wait_ctx L ctx d w"

subsection \<open>The client\<close>

record 'k Signer =
  sgPrivateKey :: 'k
  sgAddress :: address

record ('k, 's) PolymarketClient =
  pcCfg :: Config
  pcSigner :: "'k Signer"
  pcTickSizes :: "string \<rightharpoonup> string"
  pcFeeRates :: "string \<rightharpoonup> float64"
  pcNegRisk :: "string \<rightharpoonup> bool"
  pcRateLimitRetryCount :: int
  pcWorld :: "'s world"

text \<open>The transport settings of \<^verbatim>\<open>NewClient\<close> belong to the HTTP library.\<close>

definition NewClient :: "('k, 'p) eth_lib \<Rightarrow> Config \<Rightarrow> 's world \<Rightarrow> ('k, 's) PolymarketClient result" where
  "NewClient E cfg w =
     (let signerKey = trimPrefix (pmOwnerKey (cfPolymarket cfg)) ''0x'' in
      case hexToECDSA E signerKey of
        Inl (Error e) \<Rightarrow> Inl (Panic e)
      | Inl (Panic p) \<Rightarrow> Inl (Panic p)
      | Inr privateKey \<Rightarrow> Inr \<lparr>pcCfg = cfg,
          pcSigner = \<lparr>sgPrivateKey = privateKey, sgAddress = keyAddress E privateKey\<rparr>,
          pcTickSizes = Map.empty, pcFeeRates = Map.empty, pcNegRisk = Map.empty,
          pcRateLimitRetryCount = 0, pcWorld = w\<rparr>)"

text \<open>Operations on the client that can fail, one after the other.\<close>

type_synonym ('a, 'c) op = "'c \<Rightarrow> 'a result \<times> 'c"

definition bind_op :: "('a, 'c) op \<Rightarrow> ('a \<Rightarrow> ('b, 'c) op) \<Rightarrow> ('b, 'c) op" where
  "bind_op f g c = (case f c of (Inl e, c') \<Rightarrow> (Inl e, c') | (Inr a, c') \<Rightarrow> g a c')"

definition pure_op :: "'a result \<Rightarrow> ('a, 'c) op" where
  "pure_op r c = (r, c)"

lemma pure_op_simps [simp]: "fst (pure_op r c) = r" "snd (pure_op r c) = c" "pure_op r c = (r, c)"
  by (simp_all add: pure_op_def)

lemma bind_op_Inr:
  "bind_op f g c = (Inr b, c') \<longleftrightarrow> (\<exists>a d. f c = (Inr a, d) \<and> g a d = (Inr b, c'))"
  by (auto simp: bind_op_def split: prod.splits sum.splits)

lemma bind_op_Inl:
  "bind_op f g c = (Inl e, c') \<longleftrightarrow>
     f c = (Inl e, c') \<or> (\<exists>a d. f c = (Inr a, d) \<and> g a d = (Inl e, c'))"
  by (auto simp: bind_op_def split: prod.splits sum.splits)

subsection \<open>Retries after a rate limit\<close>

definition defaultRateLimitMaxRetries :: int where "defaultRateLimitMaxRetries = 6"
definition defaultRateLimitBaseDelay :: int where "defaultRateLimitBaseDelay = 1000 * millisecond"
definition defaultRateLimitRetryBudget :: int where "defaultRateLimitRetryBudget = 10 * seconds"

lemmas rate_defaults = defaultRateLimitMaxRetries_def defaultRateLimitBaseDelay_def
  defaultRateLimitRetryBudget_def millisecond_def seconds_def

text \<open>\<^verbatim>\<open>rand.Int63n(n)\<close> panics unless \<open>n\<close> is positive.\<close>

definition Int63n :: "int \<Rightarrow> int \<Rightarrow> int result" where
  "Int63n draw n = (if n \<le> 0 then Inl (Panic ''invalid argument to Int63n'') else Inr (draw mod n))"

text \<open>
  A \<^verbatim>\<open>time.Duration\<close> is an \<^verbatim>\<open>int64\<close>: the multiplication, the shift and the sums wrap, and a shift by 64
  or more gives 0.
\<close>

definition backoffDelay :: "nat \<Rightarrow> int \<Rightarrow> int \<Rightarrow> int result" where
  "backoffDelay attempt baseDelay draw = (let delay = int64 (baseDelay * 2 ^ attempt) in
     bind_res (Int63n draw (int64 (delay + 1))) (\<lambda>jitter. Inr (int64 (delay + jitter))))"

definition rateLimitDelay :: "string \<Rightarrow> nat \<Rightarrow> int \<Rightarrow> int \<Rightarrow> int result" where
  "rateLimitDelay retryAfter attempt baseDelay draw =
     (case (if retryAfter = [] then None else atoi retryAfter) of
        Some secs \<Rightarrow> if 0 < secs then Inr (int64 (secs * seconds)) else backoffDelay attempt baseDelay draw
      | None \<Rightarrow> backoffDelay attempt baseDelay draw)"

text \<open>The settings of the loop, with the defaults for values that are not positive.\<close>

definition maxRetries_of :: "Config \<Rightarrow> int" where
  "maxRetries_of cfg = (if cfRateLimitMaxRetries cfg \<le> 0 then defaultRateLimitMaxRetries else cfRateLimitMaxRetries cfg)"

definition baseDelay_of :: "Config \<Rightarrow> int" where
  "baseDelay_of cfg = (if cfRateLimitBaseDelay cfg \<le> 0 then defaultRateLimitBaseDelay else cfRateLimitBaseDelay cfg)"

definition budget_of :: "Config \<Rightarrow> int" where
  "budget_of cfg = (if cfRateLimitRetryBudget cfg \<le> 0 then defaultRateLimitRetryBudget else cfRateLimitRetryBudget cfg)"

text \<open>\<^verbatim>\<open>time.Until\<close> saturates at the ends of \<^verbatim>\<open>int64\<close>.\<close>

definition until :: "int \<Rightarrow> int \<Rightarrow> int" where
  "until t now = max (- (2 ^ 63)) (min (2 ^ 63 - 1) (t - now))"

text \<open>The deadline of the retries is set at the first 429.\<close>

definition retry_deadline :: "Config \<Rightarrow> int option \<Rightarrow> int \<Rightarrow> int" where
  "retry_deadline cfg dl t = (case dl of None \<Rightarrow> t + budget_of cfg | Some d \<Rightarrow> d)"

definition retry_remaining :: "context_t \<Rightarrow> int \<Rightarrow> int \<Rightarrow> int" where
  "retry_remaining ctx retryDeadline now = (let remaining = until retryDeadline now in
     case cxDeadline ctx of None \<Rightarrow> remaining
     | Some d \<Rightarrow> if until d now < remaining then until d now else remaining)"

definition status_error :: "http_response \<Rightarrow> string" where
  "status_error resp = ''API request failed with status '' @ int_str (rsStatus resp) @ '': '' @ rsBody resp"

definition ctx_failure :: "int \<Rightarrow> context_t \<Rightarrow> failure" where
  "ctx_failure now ctx = (case ctxErr now ctx of Some e \<Rightarrow> e | None \<Rightarrow> Error [])"

text \<open>
  One round of the loop of \<^verbatim>\<open>GetContext\<close>: the result it returns, or the deadline of the retries for the
  next round, with the client afterwards.
\<close>

definition get_round ::
  "'s http_lib \<Rightarrow> 'j gjson_lib \<Rightarrow> context_t \<Rightarrow> http_request \<Rightarrow> nat \<Rightarrow> int option \<Rightarrow> ('k, 's) PolymarketClient \<Rightarrow>
     ('j result + int) \<times> ('k, 's) PolymarketClient" where
  "get_round L J ctx rq attempt retryDeadline c =
     (let (r, w) = do_request L ctx rq (pcWorld c); c = c\<lparr>pcWorld := w\<rparr> in
      case r of Inl e \<Rightarrow> (Inl (Inl e), c)
      | Inr resp \<Rightarrow>
        if rsStatus resp = 429 \<and> int attempt < maxRetries_of (pcCfg c) then
          let c = c\<lparr>pcRateLimitRetryCount := int64 (pcRateLimitRetryCount c + 1)\<rparr>;
              deadline = retry_deadline (pcCfg c) retryDeadline (wNow w);
              remaining = retry_remaining ctx deadline (wNow w)
          in if remaining \<le> 0 then
               (Inl (Inl (case ctxErr (wNow w) ctx of Some e \<Rightarrow> e
                  | None \<Rightarrow> Error (status_error resp @ '' (rate limit retry budget exhausted)''))), c)
             else case rateLimitDelay (rsRetryAfter resp) attempt (baseDelay_of (pcCfg c)) (hRand L w) of
                 Inl p \<Rightarrow> (Inl (Inl p), c)
               | Inr delay \<Rightarrow>
                   let delay = (if remaining < delay then remaining else delay);
                       (fired, w) = wait_ctx L ctx delay w;
                       c = c\<lparr>pcWorld := w\<rparr>
                   in if fired then (Inr deadline, c) else (Inl (Inl (ctx_failure (wNow w) ctx)), c)
        else if 400 \<le> rsStatus resp then (Inl (Inl (Error (status_error resp))), c)
        else (Inl (Inr (gParse J (rsBody resp))), c))"

lemma get_round_again:
  "get_round L J ctx rq attempt dl c = (Inr d, c') \<Longrightarrow>
     int attempt < maxRetries_of (pcCfg c) \<and> pcCfg c' = pcCfg c"
  by (auto simp: get_round_def Let_def split: prod.splits sum.splits if_splits)

function get_loop ::
  "'s http_lib \<Rightarrow> 'j gjson_lib \<Rightarrow> context_t \<Rightarrow> http_request \<Rightarrow> nat \<Rightarrow> int option \<Rightarrow> ('j, ('k, 's) PolymarketClient) op" where
  "get_loop L J ctx rq attempt retryDeadline c =
     (case get_round L J ctx rq attempt retryDeadline c of
        (Inl r, c') \<Rightarrow> (r, c')
      | (Inr deadline, c') \<Rightarrow> get_loop L J ctx rq (Suc attempt) (Some deadline) c')"
  by pat_completeness auto
termination
  by (relation "measure (\<lambda>(L, J, ctx, rq, attempt, dl, c). nat (maxRetries_of (pcCfg c)) - attempt)")
    (auto dest!: get_round_again [OF sym])

declare get_loop.simps [simp del]

definition the_headers :: "headers option \<Rightarrow> headers" where
  "the_headers hs = (case hs of None \<Rightarrow> Map.empty | Some h \<Rightarrow> h)"

definition get_request :: "string \<Rightarrow> headers option \<Rightarrow> headers option \<Rightarrow> http_request" where
  "get_request url params hs = \<lparr>rqMethod = MethodGet, rqURL = url, rqParams = the_headers params, rqBody = None,
     rqHeaders = the_headers (OverloadHeaders MethodGet hs)\<rparr>"

definition GetContext ::
  "'s http_lib \<Rightarrow> 'j gjson_lib \<Rightarrow> context_t option \<Rightarrow> string \<Rightarrow> headers option \<Rightarrow> headers option \<Rightarrow>
     ('j, ('k, 's) PolymarketClient) op" where
  "GetContext L J ctx url params hs =
     get_loop L J (case ctx of None \<Rightarrow> Background | Some x \<Rightarrow> x) (get_request url params hs) 0 None"

definition Get ::
  "'s http_lib \<Rightarrow> 'j gjson_lib \<Rightarrow> string \<Rightarrow> headers option \<Rightarrow> headers option \<Rightarrow> ('j, ('k, 's) PolymarketClient) op" where
  "Get L J url params hs = GetContext L J (Some Background) url params hs"

subsection \<open>Post and Del\<close>

text \<open>Neither looks at a context; a body is always a text, what \<^verbatim>\<open>json.Marshal\<close> made of it.\<close>

definition send_once :: "'s http_lib \<Rightarrow> 'j gjson_lib \<Rightarrow> http_request \<Rightarrow> ('j, ('k, 's) PolymarketClient) op" where
  "send_once L J rq c =
     (let (r, w) = do_request L Background rq (pcWorld c); c = c\<lparr>pcWorld := w\<rparr> in
      case r of Inl e \<Rightarrow> (Inl e, c)
      | Inr resp \<Rightarrow> if 400 \<le> rsStatus resp then (Inl (Error (status_error resp)), c)
          else (Inr (gParse J (rsBody resp)), c))"

definition Post ::
  "'s http_lib \<Rightarrow> 'j gjson_lib \<Rightarrow> string \<Rightarrow> string option \<Rightarrow> headers option \<Rightarrow> ('j, ('k, 's) PolymarketClient) op" where
  "Post L J url body hs = send_once L J
     \<lparr>rqMethod = MethodPost, rqURL = url, rqParams = Map.empty, rqBody = body,
      rqHeaders = the_headers (OverloadHeaders MethodPost hs)\<rparr>"

definition Del ::
  "'s http_lib \<Rightarrow> 'j gjson_lib \<Rightarrow> string \<Rightarrow> headers option \<Rightarrow> string option \<Rightarrow> headers option \<Rightarrow>
     ('j, ('k, 's) PolymarketClient) op" where
  "Del L J url params body hs = send_once L J
     \<lparr>rqMethod = MethodDelete, rqURL = url, rqParams = the_headers params, rqBody = body,
      rqHeaders = the_headers (OverloadHeaders MethodDelete hs)\<rparr>"

subsection \<open>What a call sends and waits for\<close>

fun sent :: "net_event list \<Rightarrow> (http_request \<times> http_response result) list" where
  "sent [] = []" | "sent (Sent rq r # es) = (rq, r) # sent es" | "sent (Waited t d # es) = sent es"

fun waits :: "net_event list \<Rightarrow> (int \<times> int) list" where
  "waits [] = []" | "waits (Sent rq r # es) = waits es" | "waits (Waited t d # es) = (t, d) # waits es"

text \<open>The result that the last answer determines.\<close>

definition outcome :: "'j gjson_lib \<Rightarrow> http_response result \<Rightarrow> 'j result \<Rightarrow> bool" where
  "outcome J a r = (case a of Inl e \<Rightarrow> r = Inl e
     | Inr resp \<Rightarrow> if rsStatus resp < 400 then r = Inr (gParse J (rsBody resp)) else \<not> is_ok r)"

definition rate_limited :: "http_response result \<Rightarrow> bool" where
  "rate_limited a = (case a of Inl _ \<Rightarrow> False | Inr resp \<Rightarrow> rsStatus resp = 429)"

text \<open>The time the retries may still take, and a wait within it and within the context's deadline.\<close>

definition allowance :: "Config \<Rightarrow> int option \<Rightarrow> int \<Rightarrow> int" where
  "allowance cfg dl now = (case dl of None \<Rightarrow> budget_of cfg | Some d \<Rightarrow> max 0 (d - now))"

definition wait_ok :: "context_t \<Rightarrow> int \<times> int \<Rightarrow> bool" where
  "wait_ok ctx td = (case cxDeadline ctx of None \<Rightarrow> True | Some d \<Rightarrow> fst td + snd td \<le> d)"

lemma retry_remaining_le:
  assumes "0 < retry_remaining ctx dl now"
  shows "retry_remaining ctx dl now \<le> dl - now" "cxDeadline ctx = Some d \<Longrightarrow> retry_remaining ctx dl now \<le> d - now"
  using assms by (auto simp: retry_remaining_def until_def Let_def split: option.splits if_splits)

lemma do_request_simps:
  assumes "do_request L ctx rq w = (r, w')"
  shows "wTrace w' = wTrace w @ [Sent rq r]" "wNow w \<le> wNow w'"
  using assms by (auto simp: do_request_def Let_def split: prod.splits)

lemma wait_ctx_simps:
  assumes "wait_ctx L ctx d w = (fired, w')"
  shows "wTrace w' = wTrace w @ [Waited (wNow w) d]" "wNow w \<le> wNow w'" "fired \<Longrightarrow> wNow w + max 0 d \<le> wNow w'"
    "\<not> fired \<Longrightarrow> \<exists>e. ctxErr (wNow w') ctx = Some (Error e)"
proof -
  show "wTrace w' = wTrace w @ [Waited (wNow w) d]" "wNow w \<le> wNow w'" "fired \<Longrightarrow> wNow w + max 0 d \<le> wNow w'"
    using assms by (auto simp: wait_ctx_def Let_def split: option.splits if_splits)
  assume "\<not> fired"
  with assms obtain t where t: "done_at ctx = Some t" "wNow w' = max (wNow w) t"
    by (auto simp: wait_ctx_def Let_def split: option.splits if_splits)
  then show "\<exists>e. ctxErr (wNow w') ctx = Some (Error e)" by (intro ctxErr_done [OF t(1)]) simp
qed

text \<open>A round that waits and what it adds to the trace.\<close>

definition waited ::
  "context_t \<Rightarrow> http_request \<Rightarrow> nat \<Rightarrow> int option \<Rightarrow> ('k, 's) PolymarketClient \<Rightarrow> http_response \<Rightarrow> int \<Rightarrow> int \<Rightarrow>
     ('k, 's) PolymarketClient \<Rightarrow> bool" where
  "waited ctx rq attempt dl c resp t d c' \<longleftrightarrow> rsStatus resp = 429 \<and> int attempt < maxRetries_of (pcCfg c) \<and>
     wTrace (pcWorld c') = wTrace (pcWorld c) @ [Sent rq (Inr resp), Waited t d] \<and>
     wNow (pcWorld c) \<le> t \<and> max 0 d \<le> retry_deadline (pcCfg c) dl t - t \<and> wait_ok ctx (t, d) \<and> pcCfg c' = pcCfg c"

lemma get_round_shape:
  assumes "get_round L J ctx rq attempt dl c = (x, c')"
  shows "(\<exists>a r. x = Inl r \<and> wTrace (pcWorld c') = wTrace (pcWorld c) @ [Sent rq a] \<and> outcome J a r) \<or>
    (\<exists>resp t d. waited ctx rq attempt dl c resp t d c' \<and>
       (x = Inr (retry_deadline (pcCfg c) dl t) \<and> t + max 0 d \<le> wNow (pcWorld c') \<or> (\<exists>e. x = Inl (Inl (Error e)))))"
proof -
  obtain r w where w: "do_request L ctx rq (pcWorld c) = (r, w)" by fastforce
  note tr = do_request_simps [OF w]
  define D where "D = retry_deadline (pcCfg c) dl (wNow w)"
  define rem where "rem = retry_remaining ctx D (wNow w)"
  show ?thesis
  proof (cases "\<exists>resp delay. r = Inr resp \<and> rsStatus resp = 429 \<and> int attempt < maxRetries_of (pcCfg c) \<and> 0 < rem \<and>
      rateLimitDelay (rsRetryAfter resp) attempt (baseDelay_of (pcCfg c)) (hRand L w) = Inr delay")
    case False
    then have "\<exists>r'. x = Inl r' \<and> outcome J r r' \<and> pcWorld c' = w"
      using assms unfolding get_round_def Let_def w rem_def D_def
      by (auto simp: outcome_def split: sum.splits if_splits option.splits)
    with tr show ?thesis by blast
  next
    case True
    then obtain resp delay where resp: "r = Inr resp" "rsStatus resp = 429" "int attempt < maxRetries_of (pcCfg c)"
      and rem: "0 < rem" and delay: "rateLimitDelay (rsRetryAfter resp) attempt (baseDelay_of (pcCfg c)) (hRand L w) = Inr delay"
      by blast
    define dd where "dd = (if rem < delay then rem else delay)"
    obtain fired w' where w': "wait_ctx L ctx dd w = (fired, w')" by fastforce
    note tr' = wait_ctx_simps [OF w']
    have x: "(x, c') = (if fired then Inr D else Inl (Inl (ctx_failure (wNow w') ctx)),
        c\<lparr>pcRateLimitRetryCount := int64 (pcRateLimitRetryCount c + 1), pcWorld := w'\<rparr>)"
      using assms resp rem delay w' unfolding get_round_def Let_def w rem_def D_def dd_def by (simp split: if_splits)
    have "waited ctx rq attempt dl c resp (wNow w) dd c'"
      using x resp rem tr tr'(1) retry_remaining_le [of ctx D "wNow w"]
      by (auto simp: waited_def D_def rem_def wait_ok_def dd_def split: option.splits)
    moreover have "x = Inr D \<and> wNow w + max 0 dd \<le> wNow (pcWorld c') \<or> (\<exists>e. x = Inl (Inl (Error e)))"
      using x tr'(3,4) by (auto simp: ctx_failure_def split: if_splits)
    ultimately show ?thesis unfolding D_def by blast
  qed
qed

text \<open>
  The contract of a call with \<open>n\<close> requests and \<open>W\<close> of waiting: it repeats one request while the answer
  is a 429, returns what the last answer says, and its waits stay within \<open>W\<close> and the context's deadline.
\<close>

definition call_ok ::
  "'j gjson_lib \<Rightarrow> context_t \<Rightarrow> http_request \<Rightarrow> nat \<Rightarrow> int \<Rightarrow> 'j result \<Rightarrow> net_event list \<Rightarrow> bool" where
  "call_ok J ctx rq n W r evs \<longleftrightarrow> sent evs \<noteq> [] \<and> length (sent evs) \<le> n \<and> list_all (\<lambda>x. fst x = rq) (sent evs) \<and>
     list_all (\<lambda>x. rate_limited (snd x)) (butlast (sent evs)) \<and> outcome J (snd (last (sent evs))) r \<and>
     sum_list (map (\<lambda>td. max 0 (snd td)) (waits evs)) \<le> W \<and> list_all (wait_ok ctx) (waits evs)"

lemma call_ok_more:
  assumes "call_ok J ctx rq n W r evs" and "rsStatus resp = 429" and "wait_ok ctx (t, d)" and "max 0 d + W \<le> W'"
  shows "call_ok J ctx rq (Suc n) W' r (Sent rq (Inr resp) # Waited t d # evs)"
  using assms by (simp add: call_ok_def rate_limited_def)

lemma get_loop_trace:
  "get_loop L J ctx rq attempt dl c = (r, c') \<Longrightarrow>
   \<exists>evs. wTrace (pcWorld c') = wTrace (pcWorld c) @ evs \<and>
     call_ok J ctx rq (Suc (nat (maxRetries_of (pcCfg c)) - attempt)) (allowance (pcCfg c) dl (wNow (pcWorld c))) r evs"
proof (induction L J ctx rq attempt dl c rule: get_loop.induct)
  case (1 L J ctx rq attempt dl c)
  let ?W = "allowance (pcCfg c) dl (wNow (pcWorld c))"
  have W: "0 \<le> ?W" by (simp add: allowance_def budget_of_def rate_defaults split: option.split)
  obtain x d where x: "get_round L J ctx rq attempt dl c = (x, d)" by fastforce
  from get_round_shape [OF x] consider
      (finish) a r' where "x = Inl r'" "wTrace (pcWorld d) = wTrace (pcWorld c) @ [Sent rq a]" "outcome J a r'"
    | (wait) resp t w where "waited ctx rq attempt dl c resp t w d"
        "x = Inr (retry_deadline (pcCfg c) dl t) \<and> t + max 0 w \<le> wNow (pcWorld d) \<or> (\<exists>e. x = Inl (Inl (Error e)))" by blast
  then show ?case
  proof cases
    case finish
    with 1(2) x W show ?thesis by (simp add: get_loop.simps [of L] call_ok_def)
  next
    case wait
    then have wd: "rsStatus resp = 429" "int attempt < maxRetries_of (pcCfg c)" "wait_ok ctx (t, w)" "pcCfg d = pcCfg c"
        "wTrace (pcWorld d) = wTrace (pcWorld c) @ [Sent rq (Inr resp), Waited t w]" "wNow (pcWorld c) \<le> t"
        "max 0 w \<le> retry_deadline (pcCfg c) dl t - t"
      by (simp_all add: waited_def)
    have W2: "retry_deadline (pcCfg c) dl t - t \<le> ?W"
      using wd(6) by (auto simp: retry_deadline_def allowance_def split: option.split)
    from wait(2) show ?thesis
    proof
      assume "\<exists>e. x = Inl (Inl (Error e))"
      with 1(2) x wd W2 show ?thesis by (auto simp: get_loop.simps [of L] call_ok_def outcome_def)
    next
      assume again: "x = Inr (retry_deadline (pcCfg c) dl t) \<and> t + max 0 w \<le> wNow (pcWorld d)"
      let ?D = "retry_deadline (pcCfg c) dl t"
      have rec: "get_loop L J ctx rq (Suc attempt) (Some ?D) d = (r, c')"
        using 1(2) x again by (simp add: get_loop.simps [of L J ctx rq attempt])
      obtain evs where evs: "wTrace (pcWorld c') = wTrace (pcWorld d) @ evs"
          "call_ok J ctx rq (Suc (nat (maxRetries_of (pcCfg c)) - Suc attempt)) (allowance (pcCfg c) (Some ?D) (wNow (pcWorld d))) r evs"
        using 1(1) [OF x [symmetric]] again rec wd(4) by auto
      have "max 0 w + allowance (pcCfg c) (Some ?D) (wNow (pcWorld d)) \<le> ?W"
        using again wd(7) W2 unfolding allowance_def [of _ "Some ?D"] by (auto simp: max_def)
      from call_ok_more [OF evs(2) wd(1,3) this] evs(1) wd(2,5) show ?thesis
        by (intro exI [of _ "Sent rq (Inr resp) # Waited t w # evs"]) (simp add: Suc_diff_Suc)
    qed
  qed
qed

lemma backoffDelay_bounds:
  assumes "0 < b" and "b * 2 ^ a < 2 ^ 62"
  shows "\<exists>d. backoffDelay a b draw = Inr d \<and> b * 2 ^ a \<le> d \<and> d \<le> 2 * (b * 2 ^ a)"
proof -
  let ?d = "b * 2 ^ a"
  have d: "0 < ?d" using assms(1) by simp
  define j where "j = draw mod (?d + 1)"
  have j: "0 \<le> j" "j \<le> ?d"
    using d pos_mod_sign [of "?d + 1" draw] pos_mod_bound [of "?d + 1" draw] unfolding j_def by linarith+
  have "int64 ?d = ?d" "int64 (?d + 1) = ?d + 1" "int64 (?d + j) = ?d + j"
    using d j assms(2) by (auto intro!: int64_id)
  then show ?thesis using d j by (simp add: backoffDelay_def Int63n_def Let_def j_def)
qed

lemma rateLimitDelay_no_panic:
  assumes "0 < b" and "b * 2 ^ a < 2 ^ 62"
  shows "\<exists>d. rateLimitDelay s a b draw = Inr d"
  using backoffDelay_bounds [OF assms, of draw] by (auto simp: rateLimitDelay_def split: option.split)

lemma is_panic_iff: "is_panic r \<longleftrightarrow> (\<exists>p. r = Inl (Panic p))"
  by (cases r rule: is_panic.cases) auto

text \<open>A library whose answers are responses or errors.\<close>

definition lib_no_panic :: "'s http_lib \<Rightarrow> bool" where
  "lib_no_panic L \<longleftrightarrow> (\<forall>ctx rq w. \<not> is_panic (fst (hDo L ctx rq w)))"

lemma get_round_no_panic:
  assumes L: "lib_no_panic L" and b: "baseDelay_of (pcCfg c) * 2 ^ nat (maxRetries_of (pcCfg c)) < 2 ^ 62"
    and r: "get_round L J ctx rq attempt dl c = (Inl r, c')"
  shows "\<not> is_panic r"
proof -
  obtain a w where w: "do_request L ctx rq (pcWorld c) = (a, w)" by fastforce
  have "a = fst (hDo L ctx rq (pcWorld c))" using w by (auto simp: do_request_def Let_def split: prod.splits)
  then have a: "\<not> is_panic a" using L by (simp add: lib_no_panic_def)
  have b0: "0 < baseDelay_of (pcCfg c)" by (simp add: baseDelay_of_def rate_defaults)
  have d: "rateLimitDelay s attempt (baseDelay_of (pcCfg c)) draw \<noteq> Inl p"
    if "int attempt < maxRetries_of (pcCfg c)" for s draw p
  proof -
    have "(2::int) ^ attempt \<le> 2 ^ nat (maxRetries_of (pcCfg c))" using that by (intro power_increasing) auto
    then have "baseDelay_of (pcCfg c) * 2 ^ attempt \<le> baseDelay_of (pcCfg c) * 2 ^ nat (maxRetries_of (pcCfg c))"
      using b0 by (intro mult_left_mono) auto
    with b have "baseDelay_of (pcCfg c) * 2 ^ attempt < 2 ^ 62" by simp
    from rateLimitDelay_no_panic [OF b0 this, of s draw] show ?thesis by auto
  qed
  have e: "ctx_failure now ctx \<noteq> Panic p" "ctxErr now ctx \<noteq> Some (Panic p)" for now p
    by (auto simp: ctx_failure_def ctxErr_def split: option.splits if_splits)
  have "r \<noteq> Inl (Panic p)" for p
    using r a e(1) [of _ p] e(2) [of _ p] d unfolding get_round_def Let_def w is_panic_iff
    by (auto split: sum.splits if_splits option.splits prod.splits)
  then show ?thesis by (simp add: is_panic_iff)
qed

lemma get_loop_no_panic:
  "get_loop L J ctx rq attempt dl c = (r, c') \<Longrightarrow> lib_no_panic L \<Longrightarrow>
    baseDelay_of (pcCfg c) * 2 ^ nat (maxRetries_of (pcCfg c)) < 2 ^ 62 \<Longrightarrow> \<not> is_panic r"
proof (induction L J ctx rq attempt dl c rule: get_loop.induct)
  case (1 L J ctx rq attempt dl c)
  obtain x d where x: "get_round L J ctx rq attempt dl c = (x, d)" by fastforce
  show ?case
  proof (cases x)
    case (Inl r')
    with 1(2) x have "r' = r" by (simp add: get_loop.simps [of L])
    with get_round_no_panic [OF 1(3,4)] x Inl show ?thesis by blast
  next
    case (Inr D)
    with get_round_again x have "pcCfg d = pcCfg c" by blast
    with 1 x Inr show ?thesis by (simp add: get_loop.simps [of L J ctx rq attempt])
  qed
qed

text \<open>A server for evaluation: it answers from a list of responses, one after the other, each in one second.\<close>

definition list_server :: "http_response list http_lib" where
  "list_server = \<lparr>hDo = (\<lambda>ctx rq w. case wServer w of [] \<Rightarrow> (Inl (Error ''EOF''), [], 1000000000)
       | r # rs \<Rightarrow> (Inr r, rs, 1000000000)),
     hLate = (\<lambda>_. 0), hTimer = (\<lambda>_. True), hRand = (\<lambda>w. wNow w)\<rparr>"

lemma list_server_no_panic: "lib_no_panic list_server"
  by (simp add: lib_no_panic_def list_server_def split: list.split)

definition new_world :: "'s \<Rightarrow> 's world" where
  "new_world srv = \<lparr>wNow = 0, wServer = srv, wTrace = []\<rparr>"

lemma toy_client: "\<exists>c. NewClient toy_eth DefaultConfig w = Inr c"
  by (simp add: NewClient_def toy_eth_def DefaultConfig_def trimPrefix_def hasPrefix_def hex_val_def Let_def)

subsection \<open>Properties\<close>

text \<open>
  C3: a call is bounded. Whatever the server answers and however long it takes, \<open>GetContext\<close> returns
  after at most one request more than the retries it is configured for, all of them the same request;
  the delays it waits add up to no more than its budget; and no wait reaches beyond the deadline of
  the caller's context.
\<close>

theorem get_bounded:
  "\<exists>evs. wTrace (pcWorld (snd (GetContext L J (Some ctx) url params hs c))) = wTrace (pcWorld c) @ evs \<and>
     0 < length (sent evs) \<and> length (sent evs) \<le> nat (maxRetries_of (pcCfg c)) + 1 \<and>
     list_all (\<lambda>x. fst x = get_request url params hs) (sent evs) \<and>
     sum_list (map (\<lambda>td. max 0 (snd td)) (waits evs)) \<le> budget_of (pcCfg c) \<and>
     list_all (wait_ok ctx) (waits evs)"
  using get_loop_trace [of L J ctx "get_request url params hs" 0 None c]
  by (fastforce simp: GetContext_def call_ok_def allowance_def prod_eq_iff)


text \<open>
  C29: no panic with the delays in range. When the longest backoff, the base delay doubled for every
  retry, stays below \<open>2 ^ 62\<close> nanoseconds, as with the defaults, a call does not panic: the argument of
  \<^verbatim>\<open>rand.Int63n\<close> is positive in every round.
\<close>

theorem get_no_panic:
  assumes "lib_no_panic L" and "baseDelay_of (pcCfg c) * 2 ^ nat (maxRetries_of (pcCfg c)) < 2 ^ 62"
  shows "\<not> is_panic (fst (GetContext L J ctx url params hs c))"
  using get_loop_no_panic [OF _ assms] unfolding GetContext_def by (metis prod.collapse)

theorem get_no_panic_witness:
  "\<exists>c. NewClient toy_eth DefaultConfig (new_world []) = Inr c \<and>
     \<not> is_panic (fst (GetContext list_server (doc_lib (\<lambda>_. DNull)) None ''u'' None None c))"
proof -
  obtain c :: "(address, http_response list) PolymarketClient" where c: "NewClient toy_eth DefaultConfig (new_world []) = Inr c"
    using toy_client by blast
  moreover have "pcCfg c = DefaultConfig" using c by (auto simp: NewClient_def Let_def split: sum.splits failure.splits)
  moreover have "baseDelay_of DefaultConfig * 2 ^ nat (maxRetries_of DefaultConfig) < 2 ^ 62" by code_simp
  ultimately show ?thesis using get_no_panic [OF list_server_no_panic, of c "doc_lib (\<lambda>_. DNull)"] by auto
qed

text \<open>
  C30: the delay before a retry. A \<^verbatim>\<open>Retry-After\<close> of up to 9223372036 seconds gives exactly that
  delay, without one the delay lies between the doubled base delay and twice that; one second more than
  the limit wraps around to a negative delay, so that the retry does not wait at all.
\<close>

theorem rate_limit_delay_spec:
  "(0 < n \<longrightarrow> n \<le> 9223372036 \<longrightarrow> rateLimitDelay (int_str n) a b draw = Inr (n * seconds)) \<and>
   (0 < b \<longrightarrow> b * 2 ^ a < 2 ^ 62 \<longrightarrow>
      (\<exists>d. rateLimitDelay [] a b draw = Inr d \<and> b * 2 ^ a \<le> d \<and> d \<le> 2 * (b * 2 ^ a))) \<and>
   (\<exists>d. rateLimitDelay (int_str 9223372037) a b draw = Inr d \<and> d < 0)"
proof -
  have "rateLimitDelay (int_str n) a b draw = Inr (int64 (n * seconds))" if "0 < n" "n < 2 ^ 63" for n
  proof -
    have "int_str n \<noteq> []" by (simp add: int_str_def)
    moreover have "atoi (int_str n) = Some n" using that by (intro atoi_int_str) simp
    ultimately show ?thesis using that by (simp add: rateLimitDelay_def)
  qed
  from this [of n] this [of 9223372037] show ?thesis
    using backoffDelay_bounds [of b a draw] by (auto simp: rateLimitDelay_def seconds_def int64_def)
qed

theorem rate_limit_delay_witness:
  "rateLimitDelay (int_str 5) 0 1 0 = Inr (5 * seconds)"
  using rate_limit_delay_spec [of 5 0 1 0] by simp

end
