(* ===== verification/OrderHelper.thy ===== *)
theory OrderHelper
  imports EthLib
begin

text \<open>
  \<^verbatim>\<open>orders/order_helper.go\<close>: the amounts of limit and market orders, the arguments of order creation
  in base units, the wire form of an order, and the market price of an order book.
\<close>

subsection \<open>Raw amounts\<close>

text \<open>
  The common tail of the four branches: an amount with more places than allowed is rounded up at
  \<open>up\<close> places and, if that is still too long, down at \<open>amount\<close> places.
\<close>

definition fitAmount :: "'d decimal_lib \<Rightarrow> 'd \<Rightarrow> int \<Rightarrow> int \<Rightarrow> 'd result" where
  "fitAmount D amt amount up = bind_res (DecimalPlaces D (RDec amt)) (\<lambda>k.
     if amount < k then
       bind_res (RoundUp D (RDec amt) up) (\<lambda>amt'.
       bind_res (DecimalPlaces D (RDec amt')) (\<lambda>k'.
         if amount < k' then RoundDown D (RDec amt') amount else Inr amt'))
     else Inr amt)"

definition GetOrderRawAmounts ::
  "'d decimal_lib \<Rightarrow> string \<Rightarrow> float64 \<Rightarrow> float64 \<Rightarrow> RoundConfig \<Rightarrow> (string \<times> string \<times> string) result" where
  "GetOrderRawAmounts D side sz price rc =
     bind_res (RoundNormal D (RFloat price) (rcPrice rc)) (\<lambda>rawPrice.
     if side = BUY then
       bind_res (RoundDown D (RFloat sz) (rcSize rc)) (\<lambda>rawTakerAmt.
       bind_res (fitAmount D (dMul D rawTakerAmt rawPrice) (rcAmount rc) (rcAmount rc + 4)) (\<lambda>rawMakerAmt.
       Inr (BUY, dString D (dTruncate D rawMakerAmt (int32 (rcAmount rc))),
                 dString D (dTruncate D rawTakerAmt (int32 (rcSize rc))))))
     else
       bind_res (RoundDown D (RFloat sz) (rcSize rc)) (\<lambda>rawMakerAmt.
       bind_res (fitAmount D (dMul D rawMakerAmt rawPrice) (rcAmount rc) (rcAmount rc + 4)) (\<lambda>rawTakerAmt.
       Inr (SELL, dString D (dTruncate D rawMakerAmt (int32 (rcSize rc))),
                  dString D (dTruncate D rawTakerAmt (int32 (rcAmount rc)))))))"

definition GetMarketOrderRawAmounts ::
  "'d decimal_lib \<Rightarrow> string \<Rightarrow> float64 \<Rightarrow> float64 \<Rightarrow> RoundConfig \<Rightarrow> (string \<times> string \<times> string) result" where
  "GetMarketOrderRawAmounts D side amount price rc =
     bind_res (RoundDown D (RFloat price) (rcPrice rc)) (\<lambda>rawPrice.
     if side = BUY then
       bind_res (RoundDown D (RFloat amount) (rcSize rc)) (\<lambda>rawMakerAmt.
       bind_res (dDiv D rawMakerAmt rawPrice) (\<lambda>q.
       bind_res (fitAmount D q (rcAmount rc) (rcAmount rc + 4)) (\<lambda>rawTakerAmt.
       Inr (BUY, dString D (dTruncate D rawMakerAmt (int32 (rcSize rc))),
                 dString D (dTruncate D rawTakerAmt (int32 (rcAmount rc)))))))
     else
       bind_res (RoundDown D (RFloat amount) (rcSize rc)) (\<lambda>rawMakerAmt.
       bind_res (fitAmount D (dMul D rawMakerAmt rawPrice) (rcAmount rc) (rcAmount rc)) (\<lambda>rawTakerAmt.
       Inr (SELL, dString D (dTruncate D rawMakerAmt (int32 (rcSize rc))),
                  dString D (dTruncate D rawTakerAmt (int32 (rcAmount rc)))))))"

subsection \<open>Order creation arguments\<close>

text \<open>\<open>now\<close> is the reading of \<^verbatim>\<open>time.Now().UnixMilli()\<close>.\<close>

definition BuildOrderCreationArgs ::
  "'d decimal_lib \<Rightarrow> int \<Rightarrow> string \<Rightarrow> string \<Rightarrow> int \<Rightarrow> UserOrder \<Rightarrow> RoundConfig \<Rightarrow> OrderData result" where
  "BuildOrderCreationArgs D now signer maker signatureType userOrder rc =
     bind_res (GetOrderRawAmounts D (uoSide userOrder) (uoSize userOrder) (uoPrice userOrder) rc)
       (\<lambda>(side, rawMakerAmt, rawTakerAmt).
     bind_res (ParseUnits D rawMakerAmt CollateralTokenDecimals) (\<lambda>makerAmount.
     bind_res (ParseUnits D rawTakerAmt CollateralTokenDecimals) (\<lambda>takerAmount.
     Inr \<lparr>odMaker = maker, odTokenId = uoTokenID userOrder,
          odMakerAmount = int_str makerAmount, odTakerAmount = int_str takerAmount,
          odSide = side, odSigner = Some signer, odSignatureType = Some signatureType,
          odTimestamp = Some (int_str now), odMetadata = uoMetadata userOrder,
          odBuilder = uoBuilderCode userOrder, odExpiration = uoExpiration userOrder\<rparr>)))"

definition BuildMarketOrderCreationArgs ::
  "'d decimal_lib \<Rightarrow> int \<Rightarrow> string \<Rightarrow> string \<Rightarrow> int \<Rightarrow> UserMarketOrder \<Rightarrow> RoundConfig \<Rightarrow> OrderData result" where
  "BuildMarketOrderCreationArgs D now signer maker signatureType umo rc =
     (let inputPrice = (case umPrice umo of Some p \<Rightarrow> p | None \<Rightarrow> Fin 1) in
     bind_res (GetMarketOrderRawAmounts D (umSide umo) (umAmount umo) inputPrice rc)
       (\<lambda>(side, rawMakerAmt, rawTakerAmt).
     bind_res (ParseUnits D rawMakerAmt CollateralTokenDecimals) (\<lambda>makerAmount.
     bind_res (ParseUnits D rawTakerAmt CollateralTokenDecimals) (\<lambda>takerAmount.
     Inr \<lparr>odMaker = maker, odTokenId = umTokenID umo,
          odMakerAmount = int_str makerAmount, odTakerAmount = int_str takerAmount,
          odSide = side, odSigner = Some signer, odSignatureType = Some signatureType,
          odTimestamp = Some (int_str now), odMetadata = umMetadata umo,
          odBuilder = umBuilderCode umo, odExpiration = Some ''0''\<rparr>))))"

subsection \<open>The wire form\<close>

definition OrderToDTO ::
  "('k, 'p) eth_lib \<Rightarrow> SignedOrder \<Rightarrow> string \<Rightarrow> string \<Rightarrow> bool \<Rightarrow> string \<Rightarrow> PostOrderDTO" where
  "OrderToDTO E order owner orderType deferExec expiration =
     \<lparr>poDeferExec = deferExec,
      poOrder = \<lparr>dtSalt = int64 (orSalt order),
        dtMaker = addressHex E (orMaker order),
        dtSigner = addressHex E (orSigner order),
        dtTokenId = int_str (orTokenId order),
        dtMakerAmount = int_str (orMakerAmount order),
        dtTakerAmount = int_str (orTakerAmount order),
        dtSide = (if int64 (orSide order) = 0 then BUY else SELL),
        dtSignatureType = int64 (orSignatureType order),
        dtTimestamp = int_str (orTimestamp order),
        dtExpiration = expiration,
        dtMetadata = hashHex E (orMetadata order),
        dtBuilder = hashHex E (orBuilder order),
        dtSignature = ''0x'' @ hex_encode (soSignature order)\<rparr>,
      poOwner = owner,
      poOrderType = orderType\<rparr>"

subsection \<open>Market prices\<close>

text \<open>
  The loops run over the book from its last entry to its first: the argument is the reversed book,
  \<open>acc\<close> (the source's \<^verbatim>\<open>sum\<close>) the amount matched so far. \<open>None\<close> is the loop running out.
\<close>

fun buy_loop :: "Book list \<Rightarrow> float64 \<Rightarrow> float64 \<Rightarrow> float64 option" where
  "buy_loop [] acc amountToMatch = None"
| "buy_loop (p # ps) acc amountToMatch = (let acc' = acc + bkSize p * bkPrice p in
     if amountToMatch \<le> acc' then Some (bkPrice p) else buy_loop ps acc' amountToMatch)"

fun sell_loop :: "Book list \<Rightarrow> float64 \<Rightarrow> float64 \<Rightarrow> float64 option" where
  "sell_loop [] acc amountToMatch = None"
| "sell_loop (p # ps) acc amountToMatch = (let acc' = acc + bkSize p in
     if amountToMatch \<le> acc' then Some (bkPrice p) else sell_loop ps acc' amountToMatch)"

definition CalculateBuyMarketPrice :: "Book list \<Rightarrow> float64 \<Rightarrow> string \<Rightarrow> float64 result" where
  "CalculateBuyMarketPrice books amountToMatch orderType =
     (case books of [] \<Rightarrow> Inl (Error ''no match'')
      | b0 # _ \<Rightarrow> (case buy_loop (rev books) (Fin 0) amountToMatch of
            Some p \<Rightarrow> Inr p
          | None \<Rightarrow> if orderType = MARKET_FOK then Inl (Error ''no match'') else Inr (bkPrice b0)))"

definition CalculateSellMarketPrice :: "Book list \<Rightarrow> float64 \<Rightarrow> string \<Rightarrow> float64 result" where
  "CalculateSellMarketPrice books amountToMatch orderType =
     (case books of [] \<Rightarrow> Inl (Error ''no match'')
      | b0 # _ \<Rightarrow> (case sell_loop (rev books) (Fin 0) amountToMatch of
            Some p \<Rightarrow> Inr p
          | None \<Rightarrow> if orderType = MARKET_FOK then Inl (Error ''no match'') else Inr (bkPrice b0)))"

subsection \<open>Amounts: facts from the decimal laws\<close>

context decimal_laws
begin

lemma fitAmount_exact:
  assumes "on_grid (val d) amount" "0 \<le> amount" "amount \<le> up" "up \<le> 1000"
  shows "\<exists>r. fitAmount D d amount up = Inr r \<and> val r = val d"
proof -
  obtain k where k: "DecimalPlaces D (RDec d) = Inr k" using DecimalPlaces_total by blast
  have up: "on_grid (val d) up" using assms on_grid_mono by blast
  have "on_grid (val d) (up + 16)" using up on_grid_mono by simp
  then obtain r where r: "RoundUp D (RDec d) up = Inr r" "val r = val d"
    using assms RoundUp_val [of up d] up by (auto simp: on_grid_at_places)
  obtain k' where k': "DecimalPlaces D (RDec r) = Inr k'" using DecimalPlaces_total by blast
  have "on_grid (val r) (amount + 16)" using assms(1) r(2) on_grid_mono by simp
  then obtain s where s: "RoundDown D (RDec r) amount = Inr s" "val s = val d"
    using assms RoundDown_val [of amount r] r(2) by (auto simp: on_grid_at_places)
  show ?thesis using k r k' s by (auto simp: fitAmount_def)
qed

lemma truncate_exact:
  assumes "on_grid (val d) n" "0 \<le> n" "n \<le> 1000"
  shows "val (dTruncate D d (int32 n)) = val d"
  using assms by (simp add: truncate_val on_grid_at_places)

text \<open>
  The amounts of a limit order: with \<open>p\<close> the price rounded to the tick and \<open>s\<close> the size rounded
  down, the two amounts are exactly \<open>s\<close> and \<open>p * s\<close>.
\<close>

lemma GetOrderRawAmounts_vals:
  assumes f: "is_f64 (Fin sz)" "is_f64 (Fin price)"
    and rc: "rcAmount rc = rcPrice rc + rcSize rc" "0 \<le> rcPrice rc" "0 \<le> rcSize rc" "rcAmount rc \<le> 900"
  shows "\<exists>p s m t. RoundNormal D (RFloat (Fin price)) (rcPrice rc) = Inr p \<and>
      RoundDown D (RFloat (Fin sz)) (rcSize rc) = Inr s \<and>
      on_grid (val p) (rcPrice rc) \<and> on_grid (val s) (rcSize rc) \<and>
      GetOrderRawAmounts D side (Fin sz) (Fin price) rc =
        Inr (if side = BUY then BUY else SELL, dString D m, dString D t) \<and>
      (if side = BUY then val m = val s * val p \<and> val t = val s
       else val m = val s \<and> val t = val s * val p)"
proof -
  obtain dp where dp: "dNewFromFloat D (Fin price) = Inr dp" using new_from_float f by blast
  obtain ds where ds: "dNewFromFloat D (Fin sz) = Inr ds" using new_from_float f by blast
  obtain p where p: "RoundNormal D (RFloat (Fin price)) (rcPrice rc) = Inr p"
    "on_grid (val p) (rcPrice rc)"
    using RoundNormal_grid [of "rcPrice rc" dp] rc dp by (auto simp: Round_float)
  obtain s where s: "RoundDown D (RFloat (Fin sz)) (rcSize rc) = Inr s" "on_grid (val s) (rcSize rc)"
    using RoundDown_grid [of "rcSize rc" ds] rc ds by (auto simp: Round_float)
  have g: "on_grid (val (dMul D s p)) (rcAmount rc)"
    using on_grid_mult [OF s(2) p(2)] rc(1) by (simp add: mul_val add.commute)
  obtain r where r: "fitAmount D (dMul D s p) (rcAmount rc) (rcAmount rc + 4) = Inr r"
    "val r = val s * val p"
    using fitAmount_exact [OF g, of "rcAmount rc + 4"] rc by (auto simp: mul_val)
  have tr: "val (dTruncate D r (int32 (rcAmount rc))) = val s * val p"
    using truncate_exact [of r "rcAmount rc"] g r(2) rc by (simp add: mul_val)
  have ts: "val (dTruncate D s (int32 (rcSize rc))) = val s"
    using truncate_exact [OF s(2)] rc by simp
  show ?thesis
    using p s r tr ts by (cases "side = BUY") (force simp: GetOrderRawAmounts_def)+
qed

text \<open>An amount that had to be cut is at most one unit of its last place short, and at most one of the
  finer rounding's too large.\<close>

lemma fitAmount_bounds:
  assumes g: "on_grid (val d) (amount + 16)" and a: "0 \<le> amount" "amount \<le> up" "up \<le> amount + 16" "up \<le> 900"
  shows "\<exists>r. fitAmount D d amount up = Inr r \<and> on_grid (val r) amount \<and>
    val d - p10 (- amount) < val r \<and> val r < val d + p10 (- up)"
proof -
  obtain k where k: "DecimalPlaces D (RDec d) = Inr k" using DecimalPlaces_total by blast
  show ?thesis
  proof (cases "amount < k")
    case False
    then have "on_grid (val d) amount" using DecimalPlaces_grid [OF k] by simp
    with False k show ?thesis by (simp add: fitAmount_def)
  next
    case True
    have "on_grid (val d) (up + 16)" using g a(2) on_grid_mono by simp
    then obtain u where u: "RoundUp D (RDec d) up = Inr u" "val u = at_places ceiling (val d) up"
      using RoundUp_val [of up d] a by auto
    obtain k' where k': "DecimalPlaces D (RDec u) = Inr k'" using DecimalPlaces_total by blast
    note ub = at_places_ceiling_bounds [of "val d" up, folded u(2)]
    show ?thesis
    proof (cases "amount < k'")
      case False
      then have "on_grid (val u) amount" using DecimalPlaces_grid [OF k'] by simp
      moreover have "val d - p10 (- amount) < val u" using ub(1) p10_pos [of "- amount"] by linarith
      ultimately show ?thesis using True False k u(1) k' ub by (simp add: fitAmount_def)
    next
      case long: True
      have "on_grid (val u) (amount + 16)" using at_places_on_grid [of ceiling "val d" up] u(2) a(3) on_grid_mono by metis
      then obtain s where s: "RoundDown D (RDec u) amount = Inr s" "val s = at_places floor (val u) amount"
        using RoundDown_val [of amount u] a by auto
      note sb = at_places_floor_le [of "val u" amount, folded s(2)] at_places_floor_gt [of "val u" amount, folded s(2)]
      have "on_grid (val s) amount" by (simp add: s(2))
      with True long k u(1) k' s(1) ub sb show ?thesis by (simp add: fitAmount_def)
    qed
  qed
qed

text \<open>
  The amounts of a market order: a sale gives exactly the price times the shares, a purchase the quotient,
  cut to the places of the tick.
\<close>

lemma GetMarketOrderRawAmounts_vals:
  assumes f: "is_f64 (Fin amt)"
    and p: "RoundDown D (RFloat (Fin price)) (rcPrice rc) = Inr p" "on_grid (val p) (rcPrice rc)" "0 < val p"
    and rc: "rcAmount rc = rcPrice rc + rcSize rc" "0 \<le> rcPrice rc" "0 \<le> rcSize rc" "rcAmount rc \<le> 12"
  shows "\<exists>a m t. RoundDown D (RFloat (Fin amt)) (rcSize rc) = Inr a \<and> on_grid (val a) (rcSize rc) \<and>
      GetMarketOrderRawAmounts D side (Fin amt) (Fin price) rc =
        Inr (if side = BUY then BUY else SELL, dString D m, dString D t) \<and>
      val m = val a \<and> on_grid (val t) (rcAmount rc) \<and>
      (if side = BUY then val a / val p - p10 (- rcAmount rc) - p10 (- 16) < val t \<and>
         val t < val a / val p + p10 (- (rcAmount rc + 4)) + p10 (- 16)
       else val t = val a * val p)"
proof -
  obtain da where da: "dNewFromFloat D (Fin amt) = Inr da" using new_from_float f by blast
  obtain a where a: "RoundDown D (RFloat (Fin amt)) (rcSize rc) = Inr a" "on_grid (val a) (rcSize rc)"
    using RoundDown_grid [of "rcSize rc" da] rc da by (auto simp: Round_float)
  have ta: "val (dTruncate D a (int32 (rcSize rc))) = val a" using truncate_exact [OF a(2)] rc by simp
  show ?thesis
  proof (cases "side = BUY")
    case False
    have g: "on_grid (val (dMul D a p)) (rcAmount rc)"
      using on_grid_mult [OF a(2) p(2)] rc(1) by (simp add: mul_val add.commute)
    obtain r where r: "fitAmount D (dMul D a p) (rcAmount rc) (rcAmount rc) = Inr r" "val r = val a * val p"
      using fitAmount_exact [OF g, of "rcAmount rc"] rc by (auto simp: mul_val)
    have "val (dTruncate D r (int32 (rcAmount rc))) = val a * val p"
      using truncate_exact [of r "rcAmount rc"] g r(2) rc by (simp add: mul_val)
    then show ?thesis
      by - (rule exI [of _ a], rule exI [of _ "dTruncate D a (int32 (rcSize rc))"],
        rule exI [of _ "dTruncate D r (int32 (rcAmount rc))"],
        use False a p(1) r ta g in \<open>simp add: GetMarketOrderRawAmounts_def mul_val\<close>)
  next
    case True
    obtain q where q: "dDiv D a p = Inr q" "val q = at_places round_away (val a / val p) 16"
      using div_val [of p a] p(3) by auto
    have "on_grid (val q) (rcAmount rc + 16)"
      unfolding q(2) by (rule on_grid_mono [OF at_places_on_grid]) (use rc in simp)
    from fitAmount_bounds [OF this, of "rcAmount rc + 4"] rc
    obtain r where r: "fitAmount D q (rcAmount rc) (rcAmount rc + 4) = Inr r" "on_grid (val r) (rcAmount rc)"
      "val q - p10 (- rcAmount rc) < val r" "val r < val q + p10 (- (rcAmount rc + 4))" by auto
    have tr: "val (dTruncate D r (int32 (rcAmount rc))) = val r" using truncate_exact [OF r(2)] rc by simp
    have "\<bar>val q - val a / val p\<bar> < p10 (- 16)"
    proof -
      have "\<bar>val q - val a / val p\<bar> \<le> p10 (- 16) / 2" unfolding q(2) by (rule at_places_round_away_close)
      moreover have "0 < p10 (- 16)" by simp
      ultimately show ?thesis by linarith
    qed
    then show ?thesis
      by - (rule exI [of _ a], rule exI [of _ "dTruncate D a (int32 (rcSize rc))"],
        rule exI [of _ "dTruncate D r (int32 (rcAmount rc))"],
        use True a p(1) q(1) r ta tr in \<open>simp add: GetMarketOrderRawAmounts_def abs_less_iff\<close>)
  qed
qed

end

subsection \<open>Walking an order book\<close>

text \<open>
  What both price loops promise: \<open>loop\<close> adds up the weights of the levels and stops at the first
  level where the running total reaches the amount.
\<close>

locale book_walk =
  fixes loop :: "Book list \<Rightarrow> float64 \<Rightarrow> float64 \<Rightarrow> float64 option"
    and weight :: "Book \<Rightarrow> float64"
  assumes loop_Nil: "loop [] acc a = None"
    and loop_Cons: "loop (b # bs) acc a =
      (if a \<le> acc + weight b then Some (bkPrice b) else loop bs (acc + weight b) a)"
begin

text \<open>The total of the \<open>k\<close> best levels: the API lists the best price last.\<close>

definition depth :: "Book list \<Rightarrow> nat \<Rightarrow> float64" where
  "depth books k = foldl (\<lambda>c b. c + weight b) (Fin 0) (take k (rev books))"

lemma loop_Some:
  "loop bs acc a = Some x \<longleftrightarrow> (\<exists>i < length bs. x = bkPrice (bs ! i) \<and>
     a \<le> foldl (\<lambda>c b. c + weight b) acc (take (Suc i) bs) \<and>
     (\<forall>j < i. \<not> a \<le> foldl (\<lambda>c b. c + weight b) acc (take (Suc j) bs)))"
  by (induction bs arbitrary: acc)
    (auto simp: loop_Nil loop_Cons Ex_less_Suc2 All_less_Suc2)

lemma loop_None:
  "loop bs acc a = None \<longleftrightarrow>
     (\<forall>i < length bs. \<not> a \<le> foldl (\<lambda>c b. c + weight b) acc (take (Suc i) bs))"
  by (induction bs arbitrary: acc) (auto simp: loop_Nil loop_Cons All_less_Suc2)

lemma loop_rev_Some:
  "loop (rev books) (Fin 0) a = Some x \<longleftrightarrow> (\<exists>i < length books.
     x = bkPrice (books ! (length books - Suc i)) \<and> a \<le> depth books (Suc i) \<and>
     (\<forall>j < i. \<not> a \<le> depth books (Suc j)))"
  unfolding loop_Some depth_def length_rev by (simp only: rev_nth cong: conj_cong)

lemma loop_rev_None:
  "loop (rev books) (Fin 0) a = None \<longleftrightarrow> (\<forall>i < length books. \<not> a \<le> depth books (Suc i))"
  unfolding loop_None depth_def length_rev ..

text \<open>The price of the first covering level, or the fallback when no level covers the amount.\<close>

lemma market_price:
  "(case books of [] \<Rightarrow> Inl e
      | b0 # _ \<Rightarrow> (case loop (rev books) (Fin 0) a of
            Some p \<Rightarrow> Inr p
          | None \<Rightarrow> if fok then Inl e else Inr (bkPrice b0))) = Inr x \<longleftrightarrow>
   (\<exists>i < length books. x = bkPrice (books ! (length books - Suc i)) \<and>
      a \<le> depth books (Suc i) \<and> (\<forall>j < i. \<not> a \<le> depth books (Suc j))) \<or>
   (books \<noteq> [] \<and> \<not> fok \<and> x = bkPrice (books ! 0) \<and>
      (\<forall>i < length books. \<not> a \<le> depth books (Suc i)))"
  unfolding loop_rev_Some [symmetric] loop_rev_None [symmetric]
  by (cases books; cases "loop (rev books) (Fin 0) a") (auto simp: loop_Nil)

end

interpretation buy: book_walk buy_loop "\<lambda>b. bkSize b * bkPrice b"
  by unfold_locales (simp_all add: Let_def)

interpretation sell: book_walk sell_loop bkSize
  by unfold_locales (simp_all add: Let_def)

text \<open>The amount reached, in collateral for a buy and in shares for a sell.\<close>

definition buy_depth :: "Book list \<Rightarrow> nat \<Rightarrow> float64" where
  "buy_depth books k = foldl (\<lambda>c b. c + bkSize b * bkPrice b) (Fin 0) (take k (rev books))"

definition sell_depth :: "Book list \<Rightarrow> nat \<Rightarrow> float64" where
  "sell_depth books k = foldl (\<lambda>c b. c + bkSize b) (Fin 0) (take k (rev books))"

lemma depth_eq: "buy.depth = buy_depth" "sell.depth = sell_depth"
  by (simp_all add: fun_eq_iff buy.depth_def buy_depth_def sell.depth_def sell_depth_def)

lemma limit_order_amounts:
  assumes D: "decimal_laws D val"
    and f: "is_f64 (Fin sz)" "is_f64 (Fin price)"
    and uo: "uoSize uo = Fin sz" "uoPrice uo = Fin price"
    and rc: "GetRoundConfig (tick_string t) = Inr rc"
  shows "\<exists>p s M T od.
    RoundNormal D (RFloat (Fin price)) (int (tick_places t)) = Inr p \<and>
    RoundDown D (RFloat (Fin sz)) 2 = Inr s \<and>
    on_grid (val p) (int (tick_places t)) \<and> on_grid (val s) 2 \<and>
    BuildOrderCreationArgs D now signer maker sigType uo rc = Inr od \<and>
    odMakerAmount od = int_str M \<and> odTakerAmount od = int_str T \<and>
    (if uoSide uo = BUY then odSide od = BUY \<and> of_int T = val s * 10 ^ 6 \<and> of_int M = val p * of_int T
     else odSide od = SELL \<and> of_int M = val s * 10 ^ 6 \<and> of_int T = val p * of_int M)"
proof -
  have rc': "rc = \<lparr>rcPrice = int (tick_places t), rcSize = 2, rcAmount = int (tick_places t) + 2\<rparr>"
    using rc by (simp add: GetRoundConfig_tick)
  have tp: "int (tick_places t) \<le> 4" by (cases t) simp_all
  obtain p s m k where ps: "RoundNormal D (RFloat (Fin price)) (int (tick_places t)) = Inr p"
      "RoundDown D (RFloat (Fin sz)) 2 = Inr s"
      "on_grid (val p) (int (tick_places t))" "on_grid (val s) 2"
      "GetOrderRawAmounts D (uoSide uo) (Fin sz) (Fin price) rc =
         Inr (if uoSide uo = BUY then BUY else SELL, dString D m, dString D k)"
      "if uoSide uo = BUY then val m = val s * val p \<and> val k = val s
       else val m = val s \<and> val k = val s * val p"
    using decimal_laws.GetOrderRawAmounts_vals [OF D f, of rc "uoSide uo"] rc' tp by auto
  have sp: "on_grid (val s * val p) 6"
    using on_grid_mono [OF on_grid_mult [OF ps(4,3)], of 6] tp by simp
  have s6: "on_grid (val s) 6" using on_grid_mono [OF ps(4)] by simp
  obtain M where M: "ParseUnits D (dString D m) 6 = Inr M" "of_int M = val m * p10 6"
    using decimal_laws.ParseUnits_exact [OF D, of m 6] sp s6 ps(6) by (auto split: if_splits)
  obtain T where T: "ParseUnits D (dString D k) 6 = Inr T" "of_int T = val k * p10 6"
    using decimal_laws.ParseUnits_exact [OF D, of k 6] sp s6 ps(6) by (auto split: if_splits)
  have p6: "p10 6 = 10 ^ 6" by (simp add: p10_int)
  have vals: "if uoSide uo = BUY then of_int T = val s * 10 ^ 6 \<and> of_int M = val p * of_int T
     else of_int M = val s * 10 ^ 6 \<and> of_int T = val p * of_int M"
    using ps(6) M(2) T(2) p6 by (auto split: if_splits)
  define od where "od = projr (BuildOrderCreationArgs D now signer maker sigType uo rc)"
  have "BuildOrderCreationArgs D now signer maker sigType uo rc = Inr od"
    "odMakerAmount od = int_str M" "odTakerAmount od = int_str T"
    "odSide od = (if uoSide uo = BUY then BUY else SELL)"
    using ps(5) M(1) T(1) uo
    by (simp_all add: od_def BuildOrderCreationArgs_def CollateralTokenDecimals_def)
  then show ?thesis using ps(1-4) vals by (intro exI conjI) (assumption | simp)+
qed

lemma market_order_args:
  assumes D: "decimal_laws D val"
    and f: "is_f64 (Fin amt)" "is_f64 (Fin price)" and um: "umAmount um = Fin amt" "umPrice um = Some (Fin price)"
    and rc: "GetRoundConfig (tick_string t) = Inr rc"
    and p: "RoundDown D (RFloat (Fin price)) (int (tick_places t)) = Inr p" "0 < val p"
  shows "\<exists>a M T od. RoundDown D (RFloat (Fin amt)) 2 = Inr a \<and>
    BuildMarketOrderCreationArgs D now signer maker sigType um rc = Inr od \<and>
    odMakerAmount od = int_str M \<and> odTakerAmount od = int_str T \<and> of_int M = val a * 10 ^ 6 \<and>
    (if umSide um = BUY then odSide od = BUY \<and> of_int T < of_int M / val p + 1 \<and>
       of_int M / val p - 10 ^ (4 - tick_places t) - 1 < of_int T
     else odSide od = SELL \<and> of_int T = val p * of_int M)"
proof -
  have rc': "rc = \<lparr>rcPrice = int (tick_places t), rcSize = 2, rcAmount = int (tick_places t) + 2\<rparr>"
    using rc by (simp add: GetRoundConfig_tick)
  have tp: "1 \<le> tick_places t" "tick_places t \<le> 4" by (cases t; simp)+
  obtain dp where dp: "dNewFromFloat D (Fin price) = Inr dp" using decimal_laws.new_from_float [OF D] f by blast
  have pg: "on_grid (val p) (int (tick_places t))"
    using decimal_laws.RoundDown_grid [OF D, of "int (tick_places t)" dp] p(1) tp dp
    by (auto simp: decimal_laws.Round_float [OF D])
  have prem: "rcAmount rc = rcPrice rc + rcSize rc" "0 \<le> rcPrice rc" "0 \<le> rcSize rc" "rcAmount rc \<le> 12"
    and r: "rcPrice rc = int (tick_places t)" "rcSize rc = 2" "rcAmount rc = int (tick_places t) + 2"
    using rc' tp by simp_all
  obtain a m k where a: "RoundDown D (RFloat (Fin amt)) 2 = Inr a" "on_grid (val a) 2"
      "GetMarketOrderRawAmounts D (umSide um) (Fin amt) (Fin price) rc =
        Inr (if umSide um = BUY then BUY else SELL, dString D m, dString D k)"
      "val m = val a" "on_grid (val k) (int (tick_places t) + 2)"
      "if umSide um = BUY then val a / val p - p10 (- (int (tick_places t) + 2)) - p10 (- 16) < val k \<and>
         val k < val a / val p + p10 (- (int (tick_places t) + 2 + 4)) + p10 (- 16)
       else val k = val a * val p"
    using decimal_laws.GetMarketOrderRawAmounts_vals [OF D f(1) p(1) [folded r(1)] pg [folded r(1)] p(2) prem, of "umSide um"]
    unfolding r by blast
  obtain M where M: "ParseUnits D (dString D m) 6 = Inr M" "of_int M = val a * p10 6"
    using decimal_laws.ParseUnits_exact [OF D, of m 6] a(2,4) on_grid_mono [of "val a" 2 6] by auto
  obtain T where T: "ParseUnits D (dString D k) 6 = Inr T" "of_int T = val k * p10 6"
    using decimal_laws.ParseUnits_exact [OF D, of k 6] a(5) on_grid_mono [of "val k" "int (tick_places t) + 2" 6] tp by auto
  have p6: "p10 6 = 10 ^ 6" by (simp add: p10_int)
  define od where "od = projr (BuildMarketOrderCreationArgs D now signer maker sigType um rc)"
  have od: "BuildMarketOrderCreationArgs D now signer maker sigType um rc = Inr od"
    "odMakerAmount od = int_str M" "odTakerAmount od = int_str T" "odSide od = (if umSide um = BUY then BUY else SELL)"
    using a(3) M(1) T(1) um
    by (simp_all add: od_def BuildMarketOrderCreationArgs_def CollateralTokenDecimals_def Let_def)
  have e: "p10 (- (int (tick_places t) + 2)) * 10 ^ 6 = 10 ^ (4 - tick_places t)"
    "p10 (- (int (tick_places t) + 2 + 4)) * 10 ^ 6 + p10 (- 16) * 10 ^ 6 < 1" "p10 (- 16) * 10 ^ 6 < 1"
    by (cases t; simp add: p10_def)+
  have "umSide um = BUY \<Longrightarrow> of_int T < of_int M / val p + 1 \<and> of_int M / val p - 10 ^ (4 - tick_places t) - 1 < of_int T"
  proof -
    assume "umSide um = BUY"
    with a(6) have l: "val a / val p - p10 (- (int (tick_places t) + 2)) - p10 (- 16) < val k"
      and u: "val k < val a / val p + p10 (- (int (tick_places t) + 2 + 4)) + p10 (- 16)" by simp_all
    have "(val a / val p - p10 (- (int (tick_places t) + 2)) - p10 (- 16)) * 10 ^ 6 < val k * 10 ^ 6"
      using l by (rule mult_strict_right_mono) simp
    moreover have "val k * 10 ^ 6 < (val a / val p + p10 (- (int (tick_places t) + 2 + 4)) + p10 (- 16)) * 10 ^ 6"
      using u by (rule mult_strict_right_mono) simp
    ultimately show ?thesis using e M(2) T(2) p6 by (simp add: algebra_simps)
  qed
  then show ?thesis using a(1) od M(2) T(2) a(6) p6 by (intro exI conjI) (assumption | simp)+
qed

subsection \<open>Properties\<close>

text \<open>
  C1: the arguments of a limit order are exact. For every tick and every pair of finite doubles the
  order is built, the price is rounded to the tick and the size down to two places, and the two
  amounts in base units are exactly the size and the size times that price: no rounding is lost
  between the price quoted and the ratio of the amounts signed.
\<close>

theorem limit_order_amounts_exact:
  assumes D: "decimal_laws D val"
    and f: "is_f64 (Fin sz)" "is_f64 (Fin price)"
    and uo: "uoSize uo = Fin sz" "uoPrice uo = Fin price"
    and rc: "GetRoundConfig (tick_string t) = Inr rc"
  shows "\<exists>p s M T od.
    RoundNormal D (RFloat (Fin price)) (int (tick_places t)) = Inr p \<and>
    RoundDown D (RFloat (Fin sz)) 2 = Inr s \<and>
    on_grid (val p) (int (tick_places t)) \<and> on_grid (val s) 2 \<and>
    BuildOrderCreationArgs D now signer maker sigType uo rc = Inr od \<and>
    odMakerAmount od = int_str M \<and> odTakerAmount od = int_str T \<and>
    (if uoSide uo = BUY then odSide od = BUY \<and> of_int T = val s * 10 ^ 6 \<and> of_int M = val p * of_int T
     else odSide od = SELL \<and> of_int M = val s * 10 ^ 6 \<and> of_int T = val p * of_int M)"
  by (rule limit_order_amounts [OF assms])

theorem limit_order_amounts_exact_witness:
  "let uo = \<lparr>uoTokenID = ''7'', uoPrice = Fin (1 / 2), uoSize = Fin (135 / 8), uoSide = BUY,
       uoMetadata = None, uoBuilderCode = None, uoExpiration = None\<rparr>;
     rc = \<lparr>rcPrice = 2, rcSize = 2, rcAmount = 4\<rparr>
   in (\<exists>p s M T od. RoundDown ce_lib (RFloat (Fin (135 / 8))) 2 = Inr s \<and>
        RoundNormal ce_lib (RFloat (Fin (1 / 2))) 2 = Inr p \<and>
        BuildOrderCreationArgs ce_lib 1700000000000 ''signer'' ''maker'' 2 uo rc = Inr od \<and>
        odMakerAmount od = int_str M \<and> odTakerAmount od = int_str T \<and>
        of_int T = ce_val s * 10 ^ 6 \<and> of_int M = ce_val p * of_int T)"
proof -
  have "is_f64 (Fin (135 / 8))" "is_f64 (Fin (1 / 2))" by code_simp+
  moreover have "GetRoundConfig (tick_string Tick001) = Inr \<lparr>rcPrice = 2, rcSize = 2, rcAmount = 4\<rparr>"
    using GetRoundConfig_tick [of Tick001] by simp
  ultimately show ?thesis
    using limit_order_amounts_exact [OF ce.decimal_laws_axioms, of "135 / 8" "1 / 2"
      "\<lparr>uoTokenID = ''7'', uoPrice = Fin (1 / 2), uoSize = Fin (135 / 8), uoSide = BUY,
         uoMetadata = None, uoBuilderCode = None, uoExpiration = None\<rparr>" Tick001]
    by (simp add: Let_def) blast
qed

text \<open>
  C14: the amounts of a market order. A sale signs exactly the shares, rounded down to two places, and the
  price on the tick grid times them. A purchase signs the rounded collateral; its shares are less than one base unit
  above the collateral divided by the price, and at most one unit of the last signed place (and a base unit)
  below it.
\<close>

theorem market_order_amounts_bounds:
  assumes D: "decimal_laws D val"
    and f: "is_f64 (Fin amt)" "is_f64 (Fin price)" and um: "umAmount um = Fin amt" "umPrice um = Some (Fin price)"
    and rc: "GetRoundConfig (tick_string t) = Inr rc"
    and p: "RoundDown D (RFloat (Fin price)) (int (tick_places t)) = Inr p" "0 < val p"
  shows "\<exists>a M T od. RoundDown D (RFloat (Fin amt)) 2 = Inr a \<and>
    BuildMarketOrderCreationArgs D now signer maker sigType um rc = Inr od \<and>
    odMakerAmount od = int_str M \<and> odTakerAmount od = int_str T \<and> of_int M = val a * 10 ^ 6 \<and>
    (if umSide um = BUY then odSide od = BUY \<and> of_int T < of_int M / val p + 1 \<and>
       of_int M / val p - 10 ^ (4 - tick_places t) - 1 < of_int T
     else odSide od = SELL \<and> of_int T = val p * of_int M)"
  by (rule market_order_args [OF assms])

definition sample_market :: UserMarketOrder where
  "sample_market = \<lparr>umTokenID = ''7'', umPrice = Some (Fin (1 / 2)), umAmount = Fin (135 / 8), umSide = BUY,
     umOrderType = MARKET_FOK, umUserUSDCBalance = None, umMetadata = None, umBuilderCode = None\<rparr>"

theorem market_order_amounts_bounds_witness:
  "\<exists>p M T od. RoundDown ce_lib (RFloat (Fin (1 / 2))) 2 = Inr p \<and>
     BuildMarketOrderCreationArgs ce_lib 1700000000000 ''signer'' ''maker'' 2 sample_market
       \<lparr>rcPrice = 2, rcSize = 2, rcAmount = 4\<rparr> = Inr od \<and>
     odMakerAmount od = int_str M \<and> odTakerAmount od = int_str T \<and>
     of_int T < of_int M / ce_val p + 1 \<and> of_int M / ce_val p - 10 ^ 2 - 1 < of_int T"
proof -
  have f: "is_f64 (Fin (135 / 8))" "is_f64 (Fin (1 / 2))" by code_simp+
  have rc: "GetRoundConfig (tick_string Tick001) = Inr \<lparr>rcPrice = 2, rcSize = 2, rcAmount = 4\<rparr>"
    using GetRoundConfig_tick [of Tick001] by simp
  obtain p where p: "RoundDown ce_lib (RFloat (Fin (1 / 2))) 2 = Inr p" "0 < ce_val p"
  proof -
    have "(case RoundDown ce_lib (RFloat (Fin (1 / 2))) 2 of Inr p \<Rightarrow> 0 < ce_val p | Inl _ \<Rightarrow> False)" by code_simp
    with that show thesis by (auto split: sum.splits)
  qed
  have u: "umAmount sample_market = Fin (135 / 8)" "umPrice sample_market = Some (Fin (1 / 2))" "umSide sample_market = BUY"
    by (simp_all add: sample_market_def)
  from market_order_amounts_bounds [where now = 1700000000000 and signer = "''signer''" and maker = "''maker''" and sigType = 2,
      OF ce.decimal_laws_axioms f u(1,2) rc, of p] p u(3)
  show ?thesis by auto
qed

text \<open>
  C13: the buy price of a market order. With a fill-or-kill order the price is that of the first
  level, from the best one on, at which the collateral of the levels so far covers the amount, and
  the only failure is a book that never covers it; any other order type falls back to the first
  (worst) level of a non-empty book.
\<close>

theorem buy_market_price_spec:
  "CalculateBuyMarketPrice books a ot = Inr x \<longleftrightarrow>
     (\<exists>i < length books. x = bkPrice (books ! (length books - Suc i)) \<and>
        a \<le> buy_depth books (Suc i) \<and> (\<forall>j < i. \<not> a \<le> buy_depth books (Suc j))) \<or>
     (books \<noteq> [] \<and> ot \<noteq> MARKET_FOK \<and> x = bkPrice (books ! 0) \<and>
        (\<forall>i < length books. \<not> a \<le> buy_depth books (Suc i)))"
  using buy.market_price [where fok = "ot = MARKET_FOK" and books = books and a = a and x = x]
  unfolding CalculateBuyMarketPrice_def depth_eq .

theorem buy_market_price_witness:
  "let books = [\<lparr>bkPrice = Fin (3 / 4), bkSize = Fin 100\<rparr>, \<lparr>bkPrice = Fin (1 / 2), bkSize = Fin 100\<rparr>,
       \<lparr>bkPrice = Fin (1 / 4), bkSize = Fin 100\<rparr>]
   in CalculateBuyMarketPrice books (Fin 60) MARKET_FOK = Inr (Fin (1 / 2)) \<and>
      (\<exists>i < length books. Fin (1 / 2) = bkPrice (books ! (length books - Suc i)) \<and>
        Fin 60 \<le> buy_depth books (Suc i) \<and> (\<forall>j < i. \<not> Fin 60 \<le> buy_depth books (Suc j)))"
proof -
  let ?books = "[\<lparr>bkPrice = Fin (3 / 4), bkSize = Fin 100\<rparr>, \<lparr>bkPrice = Fin (1 / 2), bkSize = Fin 100\<rparr>,
    \<lparr>bkPrice = Fin (1 / 4), bkSize = Fin 100\<rparr>]"
  have "CalculateBuyMarketPrice ?books (Fin 60) MARKET_FOK = Inr (Fin (1 / 2))" by code_simp
  then show ?thesis
    using buy_market_price_spec [of ?books "Fin 60" MARKET_FOK "Fin (1 / 2)"] by (simp only: Let_def) blast
qed

text \<open>
  The sell price of a market order, in the same form over the shares of the levels.
\<close>

theorem sell_market_price_spec:
  "CalculateSellMarketPrice books a ot = Inr x \<longleftrightarrow>
     (\<exists>i < length books. x = bkPrice (books ! (length books - Suc i)) \<and>
        a \<le> sell_depth books (Suc i) \<and> (\<forall>j < i. \<not> a \<le> sell_depth books (Suc j))) \<or>
     (books \<noteq> [] \<and> ot \<noteq> MARKET_FOK \<and> x = bkPrice (books ! 0) \<and>
        (\<forall>i < length books. \<not> a \<le> sell_depth books (Suc i)))"
  using sell.market_price [where fok = "ot = MARKET_FOK" and books = books and a = a and x = x]
  unfolding CalculateSellMarketPrice_def depth_eq .

theorem sell_market_price_witness:
  "let books = [\<lparr>bkPrice = Fin (3 / 4), bkSize = Fin 100\<rparr>, \<lparr>bkPrice = Fin (1 / 2), bkSize = Fin 100\<rparr>,
       \<lparr>bkPrice = Fin (1 / 4), bkSize = Fin 100\<rparr>]
   in CalculateSellMarketPrice books (Fin 150) MARKET_FOK = Inr (Fin (1 / 2)) \<and>
      (\<exists>i < length books. Fin (1 / 2) = bkPrice (books ! (length books - Suc i)) \<and>
        Fin 150 \<le> sell_depth books (Suc i) \<and> (\<forall>j < i. \<not> Fin 150 \<le> sell_depth books (Suc j)))"
proof -
  let ?books = "[\<lparr>bkPrice = Fin (3 / 4), bkSize = Fin 100\<rparr>, \<lparr>bkPrice = Fin (1 / 2), bkSize = Fin 100\<rparr>,
    \<lparr>bkPrice = Fin (1 / 4), bkSize = Fin 100\<rparr>]"
  have "CalculateSellMarketPrice ?books (Fin 150) MARKET_FOK = Inr (Fin (1 / 2))" by code_simp
  then show ?thesis
    using sell_market_price_spec [of ?books "Fin 150" MARKET_FOK "Fin (1 / 2)"] by (simp only: Let_def) blast
qed

end
