(* ===== verification/GoJson.thy ===== *)
theory GoJson
  imports GoPrelude
begin

text \<open>
  The part of \<^verbatim>\<open>encoding/json\<close>'s \<^verbatim>\<open>Marshal\<close> the SDK uses for its subscription messages and request
  bodies: strings with Go's escapes (quote, backslash, control characters and the HTML characters
  \<^verbatim>\<open><\<close>, \<^verbatim>\<open>>\<close>, \<^verbatim>\<open>&\<close>; bytes outside ASCII are taken to be valid UTF-8 and kept), arrays and objects in the
  given order.
\<close>

datatype json = JNul | JBool bool | JInt int | JStr string | JArr "json list" | JObj "(string \<times> json) list"

definition quote_char :: char where "quote_char = char_of (34 :: nat)"
definition backslash :: char where "backslash = char_of (92 :: nat)"

definition json_escape :: "char \<Rightarrow> string" where
  "json_escape c = (let n = of_char c :: nat in
     if n = 34 then [backslash, quote_char]
     else if n = 92 then [backslash, backslash]
     else if n = 8 then [backslash, CHR ''b'']
     else if n = 12 then [backslash, CHR ''f'']
     else if n = 10 then [backslash, CHR ''n'']
     else if n = 13 then [backslash, CHR ''r'']
     else if n = 9 then [backslash, CHR ''t'']
     else if n < 32 \<or> n = 60 \<or> n = 62 \<or> n = 38 then
       backslash # ''u00'' @ [hex_char (n div 16), hex_char (n mod 16)]
     else [c])"

definition json_quote :: "string \<Rightarrow> string" where
  "json_quote s = quote_char # concat (map json_escape s) @ [quote_char]"

fun json_text :: "json \<Rightarrow> string" where
  "json_text JNul = ''null''"
| "json_text (JBool b) = (if b then ''true'' else ''false'')"
| "json_text (JInt n) = int_str n"
| "json_text (JStr s) = json_quote s"
| "json_text (JArr xs) = ''['' @ join (map json_text xs) '','' @ '']''"
| "json_text (JObj kvs) = ''{'' @ join (map (\<lambda>(k, v). json_quote k @ '':'' @ json_text v) kvs) '','' @ ''}''"

definition json_marshal :: "json \<Rightarrow> bytes" where
  "json_marshal v = bytes_of (json_text v)"

end
