(* ===== verification/MarketData.thy ===== *)
theory MarketData
  imports HttpClient OrderHelper GoJson
begin

text \<open>
  The market data of \<^verbatim>\<open>polymarket/polymarket.go\<close>: the caches of tick sizes, fee rates and neg-risk flags
  with their lookups, the resolution of an order's tick and fee, order books and market prices. The
  caches share the interface \<open>token_cache\<close>.
\<close>

subsection \<open>Caches\<close>

definition ClearTickSizes :: "('k, 's) PolymarketClient \<Rightarrow> ('k, 's) PolymarketClient" where
  "ClearTickSizes c = c\<lparr>pcTickSizes := Map.empty\<rparr>"

definition ClearFeeRates :: "('k, 's) PolymarketClient \<Rightarrow> ('k, 's) PolymarketClient" where
  "ClearFeeRates c = c\<lparr>pcFeeRates := Map.empty\<rparr>"

definition ClearNegRisk :: "('k, 's) PolymarketClient \<Rightarrow> ('k, 's) PolymarketClient" where
  "ClearNegRisk c = c\<lparr>pcNegRisk := Map.empty\<rparr>"

definition SetTickSize :: "string \<Rightarrow> float64 \<Rightarrow> (unit, ('k, 's) PolymarketClient) op" where
  "SetTickSize tokenID tickSize = bind_op (pure_op (NewTickSize (FloatToString tickSize 0))) (\<lambda>v c.
     (Inr (), c\<lparr>pcTickSizes := (pcTickSizes c)(tokenID \<mapsto> v)\<rparr>))"

definition SetFeeRateBps :: "string \<Rightarrow> float64 \<Rightarrow> (unit, ('k, 's) PolymarketClient) op" where
  "SetFeeRateBps tokenID feeRateBps c = (Inr (), c\<lparr>pcFeeRates := (pcFeeRates c)(tokenID \<mapsto> feeRateBps)\<rparr>)"

definition SetNegRisk :: "string \<Rightarrow> bool \<Rightarrow> (unit, ('k, 's) PolymarketClient) op" where
  "SetNegRisk tokenID negRisk c = (Inr (), c\<lparr>pcNegRisk := (pcNegRisk c)(tokenID \<mapsto> negRisk)\<rparr>)"

definition clob_url :: "('k, 's) PolymarketClient \<Rightarrow> string \<Rightarrow> string" where
  "clob_url c path = pmClobBaseURL (cfPolymarket (pcCfg c)) @ path"

definition GetTickSize :: "'s http_lib \<Rightarrow> 'j gjson_lib \<Rightarrow> string \<Rightarrow> (string, ('k, 's) PolymarketClient) op" where
  "GetTickSize L J tokenID c =
     (if tokenID = [] then (Inl (Error ''tokenID cannot be empty''), c)
      else case pcTickSizes c tokenID of
        Some v \<Rightarrow> (Inr v, c)
      | None \<Rightarrow>
          bind_op (Get L J (clob_url c ''/tick-size'') (Some [''token_id'' \<mapsto> tokenID]) None) (\<lambda>result.
          bind_op (pure_op (NewTickSize (getS J result ''minimum_tick_size''))) (\<lambda>v c.
          (Inr v, c\<lparr>pcTickSizes := (pcTickSizes c)(tokenID \<mapsto> v)\<rparr>))) c)"

definition GetFeeRateBps :: "'s http_lib \<Rightarrow> 'j gjson_lib \<Rightarrow> string \<Rightarrow> (float64, ('k, 's) PolymarketClient) op" where
  "GetFeeRateBps L J tokenID c =
     (if tokenID = [] then (Inl (Error ''tokenID cannot be empty''), c)
      else case pcFeeRates c tokenID of
        Some v \<Rightarrow> (Inr v, c)
      | None \<Rightarrow>
          bind_op (Get L J (clob_url c ''/fee-rate'') (Some [''token_id'' \<mapsto> tokenID]) None) (\<lambda>result c.
          let v = getF J result ''base_fee'' in
          (Inr v, c\<lparr>pcFeeRates := (pcFeeRates c)(tokenID \<mapsto> v)\<rparr>)) c)"

definition GetNegRisk :: "'s http_lib \<Rightarrow> 'j gjson_lib \<Rightarrow> string \<Rightarrow> (bool, ('k, 's) PolymarketClient) op" where
  "GetNegRisk L J tokenID c =
     (if tokenID = [] then (Inl (Error ''tokenID cannot be empty''), c)
      else case pcNegRisk c tokenID of
        Some v \<Rightarrow> (Inr v, c)
      | None \<Rightarrow>
          bind_op (Get L J (clob_url c ''/neg-risk'') (Some [''token_id'' \<mapsto> tokenID]) None) (\<lambda>result c.
          let v = getB J result ''neg_risk'' in
          (Inr v, c\<lparr>pcNegRisk := (pcNegRisk c)(tokenID \<mapsto> v)\<rparr>)) c)"

text \<open>The two error texts that format floats are shortened.\<close>

definition ResolveTickSize ::
  "'s http_lib \<Rightarrow> 'j gjson_lib \<Rightarrow> string \<Rightarrow> string option \<Rightarrow> (string, ('k, 's) PolymarketClient) op" where
  "ResolveTickSize L J tokenID tickSize = bind_op (GetTickSize L J tokenID) (\<lambda>minTickSize.
     case tickSize of
       Some t \<Rightarrow> if IsTickSizeSmaller t minTickSize
         then pure_op (Inl (Error (''tickSize '' @ t @ '' is smaller than minTickSize '' @ minTickSize)))
         else pure_op (Inr t)
     | None \<Rightarrow> pure_op (Inr minTickSize))"

definition ResolveFeeRateBps ::
  "'s http_lib \<Rightarrow> 'j gjson_lib \<Rightarrow> string \<Rightarrow> float64 option \<Rightarrow> (float64, ('k, 's) PolymarketClient) op" where
  "ResolveFeeRateBps L J tokenID userFeeRateBps = bind_op (GetFeeRateBps L J tokenID) (\<lambda>marketFeeRateBps.
     case userFeeRateBps of
       Some u \<Rightarrow> if Fin 0 < marketFeeRateBps \<and> \<not> f_eq u marketFeeRateBps
         then pure_op (Inl (Error ''userFeeRateBps is not equal to marketFeeRateBps''))
         else pure_op (Inr marketFeeRateBps)
     | None \<Rightarrow> pure_op (Inr marketFeeRateBps))"

subsection \<open>Markets, events and the server's time\<close>

definition FetchMarketBySlug :: "'s http_lib \<Rightarrow> 'j gjson_lib \<Rightarrow> string \<Rightarrow> ('j, ('k, 's) PolymarketClient) op" where
  "FetchMarketBySlug L J slug c = (if slug = [] then (Inl (Error ''slug cannot be empty''), c)
     else Get L J (pmGammaBaseURL (cfPolymarket (pcCfg c)) @ ''/markets/slug/'' @ slug @ ''?include_tag=true'') None None c)"

definition FetchEventBySlug :: "'s http_lib \<Rightarrow> 'j gjson_lib \<Rightarrow> string \<Rightarrow> ('j, ('k, 's) PolymarketClient) op" where
  "FetchEventBySlug L J slug c = (if slug = [] then (Inl (Error ''slug cannot be empty''), c)
     else Get L J (pmGammaBaseURL (cfPolymarket (pcCfg c)) @ ''/events/slug/'' @ slug) None None c)"

definition GetServerTime :: "'s http_lib \<Rightarrow> 'j gjson_lib \<Rightarrow> (int, ('k, 's) PolymarketClient) op" where
  "GetServerTime L J c = bind_op (Get L J (clob_url c ''/time'') None None) (\<lambda>result. pure_op (Inr (gInt J result))) c"

subsection \<open>Order books\<close>

text \<open>The sides of a new summary are nil, and nil again when the response has no levels: \<open>[]\<close> is nil.\<close>

record OrderBookSummary =
  osMarket :: string
  osAssetId :: string
  osTimestamp :: int
  osBids :: "Book list"
  osAsks :: "Book list"
  osMinOrderSize :: float64
  osTickSize :: float64
  osNegRisk :: bool
  osHash :: string

record BookParams =
  bpTokenId :: string
  bpSide :: "string option"

definition read_summary :: "'j gjson_lib \<Rightarrow> 'j \<Rightarrow> OrderBookSummary" where
  "read_summary J r = (let level = (\<lambda>i. \<lparr>bkPrice = getF J i ''price'', bkSize = getF J i ''size''\<rparr>) in
     \<lparr>osMarket = getS J r ''market'', osAssetId = getS J r ''asset_id'', osTimestamp = getI J r ''timestamp'',
      osBids = map level (getA J r ''bids''), osAsks = map level (getA J r ''asks''),
      osMinOrderSize = getF J r ''min_order_size'', osTickSize = getF J r ''tick_size'',
      osNegRisk = getB J r ''neg_risk'', osHash = getS J r ''hash''\<rparr>)"

definition GetOrderBook :: "'s http_lib \<Rightarrow> 'j gjson_lib \<Rightarrow> string \<Rightarrow> (OrderBookSummary, ('k, 's) PolymarketClient) op" where
  "GetOrderBook L J tokenID c = bind_op (Get L J (clob_url c ''/book'') (Some [''token_id'' \<mapsto> tokenID]) None)
     (\<lambda>result. pure_op (Inr (read_summary J result))) c"

definition book_params_json :: "BookParams \<Rightarrow> json" where
  "book_params_json p = JObj ((''token_id'', JStr (bpTokenId p)) #
     (case bpSide p of None \<Rightarrow> [] | Some s \<Rightarrow> [(''side'', JStr s)]))"

text \<open>\<^verbatim>\<open>json.Marshal\<close> of a slice, which is \<^verbatim>\<open>null\<close> for a nil one (\<open>None\<close>).\<close>

definition json_slice :: "('a \<Rightarrow> json) \<Rightarrow> 'a list option \<Rightarrow> json" where
  "json_slice f xs = (case xs of None \<Rightarrow> JNul | Some ys \<Rightarrow> JArr (map f ys))"

definition GetOrderBooks ::
  "'s http_lib \<Rightarrow> 'j gjson_lib \<Rightarrow> BookParams list option \<Rightarrow> (OrderBookSummary list, ('k, 's) PolymarketClient) op" where
  "GetOrderBooks L J params c =
     bind_op (Post L J (clob_url c ''/books'') (Some (json_text (json_slice book_params_json params))) None)
       (\<lambda>result. pure_op (Inr (map (read_summary J) (gArray J result)))) c"

definition CalculateMarketPrice ::
  "'s http_lib \<Rightarrow> 'j gjson_lib \<Rightarrow> string \<Rightarrow> string \<Rightarrow> float64 \<Rightarrow> string \<Rightarrow> OrderBookSummary option \<Rightarrow>
     (float64, ('k, 's) PolymarketClient) op" where
  "CalculateMarketPrice L J tokenID side amount orderType book =
     bind_op (case book of Some b \<Rightarrow> pure_op (Inr b)
       | None \<Rightarrow> (\<lambda>c. case GetOrderBook L J tokenID c of
             (Inl (Error e), c') \<Rightarrow> (Inl (Error (''no orderbook: '' @ e)), c') | rc \<Rightarrow> rc)) (\<lambda>b.
     if side = BUY then
       (if osAsks b = [] then pure_op (Inl (Error ''no match''))
        else pure_op (CalculateBuyMarketPrice (osAsks b) amount orderType))
     else
       (if osBids b = [] then pure_op (Inl (Error ''no match''))
        else pure_op (CalculateSellMarketPrice (osBids b) amount orderType)))"

subsection \<open>What requests leave alone\<close>

text \<open>A request changes only the world and the retry counter.\<close>

definition same_client :: "('k, 's) PolymarketClient \<Rightarrow> ('k, 's) PolymarketClient \<Rightarrow> bool" where
  "same_client c c' \<longleftrightarrow> pcCfg c' = pcCfg c \<and> pcSigner c' = pcSigner c \<and> pcTickSizes c' = pcTickSizes c \<and>
     pcFeeRates c' = pcFeeRates c \<and> pcNegRisk c' = pcNegRisk c"

lemma same_client_simps:
  assumes "same_client c c'"
  shows "pcCfg c' = pcCfg c" "pcSigner c' = pcSigner c" "pcTickSizes c' = pcTickSizes c"
    "pcFeeRates c' = pcFeeRates c" "pcNegRisk c' = pcNegRisk c"
  using assms by (simp_all add: same_client_def)

lemma same_client_refl [simp]: "same_client c c"
  by (simp add: same_client_def)

lemma same_client_trans: "same_client a b \<Longrightarrow> same_client b c \<Longrightarrow> same_client a c"
  by (simp add: same_client_def)

lemma get_round_same: "get_round L J ctx rq attempt dl c = (x, c') \<Longrightarrow> same_client c c'"
  by (auto simp: get_round_def Let_def same_client_def split: prod.splits sum.splits if_splits)

lemma get_loop_same: "get_loop L J ctx rq attempt dl c = (r, c') \<Longrightarrow> same_client c c'"
proof (induction L J ctx rq attempt dl c rule: get_loop.induct)
  case (1 L J ctx rq attempt dl c)
  obtain x d where x: "get_round L J ctx rq attempt dl c = (x, d)" by fastforce
  note s = get_round_same [OF x]
  show ?case
  proof (cases x)
    case (Inl r')
    with 1(2) x s show ?thesis by (simp add: get_loop.simps [of L])
  next
    case (Inr D)
    with 1(2) x have "get_loop L J ctx rq (Suc attempt) (Some D) d = (r, c')"
      by (simp add: get_loop.simps [of L J ctx rq attempt])
    from 1(1) [OF x [symmetric] Inr this] s show ?thesis by (rule same_client_trans [rotated])
  qed
qed

lemma Get_same: "Get L J url ps hs c = (r, c') \<Longrightarrow> same_client c c'"
  by (auto simp: Get_def GetContext_def dest: get_loop_same)

lemma send_once_same: "send_once L J rq c = (r, c') \<Longrightarrow> same_client c c'"
  by (auto simp: send_once_def Let_def same_client_def split: prod.splits sum.splits if_splits)

subsection \<open>The interface of a cache\<close>

locale token_cache =
  fixes lookup :: "'c \<Rightarrow> string \<Rightarrow> 'v option"
    and get :: "string \<Rightarrow> ('v, 'c) op"
    and put :: "string \<Rightarrow> 'x \<Rightarrow> (unit, 'c) op"
    and entry :: "'x \<Rightarrow> 'v"
    and clear :: "'c \<Rightarrow> 'c"
  assumes get_empty: "get [] c = (Inl (Error ''tokenID cannot be empty''), c)"
    and get_hit: "t \<noteq> [] \<Longrightarrow> lookup c t = Some v \<Longrightarrow> get t c = (Inr v, c)"
    and get_stores: "get t c = (Inr v, c') \<Longrightarrow> lookup c' = (lookup c)(t \<mapsto> v)"
    and get_fails: "get t c = (Inl e, c') \<Longrightarrow> lookup c' = lookup c"
    and put_stores: "put t x c = (Inr (), c') \<Longrightarrow> lookup c' = (lookup c)(t \<mapsto> entry x)"
    and clear_all: "lookup (clear c) = Map.empty"
begin

lemma get_nonempty: "get t c = (Inr v, c') \<Longrightarrow> t \<noteq> []"
  using get_empty by auto

lemma get_again:
  assumes "get t c = (Inr v, c')" shows "get t c' = (Inr v, c')"
  by (rule get_hit [OF get_nonempty [OF assms]]) (simp add: get_stores [OF assms])

lemma get_after_put:
  assumes "put t x c = (Inr (), c')" and "t \<noteq> []" shows "get t c' = (Inr (entry x), c')"
  by (rule get_hit [OF assms(2)]) (simp add: put_stores [OF assms(1)])

lemma get_keeps:
  assumes "lookup c u = Some v" shows "lookup (snd (get t c)) u = Some v"
proof (cases "get t c")
  case (Pair r c')
  show ?thesis
  proof (cases r)
    case (Inl e)
    with Pair assms get_fails show ?thesis by fastforce
  next
    case (Inr w)
    show ?thesis
    proof (cases "t = u")
      case True
      with get_nonempty Pair Inr have "u \<noteq> []" by blast
      from get_hit [OF this assms] True Pair Inr assms show ?thesis by simp
    next
      case False
      with get_stores Pair Inr assms show ?thesis by fastforce
    qed
  qed
qed

lemma gets_keep: "lookup c u = Some v \<Longrightarrow> lookup (fold (\<lambda>t c. snd (get t c)) ts c) u = Some v"
  by (induction ts arbitrary: c) (simp_all add: get_keeps)

end

interpretation tick: token_cache pcTickSizes "GetTickSize L J" SetTickSize "\<lambda>x. FloatToString x 0" ClearTickSizes for L J
proof unfold_locales
  fix t c v c' e x
  show "GetTickSize L J [] c = (Inl (Error ''tokenID cannot be empty''), c)" by (simp add: GetTickSize_def)
  show "t \<noteq> [] \<Longrightarrow> pcTickSizes c t = Some v \<Longrightarrow> GetTickSize L J t c = (Inr v, c)" by (simp add: GetTickSize_def)
  show "GetTickSize L J t c = (Inr v, c') \<Longrightarrow> pcTickSizes c' = (pcTickSizes c)(t \<mapsto> v)"
    by (auto simp: GetTickSize_def bind_op_Inr dest!: Get_same same_client_simps(3) split: if_splits option.splits)
  show "GetTickSize L J t c = (Inl e, c') \<Longrightarrow> pcTickSizes c' = pcTickSizes c"
    by (auto simp: GetTickSize_def bind_op_Inl dest!: Get_same same_client_simps(3) split: if_splits option.splits)
  show "SetTickSize t x c = (Inr (), c') \<Longrightarrow> pcTickSizes c' = (pcTickSizes c)(t \<mapsto> FloatToString x 0)"
    by (auto simp: SetTickSize_def bind_op_Inr NewTickSize_def split: if_splits)
  show "pcTickSizes (ClearTickSizes c) = Map.empty" by (simp add: ClearTickSizes_def)
qed

interpretation fee: token_cache pcFeeRates "GetFeeRateBps L J" SetFeeRateBps "\<lambda>x. x" ClearFeeRates for L J
proof unfold_locales
  fix t c v c' e x
  show "GetFeeRateBps L J [] c = (Inl (Error ''tokenID cannot be empty''), c)" by (simp add: GetFeeRateBps_def)
  show "t \<noteq> [] \<Longrightarrow> pcFeeRates c t = Some v \<Longrightarrow> GetFeeRateBps L J t c = (Inr v, c)" by (simp add: GetFeeRateBps_def)
  show "GetFeeRateBps L J t c = (Inr v, c') \<Longrightarrow> pcFeeRates c' = (pcFeeRates c)(t \<mapsto> v)"
    by (auto simp: GetFeeRateBps_def bind_op_Inr Let_def dest!: Get_same same_client_simps(4) split: if_splits option.splits)
  show "GetFeeRateBps L J t c = (Inl e, c') \<Longrightarrow> pcFeeRates c' = pcFeeRates c"
    by (auto simp: GetFeeRateBps_def bind_op_Inl Let_def dest!: Get_same same_client_simps(4) split: if_splits option.splits)
  show "SetFeeRateBps t x c = (Inr (), c') \<Longrightarrow> pcFeeRates c' = (pcFeeRates c)(t \<mapsto> x)"
    by (auto simp: SetFeeRateBps_def)
  show "pcFeeRates (ClearFeeRates c) = Map.empty" by (simp add: ClearFeeRates_def)
qed

interpretation neg: token_cache pcNegRisk "GetNegRisk L J" SetNegRisk "\<lambda>x. x" ClearNegRisk for L J
proof unfold_locales
  fix t c v c' e x
  show "GetNegRisk L J [] c = (Inl (Error ''tokenID cannot be empty''), c)" by (simp add: GetNegRisk_def)
  show "t \<noteq> [] \<Longrightarrow> pcNegRisk c t = Some v \<Longrightarrow> GetNegRisk L J t c = (Inr v, c)" by (simp add: GetNegRisk_def)
  show "GetNegRisk L J t c = (Inr v, c') \<Longrightarrow> pcNegRisk c' = (pcNegRisk c)(t \<mapsto> v)"
    by (auto simp: GetNegRisk_def bind_op_Inr Let_def dest!: Get_same same_client_simps(5) split: if_splits option.splits)
  show "GetNegRisk L J t c = (Inl e, c') \<Longrightarrow> pcNegRisk c' = pcNegRisk c"
    by (auto simp: GetNegRisk_def bind_op_Inl Let_def dest!: Get_same same_client_simps(5) split: if_splits option.splits)
  show "SetNegRisk t x c = (Inr (), c') \<Longrightarrow> pcNegRisk c' = (pcNegRisk c)(t \<mapsto> x)"
    by (auto simp: SetNegRisk_def)
  show "pcNegRisk (ClearNegRisk c) = Map.empty" by (simp add: ClearNegRisk_def)
qed

subsection \<open>Valid ticks\<close>

definition ticks_ok :: "('k, 's) PolymarketClient \<Rightarrow> bool" where
  "ticks_ok c \<longleftrightarrow> (\<forall>t v. pcTickSizes c t = Some v \<longrightarrow> IsValid v)"

lemma GetTickSize_valid:
  assumes "ticks_ok c" and "GetTickSize L J t c = (Inr v, c')"
  shows "IsValid v"
  using assms by (auto simp: GetTickSize_def ticks_ok_def bind_op_Inr NewTickSize_def split: if_splits option.splits)

lemma GetTickSize_ticks_ok:
  assumes "ticks_ok c" and "GetTickSize L J t c = (r, c')" shows "ticks_ok c'"
proof (cases r)
  case (Inl e)
  with tick.get_fails assms show ?thesis by (metis ticks_ok_def)
next
  case (Inr v)
  with GetTickSize_valid assms have "IsValid v" by blast
  with tick.get_stores [OF assms(2) [unfolded Inr]] assms(1) show ?thesis by (simp add: ticks_ok_def)
qed

lemma same_client_ticks: "same_client c c' \<Longrightarrow> ticks_ok c \<Longrightarrow> ticks_ok c'"
  by (simp add: ticks_ok_def same_client_def)

lemma tick_text: "FloatToString (Fin (tick_double t)) 0 = tick_string t"
proof -
  have "FloatToString (Fin (tick_double Tick01)) 0 = tick_string Tick01"
    "FloatToString (Fin (tick_double Tick001)) 0 = tick_string Tick001"
    "FloatToString (Fin (tick_double Tick0001)) 0 = tick_string Tick0001"
    "FloatToString (Fin (tick_double Tick00001)) 0 = tick_string Tick00001" by code_simp+
  then show ?thesis by (cases t) (simp_all only:)
qed

text \<open>A server and a reader for evaluation: one answer, whatever is asked.\<close>

definition one_answer :: "http_response list" where
  "one_answer = [\<lparr>rsStatus = 200, rsRetryAfter = [], rsBody = []\<rparr>]"

definition market_doc :: "doc gjson_lib" where
  "market_doc = doc_lib (\<lambda>_. DObj [(''minimum_tick_size'', DStr ''0.01''), (''base_fee'', DNum ''0''), (''neg_risk'', DBool True)])"

lemma one_answer_Get:
  assumes "wServer (pcWorld c) = one_answer"
  shows "\<exists>c'. Get list_server J url ps hs c = (Inr (gParse J []), c')"
proof -
  obtain c' where "get_round list_server J Background (get_request url ps hs) 0 None c = (Inl (Inr (gParse J [])), c')"
    using assms by (simp add: get_round_def do_request_def list_server_def one_answer_def Let_def)
  then show ?thesis by (simp add: Get_def GetContext_def get_loop.simps [of list_server J Background _ 0])
qed

subsection \<open>Properties\<close>

text \<open>
  A cached value is served without a request. After a successful lookup of a token's tick size,
  fee rate or neg-risk flag, the same lookup returns the same value and leaves the client and the world
  as they are; so does a lookup after the value was set; and no number of lookups changes an entry.
\<close>

theorem cached_lookups:
  "(GetTickSize L J t c = (Inr v, c1) \<longrightarrow> GetTickSize L J t c1 = (Inr v, c1)) \<and>
   (GetFeeRateBps L J t c = (Inr f, c2) \<longrightarrow> GetFeeRateBps L J t c2 = (Inr f, c2)) \<and>
   (GetNegRisk L J t c = (Inr b, c3) \<longrightarrow> GetNegRisk L J t c3 = (Inr b, c3)) \<and>
   (t \<noteq> [] \<longrightarrow> SetTickSize t x c = (Inr (), c4) \<longrightarrow> GetTickSize L J t c4 = (Inr (FloatToString x 0), c4)) \<and>
   (pcTickSizes c u = Some w \<longrightarrow> pcTickSizes (fold (\<lambda>t c. snd (GetTickSize L J t c)) ts c) u = Some w)"
  using tick.get_again [of L J t c v c1] fee.get_again [of L J t c f c2] neg.get_again [of L J t c b c3]
    tick.get_after_put [of t x c c4 L J] tick.gets_keep [of c u w L J ts] by simp

theorem cached_lookups_witness:
  "\<exists>c c1 :: (address, http_response list) PolymarketClient.
     GetTickSize list_server market_doc ''7'' c = (Inr ''0.01'', c1) \<and> c1 \<noteq> c \<and>
     GetTickSize list_server market_doc ''7'' c1 = (Inr ''0.01'', c1)"
proof -
  obtain c :: "(address, http_response list) PolymarketClient"
    where c: "NewClient toy_eth DefaultConfig (new_world one_answer) = Inr c" using toy_client by blast
  then have w: "wServer (pcWorld c) = one_answer" "pcTickSizes c = Map.empty"
    by (auto simp: NewClient_def Let_def new_world_def split: sum.splits failure.splits)
  from one_answer_Get [OF w(1)] obtain c'
    where "Get list_server market_doc (clob_url c ''/tick-size'') (Some [''token_id'' \<mapsto> ''7'']) None c =
      (Inr (gParse market_doc []), c')" by blast
  then have "\<exists>c1. GetTickSize list_server market_doc ''7'' c = (Inr ''0.01'', c1)"
    using w(2) by (simp add: GetTickSize_def bind_op_def market_doc_def doc_lib_def doc_get_def NewTickSize_def
      IsValid_def tick_defs)
  then obtain c1 where c1: "GetTickSize list_server market_doc ''7'' c = (Inr ''0.01'', c1)" ..
  have "pcTickSizes c1 ''7'' \<noteq> pcTickSizes c ''7''" using tick.get_stores [OF c1] w(2) by simp
  then have "c1 \<noteq> c" by auto
  with c1 cached_lookups [of list_server market_doc "''7''" c "''0.01''" c1] show ?thesis by blast
qed



end
