(* ===== verification/OrderBuilder.thy ===== *)
theory OrderBuilder
  imports OrderHelper Signature
begin

text \<open>
  \<^verbatim>\<open>orders/order_builder.go\<close> and \<^verbatim>\<open>orders/order_builder_impl.go\<close>: from order data to an order, its EIP-712
  hash and its signature, either by the key itself or in the nested form of ERC-1271 wallets. The
  builder's state is the cache of domain separators.
\<close>

subsection \<open>Constants\<close>

definition PROTOCOL_NAME :: string where "PROTOCOL_NAME = ''Polymarket CTF Exchange''"
definition PROTOCOL_VERSION :: string where "PROTOCOL_VERSION = ''2''"
definition ORDER_PRIMARY_TYPE :: string where "ORDER_PRIMARY_TYPE = ''Order''"

definition ORDER_TYPE_STRING :: string where
  "ORDER_TYPE_STRING = ''Order(uint256 salt,address maker,address signer,uint256 tokenId,uint256 makerAmount,uint256 takerAmount,uint8 side,uint8 signatureType,uint256 timestamp,bytes32 metadata,bytes32 builder)''"

definition DOMAIN_TYPE_STRING :: string where
  "DOMAIN_TYPE_STRING = ''EIP712Domain(string name,string version,uint256 chainId,address verifyingContract)''"

definition ORDER_EIP712_TYPES :: "(string \<times> (string \<times> string) list) list" where
  "ORDER_EIP712_TYPES =
     [(''EIP712Domain'',
        [(''name'', ''string''), (''version'', ''string''), (''chainId'', ''uint256''),
         (''verifyingContract'', ''address'')]),
      (ORDER_PRIMARY_TYPE,
        [(''salt'', ''uint256''), (''maker'', ''address''), (''signer'', ''address''),
         (''tokenId'', ''uint256''), (''makerAmount'', ''uint256''), (''takerAmount'', ''uint256''),
         (''side'', ''uint8''), (''signatureType'', ''uint8''), (''timestamp'', ''uint256''),
         (''metadata'', ''bytes32''), (''builder'', ''bytes32'')])]"

definition ORDER_EIP712_TYPES_1271 :: "(string \<times> (string \<times> string) list) list" where
  "ORDER_EIP712_TYPES_1271 =
     [ORDER_EIP712_TYPES ! 0,
      (''TypedDataSign'',
        [(''contents'', ORDER_PRIMARY_TYPE), (''name'', ''string''), (''version'', ''string''),
         (''chainId'', ''uint256''), (''verifyingContract'', ''address''), (''salt'', ''bytes32'')]),
      ORDER_EIP712_TYPES ! 1]"

definition PROTOCOL_NAME_HASH :: "('k, 'p) eth_lib \<Rightarrow> hash32" where
  "PROTOCOL_NAME_HASH E = keccak256 E (bytes_of PROTOCOL_NAME)"

definition PROTOCOL_VERSION_HASH :: "('k, 'p) eth_lib \<Rightarrow> hash32" where
  "PROTOCOL_VERSION_HASH E = keccak256 E (bytes_of PROTOCOL_VERSION)"

definition ORDER_TYPE_HASH :: "('k, 'p) eth_lib \<Rightarrow> hash32" where
  "ORDER_TYPE_HASH E = keccak256 E (bytes_of ORDER_TYPE_STRING)"

definition DOMAIN_TYPE_HASH :: "('k, 'p) eth_lib \<Rightarrow> hash32" where
  "DOMAIN_TYPE_HASH E = keccak256 E (bytes_of DOMAIN_TYPE_STRING)"

subsection \<open>The builder\<close>

text \<open>A salt generator maps the draws of \<^verbatim>\<open>rand.Int\<close> to a salt.\<close>

record OrderBuilderImpl =
  obChainId :: int
  obSaltGenerator :: "(int \<Rightarrow> int) \<Rightarrow> int"
  obAppDomainSeps :: "string \<rightharpoonup> hash32"

definition NewOrderBuilderImpl :: "int \<Rightarrow> ((int \<Rightarrow> int) \<Rightarrow> int) option \<Rightarrow> OrderBuilderImpl" where
  "NewOrderBuilderImpl chainId saltGenerator =
     \<lparr>obChainId = chainId,
      obSaltGenerator = (case saltGenerator of None \<Rightarrow> GenerateRandomSalt | Some g \<Rightarrow> g),
      obAppDomainSeps = Map.empty\<rparr>"

definition GetVerifyingContractAddress :: "('k, 'p) eth_lib \<Rightarrow> int \<Rightarrow> int \<Rightarrow> address result" where
  "GetVerifyingContractAddress E chainId contract = (let contracts = getContractConfig E chainId in
     if contract = CTFExchange then Inr (ccExchangeV2 contracts)
     else if contract = NegRiskCTFExchange then Inr (ccNegRiskExchangeV2 contracts)
     else Inl (Error ''invalid contract''))"

definition buildAppDomainSep ::
  "('k, 'p) eth_lib \<Rightarrow> OrderBuilderImpl \<Rightarrow> address \<Rightarrow> hash32 result \<times> OrderBuilderImpl" where
  "buildAppDomainSep E e verifyingContract =
     (case obAppDomainSeps e (addressHex E verifyingContract) of
        Some appHash \<Rightarrow> (Inr appHash, e)
      | None \<Rightarrow>
          (case abiArguments E [AbiBytes32 (DOMAIN_TYPE_HASH E), AbiBytes32 (PROTOCOL_NAME_HASH E),
                  AbiBytes32 (PROTOCOL_VERSION_HASH E), AbiUint256 (obChainId e),
                  AbiAddress verifyingContract] of
             Inl err \<Rightarrow> (Inl err, e)
           | Inr packed \<Rightarrow>
               let appHash = keccak256 E packed in
               (Inr appHash, e\<lparr>obAppDomainSeps :=
                  (obAppDomainSeps e)(addressHex E verifyingContract \<mapsto> appHash)\<rparr>)))"

text \<open>
  \<open>draw\<close> stands for the random source behind the salt, \<open>now\<close> for \<^verbatim>\<open>time.Now().UnixMilli()\<close>.
\<close>

definition BuildOrder ::
  "('k, 'p) eth_lib \<Rightarrow> (int \<Rightarrow> int) \<Rightarrow> int \<Rightarrow> OrderBuilderImpl \<Rightarrow> OrderData \<Rightarrow> Order result" where
  "BuildOrder E draw now e orderData =
     (let signer = (case odSigner orderData of None \<Rightarrow> hexToAddress E (odMaker orderData)
                    | Some s \<Rightarrow> hexToAddress E s) in
      case setString10 (odTokenId orderData) of
        None \<Rightarrow> Inl (Error (''can't parse TokenId: '' @ odTokenId orderData @ '' as valid *big.Int''))
      | Some tokenId \<Rightarrow> (case setString10 (odMakerAmount orderData) of
        None \<Rightarrow> Inl (Error (''can't parse MakerAmount: '' @ odMakerAmount orderData @ '' as valid *big.Int''))
      | Some makerAmount \<Rightarrow> (case setString10 (odTakerAmount orderData) of
        None \<Rightarrow> Inl (Error (''can't parse TakerAmount: '' @ odTakerAmount orderData @ '' as valid *big.Int''))
      | Some takerAmount \<Rightarrow>
      let signatureType = (case odSignatureType orderData of None \<Rightarrow> EOA | Some t \<Rightarrow> t) in
      (case (case odTimestamp orderData of None \<Rightarrow> Some now | Some t \<Rightarrow> setString10 t) of
        None \<Rightarrow> Inl (Error (''can't parse Timestamp: '' @ (case odTimestamp orderData of None \<Rightarrow> [] | Some t \<Rightarrow> t) @ '' as valid *big.Int''))
      | Some timestamp \<Rightarrow>
      let metadata = (case odMetadata orderData of None \<Rightarrow> replicate 32 0 | Some m \<Rightarrow> hexToHash E m);
          builder = (case odBuilder orderData of
              None \<Rightarrow> hexToHash E ''0x05218f8fe2ecac33c25ead880759a221303d7623f807be8b876a0bff9dd18b7c''
            | Some b \<Rightarrow> hexToHash E b);
          side = (if odSide orderData = SELL then 1 else 0);
          expiration = (case odExpiration orderData of None \<Rightarrow> ''0''
            | Some x \<Rightarrow> if x = [] then ''0'' else x)
      in Inr \<lparr>orSalt = obSaltGenerator e draw,
              orMaker = hexToAddress E (odMaker orderData),
              orSigner = signer,
              orTokenId = tokenId,
              orMakerAmount = makerAmount,
              orTakerAmount = takerAmount,
              orSide = side,
              orSignatureType = signatureType,
              orTimestamp = timestamp,
              orMetadata = metadata,
              orBuilder = builder,
              orExpiration = expiration\<rparr>))))"

definition order_message :: "('k, 'p) eth_lib \<Rightarrow> 'x Order_scheme \<Rightarrow> (string \<times> eip_value) list" where
  "order_message E order =
     [(''salt'', EipInt (orSalt order)),
      (''maker'', EipString (addressHex E (orMaker order))),
      (''signer'', EipString (addressHex E (orSigner order))),
      (''tokenId'', EipInt (orTokenId order)),
      (''makerAmount'', EipInt (orMakerAmount order)),
      (''takerAmount'', EipInt (orTakerAmount order)),
      (''side'', EipInt (orSide order)),
      (''signatureType'', EipInt (orSignatureType order)),
      (''timestamp'', EipInt (orTimestamp order)),
      (''metadata'', EipHash (orMetadata order)),
      (''builder'', EipHash (orBuilder order))]"

definition order_domain :: "('k, 'p) eth_lib \<Rightarrow> int \<Rightarrow> address \<Rightarrow> eip_domain" where
  "order_domain E chainId verifyingContract =
     \<lparr>edName = PROTOCOL_NAME, edVersion = PROTOCOL_VERSION, edChainId = int_str chainId,
      edVerifyingContract = addressHex E verifyingContract\<rparr>"

definition BuildOrderHash ::
  "('k, 'p) eth_lib \<Rightarrow> OrderBuilderImpl \<Rightarrow> Order \<Rightarrow> int \<Rightarrow> hash32 result" where
  "BuildOrderHash E e order contract =
     bind_res (GetVerifyingContractAddress E (obChainId e) contract) (\<lambda>verifyingContract.
     let typedData = \<lparr>tdTypes = ORDER_EIP712_TYPES, tdPrimaryType = ORDER_PRIMARY_TYPE,
           tdDomain = order_domain E (obChainId e) verifyingContract,
           tdMessage = order_message E order\<rparr> in
     bind_res (typedDataAndHash E typedData) (\<lambda>hash. Inr (bytesToHash E hash)))"

text \<open>
  The 1271 form: the packed contents, with Go's \<^verbatim>\<open>uint8\<close> conversions keeping the low byte, and the
  nested typed data of the deposit wallet.
\<close>

definition contents_1271 :: "('k, 'p) eth_lib \<Rightarrow> Order \<Rightarrow> abi_value list" where
  "contents_1271 E order =
     [AbiBytes32 (ORDER_TYPE_HASH E), AbiUint256 (orSalt order), AbiAddress (orMaker order),
      AbiAddress (orSigner order), AbiUint256 (orTokenId order), AbiUint256 (orMakerAmount order),
      AbiUint256 (orTakerAmount order), AbiUint8 (word_of_int (int64 (orSide order))),
      AbiUint8 (word_of_int (int64 (orSignatureType order))), AbiUint256 (orTimestamp order),
      AbiBytes32 (orMetadata order), AbiBytes32 (orBuilder order)]"

definition typed_data_1271 :: "('k, 'p) eth_lib \<Rightarrow> int \<Rightarrow> address \<Rightarrow> Order \<Rightarrow> typed_data" where
  "typed_data_1271 E chainId verifyingContract order =
     \<lparr>tdTypes = ORDER_EIP712_TYPES_1271, tdPrimaryType = ''TypedDataSign'',
      tdDomain = order_domain E chainId verifyingContract,
      tdMessage = [(''contents'', EipStruct (order_message E order)),
        (''name'', EipString ''DepositWallet''), (''version'', EipString ''1''),
        (''chainId'', EipString (int_str chainId)),
        (''verifyingContract'', EipString (addressHex E (orSigner order))),
        (''salt'', EipHash (replicate 32 0))]\<rparr>"

text \<open>
  The error of the inner \<open>Sign\<close> is assigned and never read: on an error the inner signature is the
  nil slice. A panic still propagates.
\<close>

definition BuildOrderSignature1271 ::
  "('k, 'p) eth_lib \<Rightarrow> 'k \<Rightarrow> OrderBuilderImpl \<Rightarrow> Order \<Rightarrow> int \<Rightarrow> bytes result \<times> OrderBuilderImpl" where
  "BuildOrderSignature1271 E privateKey e order contract =
     (case GetVerifyingContractAddress E (obChainId e) contract of
        Inl err \<Rightarrow> (Inl err, e)
      | Inr verifyingContract \<Rightarrow>
     (case buildAppDomainSep E e verifyingContract of
        (Inl err, e') \<Rightarrow> (Inl err, e')
      | (Inr appDomainSep, e') \<Rightarrow>
     (case abiArguments E (contents_1271 E order) of
        Inl err \<Rightarrow> (Inl err, e')
      | Inr packed \<Rightarrow>
     let contentsHash = keccak256 E packed in
     (case typedDataAndHash E (typed_data_1271 E (obChainId e) verifyingContract order) of
        Inl err \<Rightarrow> (Inl err, e')
      | Inr hash \<Rightarrow>
     (case Sign E privateKey (bytesToHash E hash) of
        Inl (Panic p) \<Rightarrow> (Inl (Panic p), e')
      | r \<Rightarrow>
        let innerSig = (case r of Inl _ \<Rightarrow> [] | Inr s \<Rightarrow> s);
            contentsType = bytes_of ORDER_TYPE_STRING;
            ctLen = length contentsType;
            lenBuf = [of_nat (ctLen div 256), of_nat ctLen]
        in (Inr (innerSig @ appDomainSep @ contentsHash @ contentsType @ lenBuf), e'))))))"

definition BuildOrderSignature ::
  "('k, 'p) eth_lib \<Rightarrow> 'k \<Rightarrow> OrderBuilderImpl \<Rightarrow> Order \<Rightarrow> int \<Rightarrow> bytes result \<times> OrderBuilderImpl" where
  "BuildOrderSignature E privateKey e order contract =
     (if orSignatureType order = POLY_1271 then BuildOrderSignature1271 E privateKey e order contract
      else (bind_res (BuildOrderHash E e order contract) (\<lambda>orderHash.
            bind_res (Sign E privateKey orderHash) (\<lambda>sign.
            bind_res (ValidateSignature E (orSigner order) orderHash sign) (\<lambda>ok.
            if \<not> ok then Inl (Error ''signature error'') else Inr sign))), e))"

definition BuildSignedOrder ::
  "('k, 'p) eth_lib \<Rightarrow> (int \<Rightarrow> int) \<Rightarrow> int \<Rightarrow> 'k \<Rightarrow> OrderBuilderImpl \<Rightarrow> OrderData \<Rightarrow> int \<Rightarrow>
     SignedOrder result \<times> OrderBuilderImpl" where
  "BuildSignedOrder E draw now privateKey e orderData contract =
     (case BuildOrder E draw now e orderData of
        Inl err \<Rightarrow> (Inl err, e)
      | Inr order \<Rightarrow>
     (case BuildOrderSignature E privateKey e order contract of
        (Inl err, e') \<Rightarrow> (Inl err, e')
      | (Inr sign, e') \<Rightarrow> (Inr (Order.extend order (SignedOrder.fields sign)), e')))"

subsection \<open>The cache of domain separators\<close>

text \<open>The separator computed without the cache.\<close>

definition app_sep :: "('k, 'p) eth_lib \<Rightarrow> int \<Rightarrow> address \<Rightarrow> hash32 result" where
  "app_sep E chainId a = bind_res (abiArguments E [AbiBytes32 (DOMAIN_TYPE_HASH E),
     AbiBytes32 (PROTOCOL_NAME_HASH E), AbiBytes32 (PROTOCOL_VERSION_HASH E), AbiUint256 chainId,
     AbiAddress a]) (\<lambda>packed. Inr (keccak256 E packed))"

text \<open>The cache invariant: every entry is the separator of its address.\<close>

definition seps_ok :: "('k, 'p) eth_lib \<Rightarrow> OrderBuilderImpl \<Rightarrow> bool" where
  "seps_ok E e \<longleftrightarrow> (\<forall>a h. obAppDomainSeps e (addressHex E a) = Some h \<longrightarrow>
     app_sep E (obChainId e) a = Inr h)"

lemma seps_ok_new [simp]: "seps_ok E (NewOrderBuilderImpl chainId g)"
  by (simp add: seps_ok_def NewOrderBuilderImpl_def)

lemma buildAppDomainSep_chain [simp]: "obChainId (snd (buildAppDomainSep E e a)) = obChainId e"
  by (simp add: buildAppDomainSep_def Let_def split: option.split sum.split)

lemma buildAppDomainSep_sep:
  assumes "seps_ok E e" shows "fst (buildAppDomainSep E e a) = app_sep E (obChainId e) a"
proof (cases "obAppDomainSeps e (addressHex E a)")
  case (Some h)
  then have "app_sep E (obChainId e) a = Inr h" using assms by (simp add: seps_ok_def)
  with Some show ?thesis by (simp add: buildAppDomainSep_def)
qed (simp add: buildAppDomainSep_def app_sep_def Let_def split: sum.split)

lemma buildAppDomainSep_ok:
  assumes "inj (addressHex E)" "seps_ok E e" shows "seps_ok E (snd (buildAppDomainSep E e a))"
  using assms unfolding seps_ok_def buildAppDomainSep_def Let_def
  by (auto simp: app_sep_def inj_eq split: option.splits sum.splits if_splits)

text \<open>The builder after a signature: unchanged, or with the separator of the verifying contract.\<close>

lemma BuildOrderSignature_builder:
  "snd (BuildOrderSignature E k e order c) = e \<or>
     (\<exists>a. snd (BuildOrderSignature E k e order c) = snd (buildAppDomainSep E e a))"
proof (cases "orSignatureType order = POLY_1271")
  case True
  show ?thesis
  proof (cases "GetVerifyingContractAddress E (obChainId e) c")
    case (Inr a)
    obtain r e' where b: "buildAppDomainSep E e a = (r, e')" by (cases "buildAppDomainSep E e a")
    have "snd (BuildOrderSignature E k e order c) = e'"
      using True Inr b by (simp add: BuildOrderSignature_def BuildOrderSignature1271_def Let_def
        split: sum.split failure.split)
    with b show ?thesis by (metis snd_conv)
  qed (simp add: True BuildOrderSignature_def BuildOrderSignature1271_def)
qed (simp add: BuildOrderSignature_def)

lemma BuildSignedOrder_builder:
  "snd (BuildSignedOrder E draw now k e od c) = e \<or>
     (\<exists>a. snd (BuildSignedOrder E draw now k e od c) = snd (buildAppDomainSep E e a))"
proof (cases "BuildOrder E draw now e od")
  case (Inr order)
  have "snd (BuildSignedOrder E draw now k e od c) = snd (BuildOrderSignature E k e order c)"
    using Inr by (simp add: BuildSignedOrder_def split: prod.split sum.split)
  then show ?thesis using BuildOrderSignature_builder by metis
qed (simp add: BuildSignedOrder_def)

lemma BuildSignedOrder_Inr:
  "BuildSignedOrder E draw now k e od c = (Inr so, e') \<longleftrightarrow>
     (\<exists>order sign. BuildOrder E draw now e od = Inr order \<and>
        BuildOrderSignature E k e order c = (Inr sign, e') \<and>
        so = Order.extend order (SignedOrder.fields sign))"
  by (auto simp: BuildSignedOrder_def split: sum.splits prod.splits)

lemma SignedOrder_of [simp]:
  "Order.truncate (Order.extend (order :: Order) (SignedOrder.fields sign)) = order"
  "soSignature (Order.extend (order :: Order) (SignedOrder.fields sign)) = sign"
  "orSigner (Order.extend (order :: Order) (SignedOrder.fields sign)) = orSigner order"
  "orSignatureType (Order.extend (order :: Order) (SignedOrder.fields sign)) = orSignatureType order"
  by (cases order; simp add: Order.defs SignedOrder.defs)+

lemma length_ORDER_TYPE_STRING: "length ORDER_TYPE_STRING = 186"
  by (simp add: ORDER_TYPE_STRING_def)

lemma BuildSignedOrder_key:
  assumes E: "sign_recovers E" "fixed_lengths E"
    and o: "BuildOrder E draw now e od = Inr order" "orSignatureType order \<noteq> POLY_1271"
    and h: "BuildOrderHash E e order c = Inr h" "cryptoSign E h k = Inr s0"
  shows "\<exists>sig. length sig = 65 \<and> BuildSignedOrder E draw now k e od c =
    (if orSigner order = keyAddress E k then Inr (Order.extend order (SignedOrder.fields sig))
     else Inl (Error ''signature error''), e)"
proof -
  have h32: "length h = 32" using h(1) E(2) by (auto simp: BuildOrderHash_def Let_def fixed_lengths_def)
  obtain sig where sig: "Sign E k h = Inr sig" using Sign_total [OF E(1) h32 h(2)] by blast
  note v = Sign_validates [OF E(1) h32 sig]
  show ?thesis using o h(1) sig v by (auto simp: BuildSignedOrder_def BuildOrderSignature_def)
qed

lemma BuildSignedOrder_valid:
  assumes "BuildSignedOrder E draw now k e od c = (Inr so, e')" and "orSignatureType so \<noteq> POLY_1271"
  shows "e' = e \<and> (\<exists>h. BuildOrderHash E e (Order.truncate so) c = Inr h \<and>
    ValidateSignature E (orSigner so) h (soSignature so) = Inr True)"
proof -
  obtain order sign where o: "BuildOrder E draw now e od = Inr order"
    and b: "BuildOrderSignature E k e order c = (Inr sign, e')"
    and so: "so = Order.extend order (SignedOrder.fields sign)"
    using assms(1) by (auto simp: BuildSignedOrder_Inr)
  have "orSignatureType order \<noteq> POLY_1271" using assms(2) so by simp
  with b obtain h where "e' = e" "BuildOrderHash E e order c = Inr h"
      "ValidateSignature E (orSigner order) h sign = Inr True"
    by (auto simp: BuildOrderSignature_def split: if_splits)
  then show ?thesis by (simp add: so)
qed

lemma BuildOrder_fields:
  assumes "BuildOrder E draw now e od = Inr order"
  shows "setString10 (odTokenId od) = Some (orTokenId order)"
    "setString10 (odMakerAmount od) = Some (orMakerAmount order)" "setString10 (odTakerAmount od) = Some (orTakerAmount order)"
    "orMaker order = hexToAddress E (odMaker od)"
    "odSigner od = Some sg \<Longrightarrow> orSigner order = hexToAddress E sg"
    "odSignatureType od = Some st \<Longrightarrow> orSignatureType order = st"
    "orSide order = (if odSide od = SELL then 1 else 0)"
  using assms by (auto simp: BuildOrder_def Let_def split: option.splits)

text \<open>A concrete order, to evaluate the builder on.\<close>

definition sample_data :: OrderData where
  "sample_data = \<lparr>odMaker = ''0x09'', odTokenId = ''1'', odMakerAmount = ''50'', odTakerAmount = ''100'',
     odSide = SELL, odSigner = Some ''0x07'', odSignatureType = Some 0, odTimestamp = Some ''12'',
     odMetadata = None, odBuilder = None, odExpiration = None\<rparr>"

lemma sample_order:
  obtains order h s0 where
    "BuildOrder toy_eth (\<lambda>_. 5) 0 (NewOrderBuilderImpl 137 None) sample_data = Inr order"
    "orSignatureType order = 0" "orSigner order = keyAddress toy_eth [7]"
    "BuildOrderHash toy_eth (NewOrderBuilderImpl 137 None) order 0 = Inr h" "cryptoSign toy_eth h [7] = Inr s0"
proof -
  have n: "setString10 ''1'' = Some 1" "setString10 ''50'' = Some 50" "setString10 ''100'' = Some 100"
    "setString10 ''12'' = Some 12" by code_simp+
  have u: "unhex ''0x07'' = [7]" by code_simp
  define order where "order = projr (BuildOrder toy_eth (\<lambda>_. 5) 0 (NewOrderBuilderImpl 137 None) sample_data)"
  have o: "BuildOrder toy_eth (\<lambda>_. 5) 0 (NewOrderBuilderImpl 137 None) sample_data = Inr order"
    "orSignatureType order = 0" "orSigner order = keyAddress toy_eth [7]"
    by (simp_all add: order_def BuildOrder_def sample_data_def n toy_eth_def Let_def u)
  define h where "h = fit 32 (fit 32 (bytes_of ORDER_PRIMARY_TYPE))"
  have "BuildOrderHash toy_eth (NewOrderBuilderImpl 137 None) order 0 = Inr h"
    "cryptoSign toy_eth h [7] = Inr (fit 64 [7] @ [0])"
    by (simp_all add: h_def BuildOrderHash_def GetVerifyingContractAddress_def CTFExchange_def toy_eth_def)
  with o show thesis by (rule that)
qed

lemma sample_signed:
  obtains so where "BuildSignedOrder toy_eth (\<lambda>_. 5) 0 [7] (NewOrderBuilderImpl 137 None) sample_data 0 =
      (Inr so, NewOrderBuilderImpl 137 None)" "orSignatureType so = 0"
proof -
  obtain order h s0 where o: "BuildOrder toy_eth (\<lambda>_. 5) 0 (NewOrderBuilderImpl 137 None) sample_data = Inr order"
    "orSignatureType order = 0" "orSigner order = keyAddress toy_eth [7]"
    "BuildOrderHash toy_eth (NewOrderBuilderImpl 137 None) order 0 = Inr h" "cryptoSign toy_eth h [7] = Inr s0"
    by (rule sample_order)
  have "orSignatureType order \<noteq> POLY_1271" using o(2) by (simp add: POLY_1271_def)
  from BuildSignedOrder_key [OF toy_hypotheses(1,4) o(1) this o(4,5)] o(2,3)
  obtain sig where "BuildSignedOrder toy_eth (\<lambda>_. 5) 0 [7] (NewOrderBuilderImpl 137 None) sample_data 0 =
      (Inr (Order.extend order (SignedOrder.fields sig)), NewOrderBuilderImpl 137 None)" by auto
  then show thesis by (rule that) (simp add: o(2))
qed

subsection \<open>Properties\<close>

text \<open>
  A signed order is correctly signed. Whenever \<open>BuildSignedOrder\<close> returns an order of a signature
  type other than 1271, its signature validates, for the order's signer, over the EIP-712 hash of
  exactly that order.
\<close>

theorem signed_order_validates:
  assumes "BuildSignedOrder E draw now k e od c = (Inr so, e')" and "orSignatureType so \<noteq> POLY_1271"
  shows "e' = e \<and> (\<exists>h. BuildOrderHash E e (Order.truncate so) c = Inr h \<and>
    ValidateSignature E (orSigner so) h (soSignature so) = Inr True)"
  by (rule BuildSignedOrder_valid [OF assms])

theorem signed_order_validates_witness:
  "\<exists>(so :: SignedOrder) h. BuildOrderHash toy_eth (NewOrderBuilderImpl 137 None) (Order.truncate so) 0 = Inr h \<and>
     ValidateSignature toy_eth (orSigner so) h (soSignature so) = Inr True"
proof -
  obtain so where so: "BuildSignedOrder toy_eth (\<lambda>_. 5) 0 [7] (NewOrderBuilderImpl 137 None) sample_data 0 =
      (Inr so, NewOrderBuilderImpl 137 None)" "orSignatureType so = 0" by (rule sample_signed)
  from so(2) have "orSignatureType so \<noteq> POLY_1271" by (simp add: POLY_1271_def)
  from signed_order_validates [OF so(1) this] show ?thesis by blast
qed

text \<open>
  C10: the builder signs exactly for its own key. When hashing and the curve operation succeed, an
  order of a signature type other than 1271 is returned if its signer is the address of the private
  key, and otherwise refused with "signature error".
\<close>

theorem signed_order_iff_key:
  assumes E: "sign_recovers E" "fixed_lengths E"
    and o: "BuildOrder E draw now e od = Inr order" "orSignatureType order \<noteq> POLY_1271"
    and h: "BuildOrderHash E e order c = Inr h" "cryptoSign E h k = Inr s0"
  shows "if orSigner order = keyAddress E k
    then \<exists>sig. length sig = 65 \<and>
      BuildSignedOrder E draw now k e od c = (Inr (Order.extend order (SignedOrder.fields sig)), e)
    else BuildSignedOrder E draw now k e od c = (Inl (Error ''signature error''), e)"
  using BuildSignedOrder_key [OF assms] by auto

theorem signed_order_iff_key_witness:
  "\<exists>sig. length sig = 65 \<and> (\<exists>order. BuildSignedOrder toy_eth (\<lambda>_. 5) 0 [7] (NewOrderBuilderImpl 137 None)
     sample_data 0 = (Inr (Order.extend order (SignedOrder.fields sig)), NewOrderBuilderImpl 137 None))"
proof -
  obtain order h s0 where o: "BuildOrder toy_eth (\<lambda>_. 5) 0 (NewOrderBuilderImpl 137 None) sample_data = Inr order"
    "orSignatureType order = 0" "orSigner order = keyAddress toy_eth [7]"
    "BuildOrderHash toy_eth (NewOrderBuilderImpl 137 None) order 0 = Inr h" "cryptoSign toy_eth h [7] = Inr s0"
    by (rule sample_order)
  have "orSignatureType order \<noteq> POLY_1271" using o(2) by (simp add: POLY_1271_def)
  from signed_order_iff_key [OF toy_hypotheses(1,4) o(1) this o(4,5)] o(3) show ?thesis by auto
qed

text \<open>
  C35: the layout of a 1271 signature: the inner signature, the domain separator, the contents hash,
  the order's type string and the big-endian length of that string (186). The inner signature is
  the one of \<open>Sign\<close>, but when \<open>Sign\<close> fails with an error the call still succeeds and the inner part
  is empty.
\<close>

theorem sig1271_layout:
  assumes "BuildOrderSignature1271 E k e order c = (Inr sig, e')"
  shows "\<exists>a sep packed hash inner. GetVerifyingContractAddress E (obChainId e) c = Inr a \<and>
    buildAppDomainSep E e a = (Inr sep, e') \<and>
    abiArguments E (contents_1271 E order) = Inr packed \<and>
    typedDataAndHash E (typed_data_1271 E (obChainId e) a order) = Inr hash \<and>
    sig = inner @ sep @ keccak256 E packed @ bytes_of ORDER_TYPE_STRING @ [0, 186] \<and>
    (Sign E k (bytesToHash E hash) = Inr inner \<or>
     (\<exists>m. Sign E k (bytesToHash E hash) = Inl (Error m)) \<and> inner = [])"
  using assms unfolding BuildOrderSignature1271_def Let_def
  by (auto simp: length_ORDER_TYPE_STRING split: sum.splits prod.splits failure.splits)

theorem sig1271_layout_witness:
  "\<exists>order sig e' inner sep ch. BuildOrderSignature1271 toy_eth [7] (NewOrderBuilderImpl 137 None) order 1 = (Inr sig, e') \<and>
     sig = inner @ sep @ ch @ bytes_of ORDER_TYPE_STRING @ [0, 186]"
proof -
  obtain order h s0 where "BuildOrder toy_eth (\<lambda>_. 5) 0 (NewOrderBuilderImpl 137 None) sample_data = Inr order"
    by (rule sample_order)
  have "\<exists>sig e'. BuildOrderSignature1271 toy_eth [7] (NewOrderBuilderImpl 137 None) order 1 = (Inr sig, e')"
    by (simp add: BuildOrderSignature1271_def GetVerifyingContractAddress_def CTFExchange_def
      NegRiskCTFExchange_def buildAppDomainSep_def NewOrderBuilderImpl_def Sign_def toy_eth_def Let_def)
  then obtain sig e' where s: "BuildOrderSignature1271 toy_eth [7] (NewOrderBuilderImpl 137 None) order 1 = (Inr sig, e')"
    by blast
  from sig1271_layout [OF s] s show ?thesis by blast
qed

text \<open>
  C27: the separator cache is transparent. With addresses told apart by their hex form, signing keeps
  the invariant that every cached separator is the one of its contract, so a lookup through the
  cache returns what would be computed without it.
\<close>

theorem domain_cache_transparent:
  assumes "inj (addressHex E)" and "seps_ok E e"
  shows "seps_ok E (snd (BuildSignedOrder E draw now k e od c)) \<and>
    fst (buildAppDomainSep E (snd (BuildSignedOrder E draw now k e od c)) a) =
      fst (buildAppDomainSep E (e\<lparr>obAppDomainSeps := Map.empty\<rparr>) a)"
proof -
  let ?e = "snd (BuildSignedOrder E draw now k e od c)"
  have ok: "seps_ok E ?e"
    using BuildSignedOrder_builder [of E draw now k e od c] buildAppDomainSep_ok [OF assms] assms(2)
    by metis
  have "obChainId ?e = obChainId e"
    using BuildSignedOrder_builder [of E draw now k e od c] buildAppDomainSep_chain by metis
  moreover have "seps_ok E (e\<lparr>obAppDomainSeps := Map.empty\<rparr>)" by (simp add: seps_ok_def)
  ultimately show ?thesis using ok by (simp add: buildAppDomainSep_sep)
qed

theorem domain_cache_transparent_witness:
  "seps_ok toy_eth (snd (BuildSignedOrder toy_eth (\<lambda>_. 5) 0 [7] (NewOrderBuilderImpl 137 None)
     (sample_data\<lparr>odSignatureType := Some 3\<rparr>) 0))"
proof -
  have "inj (addressHex toy_eth)"
    by (rule injI) (metis (no_types, lifting) toy_eth_def eth_lib.select_convs(2) append_same_eq same_append_eq
      hex_decode_encode sum.inject(2))
  from domain_cache_transparent [OF this seps_ok_new] show ?thesis by blast
qed

text \<open>
  C11: what was ordered is what goes on the wire. Token, amounts, side, signature type and timestamp
  of the order data come back unchanged in the posted order after parsing to integers, signing and
  printing, with the signature in hex.
\<close>

theorem order_wire_roundtrip:
  assumes b: "BuildSignedOrder E draw now k e od c = (Inr so, e')"
    and od: "odTokenId od = int_str tok" "odMakerAmount od = int_str ma" "odTakerAmount od = int_str ta"
      "odTimestamp od = Some (int_str ts)" "odSignatureType od = Some st" "fits64 st"
      "odSide od = BUY \<or> odSide od = SELL"
  shows "let dto = poOrder (OrderToDTO E so owner ot defer x) in
    dtTokenId dto = odTokenId od \<and> dtMakerAmount dto = odMakerAmount od \<and>
    dtTakerAmount dto = odTakerAmount od \<and> Some (dtTimestamp dto) = odTimestamp od \<and>
    dtSide dto = odSide od \<and> dtSignatureType dto = st \<and>
    hex_decode (drop 2 (dtSignature dto)) = Inr (soSignature so)"
proof -
  obtain order sign where o: "BuildOrder E draw now e od = Inr order"
    and so: "so = Order.extend order (SignedOrder.fields sign)"
    using b by (auto simp: BuildSignedOrder_Inr)
  have f: "orTokenId order = tok \<and> orMakerAmount order = ma \<and> orTakerAmount order = ta \<and>
      orTimestamp order = ts \<and> orSide order = (if odSide od = SELL then 1 else 0) \<and> orSignatureType order = st"
    using o od by (auto simp: BuildOrder_def Let_def)
  show ?thesis
    unfolding so using f od
    by (cases order) (auto simp: OrderToDTO_def Let_def Order.defs SignedOrder.defs side_defs)
qed

theorem order_wire_roundtrip_witness:
  "\<exists>so. dtMakerAmount (poOrder (OrderToDTO toy_eth so ''owner'' ''GTC'' False ''0'')) = ''50'' \<and>
     dtSide (poOrder (OrderToDTO toy_eth so ''owner'' ''GTC'' False ''0'')) = SELL"
proof -
  obtain so where so: "BuildSignedOrder toy_eth (\<lambda>_. 5) 0 [7] (NewOrderBuilderImpl 137 None) sample_data 0 =
      (Inr so, NewOrderBuilderImpl 137 None)" by (rule sample_signed)
  have "''1'' = int_str 1" "''50'' = int_str 50" "''100'' = int_str 100" "''12'' = int_str 12" by code_simp+
  with order_wire_roundtrip [OF so, of 1 50 100 12 0 "''owner''" "''GTC''" False "''0''"]
  show ?thesis by (auto simp: sample_data_def Let_def)
qed

end
