(* ===== verification/Trading.thy ===== *)
theory Trading
  imports MarketData OrderBuilder
begin

text \<open>
  The trading calls of \<^verbatim>\<open>polymarket/polymarket.go\<close>: creating limit and market orders, posting and
  cancelling them, and the paged queries of open orders and positions. \<open>draw\<close> is the random source of
  the salt; the clock of the world gives the timestamps. \<^verbatim>\<open>CreateOrder\<close> and \<^verbatim>\<open>CreateMarketOrder\<close> write
  into the order they are given: the order is part of their state.
\<close>

subsection \<open>Creating orders\<close>

text \<open>An operation of the client, in a state that also holds the caller's order.\<close>

definition on_client :: "('a, 'c) op \<Rightarrow> ('a, 'u \<times> 'c) op" where
  "on_client f s = (let (r, c) = f (snd s) in (r, (fst s, c)))"

text \<open>The maker, the signature type and the signer of an order.\<close>

definition order_parties ::
  "('k, 'p) eth_lib \<Rightarrow> CreateOrderOptions \<Rightarrow> ('k, 's) PolymarketClient \<Rightarrow> string \<times> int \<times> string" where
  "order_parties E options c =
     (let pm = cfPolymarket (pcCfg c);
          self = addressHex E (sgAddress (pcSigner c));
          maker = (if pmFunderAddress pm \<noteq> [] then pmFunderAddress pm else self);
          signatureType = (case coSignatureType options of None \<Rightarrow> pmSignatureType pm | Some t \<Rightarrow> t);
          signerForOrder = (if signatureType = POLY_1271 then maker else self)
      in (maker, signatureType, signerForOrder))"

definition resolve_neg_risk ::
  "'s http_lib \<Rightarrow> 'j gjson_lib \<Rightarrow> string \<Rightarrow> CreateOrderOptions \<Rightarrow> (bool, ('k, 's) PolymarketClient) op" where
  "resolve_neg_risk L J tokenID options = (case coNegRisk options of
     Some b \<Rightarrow> pure_op (Inr b) | None \<Rightarrow> GetNegRisk L J tokenID)"

definition exchange_of :: "bool \<Rightarrow> int" where
  "exchange_of negRisk = (if negRisk then NegRiskCTFExchange else CTFExchange)"

definition unix_milli :: "('k, 's) PolymarketClient \<Rightarrow> int" where
  "unix_milli c = wNow (pcWorld c) div millisecond"

text \<open>\<^verbatim>\<open>builder.BuildSignedOrder\<close> with a new builder and the client's key.\<close>

definition sign_order ::
  "('k, 'p) eth_lib \<Rightarrow> (int \<Rightarrow> int) \<Rightarrow> bool \<Rightarrow> ('k, 's) PolymarketClient \<Rightarrow> OrderData \<Rightarrow> SignedOrder result" where
  "sign_order E draw negRisk c orderData = fst (BuildSignedOrder E draw (unix_milli c) (sgPrivateKey (pcSigner c))
     (NewOrderBuilderImpl (pmChainID (cfPolymarket (pcCfg c))) None) orderData (exchange_of negRisk))"

definition CreateOrder ::
  "('k, 'p) eth_lib \<Rightarrow> 'd decimal_lib \<Rightarrow> 's http_lib \<Rightarrow> 'j gjson_lib \<Rightarrow> (int \<Rightarrow> int) \<Rightarrow> CreateOrderOptions \<Rightarrow>
     (SignedOrder, UserOrder \<times> ('k, 's) PolymarketClient) op" where
  "CreateOrder E D L J draw options s =
     (let token = uoTokenID (fst s) in
      if pmChainID (cfPolymarket (pcCfg (snd s))) = 0 then (Inl (Error ''chainID cannot be empty''), s)
      else
        bind_op (on_client (ResolveTickSize L J token (coTickSize options))) (\<lambda>tickSize s.
        if \<not> PriceValid (uoPrice (fst s)) tickSize then (Inl (Error ''invalid price''), s)
        else
          bind_op (on_client (resolve_neg_risk L J token options)) (\<lambda>negRisk (uo, c).
          let (maker, signatureType, signerForOrder) = order_parties E options c;
              uo = (case uoBuilderCode uo of None \<Rightarrow> uo\<lparr>uoBuilderCode := pmBuilderCode (cfPolymarket (pcCfg c))\<rparr>
                    | Some _ \<Rightarrow> uo)
          in (bind_res (GetRoundConfig tickSize) (\<lambda>rc.
              bind_res (BuildOrderCreationArgs D (unix_milli c) signerForOrder maker signatureType uo rc)
                (sign_order E draw negRisk c)), (uo, c))) s) s)"

definition CreateMarketOrder ::
  "('k, 'p) eth_lib \<Rightarrow> 'd decimal_lib \<Rightarrow> 's http_lib \<Rightarrow> 'j gjson_lib \<Rightarrow> (int \<Rightarrow> int) \<Rightarrow> CreateOrderOptions \<Rightarrow>
     OrderBookSummary option \<Rightarrow> (SignedOrder, UserMarketOrder \<times> ('k, 's) PolymarketClient) op" where
  "CreateMarketOrder E D L J draw options book s =
     (let token = umTokenID (fst s) in
      if pmChainID (cfPolymarket (pcCfg (snd s))) = 0 then (Inl (Error ''chainID cannot be empty''), s)
      else
        bind_op (on_client (ResolveTickSize L J token (coTickSize options))) (\<lambda>tickSize.
        bind_op (\<lambda>s. case umPrice (fst s) of Some p \<Rightarrow> (Inr p, s)
          | None \<Rightarrow> bind_op (on_client (CalculateMarketPrice L J token (umSide (fst s)) (umAmount (fst s))
                (umOrderType (fst s)) book)) (\<lambda>price (um, c). (Inr price, (um\<lparr>umPrice := Some price\<rparr>, c))) s)
          (\<lambda>price s.
        if \<not> PriceValid price tickSize then (Inl (Error ''invalid price''), s)
        else
          bind_op (on_client (resolve_neg_risk L J token options)) (\<lambda>negRisk (um, c).
          let um = (case umBuilderCode um of None \<Rightarrow> um\<lparr>umBuilderCode := pmBuilderCode (cfPolymarket (pcCfg c))\<rparr>
                    | Some _ \<Rightarrow> um);
              (maker, signatureType, signerForOrder) = order_parties E options c
          in (bind_res (GetRoundConfig tickSize) (\<lambda>rc.
              bind_res (BuildMarketOrderCreationArgs D (unix_milli c) signerForOrder maker signatureType um rc)
                (sign_order E draw negRisk c)), (um, c))) s)) s)"

subsection \<open>Posting and cancelling\<close>

text \<open>The JSON texts of the request bodies, in the order of the struct fields.\<close>

definition order_json :: "OrderDTO \<Rightarrow> json" where
  "order_json d = JObj
     [(''salt'', JInt (dtSalt d)), (''maker'', JStr (dtMaker d)), (''signer'', JStr (dtSigner d)),
      (''tokenId'', JStr (dtTokenId d)), (''makerAmount'', JStr (dtMakerAmount d)),
      (''takerAmount'', JStr (dtTakerAmount d)), (''side'', JStr (dtSide d)),
      (''signatureType'', JInt (dtSignatureType d)), (''timestamp'', JStr (dtTimestamp d)),
      (''expiration'', JStr (dtExpiration d)), (''metadata'', JStr (dtMetadata d)),
      (''builder'', JStr (dtBuilder d)), (''signature'', JStr (dtSignature d))]"

definition post_order_json :: "PostOrderDTO \<Rightarrow> json" where
  "post_order_json p = JObj
     [(''deferExec'', JBool (poDeferExec p)), (''order'', order_json (poOrder p)),
      (''owner'', JStr (poOwner p)), (''orderType'', JStr (poOrderType p))]"

text \<open>\<^verbatim>\<open>Headers.CreateL2Headers\<close> for the client's signer and credentials, at the time of the call.\<close>

definition l2_headers ::
  "('k, 'p) eth_lib \<Rightarrow> string \<Rightarrow> string \<Rightarrow> string option \<Rightarrow> (headers, ('k, 's) PolymarketClient) op" where
  "l2_headers E method path body c = (CreateL2Headers E (wNow (pcWorld c) div seconds) (sgAddress (pcSigner c))
     (pmCLOBCreds (cfPolymarket (pcCfg c))) (Some \<lparr>lhMethod = method, lhRequestPath = path, lhBody = body\<rparr>) None, c)"

definition with_relayer :: "headers \<Rightarrow> (headers, ('k, 's) PolymarketClient) op" where
  "with_relayer hs c = (let pm = cfPolymarket (pcCfg c) in
     if HasRelayerAuth pm then bind_res (CreateRelayerHeaders (pmRelayerKey pm)) (\<lambda>rh. Inr (hs ++ rh)) else Inr hs, c)"

definition api_key :: "('k, 's) PolymarketClient \<Rightarrow> string" where
  "api_key c = (case pmCLOBCreds (cfPolymarket (pcCfg c)) of None \<Rightarrow> [] | Some k \<Rightarrow> akKey k)"

definition PostOrder ::
  "('k, 'p) eth_lib \<Rightarrow> 's http_lib \<Rightarrow> 'j gjson_lib \<Rightarrow> SignedOrder \<Rightarrow> string \<Rightarrow> bool \<Rightarrow> ('j, ('k, 's) PolymarketClient) op" where
  "PostOrder E L J order orderType deferExec c =
     (if \<not> HasCLOBAuth (cfPolymarket (pcCfg c)) then (Inl (Error ''creds cannot be empty''), c)
      else let body = json_text (post_order_json (OrderToDTO E order (api_key c) orderType deferExec ''0'')) in
        bind_op (l2_headers E ''POST'' ''/order'' (Some body)) (\<lambda>hs.
        bind_op (with_relayer hs) (\<lambda>hs.
        Post L J (clob_url c ''/order'') (Some body) (Some hs))) c)"

text \<open>The slice of payloads is nil when there are no arguments.\<close>

definition PostOrders ::
  "('k, 'p) eth_lib \<Rightarrow> 's http_lib \<Rightarrow> 'j gjson_lib \<Rightarrow> (SignedOrder \<times> string) list \<Rightarrow> bool \<Rightarrow>
     ('j, ('k, 's) PolymarketClient) op" where
  "PostOrders E L J args deferExec c =
     (if \<not> HasCLOBAuth (cfPolymarket (pcCfg c)) then (Inl (Error ''creds cannot be empty''), c)
      else let body = json_text (json_slice (\<lambda>(order, orderType).
                 post_order_json (OrderToDTO E order (api_key c) orderType deferExec ''0''))
                 (if args = [] then None else Some args)) in
        bind_op (l2_headers E ''POST'' ''/orders'' (Some body)) (\<lambda>hs.
        bind_op (with_relayer hs) (\<lambda>hs.
        Post L J (clob_url c ''/orders'') (Some body) (Some hs))) c)"

definition CancelOrder ::
  "('k, 'p) eth_lib \<Rightarrow> 's http_lib \<Rightarrow> 'j gjson_lib \<Rightarrow> string \<Rightarrow> ('j, ('k, 's) PolymarketClient) op" where
  "CancelOrder E L J orderID c =
     (if \<not> HasCLOBAuth (cfPolymarket (pcCfg c)) then (Inl (Error ''creds cannot be empty''), c)
      else let body = json_text (JObj [(''orderID'', JStr orderID)]) in
        bind_op (l2_headers E ''DELETE'' ''/order'' (Some body)) (\<lambda>hs.
        Del L J (clob_url c ''/order'') None (Some body) (Some hs)) c)"

definition CancelOrders ::
  "('k, 'p) eth_lib \<Rightarrow> 's http_lib \<Rightarrow> 'j gjson_lib \<Rightarrow> string list option \<Rightarrow> ('j, ('k, 's) PolymarketClient) op" where
  "CancelOrders E L J ordersHashes c =
     (if \<not> HasCLOBAuth (cfPolymarket (pcCfg c)) then (Inl (Error ''creds cannot be empty''), c)
      else let body = json_text (json_slice JStr ordersHashes) in
        bind_op (l2_headers E ''DELETE'' ''/orders'' (Some body)) (\<lambda>hs.
        Del L J (clob_url c ''/orders'') None (Some body) (Some hs)) c)"

text \<open>No check of the credentials here.\<close>

definition CancelMarketOrders ::
  "('k, 'p) eth_lib \<Rightarrow> 's http_lib \<Rightarrow> 'j gjson_lib \<Rightarrow> string \<Rightarrow> string \<Rightarrow> ('j, ('k, 's) PolymarketClient) op" where
  "CancelMarketOrders E L J market assetId c =
     (let body = json_text (JObj [(''market'', JStr market), (''asset_id'', JStr assetId)]) in
        bind_op (l2_headers E ''DELETE'' ''/cancel-market-orders'' (Some body)) (\<lambda>hs.
        Del L J (clob_url c ''/cancel-market-orders'') None (Some body) (Some hs)) c)"

definition GetApiKeys ::
  "('k, 'p) eth_lib \<Rightarrow> 's http_lib \<Rightarrow> 'j gjson_lib \<Rightarrow> (string list, ('k, 's) PolymarketClient) op" where
  "GetApiKeys E L J c =
     (if \<not> HasCLOBAuth (cfPolymarket (pcCfg c)) then (Inl (Error ''creds cannot be empty''), c)
      else
        bind_op (l2_headers E ''GET'' ''/auth/api-keys'' None) (\<lambda>hs.
        bind_op (Get L J (clob_url c ''/auth/api-keys'') None (Some hs)) (\<lambda>result.
        pure_op (Inr (map (gString J) (filter (\<lambda>i. gType J i = JString) (getA J result ''apiKeys'')))))) c)"

subsection \<open>Pages of open orders\<close>

definition read_open_order :: "'j gjson_lib \<Rightarrow> 'j \<Rightarrow> OpenOrder" where
  "read_open_order J i =
     \<lparr>ooId = getS J i ''id'', ooStatus = getS J i ''status'', ooOwner = getS J i ''owner'',
      ooMakerAddress = getS J i ''maker_address'', ooMarket = getS J i ''market'', ooAssetId = getS J i ''asset_id'',
      ooSide = getS J i ''side'', ooOriginalSize = getF J i ''original_size'', ooSizeMatched = getF J i ''size_matched'',
      ooPrice = getF J i ''price'', ooAssociateTrades = GetStringArray J i ''associate_trades'',
      ooOutcome = getS J i ''outcome'', ooCreatedAt = getI J i ''created_at'', ooExpiration = getS J i ''expiration'',
      ooOrderType = getS J i ''order_type''\<rparr>"

definition add_param :: "string \<Rightarrow> string option \<Rightarrow> headers \<Rightarrow> headers" where
  "add_param k v ps = (case v of None \<Rightarrow> ps | Some x \<Rightarrow> ps(k \<mapsto> x))"

definition open_params :: "OpenOrderParams option \<Rightarrow> string \<Rightarrow> headers" where
  "open_params params cursor = (let ps = [''next_cursor'' \<mapsto> cursor] in
     case params of None \<Rightarrow> ps
     | Some p \<Rightarrow> add_param ''asset_id'' (opAssetId p) (add_param ''id'' (opId p) (add_param ''market'' (opMarket p) ps)))"

text \<open>The loop ends only when the server says so: not returning is \<open>None\<close>.\<close>

partial_function (option) open_orders_loop ::
  "'s http_lib \<Rightarrow> 'j gjson_lib \<Rightarrow> string \<Rightarrow> headers \<Rightarrow> OpenOrderParams option \<Rightarrow> bool \<Rightarrow> string \<Rightarrow> OpenOrder list \<Rightarrow>
     ('k, 's) PolymarketClient \<Rightarrow> (OpenOrder list result \<times> ('k, 's) PolymarketClient) option" where
  "open_orders_loop L J url hs params onlyFirstPage cursor acc c =
     (if cursor \<noteq> ''LTE='' \<and> (cursor = ''MA=='' \<or> \<not> onlyFirstPage) then
        (case Get L J url (Some (open_params params cursor)) (Some hs) c of
           (Inl e, c') \<Rightarrow> Some (Inl e, c')
         | (Inr result, c') \<Rightarrow> open_orders_loop L J url hs params onlyFirstPage (getS J result ''next_cursor'')
             (acc @ map (read_open_order J) (getA J result ''data'')) c')
      else Some (Inr acc, c))"

definition GetOpenOrders ::
  "('k, 'p) eth_lib \<Rightarrow> 's http_lib \<Rightarrow> 'j gjson_lib \<Rightarrow> OpenOrderParams option \<Rightarrow> bool \<Rightarrow> string option \<Rightarrow>
     ('k, 's) PolymarketClient \<Rightarrow> (OpenOrder list result \<times> ('k, 's) PolymarketClient) option" where
  "GetOpenOrders E L J params onlyFirstPage nextCursor c =
     (if \<not> HasCLOBAuth (cfPolymarket (pcCfg c)) then Some (Inl (Error ''creds cannot be empty''), c)
      else case l2_headers E ''GET'' ''/data/orders'' None c of
          (Inl e, c') \<Rightarrow> Some (Inl e, c')
        | (Inr hs, c') \<Rightarrow> open_orders_loop L J (clob_url c ''/data/orders'') hs params onlyFirstPage
            (case nextCursor of None \<Rightarrow> ''MA=='' | Some x \<Rightarrow> x) [] c')"

subsection \<open>Pages of positions\<close>

record PositionParams =
  ppUser :: string
  ppCondition :: string
  ppStatus :: string
  ppEventId :: string
  ppTitle :: string
  ppFilterType :: string
  ppFilterAmount :: "float64 option"
  ppSortBy :: string
  ppSortDirection :: string
  ppLimit :: int

definition no_params :: PositionParams where
  "no_params = \<lparr>ppUser = [], ppCondition = [], ppStatus = [], ppEventId = [], ppTitle = [], ppFilterType = [],
     ppFilterAmount = None, ppSortBy = [], ppSortDirection = [], ppLimit = 0\<rparr>"

definition opt_param :: "string \<Rightarrow> string \<Rightarrow> headers \<Rightarrow> headers" where
  "opt_param k v ps = (if v = [] then ps else ps(k \<mapsto> v))"

definition position_params :: "string \<Rightarrow> PositionParams \<Rightarrow> string \<Rightarrow> headers" where
  "position_params user p cursor =
     (let ps = opt_param ''condition'' (ppCondition p) (opt_param ''user'' user Map.empty) in
      if cursor \<noteq> [] then ps(''cursor'' \<mapsto> cursor)
      else
        let ps = opt_param ''filter_type'' (ppFilterType p) (opt_param ''title'' (ppTitle p)
              (opt_param ''event_id'' (ppEventId p) (opt_param ''status'' (ppStatus p) ps)));
            ps = (case ppFilterAmount p of None \<Rightarrow> ps | Some x \<Rightarrow> ps(''filter_amount'' \<mapsto> formatFloat x));
            ps = opt_param ''sort_direction'' (ppSortDirection p) (opt_param ''sort_by'' (ppSortBy p) ps)
        in if 0 < ppLimit p then ps(''limit'' \<mapsto> int_str (ppLimit p)) else ps)"

text \<open>The rows of a page; \<open>decode\<close> stands for \<^verbatim>\<open>json.Unmarshal\<close> into a \<^verbatim>\<open>Position\<close>.\<close>

fun decode_rows :: "(string \<Rightarrow> 'r result) \<Rightarrow> string list \<Rightarrow> 'r list result" where
  "decode_rows decode [] = Inr []"
| "decode_rows decode (raw # raws) = (case decode raw of
     Inl (Error e) \<Rightarrow> Inl (Error (''decode position '' @ raw @ '': '' @ e))
   | Inl (Panic p) \<Rightarrow> Inl (Panic p)
   | Inr p \<Rightarrow> bind_res (decode_rows decode raws) (\<lambda>ps. Inr (p # ps)))"

definition next_position_cursor :: "'j gjson_lib \<Rightarrow> 'j \<Rightarrow> string" where
  "next_position_cursor J result = (let next = gGet J result ''pagination.next_cursor'' in
     if gType J next \<noteq> JString \<or> gString J next = [] then [] else gString J next)"

partial_function (option) positions_loop ::
  "'s http_lib \<Rightarrow> 'j gjson_lib \<Rightarrow> (string \<Rightarrow> 'r result) \<Rightarrow> string \<Rightarrow> string \<Rightarrow> PositionParams \<Rightarrow> bool \<Rightarrow> string \<Rightarrow> 'r list \<Rightarrow>
     ('k, 's) PolymarketClient \<Rightarrow> (('r list \<times> string) result \<times> ('k, 's) PolymarketClient) option" where
  "positions_loop L J decode url user params onlyFirstPage cursor acc c =
     (case Get L J url (Some (position_params user params cursor)) None c of
        (Inl e, c') \<Rightarrow> Some (Inl e, c')
      | (Inr result, c') \<Rightarrow>
          (case decode_rows decode (map (gRaw J) (getA J result ''data'')) of
             Inl e \<Rightarrow> Some (Inl e, c')
           | Inr rows \<Rightarrow>
               let cursor = next_position_cursor J result in
               if cursor = [] \<or> onlyFirstPage then Some (Inr (acc @ rows, cursor), c')
               else positions_loop L J decode url user params onlyFirstPage cursor (acc @ rows) c'))"

text \<open>
  The result holds the rows and what the caller's cursor variable is afterwards: \<open>None\<close> when the caller
  passed no variable, unchanged when the call fails.
\<close>

definition search_result ::
  "string option \<Rightarrow> (('r list \<times> string) result \<times> 'c) option \<Rightarrow> ('r list result \<times> string option \<times> 'c) option" where
  "search_result nextCursor x = (case x of
       None \<Rightarrow> None
     | Some (Inl e, c) \<Rightarrow> Some (Inl e, nextCursor, c)
     | Some (Inr (rows, cursor), c) \<Rightarrow> Some (Inr rows, map_option (\<lambda>_. cursor) nextCursor, c))"

definition SearchPositions ::
  "'s http_lib \<Rightarrow> 'j gjson_lib \<Rightarrow> (string \<Rightarrow> 'r result) \<Rightarrow> PositionParams option \<Rightarrow> bool \<Rightarrow> string option \<Rightarrow>
     ('k, 's) PolymarketClient \<Rightarrow> ('r list result \<times> string option \<times> ('k, 's) PolymarketClient) option" where
  "SearchPositions L J decode params onlyFirstPage nextCursor c =
     (let params = (case params of None \<Rightarrow> no_params | Some p \<Rightarrow> p);
          user = (if ppUser params = [] then pmFunderAddress (cfPolymarket (pcCfg c)) else ppUser params)
      in if user = [] \<and> ppCondition params = [] then Some (Inl (Error ''user or condition is required''), nextCursor, c)
         else search_result nextCursor (positions_loop L J decode
           (pmDataAPIBaseURL (cfPolymarket (pcCfg c)) @ ''/v2/positions'') user params onlyFirstPage
           (case nextCursor of None \<Rightarrow> [] | Some x \<Rightarrow> x) [] c))"

subsection \<open>Signed requests\<close>

definition signed_request :: "ApiKeyCreds \<Rightarrow> string \<Rightarrow> http_request \<Rightarrow> bool" where
  "signed_request k path rq \<longleftrightarrow> (\<exists>ts.
     rqHeaders rq ''POLY_SIGNATURE'' = Some (GenSignature (akSecret k) ts (rqMethod rq) path (rqBody rq)) \<and>
     rqHeaders rq ''POLY_TIMESTAMP'' = Some (int_str ts) \<and>
     rqHeaders rq ''POLY_API_KEY'' = Some (akKey k) \<and> rqHeaders rq ''POLY_PASSPHRASE'' = Some (akPassphrase k))"

definition sends_signed ::
  "ApiKeyCreds \<Rightarrow> string \<Rightarrow> string \<Rightarrow> ('a, ('k, 's) PolymarketClient) op \<Rightarrow> ('k, 's) PolymarketClient \<Rightarrow> bool" where
  "sends_signed k method path f c \<longleftrightarrow> (\<exists>rq a. wTrace (pcWorld (snd (f c))) = wTrace (pcWorld c) @ [Sent rq a] \<and>
     rqMethod rq = method \<and> rqURL rq = clob_url c path \<and> rqBody rq \<noteq> None \<and> signed_request k path rq)"

lemma send_once_trace: "\<exists>a. wTrace (pcWorld (snd (send_once L J rq c))) = wTrace (pcWorld c) @ [Sent rq a]"
  by (auto simp: send_once_def do_request_def Let_def split: prod.splits sum.splits)

lemma overload_poly:
  assumes "k = ''POLY_SIGNATURE'' \<or> k = ''POLY_TIMESTAMP'' \<or> k = ''POLY_API_KEY'' \<or> k = ''POLY_PASSPHRASE''"
  shows "the_headers (OverloadHeaders m (Some h)) k = h k"
  using assms by (auto simp: the_headers_def OverloadHeaders_def Let_def)

lemma l2_headers_ok:
  assumes "pmCLOBCreds (cfPolymarket (pcCfg c)) = Some k"
  obtains h ts where "l2_headers E m path body c = (Inr h, c)"
    "h ''POLY_SIGNATURE'' = Some (GenSignature (akSecret k) ts m path body)" "h ''POLY_TIMESTAMP'' = Some (int_str ts)"
    "h ''POLY_API_KEY'' = Some (akKey k)" "h ''POLY_PASSPHRASE'' = Some (akPassphrase k)"
  using assms by (auto simp: l2_headers_def CreateL2Headers_def Let_def)

lemma sends_signed_del:
  assumes "pmCLOBCreds (cfPolymarket (pcCfg c)) = Some k"
  shows "sends_signed k ''DELETE'' path (\<lambda>c. bind_op (l2_headers E ''DELETE'' path (Some body)) (\<lambda>hs.
    Del L J (clob_url c path) None (Some body) (Some hs)) c) c"
proof -
  obtain h ts where h: "l2_headers E ''DELETE'' path (Some body) c = (Inr h, c)"
    "h ''POLY_SIGNATURE'' = Some (GenSignature (akSecret k) ts ''DELETE'' path (Some body))" "h ''POLY_TIMESTAMP'' = Some (int_str ts)"
    "h ''POLY_API_KEY'' = Some (akKey k)" "h ''POLY_PASSPHRASE'' = Some (akPassphrase k)"
    by (rule l2_headers_ok [OF assms])
  define rq where "rq = \<lparr>rqMethod = MethodDelete, rqURL = clob_url c path, rqParams = the_headers None, rqBody = Some body,
      rqHeaders = the_headers (OverloadHeaders MethodDelete (Some h))\<rparr>"
  have "signed_request k path rq" unfolding signed_request_def rq_def
    using h by (intro exI [of _ ts]) (simp add: overload_poly MethodDelete_def)
  with send_once_trace [of L J rq c] show ?thesis
    by (auto simp: sends_signed_def bind_op_def h(1) Del_def rq_def MethodDelete_def)
qed

lemma sends_signed_post:
  assumes "pmCLOBCreds (cfPolymarket (pcCfg c)) = Some k"
  shows "sends_signed k ''POST'' path (\<lambda>c. bind_op (l2_headers E ''POST'' path (Some body)) (\<lambda>hs.
    bind_op (with_relayer hs) (\<lambda>hs. Post L J (clob_url c path) (Some body) (Some hs))) c) c"
proof -
  obtain h ts where h: "l2_headers E ''POST'' path (Some body) c = (Inr h, c)"
    "h ''POLY_SIGNATURE'' = Some (GenSignature (akSecret k) ts ''POST'' path (Some body))" "h ''POLY_TIMESTAMP'' = Some (int_str ts)"
    "h ''POLY_API_KEY'' = Some (akKey k)" "h ''POLY_PASSPHRASE'' = Some (akPassphrase k)"
    by (rule l2_headers_ok [OF assms])
  obtain h' where h': "with_relayer h c = (Inr h', c)" "h' ''POLY_SIGNATURE'' = h ''POLY_SIGNATURE''"
    "h' ''POLY_TIMESTAMP'' = h ''POLY_TIMESTAMP''" "h' ''POLY_API_KEY'' = h ''POLY_API_KEY''"
    "h' ''POLY_PASSPHRASE'' = h ''POLY_PASSPHRASE''"
    by (cases "pmRelayerKey (cfPolymarket (pcCfg c))")
      (auto simp: with_relayer_def HasRelayerAuth_def CreateRelayerHeaders_def Let_def map_add_def)
  define rq where "rq = \<lparr>rqMethod = MethodPost, rqURL = clob_url c path, rqParams = Map.empty, rqBody = Some body,
      rqHeaders = the_headers (OverloadHeaders MethodPost (Some h'))\<rparr>"
  have "signed_request k path rq" unfolding signed_request_def rq_def
    using h h' by (intro exI [of _ ts]) (simp add: overload_poly MethodPost_def)
  with send_once_trace [of L J rq c] show ?thesis
    by (auto simp: sends_signed_def bind_op_def h(1) h'(1) Post_def rq_def MethodPost_def)
qed

subsection \<open>Reading all pages\<close>

text \<open>The pages that the server serves from a cursor on, up to the end cursor.\<close>

inductive open_pages ::
  "'s http_lib \<Rightarrow> 'j gjson_lib \<Rightarrow> string \<Rightarrow> headers \<Rightarrow> OpenOrderParams option \<Rightarrow> string \<Rightarrow> ('k, 's) PolymarketClient \<Rightarrow>
     'j list \<Rightarrow> ('k, 's) PolymarketClient \<Rightarrow> bool" for L J url hs params where
  pages_end: "open_pages L J url hs params ''LTE='' c [] c"
| pages_more: "cursor \<noteq> ''LTE='' \<Longrightarrow> Get L J url (Some (open_params params cursor)) (Some hs) c = (Inr r, d) \<Longrightarrow>
    open_pages L J url hs params (getS J r ''next_cursor'') d rs c' \<Longrightarrow>
    open_pages L J url hs params cursor c (r # rs) c'"

definition page_orders :: "'j gjson_lib \<Rightarrow> 'j \<Rightarrow> OpenOrder list" where
  "page_orders J r = map (read_open_order J) (getA J r ''data'')"

lemma open_loop_pages:
  "open_pages L J url hs params cursor c rs c' \<Longrightarrow>
     open_orders_loop L J url hs params False cursor acc c = Some (Inr (acc @ concat (map (page_orders J) rs)), c')"
proof (induction arbitrary: acc rule: open_pages.induct)
  case (pages_end c)
  then show ?case by (simp add: open_orders_loop.simps)
next
  case (pages_more cursor c r d rs c')
  then show ?case by (simp add: open_orders_loop.simps [of L J url hs params False cursor] page_orders_def)
qed

lemma open_loop_sound:
  assumes "open_orders_loop L J url hs params onlyFirst cursor acc c = Some y"
  shows "\<not> onlyFirst \<Longrightarrow> y = (Inr xs, c') \<Longrightarrow>
    \<exists>rs. open_pages L J url hs params cursor c rs c' \<and> xs = acc @ concat (map (page_orders J) rs)"
  using assms
proof (induction L J url hs params onlyFirst cursor acc c y arbitrary: xs c' rule: open_orders_loop.raw_induct [rotated, consumes 1, case_names step])
  case (step loop L J url hs params onlyFirst cursor acc c y)
  show ?case
  proof (cases "cursor = ''LTE=''")
    case True
    with step(2-) show ?thesis by (auto intro!: exI [of _ "[]"] pages_end)
  next
    case False
    with step(2-) obtain r d where g: "Get L J url (Some (open_params params cursor)) (Some hs) c = (Inr r, d)"
      and rec: "loop L J url hs params onlyFirst (getS J r ''next_cursor'') (acc @ page_orders J r) d = Some y"
      by (auto simp: page_orders_def split: prod.splits sum.splits if_splits)
    from step(1) [OF rec step(3,4)] obtain rs where "open_pages L J url hs params (getS J r ''next_cursor'') d rs c'"
      "xs = (acc @ page_orders J r) @ concat (map (page_orders J) rs)" by blast
    with pages_more [OF False g] show ?thesis by (intro exI [of _ "r # rs"]) simp
  qed
qed

lemma open_orders_start:
  assumes "pmCLOBCreds (cfPolymarket (pcCfg c)) = Some k"
  shows "\<exists>hs. \<forall>params first cursor. GetOpenOrders E L J params first cursor c =
    open_orders_loop L J (clob_url c ''/data/orders'') hs params first (case cursor of None \<Rightarrow> ''MA=='' | Some x \<Rightarrow> x) [] c"
proof -
  obtain hs ts where h: "l2_headers E ''GET'' ''/data/orders'' None c = (Inr hs, c)" by (rule l2_headers_ok [OF assms])
  show ?thesis by (rule exI [of _ hs]) (simp add: GetOpenOrders_def HasCLOBAuth_def assms h)
qed

text \<open>Positions: what was collected before does not matter for the rest.\<close>

lemma positions_loop_acc:
  assumes "positions_loop L J decode url user params first cursor acc c = Some y"
  shows "case fst y of
      Inl e \<Rightarrow> (\<forall>acc'. positions_loop L J decode url user params first cursor acc' c = Some y)
    | Inr (ys, cur) \<Rightarrow> (\<exists>xs. ys = acc @ xs \<and>
        (\<forall>acc'. positions_loop L J decode url user params first cursor acc' c = Some (Inr (acc' @ xs, cur), snd y)))"
  using assms
proof (induction L J decode url user params first cursor acc c y
    rule: positions_loop.raw_induct [rotated, consumes 1, case_names step])
  case (step loop L J decode url user params first cursor acc c y)
  obtain g d where g: "Get L J url (Some (position_params user params cursor)) None c = (g, d)" by fastforce
  note simps = positions_loop.simps [of L J decode url user params first cursor]
  show ?case
  proof (cases g)
    case (Inl e)
    with step(2) g show ?thesis by (auto simp: simps)
  next
    case (Inr r)
    note r = this
    show ?thesis
    proof (cases "decode_rows decode (map (gRaw J) (getA J r ''data''))")
      case (Inl e)
      with step(2) g r show ?thesis by (auto simp: simps)
    next
      case (Inr rows)
      show ?thesis
      proof (cases "next_position_cursor J r = [] \<or> first")
        case True
        with step(2) g r Inr have "y = (Inr (acc @ rows, next_position_cursor J r), d)" by (auto simp: Let_def)
        with True g r Inr show ?thesis by (auto simp: simps Let_def)
      next
        case False
        with step(2) g r Inr have rec: "loop L J decode url user params first (next_position_cursor J r) (acc @ rows) d = Some y"
          by (simp add: Let_def)
        have "positions_loop L J decode url user params first cursor acc' c =
            positions_loop L J decode url user params first (next_position_cursor J r) (acc' @ rows) d" for acc'
          by (subst positions_loop.simps) (use False g r Inr in \<open>simp add: Let_def\<close>)
        with step(1) [OF rec] show ?thesis by (auto split: sum.splits)
      qed
    qed
  qed
qed

lemma positions_loop_prefix:
  "positions_loop L J decode url user params first cursor acc c =
     (case positions_loop L J decode url user params first cursor [] c of
        None \<Rightarrow> None | Some (Inl e, d) \<Rightarrow> Some (Inl e, d) | Some (Inr (ys, cur), d) \<Rightarrow> Some (Inr (acc @ ys, cur), d))"
proof (cases "positions_loop L J decode url user params first cursor [] c")
  case None
  have "positions_loop L J decode url user params first cursor acc c = None"
  proof (rule ccontr)
    assume "\<not> ?thesis"
    then obtain y where "positions_loop L J decode url user params first cursor acc c = Some y" by blast
    from positions_loop_acc [OF this] None show False by (auto split: sum.splits)
  qed
  with None show ?thesis by simp
next
  case (Some y)
  from positions_loop_acc [OF this] Some show ?thesis by (cases y) (auto split: sum.splits)
qed

lemma positions_loop_page:
  assumes "positions_loop L J decode url user params True cursor acc c = Some (Inr (rows, nxt), d)"
  shows "positions_loop L J decode url user params False cursor acc c =
     (if nxt = [] then Some (Inr (rows, nxt), d) else positions_loop L J decode url user params False nxt rows d)"
  and "same_client c d"
  using assms by (auto simp: positions_loop.simps [of _ _ _ _ _ _ _ cursor] Let_def dest: Get_same
    split: prod.splits sum.splits if_splits)

subsection \<open>From a user's order to the signed one\<close>

lemma on_client_Inr: "on_client f (u, c) = (Inr a, s) \<longleftrightarrow> (\<exists>c'. s = (u, c') \<and> f c = (Inr a, c'))"
  by (auto simp: on_client_def split: prod.splits)

lemma ResolveTickSize_Inr:
  assumes "ResolveTickSize L J token t c = (Inr v, c')"
  obtains m where "GetTickSize L J token c = (Inr m, c')" "case t of None \<Rightarrow> v = m | Some u \<Rightarrow> v = u \<and> \<not> IsTickSizeSmaller u m"
proof -
  obtain m c1 where "GetTickSize L J token c = (Inr m, c1)" "(case t of None \<Rightarrow> pure_op (Inr m)
      | Some u \<Rightarrow> if IsTickSizeSmaller u m
          then pure_op (Inl (Error (''tickSize '' @ u @ '' is smaller than minTickSize '' @ m))) else pure_op (Inr u)) c1 = (Inr v, c')"
    using assms unfolding ResolveTickSize_def bind_op_Inr by blast
  with that [of m] show thesis by (cases t) (auto simp: pure_op_def split: if_splits)
qed

lemma GetNegRisk_other:
  assumes "GetNegRisk L J token c = (r, c')"
  shows "pcCfg c' = pcCfg c" "pcSigner c' = pcSigner c" "pcTickSizes c' = pcTickSizes c"
  using assms by (auto simp: GetNegRisk_def bind_op_def Let_def same_client_def dest!: Get_same
      split: if_splits option.splits prod.splits sum.splits)

lemma GetTickSize_other:
  assumes "GetTickSize L J token c = (r, c')"
  shows "pcCfg c' = pcCfg c" "pcSigner c' = pcSigner c"
  using assms by (auto simp: GetTickSize_def bind_op_def pure_op_def Let_def same_client_def dest!: Get_same
      split: if_splits option.splits prod.splits sum.splits)

lemma resolve_neg_risk_other:
  assumes "resolve_neg_risk L J token opts c = (r, c')"
  shows "pcCfg c' = pcCfg c" "pcSigner c' = pcSigner c" "pcTickSizes c' = pcTickSizes c"
  using assms by (auto simp: resolve_neg_risk_def pure_op_def dest: GetNegRisk_other split: option.splits)

lemma order_parties_same:
  "pcCfg c' = pcCfg c \<Longrightarrow> pcSigner c' = pcSigner c \<Longrightarrow> order_parties E options c' = order_parties E options c"
  by (simp add: order_parties_def)

text \<open>What a successful call went through, in its order.\<close>

lemma CreateOrder_Inr:
  assumes "CreateOrder E D L J draw options (uo, c) = (Inr so, (uo', c'))"
  shows "\<exists>t m neg od rc uo2. pmChainID (cfPolymarket (pcCfg c)) \<noteq> 0 \<and>
    pcTickSizes c' (uoTokenID uo) = Some m \<and> (\<exists>c1. GetTickSize L J (uoTokenID uo) c = (Inr m, c1)) \<and>
    (case coTickSize options of None \<Rightarrow> t = m | Some u \<Rightarrow> t = u \<and> \<not> IsTickSizeSmaller u m) \<and>
    PriceValid (uoPrice uo) t \<and> GetRoundConfig t = Inr rc \<and>
    uoTokenID uo2 = uoTokenID uo \<and> uoPrice uo2 = uoPrice uo \<and> uoSize uo2 = uoSize uo \<and> uoSide uo2 = uoSide uo \<and>
    (case order_parties E options c of (maker, st, signer) \<Rightarrow>
       BuildOrderCreationArgs D (unix_milli c') signer maker st uo2 rc = Inr od) \<and>
    sign_order E draw neg c' od = Inr so"
proof -
  obtain t c1 neg c2 where ch: "pmChainID (cfPolymarket (pcCfg c)) \<noteq> 0"
    and t: "ResolveTickSize L J (uoTokenID uo) (coTickSize options) c = (Inr t, c1)"
    and pv: "PriceValid (uoPrice uo) t"
    and n: "resolve_neg_risk L J (uoTokenID uo) options c1 = (Inr neg, c2)"
    and fin: "(\<lambda>(uo, c). let (maker, signatureType, signerForOrder) = order_parties E options c;
              uo = (case uoBuilderCode uo of None \<Rightarrow> uo\<lparr>uoBuilderCode := pmBuilderCode (cfPolymarket (pcCfg c))\<rparr>
                    | Some _ \<Rightarrow> uo)
          in (bind_res (GetRoundConfig t) (\<lambda>rc.
              bind_res (BuildOrderCreationArgs D (unix_milli c) signerForOrder maker signatureType uo rc)
                (sign_order E draw neg c)), (uo, c))) (uo, c2) = (Inr so, (uo', c'))"
    using assms unfolding CreateOrder_def Let_def
    by (auto simp: bind_op_Inr on_client_Inr split: if_splits)
  obtain m where m: "GetTickSize L J (uoTokenID uo) c = (Inr m, c1)"
      "case coTickSize options of None \<Rightarrow> t = m | Some u \<Rightarrow> t = u \<and> \<not> IsTickSizeSmaller u m"
    by (rule ResolveTickSize_Inr [OF t])
  note o1 = GetTickSize_other [OF m(1)] and o2 = resolve_neg_risk_other [OF n]
  obtain maker st signer where p: "order_parties E options c2 = (maker, st, signer)" by (metis prod_cases3)
  define uo2 where "uo2 = (case uoBuilderCode uo of None \<Rightarrow> uo\<lparr>uoBuilderCode := pmBuilderCode (cfPolymarket (pcCfg c2))\<rparr> | Some _ \<Rightarrow> uo)"
  have u: "uoTokenID uo2 = uoTokenID uo" "uoPrice uo2 = uoPrice uo" "uoSize uo2 = uoSize uo" "uoSide uo2 = uoSide uo"
    by (simp_all add: uo2_def split: option.split)
  have c': "c' = c2" using fin by (simp add: p Let_def)
  obtain rc od where rc: "GetRoundConfig t = Inr rc"
    "BuildOrderCreationArgs D (unix_milli c2) signer maker st uo2 rc = Inr od" "sign_order E draw neg c2 od = Inr so"
    using fin by (auto simp: p Let_def uo2_def)
  have p': "order_parties E options c = (maker, st, signer)"
    using p order_parties_same [of c2 c E options] o1 o2 by simp
  show ?thesis
    by (rule exI [of _ t], rule exI [of _ m], rule exI [of _ neg], rule exI [of _ od], rule exI [of _ rc], rule exI [of _ uo2])
      (use ch m pv rc u p' c' o2(3) tick.get_stores [OF m(1)] in simp)
qed

text \<open>A call that succeeds: the tick is cached, the order is signed in the 1271 form.\<close>

definition sample_uo :: UserOrder where
  "sample_uo = \<lparr>uoTokenID = ''7'', uoPrice = Fin (1 / 2), uoSize = Fin (135 / 8), uoSide = BUY,
     uoMetadata = None, uoBuilderCode = None, uoExpiration = None\<rparr>"

definition sample_options :: CreateOrderOptions where
  "sample_options = \<lparr>coTickSize = None, coSignatureType = Some 3, coNegRisk = Some False\<rparr>"

lemma sign_order_1271:
  assumes "BuildOrder toy_eth draw (unix_milli c) (NewOrderBuilderImpl (pmChainID (cfPolymarket (pcCfg c))) None) od = Inr order"
    and "orSignatureType order = 3"
  shows "\<exists>so. sign_order toy_eth draw False c od = Inr so"
  using assms by (simp add: sign_order_def BuildSignedOrder_def BuildOrderSignature_def POLY_1271_def exchange_of_def
    BuildOrderSignature1271_def GetVerifyingContractAddress_def CTFExchange_def buildAppDomainSep_def
    NewOrderBuilderImpl_def Sign_def toy_eth_def Let_def)

lemma sample_create:
  obtains c :: "(address, http_response list) PolymarketClient" and so s where "ticks_ok c"
    "CreateOrder toy_eth ce_lib list_server market_doc (\<lambda>_. 5) sample_options (sample_uo, c) = (Inr so, s)"
proof -
  obtain c0 :: "(address, http_response list) PolymarketClient" where c0: "NewClient toy_eth DefaultConfig (new_world []) = Inr c0"
    using toy_client by blast
  define c where "c = c0\<lparr>pcTickSizes := [''7'' \<mapsto> tick_string Tick001]\<rparr>"
  have cfg: "pmChainID (cfPolymarket (pcCfg c)) = 137" "pmFunderAddress (cfPolymarket (pcCfg c)) = []"
    "pmBuilderCode (cfPolymarket (pcCfg c)) = None"
    using c0 by (auto simp: c_def NewClient_def Let_def DefaultConfig_def split: sum.splits failure.splits)
  have ok: "ticks_ok c" by (auto simp: c_def ticks_ok_def IsValid_def)
  have t: "GetTickSize list_server market_doc ''7'' c = (Inr (tick_string Tick001), c)"
    by (rule tick.get_hit) (simp_all add: c_def)
  have rc: "GetRoundConfig (tick_string Tick001) = Inr \<lparr>rcPrice = 2, rcSize = 2, rcAmount = 4\<rparr>"
    using GetRoundConfig_tick [of Tick001] by simp
  have f: "is_f64 (Fin (135 / 8))" "is_f64 (Fin (1 / 2))" "PriceValid (Fin (1 / 2)) (tick_string Tick001)" by code_simp+
  have uo: "uoSize sample_uo = Fin (135 / 8)" "uoPrice sample_uo = Fin (1 / 2)" by (simp_all add: sample_uo_def)
  define self where "self = addressHex toy_eth (sgAddress (pcSigner c))"
  obtain M T od where od: "BuildOrderCreationArgs ce_lib (unix_milli c) self self 3 sample_uo \<lparr>rcPrice = 2, rcSize = 2, rcAmount = 4\<rparr> = Inr od"
    "odMakerAmount od = int_str M" "odTakerAmount od = int_str T"
    using limit_order_amounts [OF ce.decimal_laws_axioms f(1,2) uo rc] by blast
  then have "odTokenId od = ''7''" "odTimestamp od = Some (int_str (unix_milli c))" "odSignatureType od = Some 3"
    by (auto simp: BuildOrderCreationArgs_def sample_uo_def)
  moreover have "setString10 ''7'' = Some 7" by code_simp
  ultimately obtain order where "BuildOrder toy_eth (\<lambda>_. 5) (unix_milli c) (NewOrderBuilderImpl 137 None) od = Inr order"
      "orSignatureType order = 3"
    using od(2,3) by (simp add: BuildOrder_def Let_def)
  with cfg obtain so where so: "sign_order toy_eth (\<lambda>_. 5) False c od = Inr so"
    using sign_order_1271 by metis
  have "CreateOrder toy_eth ce_lib list_server market_doc (\<lambda>_. 5) sample_options (sample_uo, c) = (Inr so, (sample_uo, c))"
    using cfg t rc f(3) od(1) so
    by (simp add: CreateOrder_def bind_op_def on_client_def ResolveTickSize_def resolve_neg_risk_def order_parties_def
      sample_options_def sample_uo_def self_def Let_def POLY_1271_def)
  with ok show thesis by (rule that)
qed

text \<open>Clients and pages for evaluation.\<close>

lemma client_with_config:
  obtains c :: "(address, http_response list) PolymarketClient" where "pcCfg c = DefaultConfig" "wServer (pcWorld c) = one_answer"
proof -
  obtain c :: "(address, http_response list) PolymarketClient" where c: "NewClient toy_eth DefaultConfig (new_world one_answer) = Inr c"
    using toy_client by blast
  show thesis by (rule that [of c]) (use c in \<open>auto simp: NewClient_def Let_def new_world_def split: sum.splits failure.splits\<close>)
qed

lemma client_with_creds:
  obtains c :: "(address, http_response list) PolymarketClient" and k
  where "pmCLOBCreds (cfPolymarket (pcCfg c)) = Some k" "wServer (pcWorld c) = one_answer"
proof -
  obtain c :: "(address, http_response list) PolymarketClient" where c: "wServer (pcWorld c) = one_answer"
    by (rule client_with_config)
  show thesis
    by (rule that [of "c\<lparr>pcCfg := DefaultConfig\<lparr>cfPolymarket := (cfPolymarket DefaultConfig)\<lparr>pmCLOBCreds :=
        Some \<lparr>akKey = ''k'', akSecret = ''s'', akPassphrase = ''p''\<rparr>\<rparr>\<rparr>\<rparr>"]) (use c in simp_all)
qed

definition last_page :: "doc gjson_lib" where
  "last_page = doc_lib (\<lambda>_. DObj [(''next_cursor'', DStr ''LTE=''), (''data'', DArr [DObj [(''id'', DStr ''o1'')]])])"

definition more_pages :: "doc gjson_lib" where
  "more_pages = doc_lib (\<lambda>_. DObj [(''pagination'', DObj [(''next_cursor'', DStr ''c2'')]), (''data'', DArr [])])"

definition search_user :: "bool \<Rightarrow> string option \<Rightarrow> (address, http_response list) PolymarketClient \<Rightarrow>
    (string list result \<times> string option \<times> (address, http_response list) PolymarketClient) option" where
  "search_user = SearchPositions list_server more_pages Inr (Some (no_params\<lparr>ppUser := ''u''\<rparr>))"

subsection \<open>Properties\<close>

text \<open>
  C9: the calls that change something on the exchange are signed. With credentials set, each of the five
  sends exactly one request, to its own path, whose signature header is the HMAC of that method, path and
  body under the secret, at the time of the timestamp header, together with the key and the passphrase.
\<close>

theorem auth_requests_signed:
  assumes k: "pmCLOBCreds (cfPolymarket (pcCfg c)) = Some k"
  shows "sends_signed k ''POST'' ''/order'' (PostOrder E L J order orderType deferExec) c \<and>
    sends_signed k ''POST'' ''/orders'' (PostOrders E L J args deferExec) c \<and>
    sends_signed k ''DELETE'' ''/order'' (CancelOrder E L J orderID) c \<and>
    sends_signed k ''DELETE'' ''/orders'' (CancelOrders E L J hashes) c \<and>
    sends_signed k ''DELETE'' ''/cancel-market-orders'' (CancelMarketOrders E L J market asset) c"
proof -
  have "HasCLOBAuth (cfPolymarket (pcCfg c))" using k by (simp add: HasCLOBAuth_def)
  then show ?thesis
    using sends_signed_post [OF k] sends_signed_del [OF k]
    by (auto simp: PostOrder_def PostOrders_def CancelOrder_def CancelOrders_def CancelMarketOrders_def Let_def sends_signed_def)
qed

theorem auth_requests_signed_witness:
  "\<exists>(c :: (address, http_response list) PolymarketClient) k.
     sends_signed k ''DELETE'' ''/order'' (CancelOrder toy_eth list_server market_doc ''7'') c"
proof -
  obtain c :: "(address, http_response list) PolymarketClient" and k
    where "pmCLOBCreds (cfPolymarket (pcCfg c)) = Some k" by (rule client_with_creds)
  from auth_requests_signed [OF this] show ?thesis by blast
qed

text \<open>
  C28: without credentials nothing is sent. The calls fail with an error that leaves the client and the world
  untouched, except \<open>CancelMarketOrders\<close>, which checks nothing and panics on the missing credentials.
\<close>

theorem creds_required:
  assumes "pmCLOBCreds (cfPolymarket (pcCfg c)) = None"
  shows "PostOrder E L J order orderType deferExec c = (Inl (Error ''creds cannot be empty''), c) \<and>
    PostOrders E L J args deferExec c = (Inl (Error ''creds cannot be empty''), c) \<and>
    CancelOrder E L J orderID c = (Inl (Error ''creds cannot be empty''), c) \<and>
    CancelOrders E L J hashes c = (Inl (Error ''creds cannot be empty''), c) \<and>
    GetApiKeys E L J c = (Inl (Error ''creds cannot be empty''), c) \<and>
    GetOpenOrders E L J params first cursor c = Some (Inl (Error ''creds cannot be empty''), c) \<and>
    CancelMarketOrders E L J market asset c = (Inl (Panic ''creds is nil''), c)"
  using assms by (simp add: PostOrder_def PostOrders_def CancelOrder_def CancelOrders_def GetApiKeys_def GetOpenOrders_def
      CancelMarketOrders_def HasCLOBAuth_def l2_headers_def CreateL2Headers_def bind_op_def Let_def)

theorem creds_required_witness:
  "\<exists>c :: (address, http_response list) PolymarketClient.
     CancelMarketOrders toy_eth list_server market_doc ''m'' ''7'' c = (Inl (Panic ''creds is nil''), c)"
proof -
  obtain c :: "(address, http_response list) PolymarketClient" where "pcCfg c = DefaultConfig"
    by (rule client_with_config)
  then have "pmCLOBCreds (cfPolymarket (pcCfg c)) = None" by (simp add: DefaultConfig_def)
  from creds_required [OF this] show ?thesis by blast
qed




text \<open>
  C16: a position search can be resumed. Reading one page and continuing from the cursor it leaves gives the
  rows, the final cursor and the requests of a search over all pages; only the cursor after a failure
  differs, because a failing call leaves the caller's variable alone.
\<close>

theorem positions_page_by_page:
  fixes c :: "('k, 's) PolymarketClient"
  assumes "SearchPositions L J decode params True (Some cur) c = Some (Inr rows, Some nxt, d)"
  shows "SearchPositions L J decode params False (Some cur) c =
    (if nxt = [] then Some (Inr rows, Some [], d)
     else case SearchPositions L J decode params False (Some nxt) d of
         None \<Rightarrow> None
       | Some (Inl e, _, c') \<Rightarrow> Some (Inl e, Some cur, c')
       | Some (Inr rows', end_cur, c') \<Rightarrow> Some (Inr (rows @ rows'), end_cur, c'))"
proof -
  define p where "p = (case params of None \<Rightarrow> no_params | Some p \<Rightarrow> p)"
  define u where "u = (if ppUser p = [] then pmFunderAddress (cfPolymarket (pcCfg c)) else ppUser p)"
  define M where "M = (\<lambda>first cur (x :: ('k, 's) PolymarketClient). positions_loop L J decode (pmDataAPIBaseURL (cfPolymarket (pcCfg c)) @ ''/v2/positions'') u p first cur [] x)"
  have S: "SearchPositions L J decode params first (Some x) c' = (if u = [] \<and> ppCondition p = []
      then Some (Inl (Error ''user or condition is required''), Some x, c') else search_result (Some x) (M first x c'))"
    if "pcCfg c' = pcCfg c" for first x c'
    unfolding SearchPositions_def Let_def that p_def [symmetric] u_def [symmetric] M_def by simp
  have g: "\<not> (u = [] \<and> ppCondition p = [])" and l: "M True cur c = Some (Inr (rows, nxt), d)"
    using assms by (auto simp: S search_result_def split: if_splits option.splits sum.splits)
  have cfg: "pcCfg d = pcCfg c" using positions_loop_page(2) [OF l [unfolded M_def]] by (rule same_client_simps)
  have "M False cur c = (if nxt = [] then Some (Inr (rows, nxt), d) else
      case M False nxt d of None \<Rightarrow> None | Some (Inl e, d) \<Rightarrow> Some (Inl e, d) | Some (Inr (ys, cur), d) \<Rightarrow> Some (Inr (rows @ ys, cur), d))"
    unfolding M_def positions_loop_page(1) [OF l [unfolded M_def]] by (subst positions_loop_prefix) (rule refl)
  then show ?thesis unfolding S [OF refl] S [OF cfg] using g
    by (auto simp: search_result_def split: option.split sum.split prod.split)
qed

theorem positions_page_by_page_witness:
  "\<exists>c d :: (address, http_response list) PolymarketClient.
     search_user True (Some []) c = Some (Inr [], Some ''c2'', d) \<and>
     search_user False (Some []) c = (case search_user False (Some ''c2'') d of
         None \<Rightarrow> None
       | Some (Inl e, _, c') \<Rightarrow> Some (Inl e, Some [], c')
       | Some (Inr rows, end_cur, c') \<Rightarrow> Some (Inr rows, end_cur, c'))"
proof -
  obtain c :: "(address, http_response list) PolymarketClient" where c: "wServer (pcWorld c) = one_answer"
    by (rule client_with_config)
  obtain d where "Get list_server more_pages (pmDataAPIBaseURL (cfPolymarket (pcCfg c)) @ ''/v2/positions'')
      (Some (position_params ''u'' (no_params\<lparr>ppUser := ''u''\<rparr>) [])) None c = (Inr (gParse more_pages []), d)"
    using one_answer_Get [OF c] by blast
  moreover have "next_position_cursor more_pages (gParse more_pages []) = ''c2''"
    "map (gRaw more_pages) (getA more_pages (gParse more_pages []) ''data'') = []" by code_simp+
  ultimately have one: "search_user True (Some []) c = Some (Inr [], Some ''c2'', d)"
    by (simp add: search_user_def SearchPositions_def no_params_def search_result_def
      positions_loop.simps [of list_server more_pages _ _ _ _ _ "[]"])
  from positions_page_by_page [OF one [unfolded search_user_def]] one show ?thesis
    unfolding search_user_def append_Nil by (intro exI conjI) (assumption, simp)
qed

text \<open>
  C2: the order that is signed is the one asked for. When \<open>CreateOrder\<close> succeeds, the token, side, maker,
  signer and signature type are the user's and the client's; the price, rounded to the tick in force, times
  the shares, rounded down to two places, gives the collateral amount exactly; and that tick is not
  finer than the one the server (or the cache) has for the token, which is the one in the cache
  afterwards.
\<close>

theorem create_order_sound:
  fixes uo :: UserOrder
  assumes D: "decimal_laws D val"
    and f: "is_f64 (Fin sz)" "is_f64 (Fin price)" "uoSize uo = Fin sz" "uoPrice uo = Fin price"
    and c: "ticks_ok c" "coTickSize options = None \<or> (\<exists>u. coTickSize options = Some (tick_string u))"
    and so: "CreateOrder E D L J draw options (uo, c) = (Inr so, (uo', c'))"
  shows "\<exists>k t p s. pcTickSizes c' (uoTokenID uo) = Some (tick_string k) \<and> tick_size k \<le> tick_size t \<and>
    PriceValid (uoPrice uo) (tick_string t) \<and>
    RoundNormal D (RFloat (Fin price)) (int (tick_places t)) = Inr p \<and>
    RoundDown D (RFloat (Fin sz)) 2 = Inr s \<and>
    setString10 (uoTokenID uo) = Some (orTokenId so) \<and>
    (if uoSide uo = BUY
     then orSide so = 0 \<and> of_int (orTakerAmount so) = val s * 10 ^ 6 \<and> of_int (orMakerAmount so) = val p * of_int (orTakerAmount so)
     else orSide so = 1 \<and> of_int (orMakerAmount so) = val s * 10 ^ 6 \<and> of_int (orTakerAmount so) = val p * of_int (orMakerAmount so)) \<and>
    (case order_parties E options c of (maker, st, signer) \<Rightarrow>
       orMaker so = hexToAddress E maker \<and> orSigner so = hexToAddress E signer \<and> orSignatureType so = st)"
proof -
  obtain t m neg od rc uo2 c1 where r: "pmChainID (cfPolymarket (pcCfg c)) \<noteq> 0"
    "pcTickSizes c' (uoTokenID uo) = Some m" "GetTickSize L J (uoTokenID uo) c = (Inr m, c1)"
    "case coTickSize options of None \<Rightarrow> t = m | Some u \<Rightarrow> t = u \<and> \<not> IsTickSizeSmaller u m"
    "PriceValid (uoPrice uo) t" "GetRoundConfig t = Inr rc"
    "uoTokenID uo2 = uoTokenID uo" "uoPrice uo2 = uoPrice uo" "uoSize uo2 = uoSize uo" "uoSide uo2 = uoSide uo"
    "case order_parties E options c of (maker, st, signer) \<Rightarrow>
       BuildOrderCreationArgs D (unix_milli c') signer maker st uo2 rc = Inr od"
    "sign_order E draw neg c' od = Inr so"
    using CreateOrder_Inr [OF so] by (elim exE conjE) (rule that)
  obtain k where k: "m = tick_string k" using r(3) GetTickSize_valid [OF c(1)] IsValid_tick by blast
  obtain t' where t: "t = tick_string t'" "tick_size k \<le> tick_size t'"
  proof (cases "coTickSize options")
    case None
    with r(4) k that show thesis by simp
  next
    case (Some u)
    with c(2) obtain u' where "u = tick_string u'" by auto
    with Some r(4) k have "t = tick_string u'" "\<not> u' < k"
      by (simp_all add: IsTickSizeSmaller_def parse_tick tick_double_less)
    with that show thesis by (simp add: tick_less_size)
  qed
  obtain maker st signer where pa: "order_parties E options c = (maker, st, signer)" by (metis prod_cases3)
  have f': "uoSize uo2 = Fin sz" "uoPrice uo2 = Fin price" using f(3,4) r(8,9) by simp_all
  obtain p s M T od' where a: "RoundNormal D (RFloat (Fin price)) (int (tick_places t')) = Inr p"
    "RoundDown D (RFloat (Fin sz)) 2 = Inr s"
    "BuildOrderCreationArgs D (unix_milli c') signer maker st uo2 rc = Inr od'"
    "odMakerAmount od' = int_str M" "odTakerAmount od' = int_str T"
    "if uoSide uo2 = BUY then odSide od' = BUY \<and> of_int T = val s * 10 ^ 6 \<and> of_int M = val p * of_int T
     else odSide od' = SELL \<and> of_int M = val s * 10 ^ 6 \<and> of_int T = val p * of_int M"
    using limit_order_amounts [OF D f(1,2) f' r(6) [unfolded t(1)]] by blast
  have od: "od' = od" using a(3) r(11) pa by simp
  have odf: "odTokenId od = uoTokenID uo" "odMaker od = maker" "odSigner od = Some signer" "odSignatureType od = Some st"
    using r(11) pa r(7) by (auto simp: BuildOrderCreationArgs_def)
  obtain e' order sign where o: "BuildOrder E draw (unix_milli c') (NewOrderBuilderImpl (pmChainID (cfPolymarket (pcCfg c'))) None) od = Inr order"
      "so = Order.extend order (SignedOrder.fields sign)"
    using r(12) unfolding sign_order_def by (metis BuildSignedOrder_Inr prod.collapse)
  note bf = BuildOrder_fields [OF o(1)]
  have "orTokenId so = orTokenId order" "orMakerAmount so = orMakerAmount order" "orTakerAmount so = orTakerAmount order"
    "orMaker so = orMaker order" "orSigner so = orSigner order" "orSignatureType so = orSignatureType order" "orSide so = orSide order"
    by (simp_all add: o(2) Order.defs SignedOrder.defs)
  then show ?thesis
    using r(2,5) k t a od odf bf pa r(10)
    by (intro exI [of _ k] exI [of _ t'] exI [of _ p] exI [of _ s]) (auto simp: side_defs split: if_splits)
qed

theorem create_order_sound_witness:
  "\<exists>(c :: (address, http_response list) PolymarketClient) so c' p s.
     CreateOrder toy_eth ce_lib list_server market_doc (\<lambda>_. 5) sample_options (sample_uo, c) = (Inr so, c') \<and>
     of_int (orTakerAmount so) = ce_val s * 10 ^ 6 \<and> of_int (orMakerAmount so) = ce_val p * of_int (orTakerAmount so)"
proof -
  obtain c :: "(address, http_response list) PolymarketClient" and so s where c: "ticks_ok c"
    "CreateOrder toy_eth ce_lib list_server market_doc (\<lambda>_. 5) sample_options (sample_uo, c) = (Inr so, s)"
    by (rule sample_create)
  have f: "is_f64 (Fin (135 / 8))" "is_f64 (Fin (1 / 2))" by code_simp+
  have o: "uoSize sample_uo = Fin (135 / 8)" "uoPrice sample_uo = Fin (1 / 2)" "uoSide sample_uo = BUY"
    "coTickSize sample_options = None" by (simp_all add: sample_uo_def sample_options_def)
  obtain uo' c' where s: "s = (uo', c')" by (cases s)
  from create_order_sound [OF ce.decimal_laws_axioms f o(1,2) c(1) disjI1 [OF o(4)] c(2) [unfolded s]]
  obtain p x where "of_int (orTakerAmount so) = ce_val x * 10 ^ 6" "of_int (orMakerAmount so) = ce_val p * of_int (orTakerAmount so)"
    unfolding o(3) if_P [OF refl] by blast
  with c(2) show ?thesis by blast
qed

end
