(* ===== verification/Aes.thy ===== *)
theory Aes
  imports Sha256
begin

text \<open>
  The block cipher of Go's \<^verbatim>\<open>crypto/aes\<close> and the CBC mode of \<^verbatim>\<open>crypto/cipher\<close>, as FIPS 197 defines
  them: a block is a list of 16 bytes, column by column. The theory shows that decryption undoes
  encryption for every key and every block, from the inverse of each layer of a round.
\<close>

subsection \<open>The layers of a round\<close>

definition sbox :: "bytes" where
  "sbox = [0x63, 0x7C, 0x77, 0x7B, 0xF2, 0x6B, 0x6F, 0xC5, 0x30, 0x01, 0x67, 0x2B, 0xFE, 0xD7, 0xAB, 0x76,
     0xCA, 0x82, 0xC9, 0x7D, 0xFA, 0x59, 0x47, 0xF0, 0xAD, 0xD4, 0xA2, 0xAF, 0x9C, 0xA4, 0x72, 0xC0,
     0xB7, 0xFD, 0x93, 0x26, 0x36, 0x3F, 0xF7, 0xCC, 0x34, 0xA5, 0xE5, 0xF1, 0x71, 0xD8, 0x31, 0x15,
     0x04, 0xC7, 0x23, 0xC3, 0x18, 0x96, 0x05, 0x9A, 0x07, 0x12, 0x80, 0xE2, 0xEB, 0x27, 0xB2, 0x75,
     0x09, 0x83, 0x2C, 0x1A, 0x1B, 0x6E, 0x5A, 0xA0, 0x52, 0x3B, 0xD6, 0xB3, 0x29, 0xE3, 0x2F, 0x84,
     0x53, 0xD1, 0x00, 0xED, 0x20, 0xFC, 0xB1, 0x5B, 0x6A, 0xCB, 0xBE, 0x39, 0x4A, 0x4C, 0x58, 0xCF,
     0xD0, 0xEF, 0xAA, 0xFB, 0x43, 0x4D, 0x33, 0x85, 0x45, 0xF9, 0x02, 0x7F, 0x50, 0x3C, 0x9F, 0xA8,
     0x51, 0xA3, 0x40, 0x8F, 0x92, 0x9D, 0x38, 0xF5, 0xBC, 0xB6, 0xDA, 0x21, 0x10, 0xFF, 0xF3, 0xD2,
     0xCD, 0x0C, 0x13, 0xEC, 0x5F, 0x97, 0x44, 0x17, 0xC4, 0xA7, 0x7E, 0x3D, 0x64, 0x5D, 0x19, 0x73,
     0x60, 0x81, 0x4F, 0xDC, 0x22, 0x2A, 0x90, 0x88, 0x46, 0xEE, 0xB8, 0x14, 0xDE, 0x5E, 0x0B, 0xDB,
     0xE0, 0x32, 0x3A, 0x0A, 0x49, 0x06, 0x24, 0x5C, 0xC2, 0xD3, 0xAC, 0x62, 0x91, 0x95, 0xE4, 0x79,
     0xE7, 0xC8, 0x37, 0x6D, 0x8D, 0xD5, 0x4E, 0xA9, 0x6C, 0x56, 0xF4, 0xEA, 0x65, 0x7A, 0xAE, 0x08,
     0xBA, 0x78, 0x25, 0x2E, 0x1C, 0xA6, 0xB4, 0xC6, 0xE8, 0xDD, 0x74, 0x1F, 0x4B, 0xBD, 0x8B, 0x8A,
     0x70, 0x3E, 0xB5, 0x66, 0x48, 0x03, 0xF6, 0x0E, 0x61, 0x35, 0x57, 0xB9, 0x86, 0xC1, 0x1D, 0x9E,
     0xE1, 0xF8, 0x98, 0x11, 0x69, 0xD9, 0x8E, 0x94, 0x9B, 0x1E, 0x87, 0xE9, 0xCE, 0x55, 0x28, 0xDF,
     0x8C, 0xA1, 0x89, 0x0D, 0xBF, 0xE6, 0x42, 0x68, 0x41, 0x99, 0x2D, 0x0F, 0xB0, 0x54, 0xBB, 0x16]"

definition inv_sbox :: "bytes" where
  "inv_sbox = [0x52, 0x09, 0x6A, 0xD5, 0x30, 0x36, 0xA5, 0x38, 0xBF, 0x40, 0xA3, 0x9E, 0x81, 0xF3, 0xD7, 0xFB,
     0x7C, 0xE3, 0x39, 0x82, 0x9B, 0x2F, 0xFF, 0x87, 0x34, 0x8E, 0x43, 0x44, 0xC4, 0xDE, 0xE9, 0xCB,
     0x54, 0x7B, 0x94, 0x32, 0xA6, 0xC2, 0x23, 0x3D, 0xEE, 0x4C, 0x95, 0x0B, 0x42, 0xFA, 0xC3, 0x4E,
     0x08, 0x2E, 0xA1, 0x66, 0x28, 0xD9, 0x24, 0xB2, 0x76, 0x5B, 0xA2, 0x49, 0x6D, 0x8B, 0xD1, 0x25,
     0x72, 0xF8, 0xF6, 0x64, 0x86, 0x68, 0x98, 0x16, 0xD4, 0xA4, 0x5C, 0xCC, 0x5D, 0x65, 0xB6, 0x92,
     0x6C, 0x70, 0x48, 0x50, 0xFD, 0xED, 0xB9, 0xDA, 0x5E, 0x15, 0x46, 0x57, 0xA7, 0x8D, 0x9D, 0x84,
     0x90, 0xD8, 0xAB, 0x00, 0x8C, 0xBC, 0xD3, 0x0A, 0xF7, 0xE4, 0x58, 0x05, 0xB8, 0xB3, 0x45, 0x06,
     0xD0, 0x2C, 0x1E, 0x8F, 0xCA, 0x3F, 0x0F, 0x02, 0xC1, 0xAF, 0xBD, 0x03, 0x01, 0x13, 0x8A, 0x6B,
     0x3A, 0x91, 0x11, 0x41, 0x4F, 0x67, 0xDC, 0xEA, 0x97, 0xF2, 0xCF, 0xCE, 0xF0, 0xB4, 0xE6, 0x73,
     0x96, 0xAC, 0x74, 0x22, 0xE7, 0xAD, 0x35, 0x85, 0xE2, 0xF9, 0x37, 0xE8, 0x1C, 0x75, 0xDF, 0x6E,
     0x47, 0xF1, 0x1A, 0x71, 0x1D, 0x29, 0xC5, 0x89, 0x6F, 0xB7, 0x62, 0x0E, 0xAA, 0x18, 0xBE, 0x1B,
     0xFC, 0x56, 0x3E, 0x4B, 0xC6, 0xD2, 0x79, 0x20, 0x9A, 0xDB, 0xC0, 0xFE, 0x78, 0xCD, 0x5A, 0xF4,
     0x1F, 0xDD, 0xA8, 0x33, 0x88, 0x07, 0xC7, 0x31, 0xB1, 0x12, 0x10, 0x59, 0x27, 0x80, 0xEC, 0x5F,
     0x60, 0x51, 0x7F, 0xA9, 0x19, 0xB5, 0x4A, 0x0D, 0x2D, 0xE5, 0x7A, 0x9F, 0x93, 0xC9, 0x9C, 0xEF,
     0xA0, 0xE0, 0x3B, 0x4D, 0xAE, 0x2A, 0xF5, 0xB0, 0xC8, 0xEB, 0xBB, 0x3C, 0x83, 0x53, 0x99, 0x61,
     0x17, 0x2B, 0x04, 0x7E, 0xBA, 0x77, 0xD6, 0x26, 0xE1, 0x69, 0x14, 0x63, 0x55, 0x21, 0x0C, 0x7D]"

definition subByte :: "byte \<Rightarrow> byte" where
  "subByte b = sbox ! unat b"

definition invSubByte :: "byte \<Rightarrow> byte" where
  "invSubByte b = inv_sbox ! unat b"

text \<open>Multiplication by \<open>x\<close> in the field, and by the constants of the column mixing.\<close>

definition xtime :: "byte \<Rightarrow> byte" where
  "xtime b = push_bit 1 b XOR (if bit b 7 then 0x1B else 0)"

definition mul3 :: "byte \<Rightarrow> byte" where "mul3 b = xtime b XOR b"
definition mul9 :: "byte \<Rightarrow> byte" where "mul9 b = xtime (xtime (xtime b)) XOR b"
definition mul11 :: "byte \<Rightarrow> byte" where "mul11 b = xtime (xtime (xtime b)) XOR xtime b XOR b"
definition mul13 :: "byte \<Rightarrow> byte" where "mul13 b = xtime (xtime (xtime b)) XOR xtime (xtime b) XOR b"
definition mul14 :: "byte \<Rightarrow> byte" where "mul14 b = xtime (xtime (xtime b)) XOR xtime (xtime b) XOR xtime b"

fun shiftRows :: "bytes \<Rightarrow> bytes" where
  "shiftRows [a0, a1, a2, a3, b0, b1, b2, b3, c0, c1, c2, c3, d0, d1, d2, d3] =
     [a0, b1, c2, d3, b0, c1, d2, a3, c0, d1, a2, b3, d0, a1, b2, c3]"
| "shiftRows s = s"

fun invShiftRows :: "bytes \<Rightarrow> bytes" where
  "invShiftRows [a0, a1, a2, a3, b0, b1, b2, b3, c0, c1, c2, c3, d0, d1, d2, d3] =
     [a0, d1, c2, b3, b0, a1, d2, c3, c0, b1, a2, d3, d0, c1, b2, a3]"
| "invShiftRows s = s"

fun mixColumns :: "bytes \<Rightarrow> bytes" where
  "mixColumns (a # b # c # d # s) =
     (xtime a XOR mul3 b XOR c XOR d) # (a XOR xtime b XOR mul3 c XOR d) #
     (a XOR b XOR xtime c XOR mul3 d) # (mul3 a XOR b XOR c XOR xtime d) # mixColumns s"
| "mixColumns s = s"

fun invMixColumns :: "bytes \<Rightarrow> bytes" where
  "invMixColumns (a # b # c # d # s) =
     (mul14 a XOR mul11 b XOR mul13 c XOR mul9 d) # (mul9 a XOR mul14 b XOR mul11 c XOR mul13 d) #
     (mul13 a XOR mul9 b XOR mul14 c XOR mul11 d) # (mul11 a XOR mul13 b XOR mul9 c XOR mul14 d) #
     invMixColumns s"
| "invMixColumns s = s"

definition xor_bytes :: "bytes \<Rightarrow> bytes \<Rightarrow> bytes" where
  "xor_bytes = map2 (XOR)"

subsection \<open>Key expansion and the cipher\<close>

text \<open>The words of the key schedule, newest first; \<open>i\<close> is the index of the next word.\<close>

fun expand_words :: "nat \<Rightarrow> nat \<Rightarrow> nat \<Rightarrow> byte \<Rightarrow> bytes list \<Rightarrow> bytes list" where
  "expand_words 0 nk i rcon ws = ws"
| "expand_words (Suc k) nk i rcon ws =
     (let t = ws ! 0; p = ws ! (nk - 1);
          t' = (if i mod nk = 0 then xor_bytes (map subByte (rotate1 t)) [rcon, 0, 0, 0]
                else if 6 < nk \<and> i mod nk = 4 then map subByte t else t)
      in expand_words k nk (Suc i) (if i mod nk = 0 then xtime rcon else rcon) (xor_bytes p t' # ws))"

definition round_keys :: "bytes \<Rightarrow> bytes list" where
  "round_keys key = (let nk = length key div 4; n = 4 * (nk + 7);
       ws = expand_words (n - nk) nk nk 1 (rev (groups nk 4 key))
     in map concat (groups (nk + 7) 4 (rev ws)))"

definition enc_round :: "bytes \<Rightarrow> bytes \<Rightarrow> bytes" where
  "enc_round k s = xor_bytes (mixColumns (shiftRows (map subByte s))) k"

definition enc_last :: "bytes \<Rightarrow> bytes \<Rightarrow> bytes" where
  "enc_last k s = xor_bytes (shiftRows (map subByte s)) k"

definition dec_round :: "bytes \<Rightarrow> bytes \<Rightarrow> bytes" where
  "dec_round k s = map invSubByte (invShiftRows (invMixColumns (xor_bytes s k)))"

definition dec_last :: "bytes \<Rightarrow> bytes \<Rightarrow> bytes" where
  "dec_last k s = map invSubByte (invShiftRows (xor_bytes s k))"

definition aes_encrypt :: "bytes \<Rightarrow> bytes \<Rightarrow> bytes" where
  "aes_encrypt key s = (let ks = round_keys key in
     enc_last (last ks) (fold enc_round (butlast (tl ks)) (xor_bytes s (hd ks))))"

definition aes_decrypt :: "bytes \<Rightarrow> bytes \<Rightarrow> bytes" where
  "aes_decrypt key s = (let ks = round_keys key in
     xor_bytes (fold dec_round (rev (butlast (tl ks))) (dec_last (last ks) s)) (hd ks))"

text \<open>\<^verbatim>\<open>aes.NewCipher\<close> accepts 16, 24 and 32 byte keys; the cipher is its key.\<close>

definition aes_new_cipher :: "bytes \<Rightarrow> bytes result" where
  "aes_new_cipher key = (if length key \<in> {16, 24, 32} then Inr key
     else Inl (Error ''crypto/aes: invalid key size''))"

subsection \<open>CBC\<close>

fun cbc_encrypt :: "(bytes \<Rightarrow> bytes) \<Rightarrow> bytes \<Rightarrow> bytes list \<Rightarrow> bytes list" where
  "cbc_encrypt enc iv [] = []"
| "cbc_encrypt enc iv (b # bs) = (let c = enc (xor_bytes b iv) in c # cbc_encrypt enc c bs)"

fun cbc_decrypt :: "(bytes \<Rightarrow> bytes) \<Rightarrow> bytes \<Rightarrow> bytes list \<Rightarrow> bytes list" where
  "cbc_decrypt dec iv [] = []"
| "cbc_decrypt dec iv (c # cs) = xor_bytes (dec c) iv # cbc_decrypt dec c cs"

text \<open>\<^verbatim>\<open>CryptBlocks\<close> panics on an input that is not full blocks.\<close>

definition blocks16 :: "bytes \<Rightarrow> bytes list" where
  "blocks16 bs = groups (length bs div 16) 16 bs"

definition cbc_encrypt_bytes :: "bytes \<Rightarrow> bytes \<Rightarrow> bytes \<Rightarrow> bytes result" where
  "cbc_encrypt_bytes key iv src = (if length src mod 16 \<noteq> 0
     then Inl (Panic ''crypto/cipher: input not full blocks'')
     else Inr (concat (cbc_encrypt (aes_encrypt key) iv (blocks16 src))))"

definition cbc_decrypt_bytes :: "bytes \<Rightarrow> bytes \<Rightarrow> bytes \<Rightarrow> bytes result" where
  "cbc_decrypt_bytes key iv src = (if length src mod 16 \<noteq> 0
     then Inl (Panic ''crypto/cipher: input not full blocks'')
     else Inr (concat (cbc_decrypt (aes_decrypt key) iv (blocks16 src))))"

subsection \<open>Each layer has its inverse\<close>

lemma inv_sbox_table: "\<forall>n \<in> set [0..<256]. inv_sbox ! unat (sbox ! n) = (of_nat n :: byte)"
  by code_simp

lemma invSub_subByte [simp]: "invSubByte (subByte b) = b"
proof -
  have "unat b \<in> set [0..<256]" by simp
  then have "inv_sbox ! unat (sbox ! unat b) = of_nat (unat b)" using inv_sbox_table by blast
  then show ?thesis by (simp add: subByte_def invSubByte_def)
qed

lemma length_shiftRows [simp]: "length (shiftRows s) = length s"
  by (cases s rule: shiftRows.cases) simp_all

lemma length_invShiftRows [simp]: "length (invShiftRows s) = length s"
  by (cases s rule: invShiftRows.cases) simp_all

lemma length_mixColumns [simp]: "length (mixColumns s) = length s"
  by (induction s rule: mixColumns.induct) simp_all

lemma length_invMixColumns [simp]: "length (invMixColumns s) = length s"
  by (induction s rule: invMixColumns.induct) simp_all

lemma length_xor_bytes [simp]: "length (xor_bytes a b) = min (length a) (length b)"
  by (simp add: xor_bytes_def)

lemma invShift_shiftRows [simp]: "invShiftRows (shiftRows s) = s"
proof (cases s rule: shiftRows.cases)
qed simp_all

lemma xtime_xor: "xtime (a XOR b) = xtime a XOR xtime b"
  by (simp add: xtime_def push_bit_xor bit_xor_iff xor.assoc xor.left_commute)

lemma xor_cancel [simp]: "(a :: byte) XOR (a XOR b) = b"
  by (simp flip: xor.assoc)

lemmas field_defs = mul3_def mul9_def mul11_def mul13_def mul14_def xtime_xor

lemma invMix_mixColumns [simp]: "invMixColumns (mixColumns s) = s"
  by (induction s rule: mixColumns.induct)
    (simp_all add: field_defs xor.assoc xor.commute xor.left_commute)

lemma xor_bytes_cancel [simp]: "length a \<le> length k \<Longrightarrow> xor_bytes (xor_bytes a k) k = a"
proof (induction a arbitrary: k)
  case (Cons x a)
  then show ?case by (cases k) (simp_all add: xor_bytes_def xor.assoc)
qed (simp add: xor_bytes_def)

subsection \<open>Decryption undoes encryption\<close>

lemma length_enc_round [simp]: "length k = 16 \<Longrightarrow> length s = 16 \<Longrightarrow> length (enc_round k s) = 16"
  by (simp add: enc_round_def)

lemma dec_enc_round: "length k = 16 \<Longrightarrow> length s = 16 \<Longrightarrow> dec_round k (enc_round k s) = s"
  by (simp add: dec_round_def enc_round_def comp_def)

lemma dec_enc_last: "length k = 16 \<Longrightarrow> length s = 16 \<Longrightarrow> dec_last k (enc_last k s) = s"
  by (simp add: dec_last_def enc_last_def comp_def)

lemma length_enc_rounds:
  "\<forall>k \<in> set ks. length k = 16 \<Longrightarrow> length s = 16 \<Longrightarrow> length (fold enc_round ks s) = 16"
  by (induction ks arbitrary: s) simp_all

lemma dec_enc_rounds:
  "\<forall>k \<in> set ks. length k = 16 \<Longrightarrow> length s = 16 \<Longrightarrow>
     fold dec_round (rev ks) (fold enc_round ks s) = s"
  by (induction ks arbitrary: s) (simp_all add: dec_enc_round)

text \<open>The key schedule yields 11, 13 or 15 round keys of 16 bytes.\<close>

lemma groups_lengths: "length xs = k * n \<Longrightarrow> w \<in> set (groups k n xs) \<Longrightarrow> length w = n"
  by (induction k n xs rule: groups.induct) auto

lemma length_groups [simp]: "length (groups k n xs) = k"
  by (induction k n xs rule: groups.induct) simp_all

lemma concat_groups: "length xs = k * n \<Longrightarrow> concat (groups k n xs) = xs"
  by (induction k n xs rule: groups.induct) simp_all

lemma set_groups_subset: "w \<in> set (groups k n xs) \<Longrightarrow> set w \<subseteq> set xs"
  by (induction k n xs rule: groups.induct) (auto dest: in_set_takeD in_set_dropD)

lemma expand_words_ok:
  "\<forall>w \<in> set ws. length w = 4 \<Longrightarrow> 0 < nk \<Longrightarrow> nk \<le> length ws \<Longrightarrow>
     length (expand_words k nk i rcon ws) = length ws + k \<and>
     (\<forall>w \<in> set (expand_words k nk i rcon ws). length w = 4)"
proof (induction k nk i rcon ws rule: expand_words.induct)
  case (2 k nk i rcon ws)
  define t' where "t' = (if i mod nk = 0 then xor_bytes (map subByte (rotate1 (ws ! 0))) [rcon, 0, 0, 0]
    else if 6 < nk \<and> i mod nk = 4 then map subByte (ws ! 0) else ws ! 0)"
  have "0 < length ws" "nk - 1 < length ws" using "2.prems" by auto
  then have "ws ! 0 \<in> set ws" "ws ! (nk - 1) \<in> set ws" by (simp_all only: nth_mem)
  then have "length (ws ! 0) = 4" "length (ws ! (nk - 1)) = 4" using "2.prems"(1) by blast+
  then have "length (xor_bytes (ws ! (nk - 1)) t') = 4" by (simp add: t'_def)
  then have "\<forall>w \<in> set (xor_bytes (ws ! (nk - 1)) t' # ws). length w = 4"
    using "2.prems"(1) by simp
  from "2.IH" [OF refl refl refl this [unfolded t'_def] "2.prems"(2)] "2.prems"(3)
  show ?case by (simp add: Let_def)
qed simp

lemma length_concat_const: "\<forall>x \<in> set xs. length x = n \<Longrightarrow> length (concat xs) = length xs * n"
  by (induction xs) simp_all

lemma round_keys_ok:
  assumes "length key \<in> {16, 24, 32}"
  shows "length (round_keys key) = length key div 4 + 7 \<and> (\<forall>k \<in> set (round_keys key). length k = 16)"
proof -
  define nk where "nk = length key div 4"
  have nk: "length key = nk * 4" "0 < nk" using assms by (auto simp: nk_def)
  define ws where "ws = expand_words (4 * (nk + 7) - nk) nk nk 1 (rev (groups nk 4 key))"
  have g4: "\<forall>w \<in> set (rev (groups nk 4 key)). length w = 4" using groups_lengths [OF nk(1)] by auto
  have ws: "length ws = 4 * (nk + 7)" "\<forall>w \<in> set ws. length w = 4"
    using expand_words_ok [OF g4 nk(2), of "4 * (nk + 7) - nk" nk 1] unfolding ws_def [symmetric]
    by simp_all
  have rk: "round_keys key = map concat (groups (nk + 7) 4 (rev ws))"
    by (simp add: round_keys_def Let_def nk_def [symmetric] ws_def)
  have "length k = 16" if k: "k \<in> set (round_keys key)" for k
  proof -
    from k rk obtain g where g: "g \<in> set (groups (nk + 7) 4 (rev ws))" "k = concat g" by auto
    have "length g = 4" using groups_lengths [OF _ g(1)] ws(1) by simp
    moreover have "\<forall>w \<in> set g. length w = 4" using set_groups_subset [OF g(1)] ws(2) by auto
    ultimately show ?thesis using length_concat_const [of g 4] g(2) by simp
  qed
  moreover have "length (round_keys key) = nk + 7" by (simp add: rk)
  ultimately show ?thesis unfolding nk_def by blast
qed

lemma aes_keys:
  assumes "length key \<in> {16, 24, 32}"
  shows "length (hd (round_keys key)) = 16" "length (last (round_keys key)) = 16"
    "\<forall>k \<in> set (butlast (tl (round_keys key))). length k = 16"
proof -
  have rk: "round_keys key \<noteq> []" "\<forall>k \<in> set (round_keys key). length k = 16"
    using round_keys_ok [OF assms] by auto
  then show "length (hd (round_keys key)) = 16" "length (last (round_keys key)) = 16" by simp_all
  show "\<forall>k \<in> set (butlast (tl (round_keys key))). length k = 16"
    using rk by (meson in_set_butlastD list.set_sel(2))
qed

lemma length_aes_encrypt:
  "length key \<in> {16, 24, 32} \<Longrightarrow> length s = 16 \<Longrightarrow> length (aes_encrypt key s) = 16"
  using aes_keys [of key] by (simp add: aes_encrypt_def Let_def enc_last_def length_enc_rounds)

lemma aes_decrypt_encrypt:
  "length key \<in> {16, 24, 32} \<Longrightarrow> length s = 16 \<Longrightarrow> aes_decrypt key (aes_encrypt key s) = s"
  using aes_keys [of key]
  by (simp add: aes_decrypt_def aes_encrypt_def Let_def dec_enc_last dec_enc_rounds length_enc_rounds)

subsection \<open>The block mode over any block cipher\<close>

locale block_cipher =
  fixes enc :: "bytes \<Rightarrow> bytes" and dec :: "bytes \<Rightarrow> bytes"
  assumes enc_length: "length s = 16 \<Longrightarrow> length (enc s) = 16"
    and dec_enc: "length s = 16 \<Longrightarrow> dec (enc s) = s"
begin

lemma cbc_lengths:
  "\<forall>b \<in> set bs. length b = 16 \<Longrightarrow> length iv = 16 \<Longrightarrow>
     length (cbc_encrypt enc iv bs) = length bs \<and> (\<forall>c \<in> set (cbc_encrypt enc iv bs). length c = 16)"
proof (induction bs arbitrary: iv)
  case (Cons b bs)
  let ?c = "enc (xor_bytes b iv)"
  have "length ?c = 16" using Cons.prems by (simp add: enc_length)
  moreover have "\<forall>b \<in> set bs. length b = 16" using Cons.prems by simp
  ultimately have "length (cbc_encrypt enc ?c bs) = length bs"
    "\<forall>c \<in> set (cbc_encrypt enc ?c bs). length c = 16" using Cons.IH by blast+
  then show ?case using \<open>length ?c = 16\<close> by (simp add: Let_def)
qed simp

lemma cbc_decrypt_encrypt:
  "\<forall>b \<in> set bs. length b = 16 \<Longrightarrow> length iv = 16 \<Longrightarrow>
     cbc_decrypt dec iv (cbc_encrypt enc iv bs) = bs"
  by (induction bs arbitrary: iv) (simp_all add: Let_def enc_length dec_enc)

end

text \<open>A SHA-256 digest is a valid AES-256 key.\<close>

interpretation aes256: block_cipher "aes_encrypt (sha256 k)" "aes_decrypt (sha256 k)"
  by unfold_locales (simp_all add: length_aes_encrypt aes_decrypt_encrypt)

lemma groups_concat:
  "\<forall>b \<in> set bs. length b = n \<Longrightarrow> groups (length bs) n (concat bs) = bs"
  by (induction bs) simp_all

lemma blocks16_concat: "\<forall>b \<in> set bs. length b = 16 \<Longrightarrow> blocks16 (concat bs) = bs"
  using groups_concat [of bs 16] length_concat_const [of bs 16] by (simp add: blocks16_def)

lemma cbc_bytes_roundtrip:
  assumes "length src mod 16 = 0" and "length iv = 16"
  shows "\<exists>c. cbc_encrypt_bytes (sha256 k) iv src = Inr c \<and> length c = length src \<and>
    cbc_decrypt_bytes (sha256 k) iv c = Inr src"
proof -
  define n bs e where "n = length src div 16" and "bs = groups n 16 src"
    and "e = cbc_encrypt (aes_encrypt (sha256 k)) iv bs"
  have l: "length src = n * 16" using assms(1) unfolding n_def by presburger
  have bs: "\<forall>b \<in> set bs. length b = 16" "length bs = n" "concat bs = src"
    using groups_lengths [OF l] concat_groups [OF l] by (auto simp: bs_def)
  have e: "length e = n" "\<forall>c \<in> set e. length c = 16"
    using aes256.cbc_lengths [OF bs(1) assms(2), of k] bs(2) by (auto simp: e_def)
  have "length (concat e) = length src" using length_concat_const [OF e(2)] e(1) l by simp
  moreover have "blocks16 (concat e) = e" using e(2) by (rule blocks16_concat)
  moreover have "blocks16 src = bs" by (simp add: blocks16_def bs_def n_def)
  moreover have "cbc_decrypt (aes_decrypt (sha256 k)) iv e = bs"
    unfolding e_def using bs(1) assms(2) by (rule aes256.cbc_decrypt_encrypt)
  ultimately show ?thesis
    using assms(1) bs(3) by (simp add: cbc_encrypt_bytes_def cbc_decrypt_bytes_def e_def)
qed

end
