(* ===== verification/Encryptor.thy ===== *)
theory Encryptor
  imports Aes
begin

text \<open>
  \<^verbatim>\<open>utils/encryptor.go\<close>: password encryption with AES-256 in CBC mode, PKCS#7 padding and a hex text.
  The key is the SHA-256 digest of the password and the initialisation vector its first 16 bytes.
\<close>

record Encryptor =
  enKey :: bytes
  enIv :: bytes

definition NewEncryptor :: "string \<Rightarrow> Encryptor" where
  "NewEncryptor password = (let hash = sha256 (bytes_of password) in
     \<lparr>enKey = hash, enIv = take 16 hash\<rparr>)"

definition pkcs7Pad :: "bytes \<Rightarrow> nat \<Rightarrow> bytes" where
  "pkcs7Pad data blockSize = (let padding = blockSize - length data mod blockSize in
     data @ replicate padding (of_nat padding))"

text \<open>The loop that compares the last \<open>padding\<close> bytes, from index \<open>i\<close> on.\<close>

fun padding_ok :: "nat \<Rightarrow> bytes \<Rightarrow> nat \<Rightarrow> bool" where
  "padding_ok padding [] i = True"
| "padding_ok padding (b # rest) i =
     (if padding \<le> i then True
      else if b \<noteq> of_nat padding then False
      else padding_ok padding rest (Suc i))"

definition pkcs7Unpad :: "bytes \<Rightarrow> bytes result" where
  "pkcs7Unpad data = (let len = length data in
     if len = 0 then Inl (Error ''invalid padding size'')
     else let padding = unat (data ! (len - 1)) in
       if len < padding then Inl (Error ''invalid padding'')
       else if \<not> padding_ok padding (rev data) 0 then Inl (Error ''invalid padding'')
       else Inr (take (len - padding) data))"

text \<open>\<^verbatim>\<open>cipher.NewCBCEncrypter\<close> and \<^verbatim>\<open>NewCBCDecrypter\<close> panic on a vector of the wrong length.\<close>

definition check_iv :: "bytes \<Rightarrow> unit result" where
  "check_iv iv = (if length iv \<noteq> 16 then Inl (Panic ''IV length must equal block size'') else Inr ())"

definition Encrypt :: "Encryptor \<Rightarrow> string \<Rightarrow> string result" where
  "Encrypt e txt =
     bind_res (aes_new_cipher (enKey e)) (\<lambda>block.
     let plaintext = pkcs7Pad (bytes_of txt) 16 in
     bind_res (check_iv (enIv e)) (\<lambda>_.
     bind_res (cbc_encrypt_bytes block (enIv e) plaintext) (\<lambda>ciphertext.
     Inr (hex_encode ciphertext))))"

definition Decrypt :: "Encryptor \<Rightarrow> string \<Rightarrow> string result" where
  "Decrypt e encryptedHex =
     bind_res (aes_new_cipher (enKey e)) (\<lambda>block.
     bind_res (hex_decode encryptedHex) (\<lambda>ciphertext.
     if length ciphertext mod 16 \<noteq> 0 then Inl (Error ''ciphertext is not a multiple of block size'')
     else
       bind_res (check_iv (enIv e)) (\<lambda>_.
       bind_res (cbc_decrypt_bytes block (enIv e) ciphertext) (\<lambda>plaintext.
       bind_res (pkcs7Unpad plaintext) (\<lambda>unpadded. Inr (string_of unpadded))))))"

subsection \<open>Padding\<close>

lemma padding_ok_take:
  "padding_ok n bs i \<longleftrightarrow> (\<forall>b \<in> set (take (n - i) bs). b = of_nat n)"
  by (induction n bs i rule: padding_ok.induct) (auto simp: take_Cons' Suc_diff_Suc)

lemma replicate_suffix:
  "n \<le> length data \<Longrightarrow> (\<forall>b \<in> set (take n (rev data)). b = x) \<longleftrightarrow>
     data = take (length data - n) data @ replicate n x"
proof -
  assume n: "n \<le> length data"
  have "(\<forall>b \<in> set (take n (rev data)). b = x) \<longleftrightarrow> (\<forall>b \<in> set (drop (length data - n) data). b = x)"
    by (simp add: take_rev)
  also have "\<dots> \<longleftrightarrow> drop (length data - n) data = replicate n x"
    using n replicate_eqI [of "drop (length data - n) data" n x] by (auto simp: in_set_replicate)
  also have "\<dots> \<longleftrightarrow> data = take (length data - n) data @ replicate n x"
    by (metis append_take_drop_id same_append_eq)
  finally show ?thesis .
qed

lemma pkcs7Unpad_iff:
  "pkcs7Unpad data = Inr r \<longleftrightarrow>
     data \<noteq> [] \<and> data = r @ replicate (unat (last data)) (last data)"
proof (cases "data = [] \<or> length data < unat (last data)")
  case True
  have "length data \<ge> unat (last data)" if "data = r @ replicate (unat (last data)) (last data)"
    using arg_cong [OF that, of length] by simp
  with True show ?thesis by (cases "data = []") (auto simp: pkcs7Unpad_def Let_def last_conv_nth)
next
  case False
  define n x where "n = unat (last data)" and "x = last data"
  have l: "of_nat n = x" "data ! (length data - 1) = x" "unat x = n" "n \<le> length data"
    using False by (auto simp: n_def x_def last_conv_nth)
  have "pkcs7Unpad data = Inr r \<longleftrightarrow>
      (data = take (length data - n) data @ replicate n x) \<and> r = take (length data - n) data"
    using False l(4) unfolding pkcs7Unpad_def Let_def l(2,3) padding_ok_take l(1) diff_zero
      replicate_suffix [OF l(4)] by auto
  also have "\<dots> \<longleftrightarrow> data = r @ replicate n x"
  proof
    assume d: "data = r @ replicate n x"
    from arg_cong [OF this, of length] have "length data - n = length r" by simp
    moreover have "take (length r) data = r" by (subst d) simp
    ultimately show "data = take (length data - n) data @ replicate n x \<and> r = take (length data - n) data"
      using d by simp
  qed auto
  finally show ?thesis using False by (simp add: n_def x_def)
qed

lemma padding_range: "0 < 16 - length data mod 16" "16 - length data mod 16 \<le> (16 :: nat)"
  using mod_less_divisor [of 16 "length data"] by (simp_all del: mod_less_divisor)

lemma pkcs7_roundtrip: "pkcs7Unpad (pkcs7Pad data 16) = Inr data"
proof -
  define p where "p = 16 - length data mod 16"
  have p: "0 < p" "p \<le> 16" using padding_range by (auto simp: p_def)
  then have "unat (of_nat p :: byte) = p" by (simp add: unat_of_nat)
  then show ?thesis
    using p by (simp add: pkcs7Unpad_iff pkcs7Pad_def Let_def p_def [symmetric])
qed

lemma length_pkcs7Pad: "length (pkcs7Pad data 16) = 16 * (length data div 16 + 1)"
proof -
  define q k where "q = length data div 16" and "k = length data mod 16"
  have "length data = 16 * q + k" "k < 16" by (simp_all add: q_def k_def)
  then have "length data + (16 - k) = 16 * (q + 1)" by (simp add: algebra_simps)
  then have "length data + (16 - length data mod 16) = 16 * (length data div 16 + 1)"
    by (simp only: q_def k_def)
  then show ?thesis by (simp add: pkcs7Pad_def Let_def)
qed

subsection \<open>Properties\<close>

text \<open>
  C19: decryption undoes encryption. For every password and every text \<open>Encrypt\<close> succeeds, the hex
  text has 32 digits for each started block, and \<open>Decrypt\<close> under the same password returns the text.
\<close>

theorem decrypt_encrypt:
  "\<exists>c. Encrypt (NewEncryptor password) txt = Inr c \<and> length c = 32 * (length txt div 16 + 1) \<and>
     Decrypt (NewEncryptor password) c = Inr txt"
proof -
  let ?k = "bytes_of password" and ?p = "pkcs7Pad (bytes_of txt) 16"
  have iv: "length (take 16 (sha256 ?k)) = 16" by simp
  have len: "length ?p = 16 * (length txt div 16 + 1)" by (simp add: length_pkcs7Pad)
  then have "length ?p mod 16 = 0" by simp
  from cbc_bytes_roundtrip [OF this iv, of ?k] obtain c where
    c: "cbc_encrypt_bytes (sha256 ?k) (take 16 (sha256 ?k)) ?p = Inr c" "length c = length ?p"
       "cbc_decrypt_bytes (sha256 ?k) (take 16 (sha256 ?k)) c = Inr ?p" by blast
  have "Encrypt (NewEncryptor password) txt = Inr (hex_encode c)"
    using c(1) by (simp add: Encrypt_def NewEncryptor_def Let_def aes_new_cipher_def check_iv_def)
  moreover have "Decrypt (NewEncryptor password) (hex_encode c) = Inr txt"
    using c(2,3) len
    by (simp add: Decrypt_def NewEncryptor_def Let_def aes_new_cipher_def check_iv_def pkcs7_roundtrip)
  ultimately show ?thesis using c(2) len by simp
qed

text \<open>
  Decryption is total: whatever the input text, \<open>Decrypt\<close> of an encryptor made from a password
  returns a text or an error and never panics.
\<close>

theorem decrypt_no_panic:
  "\<not> is_panic (Decrypt (NewEncryptor password) s)"
proof -
  have hex: "\<not> is_panic (hex_decode s)" for s
  proof (induction s rule: hex_decode.induct)
    case (3 c d cs)
    then show ?case by (cases "hex_decode cs") (auto split: option.splits)
  qed (auto split: option.splits)
  have "\<not> is_panic (pkcs7Unpad d)" for d by (simp add: pkcs7Unpad_def Let_def)
  then show ?thesis
    using hex by (simp add: Decrypt_def NewEncryptor_def Let_def aes_new_cipher_def check_iv_def
      cbc_decrypt_bytes_def is_panic_bind)
qed

text \<open>
  What the padding check accepts: the last byte \<open>n\<close> and \<open>n\<close> copies of it at the end. A last byte
  0 is therefore accepted and nothing is removed, and so is a padding longer than a block, although
  PKCS#7 padding of 16-byte blocks has 1 to 16 bytes.
\<close>

theorem unpad_accepts:
  "(pkcs7Unpad data = Inr r \<longleftrightarrow>
      data \<noteq> [] \<and> data = r @ replicate (unat (last data)) (last data)) \<and>
   pkcs7Unpad (data @ [0]) = Inr (data @ [0]) \<and>
   pkcs7Unpad (replicate 32 32) = Inr []"
  by (auto simp: pkcs7Unpad_iff)

end
