(* ===== verification/GoChan.thy ===== *)
theory GoChan
  imports GoPrelude
begin

text \<open>
  Buffered Go channels and the two ways the SDK sends on them without blocking. The monitors and
  the websocket read loop send with the "drop oldest" pattern (three \<^verbatim>\<open>select\<close> statements with a
  \<^verbatim>\<open>default\<close>); the trade and price monitors and the resolution channel send once and drop the new
  value when the buffer is full. The locales state what a consumer can rely on, and each component
  interprets them for its own operation on its own state.
\<close>

record 'a chan =
  ch_cap :: nat
  ch_buf :: "'a list"  \<comment> \<open>oldest value first\<close>

definition make_chan :: "nat \<Rightarrow> 'a chan" where
  "make_chan n = \<lparr>ch_cap = n, ch_buf = []\<rparr>"

text \<open>\<^verbatim>\<open>select { case ch <- x: ... default: }\<close>; the flag says which branch ran.\<close>

definition send_nb :: "'a \<Rightarrow> 'a chan \<Rightarrow> bool \<times> 'a chan" where
  "send_nb x c = (if length (ch_buf c) < ch_cap c
     then (True, c\<lparr>ch_buf := ch_buf c @ [x]\<rparr>) else (False, c))"

text \<open>\<^verbatim>\<open>select { case <-ch: default: }\<close>.\<close>

definition recv_nb :: "'a chan \<Rightarrow> 'a option \<times> 'a chan" where
  "recv_nb c = (case ch_buf c of [] \<Rightarrow> (None, c) | x # xs \<Rightarrow> (Some x, c\<lparr>ch_buf := xs\<rparr>))"

text \<open>The three selects of the "drop oldest" pattern, run by one goroutine alone.\<close>

definition push_drop_oldest :: "'a \<Rightarrow> 'a chan \<Rightarrow> 'a chan" where
  "push_drop_oldest x c = (let (sent, c1) = send_nb x c in
     if sent then c1 else
       let (_, c2) = recv_nb c1; (_, c3) = send_nb x c2 in c3)"

text \<open>A single select with a default: the value is dropped when the buffer is full.\<close>

definition push_drop_newest :: "'a \<Rightarrow> 'a chan \<Rightarrow> 'a chan" where
  "push_drop_newest x c = snd (send_nb x c)"

definition chan_ok :: "'a chan \<Rightarrow> bool" where
  "chan_ok c \<longleftrightarrow> length (ch_buf c) \<le> ch_cap c"

lemma chan_ok_make [simp]: "chan_ok (make_chan n)"
  by (simp add: chan_ok_def make_chan_def)

lemma send_nb_cap [simp]: "ch_cap (snd (send_nb x c)) = ch_cap c"
  by (simp add: send_nb_def)

lemma recv_nb_cap [simp]: "ch_cap (snd (recv_nb c)) = ch_cap c"
  by (simp add: recv_nb_def split: list.splits)

lemma chan_ok_send_nb: "chan_ok c \<Longrightarrow> chan_ok (snd (send_nb x c))"
  by (simp add: chan_ok_def send_nb_def)

lemma chan_ok_recv_nb: "chan_ok c \<Longrightarrow> chan_ok (snd (recv_nb c))"
  by (auto simp: chan_ok_def recv_nb_def split: list.splits)

lemma push_drop_oldest_cap [simp]: "ch_cap (push_drop_oldest x c) = ch_cap c"
  by (auto simp: push_drop_oldest_def send_nb_def recv_nb_def Let_def split: list.splits)

lemma push_drop_newest_cap [simp]: "ch_cap (push_drop_newest x c) = ch_cap c"
  by (simp add: push_drop_newest_def)

lemma push_drop_newest_buf:
  "length (ch_buf c) \<le> ch_cap c \<Longrightarrow> ch_buf (push_drop_newest x c) = take (ch_cap c) (ch_buf c @ [x])"
  by (auto simp: push_drop_newest_def send_nb_def)

lemma push_drop_oldest_buf:
  assumes "length (ch_buf c) \<le> ch_cap c" and "0 < ch_cap c"
  shows "ch_buf (push_drop_oldest x c) =
    drop (Suc (length (ch_buf c)) - ch_cap c) (ch_buf c @ [x])"
proof (cases "length (ch_buf c) < ch_cap c")
  case True
  then show ?thesis by (simp add: push_drop_oldest_def send_nb_def)
next
  case False
  with assms obtain y ys where "ch_buf c = y # ys" and "ch_cap c = Suc (length ys)"
    by (cases "ch_buf c") auto
  then show ?thesis by (simp add: push_drop_oldest_def send_nb_def recv_nb_def)
qed

subsection \<open>What a consumer relies on\<close>

text \<open>
  A bounded event stream: \<open>emit\<close> is a producer's operation on a component state \<open>'s\<close>, \<open>buf\<close> and
  \<open>cap\<close> read the channel it feeds.
\<close>

locale event_stream =
  fixes emit :: "'a \<Rightarrow> 's \<Rightarrow> 's"
    and buf :: "'s \<Rightarrow> 'a list"
    and cap :: "'s \<Rightarrow> nat"
  assumes emit_cap: "cap (emit x s) = cap s"
    and emit_bounded: "length (buf s) \<le> cap s \<Longrightarrow> length (buf (emit x s)) \<le> cap s"
begin

lemma emits_cap: "cap (fold emit xs s) = cap s"
  by (induction xs arbitrary: s) (simp_all add: emit_cap)

lemma emits_bounded: "length (buf s) \<le> cap s \<Longrightarrow> length (buf (fold emit xs s)) \<le> cap s"
proof (induction xs arbitrary: s)
  case (Cons x xs)
  then show ?case using Cons.IH [of "emit x s"] by (simp add: emit_cap emit_bounded)
qed simp

end

text \<open>The newest values survive: after any burst the buffer holds the last \<open>cap\<close> of them.\<close>

locale newest_survive =
  fixes emit :: "'a \<Rightarrow> 's \<Rightarrow> 's"
    and buf :: "'s \<Rightarrow> 'a list"
    and cap :: "'s \<Rightarrow> nat"
  assumes keep_cap: "cap (emit x s) = cap s"
    and emit_newest: "length (buf s) \<le> cap s \<Longrightarrow> 0 < cap s \<Longrightarrow>
      buf (emit x s) = drop (Suc (length (buf s)) - cap s) (buf s @ [x])"
    and emit_closed: "length (buf s) \<le> cap s \<Longrightarrow> cap s = 0 \<Longrightarrow> buf (emit x s) = buf s"

sublocale newest_survive \<subseteq> event_stream emit buf cap
proof unfold_locales
  fix x s
  show "cap (emit x s) = cap s" by (rule keep_cap)
  assume "length (buf s) \<le> cap s"
  then show "length (buf (emit x s)) \<le> cap s"
    by (cases "0 < cap s") (simp_all add: emit_newest emit_closed)
qed

context newest_survive
begin

lemma emits_newest:
  assumes "length (buf s) \<le> cap s" and "0 < cap s"
  shows "buf (fold emit xs s) = drop (length (buf s) + length xs - cap s) (buf s @ xs)"
  using assms
proof (induction xs arbitrary: s)
  case (Cons x xs)
  let ?s = "emit x s"
  have cap: "cap ?s = cap s" by (rule keep_cap)
  have buf: "buf ?s = drop (Suc (length (buf s)) - cap s) (buf s @ [x])"
    using Cons.prems by (rule emit_newest)
  have "buf (fold emit xs ?s) = drop (length (buf ?s) + length xs - cap s) (buf ?s @ xs)"
    using Cons.IH [of ?s] Cons.prems emit_bounded cap by simp
  also have "\<dots> = drop (length (buf s) + length (x # xs) - cap s) (buf s @ x # xs)"
    using Cons.prems unfolding buf
    by (cases "length (buf s) < cap s") (auto simp: Suc_diff_le)
  finally show ?case by simp
qed simp

text \<open>In particular the value sent last is always in the buffer.\<close>

lemma emit_present:
  assumes "length (buf s) \<le> cap s" and "0 < cap s"
  shows "last (buf (emit x s)) = x \<and> buf (emit x s) \<noteq> []"
  using assms by (auto simp: emit_newest)

end

text \<open>The oldest values survive: once the buffer is full, later values are lost.\<close>

locale oldest_survive =
  fixes emit :: "'a \<Rightarrow> 's \<Rightarrow> 's"
    and buf :: "'s \<Rightarrow> 'a list"
    and cap :: "'s \<Rightarrow> nat"
  assumes same_cap: "cap (emit x s) = cap s"
    and emit_oldest: "length (buf s) \<le> cap s \<Longrightarrow> buf (emit x s) = take (cap s) (buf s @ [x])"

sublocale oldest_survive \<subseteq> event_stream emit buf cap
  by unfold_locales (simp_all add: same_cap emit_oldest)

context oldest_survive
begin

lemma emits_oldest:
  "length (buf s) \<le> cap s \<Longrightarrow> buf (fold emit xs s) = take (cap s) (buf s @ xs)"
proof (induction xs arbitrary: s)
  case (Cons x xs)
  have "buf (fold emit xs (emit x s)) = take (cap s) (buf (emit x s) @ xs)"
    using Cons.IH [of "emit x s"] Cons.prems emit_bounded same_cap by simp
  then show ?case
    using Cons.prems by (cases "length (buf s) < cap s") (auto simp: emit_oldest)
qed simp

end

interpretation raw_oldest: newest_survive push_drop_oldest ch_buf ch_cap
proof unfold_locales
  fix x :: 'a and s :: "'a chan"
  show "ch_cap (push_drop_oldest x s) = ch_cap s" by simp
  show "length (ch_buf s) \<le> ch_cap s \<Longrightarrow> 0 < ch_cap s \<Longrightarrow>
    ch_buf (push_drop_oldest x s) = drop (Suc (length (ch_buf s)) - ch_cap s) (ch_buf s @ [x])"
    by (rule push_drop_oldest_buf)
  show "length (ch_buf s) \<le> ch_cap s \<Longrightarrow> ch_cap s = 0 \<Longrightarrow>
    ch_buf (push_drop_oldest x s) = ch_buf s"
    by (auto simp: push_drop_oldest_def send_nb_def recv_nb_def split: list.splits)
qed

interpretation raw_newest: oldest_survive push_drop_newest ch_buf ch_cap
  by unfold_locales (simp_all add: push_drop_newest_buf)

end
