(* ===== verification/WSClient.thy ===== *)
theory WSClient
  imports GoChan
begin

text \<open>
  \<^verbatim>\<open>utils/websocket_client.go\<close>: the reconnecting websocket client. Its operations are functions on the
  client record; \<^verbatim>\<open>Run\<close> with the goroutines it starts and the calls a user makes meanwhile is a step
  relation on the system state, one rule for each branch of a \<^verbatim>\<open>select\<close> and each iteration of a loop.
  A goroutine of an earlier session may still act: its \<^verbatim>\<open>select\<close> chooses among the ready branches, the
  cancelled context being one of them. The relation lets every loop that was ever started go on, which
  allows more behaviours than the code and none less.
  What the connection does (a dial or a write succeeding or not) is a choice of the environment. The
  handler is the sequence of its calls; a nil handler records none.
\<close>

subsection \<open>Configuration and client\<close>

text \<open>Durations are nanoseconds.\<close>

record WSConfig =
  wcURL :: string
  wcHandshakeTimeout :: int
  wcMsgBufferSize :: int
  wcWorkerNum :: int
  wcReadBufferSize :: int
  wcWriteBufferSize :: int
  wcPingInterval :: int
  wcPongWait :: int
  wcTextHeartbeat :: bool
  wcTextHeartbeatMsg :: "bytes option"
  wcReconnect :: bool
  wcReconnectDelay :: int
  wcMaxReconnect :: int

datatype wsControl = ctrlReconnect | ctrlClose

datatype frame = TextFrame bytes | PingFrame | CloseFrame

datatype ws_call = OnOpen | OnReconnect | OnError string | OnClose | OnMessage bytes

text \<open>\<open>wsConn\<close> says whether \<^verbatim>\<open>conn\<close> is non-nil; \<open>wsWire\<close> holds the frames written to it.\<close>

record wsClient =
  wsCfg :: WSConfig
  wsHandler :: bool
  wsConn :: bool
  wsSendCh :: "bytes chan"
  wsMsgCh :: "bytes chan"
  wsCtrlCh :: "wsControl chan"
  wsAlive :: bool
  wsClosed :: bool
  wsWire :: "frame list"

definition second :: int where "second = 1000000000"

definition ws_defaults :: "int \<Rightarrow> WSConfig \<Rightarrow> WSConfig" where
  "ws_defaults numCPU cfg = cfg\<lparr>
     wcMsgBufferSize := (if wcMsgBufferSize cfg = 0 then 8192 else wcMsgBufferSize cfg),
     wcWorkerNum := (if wcWorkerNum cfg \<le> 0 then numCPU else wcWorkerNum cfg),
     wcPingInterval := (if wcPingInterval cfg = 0 then 10 * second else wcPingInterval cfg),
     wcPongWait := (if wcPongWait cfg = 0 then 30 * second else wcPongWait cfg),
     wcHandshakeTimeout := (if wcHandshakeTimeout cfg = 0 then 20 * second else wcHandshakeTimeout cfg),
     wcReconnectDelay := (if wcReconnectDelay cfg = 0 then 5 * second else wcReconnectDelay cfg),
     wcMaxReconnect := (if wcReconnect cfg \<and> wcMaxReconnect cfg = 0 then 3 else wcMaxReconnect cfg),
     wcTextHeartbeatMsg := (case wcTextHeartbeatMsg cfg of None \<Rightarrow> Some (bytes_of ''PING'') | m \<Rightarrow> m)\<rparr>"

text \<open>\<^verbatim>\<open>make(chan T, n)\<close> panics for a negative \<open>n\<close>.\<close>

definition NewWSClient :: "int \<Rightarrow> WSConfig \<Rightarrow> bool \<Rightarrow> wsClient result" where
  "NewWSClient numCPU cfg handler = (let cfg = ws_defaults numCPU cfg in
     if wcMsgBufferSize cfg < 0 then Inl (Panic ''makechan: size out of range'')
     else Inr \<lparr>wsCfg = cfg, wsHandler = handler, wsConn = False,
       wsSendCh = make_chan (nat (wcMsgBufferSize cfg)), wsMsgCh = make_chan (nat (wcMsgBufferSize cfg)),
       wsCtrlCh = make_chan 1, wsAlive = False, wsClosed = False, wsWire = []\<rparr>)"

subsection \<open>Operations\<close>

text \<open>\<^verbatim>\<open>connect\<close> after a successful dial; the buffer sizes and deadlines are settings of the library.\<close>

definition ws_connect :: "wsClient \<Rightarrow> wsClient" where
  "ws_connect c = c\<lparr>wsConn := True\<rparr>"

text \<open>\<open>io\<close> says whether the library's write succeeds.\<close>

definition writeMessage :: "bool \<Rightarrow> frame \<Rightarrow> wsClient \<Rightarrow> unit result \<times> wsClient" where
  "writeMessage io f c =
     (if \<not> wsConn c then (Inl (Error ''conn is nil''), c)
      else if io then (Inr (), c\<lparr>wsWire := wsWire c @ [f]\<rparr>)
      else (Inl (Error ''write failed''), c))"

definition IsAlive :: "wsClient \<Rightarrow> bool" where
  "IsAlive c = wsAlive c"

definition Send :: "bytes \<Rightarrow> wsClient \<Rightarrow> unit result \<times> wsClient" where
  "Send msg c =
     (if \<not> IsAlive c then (Inl (Error ''ws not alive''), c)
      else let (sent, ch) = send_nb msg (wsSendCh c) in
        if sent then (Inr (), c\<lparr>wsSendCh := ch\<rparr>) else (Inl (Error ''send buffer full''), c))"

text \<open>\<^verbatim>\<open>Close\<close>: the close frame is best effort, \<open>io\<close> says whether it is written.\<close>

definition Close :: "bool \<Rightarrow> wsClient \<Rightarrow> wsClient" where
  "Close io c =
     (if wsClosed c then c
      else let c1 = c\<lparr>wsClosed := True, wsAlive := False\<rparr> in
        if wsConn c1 then (snd (writeMessage io CloseFrame c1))\<lparr>wsConn := False\<rparr> else c1)"

definition Reset_ws :: "wsClient \<Rightarrow> unit result \<times> wsClient" where
  "Reset_ws c = (let (sent, ch) = send_nb ctrlReconnect (wsCtrlCh c) in
     if sent then (Inr (), c\<lparr>wsCtrlCh := ch\<rparr>) else (Inl (Error ''ws control busy''), c))"

text \<open>One message of the read loop: the channel drops its oldest message when it is full.\<close>

definition read_message :: "bytes \<Rightarrow> wsClient \<Rightarrow> wsClient" where
  "read_message msg c = c\<lparr>wsMsgCh := push_drop_oldest msg (wsMsgCh c)\<rparr>"

text \<open>One tick of the ping loop: a ping frame, then the text heartbeat where it is enabled.\<close>

definition ping_tick :: "bool \<Rightarrow> bool \<Rightarrow> wsClient \<Rightarrow> unit result \<times> wsClient" where
  "ping_tick io1 io2 c = (case writeMessage io1 PingFrame c of
       (Inl e, c') \<Rightarrow> (Inl e, c')
     | (Inr _, c') \<Rightarrow>
         if wcTextHeartbeat (wsCfg c') then
           writeMessage io2 (TextFrame (case wcTextHeartbeatMsg (wsCfg c') of Some m \<Rightarrow> m | None \<Rightarrow> [])) c'
         else (Inr (), c'))"

subsection \<open>The running system\<close>

datatype run_result = CtxErr | DialErr string

text \<open>\<open>Dialed\<close> is between a successful \<^verbatim>\<open>connect\<close> and the closure that starts the session.\<close>

datatype run_loc = AtTop | Dialed | InSelect | Returned run_result

text \<open>A read loop is about to evaluate \<^verbatim>\<open>c.conn\<close>, blocked in \<^verbatim>\<open>ReadMessage\<close>, gone, or dead of a nil pointer.\<close>

datatype reader_loc = ReadNext | Reading | ReaderGone | ReaderPanic

text \<open>\<open>sReaders\<close> holds the read loops of all sessions, that of the current one last.\<close>

record ws_sys =
  sClient :: wsClient
  sLoc :: run_loc
  sRetry :: int
  sFirst :: bool
  sCtxDone :: bool
  sErrCh :: "string chan"
  sReaders :: "reader_loc list"
  sCalls :: "ws_call list"
  sDials :: nat

definition callH :: "ws_call \<Rightarrow> ws_sys \<Rightarrow> ws_sys" where
  "callH ev s = (if wsHandler (sClient s) then s\<lparr>sCalls := sCalls s @ [ev]\<rparr> else s)"

definition ws_init :: "wsClient \<Rightarrow> ws_sys" where
  "ws_init c = \<lparr>sClient = c, sLoc = AtTop, sRetry = 0, sFirst = True, sCtxDone = False,
     sErrCh = make_chan 1, sReaders = [], sCalls = [], sDials = 0\<rparr>"

text \<open>The start of the closure that \<^verbatim>\<open>Run\<close> calls after a successful dial.\<close>

definition session_start :: "ws_sys \<Rightarrow> ws_sys" where
  "session_start s =
     (let s = s\<lparr>sClient := (sClient s)\<lparr>wsAlive := True, wsClosed := False\<rparr>, sRetry := 0\<rparr>;
          s = (if sFirst s then (callH OnOpen s)\<lparr>sFirst := False\<rparr> else callH OnReconnect s)
      in s\<lparr>sErrCh := make_chan 1, sReaders := sReaders s @ [ReadNext], sLoc := InSelect\<rparr>)"

definition close_conn :: "bool \<Rightarrow> ws_sys \<Rightarrow> ws_sys" where
  "close_conn io s = s\<lparr>sClient := Close io (sClient s)\<rparr>"

text \<open>A loop's error goes to \<^verbatim>\<open>errCh\<close> unless one is waiting already.\<close>

definition report :: "string \<Rightarrow> ws_sys \<Rightarrow> ws_sys" where
  "report err s = s\<lparr>sErrCh := push_drop_newest err (sErrCh s)\<rparr>"

text \<open>The branches of the session's \<^verbatim>\<open>select\<close>; the closure then returns and the loop starts over.\<close>

definition on_ctx_done :: "bool \<Rightarrow> ws_sys \<Rightarrow> ws_sys" where
  "on_ctx_done io s = (callH OnClose (close_conn io s))\<lparr>sLoc := AtTop\<rparr>"

definition on_control :: "bool \<Rightarrow> wsControl \<Rightarrow> ws_sys \<Rightarrow> ws_sys" where
  "on_control io ctrl s = (case ctrl of
       ctrlReconnect \<Rightarrow> (close_conn io (callH (OnError ''manual reconnect'') s))\<lparr>sLoc := AtTop\<rparr>
     | ctrlClose \<Rightarrow> (callH OnClose (close_conn io s))\<lparr>sLoc := AtTop\<rparr>)"

text \<open>\<open>slept\<close> is the result of \<^verbatim>\<open>SleepWithCtx\<close>, false when the context is cancelled meanwhile.\<close>

definition on_error :: "bool \<Rightarrow> bool \<Rightarrow> string \<Rightarrow> ws_sys \<Rightarrow> ws_sys" where
  "on_error io slept err s = (let s = close_conn io (callH (OnError err) s) in
     if \<not> wcReconnect (wsCfg (sClient s)) then (callH OnClose s)\<lparr>sLoc := AtTop\<rparr>
     else if \<not> slept then (callH OnClose s)\<lparr>sCtxDone := True, sLoc := AtTop\<rparr>
     else s\<lparr>sLoc := AtTop\<rparr>)"

text \<open>An error of a loop of an earlier session goes to that session's own channel, which nobody reads
  any more: \<open>current\<close> says whether the writer or pinger belongs to the current session.\<close>

inductive ws_step :: "ws_sys \<Rightarrow> ws_sys \<Rightarrow> bool" where
  top_done: "sLoc s = AtTop \<Longrightarrow> sCtxDone s \<Longrightarrow>
    ws_step s ((callH OnClose s)\<lparr>sLoc := Returned CtxErr\<rparr>)"
| dial_give_up: "sLoc s = AtTop \<Longrightarrow> \<not> sCtxDone s \<Longrightarrow>
    \<not> wcReconnect (wsCfg (sClient s)) \<or> wcMaxReconnect (wsCfg (sClient s)) \<le> sRetry s \<Longrightarrow>
    ws_step s (s\<lparr>sDials := Suc (sDials s), sLoc := Returned (DialErr err)\<rparr>)"
| dial_retry: "sLoc s = AtTop \<Longrightarrow> \<not> sCtxDone s \<Longrightarrow>
    wcReconnect (wsCfg (sClient s)) \<Longrightarrow> sRetry s < wcMaxReconnect (wsCfg (sClient s)) \<Longrightarrow>
    ws_step s (s\<lparr>sDials := Suc (sDials s), sRetry := sRetry s + 1\<rparr>)"
| dial_retry_cancelled: "sLoc s = AtTop \<Longrightarrow> \<not> sCtxDone s \<Longrightarrow>
    wcReconnect (wsCfg (sClient s)) \<Longrightarrow> sRetry s < wcMaxReconnect (wsCfg (sClient s)) \<Longrightarrow>
    ws_step s ((callH OnClose (s\<lparr>sDials := Suc (sDials s), sRetry := sRetry s + 1\<rparr>))
      \<lparr>sCtxDone := True, sLoc := Returned CtxErr\<rparr>)"
| dial_ok: "sLoc s = AtTop \<Longrightarrow> \<not> sCtxDone s \<Longrightarrow>
    ws_step s (s\<lparr>sClient := ws_connect (sClient s), sDials := Suc (sDials s), sLoc := Dialed\<rparr>)"
| session: "sLoc s = Dialed \<Longrightarrow> ws_step s (session_start s)"
| sel_done: "sLoc s = InSelect \<Longrightarrow> sCtxDone s \<Longrightarrow> ws_step s (on_ctx_done io s)"
| sel_control: "sLoc s = InSelect \<Longrightarrow> recv_nb (wsCtrlCh (sClient s)) = (Some ctrl, ch) \<Longrightarrow>
    ws_step s (on_control io ctrl (s\<lparr>sClient := (sClient s)\<lparr>wsCtrlCh := ch\<rparr>\<rparr>))"
| sel_error: "sLoc s = InSelect \<Longrightarrow> recv_nb (sErrCh s) = (Some err, ch) \<Longrightarrow>
    ws_step s (on_error io slept err (s\<lparr>sErrCh := ch\<rparr>))"
| reader_next: "i < length (sReaders s) \<Longrightarrow> sReaders s ! i = ReadNext \<Longrightarrow>
    ws_step s (s\<lparr>sReaders := (sReaders s)[i := if wsConn (sClient s) then Reading else ReaderPanic]\<rparr>)"
| reader_message: "i < length (sReaders s) \<Longrightarrow> sReaders s ! i = Reading \<Longrightarrow>
    ws_step s (s\<lparr>sClient := read_message msg (sClient s), sReaders := (sReaders s)[i := ReadNext]\<rparr>)"
| reader_error: "i < length (sReaders s) \<Longrightarrow> sReaders s ! i = Reading \<Longrightarrow>
    ws_step s ((if Suc i = length (sReaders s) then report err s else s)
      \<lparr>sReaders := (sReaders s)[i := ReaderGone]\<rparr>)"
| reader_stop: "i < length (sReaders s) \<Longrightarrow> sReaders s ! i = Reading \<Longrightarrow>
    sCtxDone s \<or> sLoc s \<noteq> InSelect \<or> Suc i < length (sReaders s) \<Longrightarrow>
    ws_step s (s\<lparr>sReaders := (sReaders s)[i := ReaderGone]\<rparr>)"
| worker: "\<not> sFirst s \<Longrightarrow> recv_nb (wsMsgCh (sClient s)) = (Some msg, ch) \<Longrightarrow>
    ws_step s (callH (OnMessage msg) (s\<lparr>sClient := (sClient s)\<lparr>wsMsgCh := ch\<rparr>\<rparr>))"
| writer: "\<not> sFirst s \<Longrightarrow> recv_nb (wsSendCh (sClient s)) = (Some msg, ch) \<Longrightarrow>
    writeMessage io (TextFrame msg) ((sClient s)\<lparr>wsSendCh := ch\<rparr>) = (r, c) \<Longrightarrow>
    ws_step s (if isl r \<and> current then report err (s\<lparr>sClient := c\<rparr>) else s\<lparr>sClient := c\<rparr>)"
| pinger: "\<not> sFirst s \<Longrightarrow> ping_tick io1 io2 (sClient s) = (r, c) \<Longrightarrow>
    ws_step s (if isl r \<and> current then report err (s\<lparr>sClient := c\<rparr>) else s\<lparr>sClient := c\<rparr>)"
| user_send: "ws_step s (s\<lparr>sClient := snd (Send msg (sClient s))\<rparr>)"
| user_close: "ws_step s (close_conn io s)"
| user_reset: "ws_step s (s\<lparr>sClient := snd (Reset_ws (sClient s))\<rparr>)"
| cancel: "ws_step s (s\<lparr>sCtxDone := True\<rparr>)"

text \<open>The states a client can reach from the start of \<^verbatim>\<open>Run\<close>.\<close>

inductive ws_reach :: "wsClient \<Rightarrow> ws_sys \<Rightarrow> bool" for c where
  reach_init: "ws_reach c (ws_init c)"
| reach_step: "ws_reach c s \<Longrightarrow> ws_step s s' \<Longrightarrow> ws_reach c s'"

inductive_cases ws_reachE: "ws_reach c s"

subsection \<open>The message buffer keeps the newest messages\<close>

interpretation read_stream: newest_survive read_message "\<lambda>c. ch_buf (wsMsgCh c)" "\<lambda>c. ch_cap (wsMsgCh c)"
proof unfold_locales
  fix x c
  show "ch_cap (wsMsgCh (read_message x c)) = ch_cap (wsMsgCh c)" by (simp add: read_message_def)
  show "length (ch_buf (wsMsgCh c)) \<le> ch_cap (wsMsgCh c) \<Longrightarrow> 0 < ch_cap (wsMsgCh c) \<Longrightarrow>
      ch_buf (wsMsgCh (read_message x c)) =
      drop (Suc (length (ch_buf (wsMsgCh c))) - ch_cap (wsMsgCh c)) (ch_buf (wsMsgCh c) @ [x])"
    by (simp add: read_message_def raw_oldest.emit_newest)
  show "length (ch_buf (wsMsgCh c)) \<le> ch_cap (wsMsgCh c) \<Longrightarrow> ch_cap (wsMsgCh c) = 0 \<Longrightarrow>
      ch_buf (wsMsgCh (read_message x c)) = ch_buf (wsMsgCh c)"
    by (simp add: read_message_def raw_oldest.emit_closed)
qed

subsection \<open>The client invariant\<close>

text \<open>Within capacity on every channel.\<close>

definition client_ok :: "wsClient \<Rightarrow> bool" where
  "client_ok c \<longleftrightarrow> chan_ok (wsMsgCh c) \<and> chan_ok (wsSendCh c) \<and> chan_ok (wsCtrlCh c)"

text \<open>What no operation changes: the configuration, the handler and the capacities.\<close>

definition client_frame :: "wsClient \<Rightarrow> WSConfig \<times> bool \<times> nat \<times> nat \<times> nat" where
  "client_frame c = (wsCfg c, wsHandler c, ch_cap (wsMsgCh c), ch_cap (wsSendCh c), ch_cap (wsCtrlCh c))"

lemma recv_nb_ok: "recv_nb ch = (r, ch') \<Longrightarrow> chan_ok ch \<Longrightarrow> chan_ok ch'"
  using chan_ok_recv_nb [of ch] by simp

lemma recv_nb_cap': "recv_nb ch = (r, ch') \<Longrightarrow> ch_cap ch' = ch_cap ch"
  using recv_nb_cap [of ch] by simp

lemma push_drop_newest_ok: "chan_ok c \<Longrightarrow> chan_ok (push_drop_newest x c)"
  by (simp add: push_drop_newest_def chan_ok_send_nb)

lemma push_drop_oldest_ok: "chan_ok c \<Longrightarrow> chan_ok (push_drop_oldest x c)"
  using raw_oldest.emit_bounded [of c x] by (simp add: chan_ok_def)

lemma send_nb_ok: "send_nb x ch = (r, ch') \<Longrightarrow> chan_ok ch \<Longrightarrow> chan_ok ch' \<and> ch_cap ch' = ch_cap ch"
  using chan_ok_send_nb [of ch x] send_nb_cap [of x ch] by simp

lemma writeMessage_ok:
  "writeMessage io f c = (r, c') \<Longrightarrow> client_frame c' = client_frame c \<and> client_ok c' = client_ok c"
  by (auto simp: writeMessage_def client_ok_def client_frame_def split: if_splits)

lemma Close_ok: "client_frame (Close io c) = client_frame c" "client_ok c \<Longrightarrow> client_ok (Close io c)"
  by (auto simp: Close_def Let_def writeMessage_def client_ok_def client_frame_def)

lemma Close_cfg [simp]: "wsCfg (Close io c) = wsCfg c" "wsHandler (Close io c) = wsHandler c"
  using Close_ok(1) [of io c] by (simp_all add: client_frame_def)

lemma Send_ok: "client_frame (snd (Send m c)) = client_frame c" "client_ok c \<Longrightarrow> client_ok (snd (Send m c))"
  by (auto simp: Send_def client_ok_def client_frame_def split: prod.split dest: send_nb_ok)
    (metis send_nb_cap snd_conv)+

lemma Reset_ws_ok: "client_frame (snd (Reset_ws c)) = client_frame c" "client_ok c \<Longrightarrow> client_ok (snd (Reset_ws c))"
  by (auto simp: Reset_ws_def client_ok_def client_frame_def split: prod.split dest: send_nb_ok)
    (metis send_nb_cap snd_conv)+

lemma read_message_ok:
  "client_frame (read_message m c) = client_frame c" "client_ok c \<Longrightarrow> client_ok (read_message m c)"
  by (simp_all add: read_message_def client_frame_def client_ok_def push_drop_oldest_ok)

lemma ping_tick_ok:
  "ping_tick io1 io2 c = (r, c') \<Longrightarrow> client_frame c' = client_frame c \<and> client_ok c' = client_ok c"
  by (auto simp: ping_tick_def dest!: writeMessage_ok split: prod.splits sum.splits if_splits)

lemma client_recv_ok:
  "recv_nb (wsMsgCh c) = (r, ch) \<Longrightarrow> client_ok c \<Longrightarrow> client_ok (c\<lparr>wsMsgCh := ch\<rparr>)"
  "recv_nb (wsSendCh c) = (r, ch) \<Longrightarrow> client_ok c \<Longrightarrow> client_ok (c\<lparr>wsSendCh := ch\<rparr>)"
  "recv_nb (wsCtrlCh c) = (r', ch') \<Longrightarrow> client_ok c \<Longrightarrow> client_ok (c\<lparr>wsCtrlCh := ch'\<rparr>)"
  by (auto simp: client_ok_def dest: recv_nb_ok)

lemma client_recv_frame:
  "recv_nb (wsMsgCh c) = (r, ch) \<Longrightarrow> client_frame (c\<lparr>wsMsgCh := ch\<rparr>) = client_frame c"
  "recv_nb (wsSendCh c) = (r, ch) \<Longrightarrow> client_frame (c\<lparr>wsSendCh := ch\<rparr>) = client_frame c"
  "recv_nb (wsCtrlCh c) = (r', ch') \<Longrightarrow> client_frame (c\<lparr>wsCtrlCh := ch'\<rparr>) = client_frame c"
  by (auto simp: client_frame_def dest: recv_nb_cap')

lemma NewWSClient_ok: "NewWSClient n cfg h = Inr c \<Longrightarrow> client_ok c"
  by (auto simp: NewWSClient_def Let_def client_ok_def split: if_splits)

subsection \<open>The system invariant\<close>

text \<open>The calls of a handler that was opened: \<open>OnOpen\<close> exactly once, and before it nothing but \<open>OnClose\<close>.\<close>

definition opened :: "ws_call list \<Rightarrow> bool" where
  "opened calls \<longleftrightarrow> count_list calls OnOpen = 1 \<and> set (takeWhile ((\<noteq>) OnOpen) calls) \<subseteq> {OnClose}"

lemma opened_first: "set calls \<subseteq> {OnClose} \<Longrightarrow> opened (calls @ [OnOpen])"
  by (induction calls) (auto simp: opened_def)

lemma opened_more: "opened calls \<Longrightarrow> ev \<noteq> OnOpen \<Longrightarrow> opened (calls @ [ev])"
  by (auto simp: opened_def takeWhile_append count_list_0_iff dest: set_takeWhileD)

lemma opened_close: "set calls \<subseteq> {OnClose} \<Longrightarrow> set (calls @ [OnClose]) \<subseteq> {OnClose}"
  by simp

definition sys_ok :: "wsClient \<Rightarrow> ws_sys \<Rightarrow> bool" where
  "sys_ok c s \<longleftrightarrow> client_ok (sClient s) \<and> client_frame (sClient s) = client_frame c \<and> chan_ok (sErrCh s) \<and>
     0 \<le> sRetry s \<and> sRetry s \<le> max 0 (wcMaxReconnect (wsCfg c)) \<and>
     (wsHandler c \<longrightarrow> (if sFirst s then set (sCalls s) \<subseteq> {OnClose} else opened (sCalls s))) \<and>
     (sLoc s = InSelect \<longrightarrow> \<not> sFirst s) \<and>
     (\<forall>e. sLoc s = Returned (DialErr e) \<longrightarrow>
        \<not> wcReconnect (wsCfg c) \<or> wcMaxReconnect (wsCfg c) \<le> sRetry s)"

lemma frame_cfg: "client_frame a = client_frame b \<Longrightarrow> wsCfg a = wsCfg b \<and> wsHandler a = wsHandler b"
  by (simp add: client_frame_def)

lemma callH_simps [simp]:
  "sClient (callH ev s) = sClient s" "sRetry (callH ev s) = sRetry s" "sFirst (callH ev s) = sFirst s"
  "sErrCh (callH ev s) = sErrCh s" "sLoc (callH ev s) = sLoc s" "sDials (callH ev s) = sDials s"
  "sCtxDone (callH ev s) = sCtxDone s" "sReaders (callH ev s) = sReaders s"
  "sCalls (callH ev s) = (if wsHandler (sClient s) then sCalls s @ [ev] else sCalls s)"
  by (simp_all add: callH_def)

lemma sys_ok_client:
  "sys_ok c s \<Longrightarrow> client_frame d = client_frame (sClient s) \<Longrightarrow> client_ok d \<Longrightarrow> sys_ok c (s\<lparr>sClient := d\<rparr>)"
  by (simp add: sys_ok_def)

lemma sys_ok_callH: "sys_ok c s \<Longrightarrow> ev \<noteq> OnOpen \<Longrightarrow> ev = OnClose \<or> \<not> sFirst s \<Longrightarrow> sys_ok c (callH ev s)"
  using frame_cfg [of "sClient s" c] by (auto simp: sys_ok_def opened_more)

lemma sys_ok_started: "sys_ok c s \<Longrightarrow> sLoc s = InSelect \<Longrightarrow> \<not> sFirst s"
  by (simp add: sys_ok_def)

lemma sys_ok_top: "sys_ok c s \<Longrightarrow> sys_ok c (s\<lparr>sLoc := AtTop\<rparr>)"
  by (simp add: sys_ok_def)

lemma sys_ok_close_conn: "sys_ok c s \<Longrightarrow> sys_ok c (close_conn io s)"
  unfolding close_conn_def by (rule sys_ok_client) (simp_all add: Close_ok, simp add: sys_ok_def Close_ok)

lemma sys_ok_report: "sys_ok c s \<Longrightarrow> sys_ok c (report e s)"
  by (simp add: sys_ok_def report_def push_drop_newest_ok)

lemma sys_ok_misc:
  "sys_ok c s \<Longrightarrow> sys_ok c (s\<lparr>sCtxDone := b\<rparr>)" "sys_ok c s \<Longrightarrow> sys_ok c (s\<lparr>sReaders := r\<rparr>)"
  "sys_ok c s \<Longrightarrow> recv_nb (sErrCh s) = (x, ch) \<Longrightarrow> sys_ok c (s\<lparr>sErrCh := ch\<rparr>)"
  by (auto simp: sys_ok_def dest: recv_nb_ok)

lemmas sys_ok_intros = sys_ok_callH sys_ok_top sys_ok_close_conn sys_ok_report sys_ok_misc(1,2)

lemma session_start_ok: "sys_ok c s \<Longrightarrow> sys_ok c (session_start s)"
proof -
  assume s: "sys_ok c s"
  define d where "d = (sClient s)\<lparr>wsAlive := True, wsClosed := False\<rparr>"
  define t where "t = s\<lparr>sClient := d, sRetry := 0\<rparr>"
  have d: "client_ok d" "client_frame d = client_frame c"
    using s by (simp_all add: d_def sys_ok_def client_ok_def client_frame_def)
  define u where "u = (if sFirst t then (callH OnOpen t)\<lparr>sFirst := False\<rparr> else callH OnReconnect t)"
  have u: "client_ok (sClient u)" "client_frame (sClient u) = client_frame c" "sRetry u = 0" "\<not> sFirst u"
      "wsHandler c \<Longrightarrow> opened (sCalls u)"
    using s d frame_cfg [OF d(2)] by (auto simp: u_def t_def sys_ok_def opened_first opened_more)
  have "session_start s = u\<lparr>sErrCh := make_chan 1, sReaders := sReaders s @ [ReadNext], sLoc := InSelect\<rparr>"
    by (simp add: session_start_def Let_def u_def t_def d_def)
  then show ?thesis using u by (simp add: sys_ok_def)
qed

lemma on_branch_ok:
  "sys_ok c s \<Longrightarrow> sys_ok c (on_ctx_done io s)"
  "sys_ok c s \<Longrightarrow> \<not> sFirst s \<Longrightarrow> sys_ok c (on_control io ctrl s)"
  "sys_ok c s \<Longrightarrow> \<not> sFirst s \<Longrightarrow> sys_ok c (on_error io slept err s)"
  by (auto simp: on_ctx_done_def on_control_def on_error_def Let_def close_conn_def [symmetric] split: wsControl.split
      intro!: sys_ok_callH sys_ok_top sys_ok_close_conn sys_ok_misc(1))

lemma sys_ok_step: "ws_step s s' \<Longrightarrow> sys_ok c s \<Longrightarrow> sys_ok c s'"
proof (induction rule: ws_step.induct)
  case (dial_give_up s err)
  then show ?case using frame_cfg [of "sClient s" c] by (simp add: sys_ok_def)
next
  case (dial_retry s)
  then show ?case using frame_cfg [of "sClient s" c] by (simp add: sys_ok_def)
next
  case (dial_retry_cancelled s)
  then show ?case using frame_cfg [of "sClient s" c] by (simp add: sys_ok_def opened_more)
next
  case (sel_control s ctrl ch io)
  then have "sys_ok c (s\<lparr>sClient := (sClient s)\<lparr>wsCtrlCh := ch\<rparr>\<rparr>)"
    by (intro sys_ok_client) (auto simp: client_recv_frame sys_ok_def intro: client_recv_ok)
  then show ?case using sel_control by (intro on_branch_ok) (simp_all add: sys_ok_started)
next
  case (sel_error s err ch io slept)
  then show ?case by (intro on_branch_ok sys_ok_misc(3)) (simp_all add: sys_ok_started)
next
  case (dial_ok s)
  then have "sys_ok c (s\<lparr>sClient := ws_connect (sClient s)\<rparr>)"
    by (intro sys_ok_client) (auto simp: sys_ok_def ws_connect_def client_ok_def client_frame_def)
  then show ?case by (auto simp: sys_ok_def)
next
  case (worker s msg ch)
  then have "sys_ok c (s\<lparr>sClient := (sClient s)\<lparr>wsMsgCh := ch\<rparr>\<rparr>)"
    by (intro sys_ok_client) (auto simp: client_recv_frame sys_ok_def intro: client_recv_ok)
  then show ?case using worker by (intro sys_ok_callH) simp_all
next
  case (writer s msg ch io r d current err)
  then have "sys_ok c (s\<lparr>sClient := d\<rparr>)"
    by (intro sys_ok_client) (auto simp: client_recv_frame sys_ok_def intro: client_recv_ok dest!: writeMessage_ok)
  then show ?case by (auto intro: sys_ok_report)
next
  case (pinger s io1 io2 r d current err)
  then have "sys_ok c (s\<lparr>sClient := d\<rparr>)"
    by (intro sys_ok_client) (auto simp: sys_ok_def dest!: ping_tick_ok)
  then show ?case by (auto intro: sys_ok_report)
next
  case (reader_message i s msg)
  then have "sys_ok c (s\<lparr>sClient := read_message msg (sClient s)\<rparr>)"
    by (intro sys_ok_client) (auto simp: sys_ok_def read_message_ok)
  then show ?case by (auto dest: sys_ok_misc(2))
next
  case (user_send s msg)
  then show ?case by (intro sys_ok_client) (auto simp: sys_ok_def Send_ok)
next
  case (user_reset s)
  then show ?case by (intro sys_ok_client) (auto simp: sys_ok_def Reset_ws_ok)
next
  case (top_done s)
  then have "sys_ok c (callH OnClose s)" by (intro sys_ok_callH) simp_all
  then show ?case by (auto simp: sys_ok_def split: if_splits)
next
  case (reader_error i s err)
  then show ?case by (intro sys_ok_misc(2)) (auto intro: sys_ok_report)
qed (simp_all add: session_start_ok on_branch_ok sys_ok_misc sys_ok_close_conn)

lemma sys_ok_reach: "ws_reach c s \<Longrightarrow> client_ok c \<Longrightarrow> sys_ok c s"
proof (induction rule: ws_reach.induct)
  case reach_init
  then show ?case by (simp add: sys_ok_def ws_init_def)
qed (rule sys_ok_step)

lemma client_fresh:
  assumes "NewWSClient n cfg h = Inr c"
  shows "wsHandler c = h" "wcReconnect (wsCfg c) = wcReconnect cfg" "\<not> wsClosed c"
    "ch_buf (wsMsgCh c) = []" "ch_cap (wsMsgCh c) = nat (if wcMsgBufferSize cfg = 0 then 8192 else wcMsgBufferSize cfg)"
    "wcMaxReconnect (wsCfg c) = (if wcReconnect cfg \<and> wcMaxReconnect cfg = 0 then 3 else wcMaxReconnect cfg)"
proof -
  have "c = \<lparr>wsCfg = ws_defaults n cfg, wsHandler = h, wsConn = False,
      wsSendCh = make_chan (nat (wcMsgBufferSize (ws_defaults n cfg))),
      wsMsgCh = make_chan (nat (wcMsgBufferSize (ws_defaults n cfg))),
      wsCtrlCh = make_chan 1, wsAlive = False, wsClosed = False, wsWire = []\<rparr>"
    using assms by (cases "wcMsgBufferSize (ws_defaults n cfg) < 0") (simp_all add: NewWSClient_def Let_def)
  then show "wsHandler c = h" "wcReconnect (wsCfg c) = wcReconnect cfg" "\<not> wsClosed c"
    "ch_buf (wsMsgCh c) = []" "ch_cap (wsMsgCh c) = nat (if wcMsgBufferSize cfg = 0 then 8192 else wcMsgBufferSize cfg)"
    "wcMaxReconnect (wsCfg c) = (if wcReconnect cfg \<and> wcMaxReconnect cfg = 0 then 3 else wcMaxReconnect cfg)"
    by (simp_all add: ws_defaults_def make_chan_def)
qed

text \<open>A configuration to evaluate the client on.\<close>

definition sample_cfg :: "bool \<Rightarrow> WSConfig" where
  "sample_cfg reconnect = \<lparr>wcURL = ''wss://host'', wcHandshakeTimeout = 0, wcMsgBufferSize = 2, wcWorkerNum = 1,
     wcReadBufferSize = 0, wcWriteBufferSize = 0, wcPingInterval = 0, wcPongWait = 0, wcTextHeartbeat = True,
     wcTextHeartbeatMsg = None, wcReconnect = reconnect, wcReconnectDelay = 0, wcMaxReconnect = 0\<rparr>"

lemma sample_client: "\<exists>c. NewWSClient 8 (sample_cfg r) h = Inr c"
  by (simp add: NewWSClient_def Let_def ws_defaults_def sample_cfg_def)

text \<open>The state after the first dial succeeded.\<close>

definition first_state :: "wsClient \<Rightarrow> ws_sys" where
  "first_state c = session_start ((ws_init c)\<lparr>sClient := ws_connect c, sDials := 1, sLoc := Dialed\<rparr>)"

lemma first_session:
  assumes "NewWSClient n cfg h = Inr c"
  shows "ws_reach c (first_state c)" "sCalls (first_state c) = (if h then [OnOpen] else [])"
    "sLoc (first_state c) = InSelect" "sReaders (first_state c) = [ReadNext]" "wsConn (sClient (first_state c))"
    "sErrCh (first_state c) = make_chan 1" "sDials (first_state c) = 1" "\<not> sCtxDone (first_state c)"
    "\<not> sFirst (first_state c)" "wsHandler (sClient (first_state c)) = h" "\<not> wsClosed (sClient (first_state c))"
    "wcReconnect (wsCfg (sClient (first_state c))) = wcReconnect cfg"
proof -
  have "ws_step (ws_init c) ((ws_init c)\<lparr>sClient := ws_connect c, sDials := 1, sLoc := Dialed\<rparr>)"
    using dial_ok [of "ws_init c"] by (simp add: ws_init_def)
  then show "ws_reach c (first_state c)" unfolding first_state_def
    by (intro reach_step [OF reach_step [OF reach_init] session]) simp_all
qed (use client_fresh [OF assms] in \<open>simp_all add: first_state_def session_start_def ws_init_def Let_def ws_connect_def\<close>)

subsection \<open>Properties\<close>

text \<open>
  C4: the invariant of the running client. In every state reachable from a new client, with any
  interleaving of the loops, the user's calls and the connection's failures: no channel holds more
  than its capacity; a handler that is told anything but a close was opened first, and exactly once;
  the retry counter stays between 0 and the maximum; and \<open>Run\<close> returns a dial error only when
  reconnecting is off or the retries are used up.
\<close>

theorem ws_invariant:
  assumes "NewWSClient n cfg True = Inr c" and "ws_reach c s"
  shows "length (ch_buf (wsMsgCh (sClient s))) \<le> ch_cap (wsMsgCh c) \<and>
    length (ch_buf (wsSendCh (sClient s))) \<le> ch_cap (wsSendCh c) \<and>
    length (ch_buf (wsCtrlCh (sClient s))) \<le> ch_cap (wsCtrlCh c) \<and>
    (set (sCalls s) \<subseteq> {OnClose} \<or> opened (sCalls s)) \<and>
    0 \<le> sRetry s \<and> sRetry s \<le> max 0 (wcMaxReconnect (wsCfg c)) \<and>
    (sLoc s = Returned (DialErr e) \<longrightarrow> wcReconnect cfg \<longrightarrow> wcMaxReconnect (wsCfg c) \<le> sRetry s)"
  using sys_ok_reach [OF assms(2) NewWSClient_ok [OF assms(1)]] client_fresh [OF assms(1)]
  by (auto simp: sys_ok_def client_ok_def chan_ok_def client_frame_def split: if_splits)

theorem ws_invariant_witness:
  "\<exists>c s. NewWSClient 8 (sample_cfg True) True = Inr c \<and> ws_reach c s \<and> sCalls s = [OnOpen] \<and> opened (sCalls s)"
proof -
  obtain c where c: "NewWSClient 8 (sample_cfg True) True = Inr c" using sample_client by blast
  note s = first_session [OF c]
  with ws_invariant [OF c s(1)] c show ?thesis by (intro exI [of _ c] exI [of _ "first_state c"]) simp
qed

text \<open>
  The message buffer favours the newest messages. After any burst of messages read by a new
  client whose workers have not run, the buffer holds exactly the last ones, in order, as many as
  its capacity.
\<close>

theorem ws_keeps_newest:
  assumes "NewWSClient n cfg h = Inr c" and "0 < ch_cap (wsMsgCh c)"
  shows "ch_buf (wsMsgCh (fold read_message msgs c)) = drop (length msgs - ch_cap (wsMsgCh c)) msgs"
  using read_stream.emits_newest [of c msgs] client_fresh(4) [OF assms(1)] assms(2) by simp

theorem ws_keeps_newest_witness:
  "\<exists>c. NewWSClient 8 (sample_cfg True) True = Inr c \<and>
     ch_buf (wsMsgCh (fold read_message [[1], [2], [3]] c)) = [[2], [3]]"
proof -
  obtain c where c: "NewWSClient 8 (sample_cfg True) True = Inr c" using sample_client by blast
  moreover have "ch_cap (wsMsgCh c) = 2" using client_fresh(5) [OF c] by (simp add: sample_cfg_def)
  ultimately show ?thesis using ws_keeps_newest [OF c, of "[[1], [2], [3]]"] by simp
qed

text \<open>
  C33: switching reconnection off does not stop the client. With \<open>Reconnect\<close> false, a connection error
  calls \<open>OnError\<close> and \<open>OnClose\<close>, but the \<^verbatim>\<open>return\<close> only leaves the inner closure: the loop dials a second
  time and the handler sees \<open>OnReconnect\<close>.
\<close>

theorem ws_reconnects_when_disabled:
  assumes c: "NewWSClient n cfg True = Inr c" and r: "\<not> wcReconnect cfg"
  shows "\<exists>s. ws_reach c s \<and> sDials s = 2 \<and> sLoc s = InSelect \<and>
    sCalls s = [OnOpen, OnError err, OnClose, OnReconnect]"
proof -
  note f = first_session [OF c]
  define s2 where "s2 = (first_state c)\<lparr>sReaders := [Reading]\<rparr>"
  define s3 where "s3 = (report err s2)\<lparr>sReaders := [ReaderGone]\<rparr>"
  define s4 where "s4 = on_error True True err (s3\<lparr>sErrCh := make_chan 1\<rparr>)"
  define s5 where "s5 = s4\<lparr>sClient := ws_connect (sClient s4), sDials := Suc (sDials s4), sLoc := Dialed\<rparr>"
  have st2: "ws_step (first_state c) s2" using reader_next [of 0 "first_state c"] f by (simp add: s2_def)
  have st3: "ws_step s2 s3" using reader_error [of 0 s2 err] by (simp add: s3_def s2_def)
  have st4: "ws_step s3 s4" unfolding s4_def
    by (rule sel_error) (simp_all add: s3_def s2_def report_def f push_drop_newest_def send_nb_def
      make_chan_def recv_nb_def)
  have l4: "sLoc s4 = AtTop" "\<not> sCtxDone s4" "sCalls s4 = [OnOpen, OnError err, OnClose]"
    "sDials s4 = 1" "\<not> sFirst s4" "wsHandler (sClient s4)"
    using f r by (simp_all add: s4_def s3_def s2_def on_error_def report_def close_conn_def Let_def)
  have st5: "ws_step s4 s5" unfolding s5_def using l4 by (intro dial_ok)
  have "ws_step s5 (session_start s5)" by (rule session) (simp add: s5_def)
  then have "ws_reach c (session_start s5)"
    by (rule reach_step [OF reach_step [OF reach_step [OF reach_step [OF reach_step [OF f(1) st2] st3] st4] st5]])
  then show ?thesis using l4
    by (intro exI [of _ "session_start s5"]) (simp add: s5_def session_start_def Let_def ws_connect_def)
qed

theorem ws_reconnects_when_disabled_witness:
  "\<exists>c s. NewWSClient 8 (sample_cfg False) True = Inr c \<and> ws_reach c s \<and> sDials s = 2"
proof -
  obtain c where c: "NewWSClient 8 (sample_cfg False) True = Inr c" using sample_client by blast
  with ws_reconnects_when_disabled [OF c, of "''eof''"] show ?thesis by (auto simp: sample_cfg_def)
qed

text \<open>
  C34: a read loop can crash on a nil connection. The loop evaluates \<^verbatim>\<open>c.conn\<close> without the lock and
  without looking at the context: when \<open>Close\<close> runs while the loop is between two reads, it calls
  \<^verbatim>\<open>ReadMessage\<close> on nil, in a goroutine that recovers nothing.
\<close>

theorem ws_reader_nil_conn:
  assumes c: "NewWSClient n cfg h = Inr c"
  shows "\<exists>s. ws_reach c s \<and> sReaders s = [ReaderPanic]"
proof -
  note f = first_session [OF c]
  define s2 where "s2 = close_conn True (first_state c)"
  have l2: "sReaders s2 = [ReadNext]" "\<not> wsConn (sClient s2)"
    using f by (simp_all add: s2_def close_conn_def Close_def Let_def)
  have "ws_step (first_state c) s2" unfolding s2_def by (rule user_close)
  note r2 = reach_step [OF f(1) this]
  have "ws_step s2 (s2\<lparr>sReaders := [ReaderPanic]\<rparr>)" using reader_next [of 0 s2] l2 by simp
  then have "ws_reach c (s2\<lparr>sReaders := [ReaderPanic]\<rparr>)" by (rule reach_step [OF r2])
  then show ?thesis by (intro exI [of _ "s2\<lparr>sReaders := [ReaderPanic]\<rparr>"]) simp
qed

theorem ws_reader_nil_conn_witness:
  "\<exists>c s. NewWSClient 8 (sample_cfg True) True = Inr c \<and> ws_reach c s \<and> sReaders s = [ReaderPanic]"
proof -
  obtain c where c: "NewWSClient 8 (sample_cfg True) True = Inr c" using sample_client by blast
  with ws_reader_nil_conn [OF c] show ?thesis by blast
qed

text \<open>
  Cancelling the context closes the handler twice. The closure calls \<open>OnClose\<close> and returns, and
  the head of the loop sees the cancelled context and calls it again before \<open>Run\<close> returns.
\<close>

theorem ws_cancel_closes_twice:
  assumes c: "NewWSClient n cfg True = Inr c"
  shows "\<exists>s. ws_reach c s \<and> sLoc s = Returned CtxErr \<and> sCalls s = [OnOpen, OnClose, OnClose]"
proof -
  note f = first_session [OF c]
  define s2 where "s2 = (first_state c)\<lparr>sCtxDone := True\<rparr>"
  define s3 where "s3 = on_ctx_done True s2"
  define s4 where "s4 = (callH OnClose s3)\<lparr>sLoc := Returned CtxErr\<rparr>"
  have l3: "sLoc s3 = AtTop" "sCtxDone s3" "sCalls s3 = [OnOpen, OnClose]" "wsHandler (sClient s3)"
    using f by (simp_all add: s3_def s2_def on_ctx_done_def close_conn_def)
  have st2: "ws_step (first_state c) s2" unfolding s2_def by (rule cancel)
  have st3: "ws_step s2 s3" unfolding s3_def by (rule sel_done) (simp_all add: s2_def f)
  have "ws_step s3 s4" unfolding s4_def using l3 by (intro top_done)
  then have "ws_reach c s4" by (rule reach_step [OF reach_step [OF reach_step [OF f(1) st2] st3]])
  then show ?thesis using l3 by (intro exI [of _ s4]) (simp add: s4_def)
qed

theorem ws_cancel_closes_twice_witness:
  "\<exists>c s. NewWSClient 8 (sample_cfg True) True = Inr c \<and> ws_reach c s \<and> sCalls s = [OnOpen, OnClose, OnClose]"
proof -
  obtain c where c: "NewWSClient 8 (sample_cfg True) True = Inr c" using sample_client by blast
  with ws_cancel_closes_twice [OF c] show ?thesis by blast
qed

end
