(* ===== verification/MarketMonitor.thy ===== *)
theory MarketMonitor
  imports WSClient OrderTypes GoJson
begin

text \<open>
  \<^verbatim>\<open>polymarket/market_monitor.go\<close>: the market-data monitor. It keeps the subscribed tokens, a store of
  the latest order book of each token and four event channels, and is the handler of a websocket
  client. A nil slice of books or tokens is the empty list. The pointer to the REST client, only
  handed out by \<^verbatim>\<open>GetClient\<close>, is not part of the state. \<open>now\<close> stands for \<^verbatim>\<open>time.Now().UnixMilli()\<close>.
\<close>

subsection \<open>Data\<close>

record OrderBook =
  kbMarket :: string
  kbAssetId :: string
  kbTimestamp :: int
  kbLatency :: int
  kbBids :: "Book list"
  kbAsks :: "Book list"

record PriceData =
  pdTokenID :: string
  pdMarket :: string
  pdBestAsk :: "Book option"
  pdBestBid :: "Book option"
  pdTimestamp :: int
  pdMinOrderSize :: float64
  pdTickSize :: float64
  pdNegRisk :: bool

record ResolvedInfo =
  riEventType :: string
  riId :: string
  riMarket :: string
  riAssetsIds :: "string list option"
  riWinningAssetId :: string
  riWinningOutcome :: string
  riTimestamp :: int
  riTags :: "string list option"

record PriceChangeItem =
  pcAssetID :: string
  pcPrice :: string
  pcSize :: string
  pcSide :: string
  pcHash :: string
  pcBestBid :: string
  pcBestAsk :: string

record PriceChangeInfo =
  piEventType :: string
  piMarket :: string
  piPriceChanges :: "PriceChangeItem list"
  piTimestamp :: int

record LastTradePriceInfo =
  ltEventType :: string
  ltAssetID :: string
  ltMarket :: string
  ltPrice :: string
  ltSize :: string
  ltFeeRateBps :: string
  ltSide :: string
  ltTransactionHash :: string
  ltTimestamp :: int

record BookStore =
  bsV :: "OrderBook option"
  bsLastUpdate :: int

record MarketMonitor =
  mmWs :: "wsClient option"
  mmOrderBooks :: "string \<rightharpoonup> BookStore"
  mmUrl :: string
  mmCustom :: bool
  mmSubsTokens :: "string list"
  mmOrderBookCh :: "OrderBook chan"
  mmResolvedCh :: "ResolvedInfo chan"
  mmPriceChangeCh :: "PriceChangeInfo chan"
  mmLastTradeCh :: "LastTradePriceInfo chan"
  mmOrderBookSub :: bool
  mmResolvedSub :: bool
  mmPriceChangeSub :: bool
  mmLastTradeSub :: bool
  mmIsStore :: bool

definition NewMarketMonitor :: "string \<Rightarrow> bool \<Rightarrow> bool \<Rightarrow> MarketMonitor" where
  "NewMarketMonitor wsBaseUrl isStore customFeatureEnabled =
     \<lparr>mmWs = None, mmOrderBooks = Map.empty, mmUrl = wsBaseUrl @ ''/ws/market'',
      mmCustom = customFeatureEnabled, mmSubsTokens = [],
      mmOrderBookCh = make_chan 4096, mmResolvedCh = make_chan 4096,
      mmPriceChangeCh = make_chan 4096, mmLastTradeCh = make_chan 4096,
      mmOrderBookSub = False, mmResolvedSub = False, mmPriceChangeSub = False, mmLastTradeSub = False,
      mmIsStore = isStore\<rparr>"

subsection \<open>Parsing switches and event channels\<close>

definition SubscribeOrderBook :: "MarketMonitor \<Rightarrow> MarketMonitor" where
  "SubscribeOrderBook mm = mm\<lparr>mmOrderBookSub := True\<rparr>"
definition SubscribeResolved :: "MarketMonitor \<Rightarrow> MarketMonitor" where
  "SubscribeResolved mm = mm\<lparr>mmResolvedSub := True\<rparr>"
definition SubscribePriceChange :: "MarketMonitor \<Rightarrow> MarketMonitor" where
  "SubscribePriceChange mm = mm\<lparr>mmPriceChangeSub := True\<rparr>"
definition SubscribeLastTradePrice :: "MarketMonitor \<Rightarrow> MarketMonitor" where
  "SubscribeLastTradePrice mm = mm\<lparr>mmLastTradeSub := True\<rparr>"
definition UnsubscribeOrderBook :: "MarketMonitor \<Rightarrow> MarketMonitor" where
  "UnsubscribeOrderBook mm = mm\<lparr>mmOrderBookSub := False\<rparr>"
definition UnsubscribeResolved :: "MarketMonitor \<Rightarrow> MarketMonitor" where
  "UnsubscribeResolved mm = mm\<lparr>mmResolvedSub := False\<rparr>"
definition UnsubscribePriceChange :: "MarketMonitor \<Rightarrow> MarketMonitor" where
  "UnsubscribePriceChange mm = mm\<lparr>mmPriceChangeSub := False\<rparr>"
definition UnsubscribeLastTradePrice :: "MarketMonitor \<Rightarrow> MarketMonitor" where
  "UnsubscribeLastTradePrice mm = mm\<lparr>mmLastTradeSub := False\<rparr>"

definition emitOrderBook :: "OrderBook \<Rightarrow> MarketMonitor \<Rightarrow> MarketMonitor" where
  "emitOrderBook book mm = mm\<lparr>mmOrderBookCh := push_drop_oldest book (mmOrderBookCh mm)\<rparr>"

definition emitPriceChange :: "PriceChangeInfo \<Rightarrow> MarketMonitor \<Rightarrow> MarketMonitor" where
  "emitPriceChange info mm = mm\<lparr>mmPriceChangeCh := push_drop_oldest info (mmPriceChangeCh mm)\<rparr>"

definition emitLastTradePrice :: "LastTradePriceInfo \<Rightarrow> MarketMonitor \<Rightarrow> MarketMonitor" where
  "emitLastTradePrice info mm = mm\<lparr>mmLastTradeCh := push_drop_oldest info (mmLastTradeCh mm)\<rparr>"

definition emitResolved :: "ResolvedInfo \<Rightarrow> MarketMonitor \<Rightarrow> MarketMonitor" where
  "emitResolved info mm = mm\<lparr>mmResolvedCh := push_drop_newest info (mmResolvedCh mm)\<rparr>"

subsection \<open>The store of order books\<close>

text \<open>The decision of \<^verbatim>\<open>updateOrderBook\<close>, from what it loads, and its store, which it runs after it.\<close>

definition book_current :: "OrderBook \<Rightarrow> MarketMonitor \<Rightarrow> bool" where
  "book_current book mm = (case mmOrderBooks mm (kbAssetId book) of
       None \<Rightarrow> True
     | Some st \<Rightarrow> (case bsV st of None \<Rightarrow> True | Some old \<Rightarrow> \<not> kbTimestamp book < kbTimestamp old))"

definition book_store :: "int \<Rightarrow> OrderBook \<Rightarrow> MarketMonitor \<Rightarrow> MarketMonitor" where
  "book_store now book mm = mm\<lparr>mmOrderBooks :=
     (mmOrderBooks mm)(kbAssetId book \<mapsto> \<lparr>bsV = Some book, bsLastUpdate = now\<rparr>)\<rparr>"

definition updateOrderBook :: "int \<Rightarrow> OrderBook \<Rightarrow> MarketMonitor \<Rightarrow> MarketMonitor" where
  "updateOrderBook now book mm =
     (if \<not> mmIsStore mm then mm else if book_current book mm then book_store now book mm else mm)"

definition RemoveTokenOrderBook :: "string \<Rightarrow> MarketMonitor \<Rightarrow> MarketMonitor" where
  "RemoveTokenOrderBook tokenID mm = mm\<lparr>mmOrderBooks := (mmOrderBooks mm)(tokenID := None)\<rparr>"

definition GetTokenOrderBook :: "string \<Rightarrow> MarketMonitor \<Rightarrow> OrderBook result" where
  "GetTokenOrderBook tokenID mm = (case mmOrderBooks mm tokenID of
       None \<Rightarrow> Inl (Error (''[MarketMonitor] token not found: '' @ tokenID))
     | Some st \<Rightarrow> (case bsV st of
         None \<Rightarrow> Inl (Error (''[MarketMonitor] token empty: '' @ tokenID)) | Some book \<Rightarrow> Inr book))"

definition GetTokenPrice :: "string \<Rightarrow> MarketMonitor \<Rightarrow> PriceData result" where
  "GetTokenPrice tokenID mm = bind_res (GetTokenOrderBook tokenID mm) (\<lambda>book.
     Inr \<lparr>pdTokenID = tokenID, pdMarket = kbMarket book,
       pdBestAsk = (if kbAsks book = [] then None else Some (kbAsks book ! (length (kbAsks book) - 1))),
       pdBestBid = (if kbBids book = [] then None else Some (kbBids book ! (length (kbBids book) - 1))),
       pdTimestamp = kbTimestamp book, pdMinOrderSize = Fin 0, pdTickSize = Fin 0, pdNegRisk = False\<rparr>)"

subsection \<open>Messages\<close>

definition read_level :: "'j gjson_lib \<Rightarrow> 'j \<Rightarrow> Book" where
  "read_level J v = \<lparr>bkPrice = getF J v ''price'', bkSize = getF J v ''size''\<rparr>"

definition parse_book :: "'j gjson_lib \<Rightarrow> int \<Rightarrow> 'j \<Rightarrow> OrderBook" where
  "parse_book J now info =
     \<lparr>kbMarket = getS J info ''market'', kbAssetId = getS J info ''asset_id'',
      kbTimestamp = getI J info ''timestamp'',
      kbLatency = int64 (now - getI J info ''timestamp''),
      kbBids = map (read_level J) (getA J info ''bids''),
      kbAsks = map (read_level J) (getA J info ''asks'')\<rparr>"

definition onOrderBook :: "'j gjson_lib \<Rightarrow> int \<Rightarrow> 'j \<Rightarrow> MarketMonitor \<Rightarrow> MarketMonitor" where
  "onOrderBook J now info mm = (let book = parse_book J now info in
     emitOrderBook book (updateOrderBook now book mm))"

definition onMarketResolved :: "'j gjson_lib \<Rightarrow> 'j \<Rightarrow> MarketMonitor \<Rightarrow> MarketMonitor" where
  "onMarketResolved J info mm = emitResolved
     \<lparr>riEventType = getS J info ''event_type'', riId = getS J info ''id'', riMarket = getS J info ''market'',
      riAssetsIds = GetStringArray J info ''assets_ids'',
      riWinningAssetId = getS J info ''winning_asset_id'', riWinningOutcome = getS J info ''winning_outcome'',
      riTimestamp = getI J info ''timestamp'', riTags = GetStringArray J info ''tags''\<rparr> mm"

definition onPriceChange :: "'j gjson_lib \<Rightarrow> 'j \<Rightarrow> MarketMonitor \<Rightarrow> MarketMonitor" where
  "onPriceChange J info mm = emitPriceChange
     \<lparr>piEventType = getS J info ''event_type'', piMarket = getS J info ''market'',
      piPriceChanges = map (\<lambda>v. \<lparr>pcAssetID = getS J v ''asset_id'', pcPrice = getS J v ''price'',
         pcSize = getS J v ''size'', pcSide = getS J v ''side'', pcHash = getS J v ''hash'',
         pcBestBid = getS J v ''best_bid'', pcBestAsk = getS J v ''best_ask''\<rparr>) (getA J info ''price_changes''),
      piTimestamp = getI J info ''timestamp''\<rparr> mm"

definition onLastTradePrice :: "'j gjson_lib \<Rightarrow> 'j \<Rightarrow> MarketMonitor \<Rightarrow> MarketMonitor" where
  "onLastTradePrice J info mm = emitLastTradePrice
     \<lparr>ltEventType = getS J info ''event_type'', ltAssetID = getS J info ''asset_id'',
      ltMarket = getS J info ''market'', ltPrice = getS J info ''price'', ltSize = getS J info ''size'',
      ltFeeRateBps = getS J info ''fee_rate_bps'', ltSide = getS J info ''side'',
      ltTransactionHash = getS J info ''transaction_hash'', ltTimestamp = getI J info ''timestamp''\<rparr> mm"

definition mm_handleMessage :: "'j gjson_lib \<Rightarrow> int \<Rightarrow> bytes \<Rightarrow> MarketMonitor \<Rightarrow> MarketMonitor" where
  "mm_handleMessage J now msg mm =
     (let result = gParse J (string_of msg); event_type = getS J result ''event_type'' in
      if event_type = ''book'' then
        (if mmOrderBookSub mm \<or> mmIsStore mm then onOrderBook J now result mm else mm)
      else if event_type = ''market_resolved'' then
        (if mmResolvedSub mm then onMarketResolved J result mm else mm)
      else if event_type = ''price_change'' then
        (if mmPriceChangeSub mm then onPriceChange J result mm else mm)
      else if event_type = ''last_trade_price'' then
        (if mmLastTradeSub mm then onLastTradePrice J result mm else mm)
      else mm)"

definition mm_OnMessage :: "'j gjson_lib \<Rightarrow> int \<Rightarrow> bytes \<Rightarrow> MarketMonitor \<Rightarrow> MarketMonitor" where
  "mm_OnMessage J now msg mm =
     (if length msg = 4 \<and> msg ! 0 = byte_of_char CHR ''P'' \<and> msg ! 1 = byte_of_char CHR ''O'' \<and>
         msg ! 2 = byte_of_char CHR ''N'' \<and> msg ! 3 = byte_of_char CHR ''G'' then mm
      else mm_handleMessage J now msg mm)"

subsection \<open>Subscriptions\<close>

definition DynamicSub :: string where "DynamicSub = ''subscribe''"
definition DynamicUnSub :: string where "DynamicUnSub = ''unsubscribe''"

text \<open>\<^verbatim>\<open>json.Marshal\<close> of a \<^verbatim>\<open>DynamicSubMarketMessage\<close>.\<close>

definition sub_message :: "string \<Rightarrow> string list \<Rightarrow> bool \<Rightarrow> bytes" where
  "sub_message operation tokens custom = json_marshal (JObj
     [(''assets_ids'', JArr (map JStr tokens)), (''operation'', JStr operation),
      (''custom_feature_enabled'', JBool custom)])"

text \<open>\<^verbatim>\<open>pm.ws == nil || !pm.ws.IsAlive()\<close>, and a send whose error is only logged.\<close>

definition ws_up :: "MarketMonitor \<Rightarrow> bool" where
  "ws_up mm = (case mmWs mm of None \<Rightarrow> False | Some w \<Rightarrow> IsAlive w)"

definition mm_send :: "bytes \<Rightarrow> MarketMonitor \<Rightarrow> MarketMonitor" where
  "mm_send data mm = mm\<lparr>mmWs := map_option (\<lambda>w. snd (Send data w)) (mmWs mm)\<rparr>"

text \<open>The dedup loop: the first occurrence of each token is kept.\<close>

fun dedup :: "string list \<Rightarrow> string list \<Rightarrow> string list" where
  "dedup seen [] = []"
| "dedup seen (t # ts) = (if t \<in> set seen then dedup seen ts else t # dedup (t # seen) ts)"

definition subscribeMarket :: "string list \<Rightarrow> MarketMonitor \<Rightarrow> MarketMonitor" where
  "subscribeMarket tokens mm =
     (let mm = (if tokens = [] then mm else mm\<lparr>mmSubsTokens := dedup [] (mmSubsTokens mm @ tokens)\<rparr>);
          subs = mmSubsTokens mm
      in if subs = [] \<or> \<not> ws_up mm then mm
         else mm_send (sub_message DynamicSub subs (mmCustom mm)) mm)"

definition SubscribeTokens :: "string list \<Rightarrow> MarketMonitor \<Rightarrow> MarketMonitor" where
  "SubscribeTokens tokens mm = subscribeMarket tokens mm"

definition UnsubscribeTokens :: "string list \<Rightarrow> MarketMonitor \<Rightarrow> MarketMonitor" where
  "UnsubscribeTokens tokens mm =
     (if tokens = [] then mm
      else let mm = (if mmIsStore mm then fold RemoveTokenOrderBook tokens mm else mm);
               dst = filter (\<lambda>t. t \<notin> set tokens) (mmSubsTokens mm);
               mm = mm\<lparr>mmSubsTokens := dst\<rparr>
        in if dst = [] \<or> \<not> ws_up mm then mm
           else mm_send (sub_message DynamicUnSub tokens (mmCustom mm)) mm)"

text \<open>\<^verbatim>\<open>json.Marshal\<close> of a \<^verbatim>\<open>MarketMessage\<close> with no tokens.\<close>

definition mm_Subscribe :: "MarketMonitor \<Rightarrow> MarketMonitor" where
  "mm_Subscribe mm = (if \<not> ws_up mm then mm else mm_send (json_marshal (JObj
     [(''type'', JStr ''market''), (''assets_ids'', JArr []),
      (''custom_feature_enabled'', JBool (mmCustom mm)), (''initial_dump'', JBool False)])) mm)"

text \<open>The closed client, which the monitor lets go, and the monitor.\<close>

definition Disconnect :: "bool \<Rightarrow> MarketMonitor \<Rightarrow> wsClient option \<times> MarketMonitor" where
  "Disconnect io mm = (map_option (Close io) (mmWs mm), mm\<lparr>mmWs := None, mmSubsTokens := []\<rparr>)"

definition mm_Reset :: "bool \<Rightarrow> MarketMonitor \<Rightarrow> MarketMonitor" where
  "mm_Reset isReconnect mm =
     (let tokens = mmSubsTokens mm;
          mm = fold RemoveTokenOrderBook tokens mm;
          mm = UnsubscribeTokens tokens (mm\<lparr>mmSubsTokens := []\<rparr>)
      in if isReconnect then mm\<lparr>mmWs := map_option (\<lambda>w. snd (Reset_ws w)) (mmWs mm)\<rparr> else mm)"

definition mm_OnOpen :: "MarketMonitor \<Rightarrow> MarketMonitor" where
  "mm_OnOpen mm = subscribeMarket [] mm"

definition mm_OnReconnect :: "MarketMonitor \<Rightarrow> MarketMonitor" where
  "mm_OnReconnect mm = subscribeMarket [] mm"

text \<open>The websocket client that \<^verbatim>\<open>Run\<close> makes, unless a live one is there.\<close>

definition mm_config :: "MarketMonitor \<Rightarrow> WSConfig" where
  "mm_config mm = \<lparr>wcURL = mmUrl mm, wcHandshakeTimeout = 0, wcMsgBufferSize = 32768, wcWorkerNum = 0,
     wcReadBufferSize = 65536, wcWriteBufferSize = 0, wcPingInterval = 10 * second, wcPongWait = 0,
     wcTextHeartbeat = True, wcTextHeartbeatMsg = None, wcReconnect = True, wcReconnectDelay = 0,
     wcMaxReconnect = 20\<rparr>"

definition mm_Run_start :: "int \<Rightarrow> MarketMonitor \<Rightarrow> MarketMonitor result" where
  "mm_Run_start numCPU mm = (if ws_up mm then Inr mm
     else bind_res (NewWSClient numCPU (mm_config mm) True) (\<lambda>w. Inr (mm\<lparr>mmWs := Some w\<rparr>)))"

subsection \<open>The event channels\<close>

interpretation book_stream: newest_survive emitOrderBook
  "\<lambda>mm. ch_buf (mmOrderBookCh mm)" "\<lambda>mm. ch_cap (mmOrderBookCh mm)"
  by unfold_locales (simp_all add: emitOrderBook_def raw_oldest.emit_newest raw_oldest.emit_closed)

interpretation change_stream: newest_survive emitPriceChange
  "\<lambda>mm. ch_buf (mmPriceChangeCh mm)" "\<lambda>mm. ch_cap (mmPriceChangeCh mm)"
  by unfold_locales (simp_all add: emitPriceChange_def raw_oldest.emit_newest raw_oldest.emit_closed)

interpretation trade_stream: newest_survive emitLastTradePrice
  "\<lambda>mm. ch_buf (mmLastTradeCh mm)" "\<lambda>mm. ch_cap (mmLastTradeCh mm)"
  by unfold_locales (simp_all add: emitLastTradePrice_def raw_oldest.emit_newest raw_oldest.emit_closed)

interpretation resolved_stream: oldest_survive emitResolved
  "\<lambda>mm. ch_buf (mmResolvedCh mm)" "\<lambda>mm. ch_cap (mmResolvedCh mm)"
  by unfold_locales (simp_all add: emitResolved_def raw_newest.emit_oldest)

lemmas on_defs = onOrderBook_def onMarketResolved_def onPriceChange_def onLastTradePrice_def Let_def

lemma updateOrderBook_frame [simp]:
  "mmOrderBookCh (updateOrderBook now b mm) = mmOrderBookCh mm"
  "mmOrderBookSub (updateOrderBook now b mm) = mmOrderBookSub mm"
  "mmIsStore (updateOrderBook now b mm) = mmIsStore mm"
  "mmSubsTokens (updateOrderBook now b mm) = mmSubsTokens mm"
  by (simp_all add: updateOrderBook_def book_store_def)

lemma emit_frame [simp]:
  "mmOrderBookSub (emitOrderBook b mm) = mmOrderBookSub mm" "mmIsStore (emitOrderBook b mm) = mmIsStore mm"
  "mmOrderBooks (emitOrderBook b mm) = mmOrderBooks mm"
  "mmOrderBookSub (emitPriceChange p mm) = mmOrderBookSub mm" "mmOrderBookCh (emitPriceChange p mm) = mmOrderBookCh mm"
  "mmOrderBookSub (emitLastTradePrice l mm) = mmOrderBookSub mm" "mmOrderBookCh (emitLastTradePrice l mm) = mmOrderBookCh mm"
  "mmOrderBookSub (emitResolved r mm) = mmOrderBookSub mm" "mmOrderBookCh (emitResolved r mm) = mmOrderBookCh mm"
  by (simp_all add: emitOrderBook_def emitPriceChange_def emitLastTradePrice_def emitResolved_def)

text \<open>A message that carries an order book, and the book it carries.\<close>

definition is_book :: "'j gjson_lib \<Rightarrow> bytes \<Rightarrow> bool" where
  "is_book J msg \<longleftrightarrow> getS J (gParse J (string_of msg)) ''event_type'' = ''book''"

definition book_of :: "'j gjson_lib \<Rightarrow> int \<times> bytes \<Rightarrow> OrderBook" where
  "book_of J nm = parse_book J (fst nm) (gParse J (string_of (snd nm)))"

lemma handleMessage_book:
  "mmOrderBookSub mm \<Longrightarrow> is_book J msg \<Longrightarrow>
     mm_handleMessage J now msg mm = emitOrderBook (book_of J (now, msg)) (updateOrderBook now (book_of J (now, msg)) mm)"
  by (simp add: mm_handleMessage_def is_book_def onOrderBook_def book_of_def Let_def)

lemma handleMessage_other:
  "\<not> is_book J msg \<Longrightarrow> mmOrderBookCh (mm_handleMessage J now msg mm) = mmOrderBookCh mm"
  by (simp add: mm_handleMessage_def is_book_def on_defs)

lemma handleMessage_sub [simp]: "mmOrderBookSub (mm_handleMessage J now msg mm) = mmOrderBookSub mm"
  by (simp add: mm_handleMessage_def on_defs)

subsection \<open>The store keeps the latest book\<close>

text \<open>What the store holds for a token after a sequence of timed updates.\<close>

definition store_latest :: "string \<Rightarrow> (int \<times> OrderBook) list \<Rightarrow> MarketMonitor \<Rightarrow> bool" where
  "store_latest a nbs mm \<longleftrightarrow> (case mmOrderBooks mm a of
       None \<Rightarrow> (\<forall>(n, b) \<in> set nbs. kbAssetId b \<noteq> a)
     | Some st \<Rightarrow> (\<exists>n b. bsV st = Some b \<and> (n, b) \<in> set nbs \<and> kbAssetId b = a \<and>
         (\<forall>(n', b') \<in> set nbs. kbAssetId b' = a \<longrightarrow> kbTimestamp b' \<le> kbTimestamp b)))"

lemma store_latest_update:
  assumes "mmIsStore mm" and "store_latest a nbs mm"
  shows "store_latest a (nbs @ [(n, b)]) (updateOrderBook n b mm)"
proof (cases "kbAssetId b = a")
  case False
  then have "mmOrderBooks (updateOrderBook n b mm) a = mmOrderBooks mm a"
    by (simp add: updateOrderBook_def book_store_def)
  with False assms(2) show ?thesis by (auto simp: store_latest_def split: option.splits)
next
  case True
  show ?thesis
  proof (cases "mmOrderBooks mm a")
    case None
    with True assms show ?thesis
      by (auto simp: store_latest_def updateOrderBook_def book_store_def book_current_def)
  next
    case (Some st)
    then obtain n0 b0 where b0: "bsV st = Some b0" "(n0, b0) \<in> set nbs" "kbAssetId b0 = a"
        "\<forall>(n', b') \<in> set nbs. kbAssetId b' = a \<longrightarrow> kbTimestamp b' \<le> kbTimestamp b0"
      using assms(2) by (auto simp: store_latest_def)
    show ?thesis
    proof (cases "kbTimestamp b < kbTimestamp b0")
      case True': True
      then have "updateOrderBook n b mm = mm"
        using Some b0(1) True by (simp add: updateOrderBook_def book_current_def)
      with Some b0 True' show ?thesis by (auto simp: store_latest_def)
    next
      case False
      then have "mmOrderBooks (updateOrderBook n b mm) a = Some \<lparr>bsV = Some b, bsLastUpdate = n\<rparr>"
        using Some b0(1) True assms(1) by (simp add: updateOrderBook_def book_current_def book_store_def)
      with False b0(4) True show ?thesis by (fastforce simp: store_latest_def)
    qed
  qed
qed

lemma store_latest_updates:
  assumes "mmIsStore mm" and "mmOrderBooks mm a = None"
  shows "mmIsStore (fold (\<lambda>(n, b). updateOrderBook n b) nbs mm) \<and>
    store_latest a nbs (fold (\<lambda>(n, b). updateOrderBook n b) nbs mm)"
proof (induction nbs rule: rev_induct)
  case Nil
  then show ?case using assms by (simp add: store_latest_def)
next
  case (snoc x nbs)
  then show ?case using store_latest_update by (cases x) simp
qed

subsection \<open>Subscribed tokens\<close>

lemma set_dedup: "set (dedup seen ts) = set ts - set seen"
  by (induction seen ts rule: dedup.induct) auto

lemma distinct_dedup: "distinct (dedup seen ts)"
  by (induction seen ts rule: dedup.induct) (auto simp: set_dedup)

lemma mm_send_frame [simp]:
  "mmSubsTokens (mm_send d mm) = mmSubsTokens mm" "mmOrderBooks (mm_send d mm) = mmOrderBooks mm"
  "mmIsStore (mm_send d mm) = mmIsStore mm" "mmCustom (mm_send d mm) = mmCustom mm"
  by (simp_all add: mm_send_def)

lemma remove_books_frame [simp]:
  "mmSubsTokens (fold RemoveTokenOrderBook ts mm) = mmSubsTokens mm"
  "mmWs (fold RemoveTokenOrderBook ts mm) = mmWs mm"
  "mmIsStore (fold RemoveTokenOrderBook ts mm) = mmIsStore mm"
  by (induction ts arbitrary: mm) (simp_all add: RemoveTokenOrderBook_def)

lemma remove_books:
  "mmOrderBooks (fold RemoveTokenOrderBook ts mm) t = (if t \<in> set ts then None else mmOrderBooks mm t)"
  by (induction ts arbitrary: mm) (auto simp: RemoveTokenOrderBook_def)

lemma subscribe_tokens:
  "mmSubsTokens (subscribeMarket ts mm) = (if ts = [] then mmSubsTokens mm else dedup [] (mmSubsTokens mm @ ts))"
  by (simp add: subscribeMarket_def Let_def)

lemma unsubscribe_tokens:
  "mmSubsTokens (UnsubscribeTokens ts mm) = filter (\<lambda>t. t \<notin> set ts) (mmSubsTokens mm)"
  by (simp add: UnsubscribeTokens_def Let_def)

lemma unsubscribe_all_ws:
  "set (mmSubsTokens mm) \<subseteq> set ts \<Longrightarrow> mmWs (UnsubscribeTokens ts mm) = mmWs mm"
  by (auto simp: UnsubscribeTokens_def Let_def filter_empty_conv)

lemma emit_channel: "mmOrderBookCh (emitOrderBook b mm) = push_drop_oldest b (mmOrderBookCh mm)"
  by (simp add: emitOrderBook_def)

lemma emits_channel: "mmOrderBookCh (fold emitOrderBook bs mm) = fold push_drop_oldest bs (mmOrderBookCh mm)"
  by (induction bs arbitrary: mm) (simp_all add: emit_channel)

lemma messages_channel:
  "mmOrderBookSub mm \<Longrightarrow> mmOrderBookCh (fold (\<lambda>(now, msg). mm_handleMessage J now msg) nms mm) =
     mmOrderBookCh (fold emitOrderBook (map (book_of J) (filter (\<lambda>nm. is_book J (snd nm)) nms)) mm)"
proof (induction nms arbitrary: mm)
  case (Cons nm nms)
  obtain now msg where nm: "nm = (now, msg)" by (cases nm)
  show ?case
  proof (cases "is_book J msg")
    case True
    with Cons show ?thesis by (simp add: nm handleMessage_book emits_channel emit_channel)
  next
    case False
    with Cons show ?thesis by (simp add: nm handleMessage_other emits_channel)
  qed
qed simp

text \<open>A book and a monitor to evaluate on.\<close>

definition sample_book :: "string \<Rightarrow> int \<Rightarrow> OrderBook" where
  "sample_book a ts = \<lparr>kbMarket = ''m'', kbAssetId = a, kbTimestamp = ts, kbLatency = 0,
     kbBids = [\<lparr>bkPrice = Fin (1 / 4), bkSize = Fin 10\<rparr>, \<lparr>bkPrice = Fin (1 / 2), bkSize = Fin 5\<rparr>], kbAsks = []\<rparr>"

definition sample_json :: "doc gjson_lib" where
  "sample_json = doc_lib (\<lambda>s. DObj [(''event_type'', DStr ''book''), (''market'', DStr ''m''),
     (''asset_id'', DStr ''7''), (''timestamp'', DNum ''100''),
     (''bids'', DArr [DObj [(''price'', DStr ''0.25''), (''size'', DStr ''10'')]])])"

lemma sample_is_book: "is_book sample_json msg"
  by (simp add: is_book_def sample_json_def doc_lib_def doc_get_def)

subsection \<open>Properties\<close>

text \<open>
  C5: the store serves the latest book. After any sequence of updates on a store without the token,
  a lookup finds nothing exactly when no update was for the token, and otherwise returns one of the
  token's books whose timestamp no other update for it exceeds, in whatever order they came.
\<close>

theorem mm_latest_book:
  assumes "mmIsStore mm" and "mmOrderBooks mm a = None"
  shows "case GetTokenOrderBook a (fold (\<lambda>(n, b). updateOrderBook n b) nbs mm) of
      Inl _ \<Rightarrow> (\<forall>(n, b) \<in> set nbs. kbAssetId b \<noteq> a)
    | Inr b \<Rightarrow> b \<in> snd ` set nbs \<and> kbAssetId b = a \<and>
        (\<forall>(n', b') \<in> set nbs. kbAssetId b' = a \<longrightarrow> kbTimestamp b' \<le> kbTimestamp b)"
  using store_latest_updates [OF assms, of nbs]
  by (force simp: store_latest_def GetTokenOrderBook_def split: option.splits)

theorem mm_latest_book_witness:
  "GetTokenOrderBook ''7'' (fold (\<lambda>(n, b). updateOrderBook n b)
     [(1, sample_book ''7'' 50), (2, sample_book ''7'' 40)] (NewMarketMonitor ''u'' True False)) = Inr (sample_book ''7'' 50) \<and>
   kbTimestamp (sample_book ''7'' 40) \<le> 50"
proof -
  have "GetTokenOrderBook ''7'' (fold (\<lambda>(n, b). updateOrderBook n b)
      [(1, sample_book ''7'' 50), (2, sample_book ''7'' 40)] (NewMarketMonitor ''u'' True False)) = Inr (sample_book ''7'' 50)"
    by (simp add: updateOrderBook_def book_current_def book_store_def GetTokenOrderBook_def
      NewMarketMonitor_def sample_book_def)
  with mm_latest_book [of "NewMarketMonitor ''u'' True False" "''7''"
    "[(1, sample_book ''7'' 50), (2, sample_book ''7'' 40)]"]
  show ?thesis by (simp add: NewMarketMonitor_def sample_book_def)
qed

text \<open>
  A price lookup after a book message. Handling a book message that is not older than the stored
  book makes \<open>GetTokenPrice\<close> return that message's market and timestamp with its last bid and its last
  ask as the best ones.
\<close>

theorem mm_price_after_book:
  assumes "mmIsStore mm" and "is_book J msg"
    and "\<forall>st old. mmOrderBooks mm (kbAssetId (book_of J (now, msg))) = Some st \<longrightarrow> bsV st = Some old \<longrightarrow>
      kbTimestamp old \<le> kbTimestamp (book_of J (now, msg))"
  shows "let b = book_of J (now, msg) in
    GetTokenPrice (kbAssetId b) (mm_handleMessage J now msg mm) =
      Inr \<lparr>pdTokenID = kbAssetId b, pdMarket = kbMarket b,
        pdBestAsk = (if kbAsks b = [] then None else Some (last (kbAsks b))),
        pdBestBid = (if kbBids b = [] then None else Some (last (kbBids b))),
        pdTimestamp = kbTimestamp b, pdMinOrderSize = Fin 0, pdTickSize = Fin 0, pdNegRisk = False\<rparr>"
proof -
  let ?b = "book_of J (now, msg)"
  have h: "mm_handleMessage J now msg mm = emitOrderBook ?b (updateOrderBook now ?b mm)"
    using assms(1,2) by (simp add: mm_handleMessage_def is_book_def onOrderBook_def book_of_def Let_def)
  have "book_current ?b mm"
    using assms(3) by (auto simp: book_current_def not_less split: option.splits)
  then show ?thesis
    using assms(1) by (simp add: h Let_def GetTokenPrice_def GetTokenOrderBook_def updateOrderBook_def
      book_store_def last_conv_nth)
qed

theorem mm_price_after_book_witness:
  "is_ok (GetTokenPrice (kbAssetId (book_of sample_json (120, [1]))) (mm_handleMessage sample_json 120 [1] (NewMarketMonitor ''u'' True False)))"
  using mm_price_after_book [of "NewMarketMonitor ''u'' True False" sample_json "[1]" 120] sample_is_book
  by (simp add: NewMarketMonitor_def Let_def)

text \<open>
  C25: the order-book channel keeps the newest books. Once subscribed, after handling any sequence of
  messages, book messages or not, the channel holds the last books received, in order, up to its
  capacity.
\<close>

theorem mm_book_stream:
  assumes "mmOrderBookSub mm" and "length (ch_buf (mmOrderBookCh mm)) \<le> ch_cap (mmOrderBookCh mm)"
    and "0 < ch_cap (mmOrderBookCh mm)"
  shows "let books = map (book_of J) (filter (\<lambda>nm. is_book J (snd nm)) nms) in
    ch_buf (mmOrderBookCh (fold (\<lambda>(now, msg). mm_handleMessage J now msg) nms mm)) =
      drop (length (ch_buf (mmOrderBookCh mm)) + length books - ch_cap (mmOrderBookCh mm))
        (ch_buf (mmOrderBookCh mm) @ books)"
  using book_stream.emits_newest [OF assms(2,3)] by (simp add: messages_channel [OF assms(1)] Let_def)

theorem mm_book_stream_witness:
  "length (ch_buf (mmOrderBookCh (fold (\<lambda>(now, msg). mm_handleMessage sample_json now msg) [(1, [1]), (2, [2])]
     (SubscribeOrderBook (NewMarketMonitor ''u'' False False))))) = 2"
  using mm_book_stream [of "SubscribeOrderBook (NewMarketMonitor ''u'' False False)" sample_json "[(1, [1]), (2, [2])]"]
  by (simp add: SubscribeOrderBook_def NewMarketMonitor_def make_chan_def sample_is_book Let_def)



text \<open>
  C17: the subscribed tokens are a set. Subscribing adds the tokens, unsubscribing removes them with
  their stored books, neither ever lists a token twice, and the other tokens and books stay.
\<close>

theorem mm_subscription_set:
  assumes "distinct (mmSubsTokens mm)"
  shows "distinct (mmSubsTokens (SubscribeTokens ts mm)) \<and>
    set (mmSubsTokens (SubscribeTokens ts mm)) = set (mmSubsTokens mm) \<union> set ts \<and>
    distinct (mmSubsTokens (UnsubscribeTokens ts mm)) \<and>
    set (mmSubsTokens (UnsubscribeTokens ts mm)) = set (mmSubsTokens mm) - set ts \<and>
    (mmIsStore mm \<longrightarrow> mmOrderBooks (UnsubscribeTokens ts mm) = (mmOrderBooks mm) |` (- set ts))"
proof -
  have "mmOrderBooks (UnsubscribeTokens ts mm) = (mmOrderBooks mm) |` (- set ts)" if "mmIsStore mm"
    using that by (auto simp: UnsubscribeTokens_def Let_def fun_eq_iff remove_books restrict_map_def)
  then show ?thesis
    using assms distinct_dedup [of "[]"] set_dedup [of "[]"]
    by (auto simp: SubscribeTokens_def subscribe_tokens unsubscribe_tokens)
qed

theorem mm_subscription_set_witness:
  "mmSubsTokens (SubscribeTokens [''1'', ''2'', ''1''] (NewMarketMonitor ''u'' True False)) = [''1'', ''2''] \<and>
   distinct (mmSubsTokens (SubscribeTokens [''1'', ''2'', ''1''] (NewMarketMonitor ''u'' True False)))"
  using mm_subscription_set [of "NewMarketMonitor ''u'' True False" "[''1'', ''2'', ''1'']"]
  by (simp add: SubscribeTokens_def subscribe_tokens NewMarketMonitor_def)

text \<open>
  A reconnect restores the subscription. On a live client with room in its send queue, the
  reconnect handler queues one message that subscribes to every token the monitor holds.
\<close>

theorem mm_resubscribes:
  assumes "mmWs mm = Some w" and "IsAlive w" and "mmSubsTokens mm \<noteq> []"
    and "length (ch_buf (wsSendCh w)) < ch_cap (wsSendCh w)"
  shows "\<exists>w'. mmWs (mm_OnReconnect mm) = Some w' \<and> mmSubsTokens (mm_OnReconnect mm) = mmSubsTokens mm \<and>
    ch_buf (wsSendCh w') = ch_buf (wsSendCh w) @ [sub_message DynamicSub (mmSubsTokens mm) (mmCustom mm)]"
  using assms by (simp add: mm_OnReconnect_def subscribeMarket_def ws_up_def mm_send_def Send_def send_nb_def)

theorem mm_resubscribes_witness:
  "\<exists>mm w'. mmWs (mm_OnReconnect mm) = Some w' \<and>
     ch_buf (wsSendCh w') = [sub_message DynamicSub [''1'', ''2''] False]"
proof -
  obtain w where w: "NewWSClient 8 (sample_cfg True) True = Inr w" using sample_client by blast
  then have e: "ch_buf (wsSendCh w) = []" "0 < ch_cap (wsSendCh w)"
    by (auto simp: NewWSClient_def Let_def make_chan_def sample_cfg_def ws_defaults_def)
  define mm where "mm = (NewMarketMonitor ''u'' True False)\<lparr>mmWs := Some (w\<lparr>wsAlive := True\<rparr>), mmSubsTokens := [''1'', ''2'']\<rparr>"
  have mm: "mmWs mm = Some (w\<lparr>wsAlive := True\<rparr>)" "mmSubsTokens mm = [''1'', ''2'']" "mmCustom mm = False"
    by (simp_all add: mm_def NewMarketMonitor_def)
  from mm_resubscribes [OF mm(1)] mm(2,3) e have "\<exists>w'. mmWs (mm_OnReconnect mm) = Some w' \<and>
     ch_buf (wsSendCh w') = [sub_message DynamicSub [''1'', ''2''] False]" by (auto simp: IsAlive_def)
  then show ?thesis by blast
qed

text \<open>
  C36: dropping the last tokens is silent. Unsubscribing all tokens, and so every \<open>Reset\<close>, sends nothing
  to the server, which keeps streaming them: the guard on the remaining tokens returns before the
  unsubscribe message. After a \<open>Reset\<close> the monitor holds no tokens and none of their books.
\<close>

theorem mm_reset_silent:
  "mmWs (mm_Reset False mm) = mmWs mm \<and> mmSubsTokens (mm_Reset b mm) = [] \<and>
   (t \<in> set (mmSubsTokens mm) \<longrightarrow> mmOrderBooks (mm_Reset b mm) t = None) \<and>
   (set (mmSubsTokens mm) \<subseteq> set ts \<longrightarrow>
     mmSubsTokens (UnsubscribeTokens ts mm) = [] \<and> mmWs (UnsubscribeTokens ts mm) = mmWs mm)"
proof -
  have b: "mmOrderBooks (UnsubscribeTokens ts mm') t = None" if "mmOrderBooks mm' t = None" for ts mm'
    using that by (auto simp: UnsubscribeTokens_def Let_def remove_books)
  show ?thesis
    using b unsubscribe_all_ws
    by (auto simp: mm_Reset_def Let_def unsubscribe_tokens remove_books filter_empty_conv)
qed

theorem mm_reset_silent_witness:
  "mmSubsTokens (mm_Reset True (SubscribeTokens [''1''] (NewMarketMonitor ''u'' True False))) = []"
  using mm_reset_silent [of "SubscribeTokens [''1''] (NewMarketMonitor ''u'' True False)" True "''1''" "[''1'']"] by simp

end
