(* ===== verification/TradeMonitor.thy ===== *)
theory TradeMonitor
  imports WSClient Signature JsonLib GoJson
begin

text \<open>
  \<^verbatim>\<open>polymarket/trade_monitor.go\<close> and the message types of \<^verbatim>\<open>model/subscribe.go\<close>: the monitor of a user's
  trades and orders, which passes every event on to one channel. The decoding of a message into a
  struct is an argument (\<open>decode\<close>), since the struct tags hold all of it; the number type with its own
  decoder is modelled.
\<close>

subsection \<open>model/subscribe.go\<close>

record WSUserAuth =
  waAPIKey :: string
  waSecret :: string
  waPassphrase :: string

record WSOrder =
  woAssetId :: string
  woAssociateTrades :: "string list"
  woEventType :: string
  woId :: string
  woMarket :: string
  woOrderOwner :: string
  woOriginalSize :: float64
  woOutcome :: string
  woOwner :: string
  woPrice :: float64
  woSide :: string
  woSizeMatched :: float64
  woTimestamp :: int
  woType :: string
  woStatus :: string

record WSMakerOrder =
  wmAssetId :: string
  wmMatchedAmount :: float64
  wmOrderId :: string
  wmOutcome :: string
  wmOwner :: string
  wmSide :: string
  wmPrice :: float64
  wmFeeRateBps :: float64

record WSTrade =
  wtAssetId :: string
  wtEventType :: string
  wtId :: string
  wtLastUpdate :: int
  wtMakerOrders :: "WSMakerOrder list"
  wtMarket :: string
  wtMatchtime :: int
  wtOutcome :: string
  wtOwner :: string
  wtPrice :: float64
  wtSide :: string
  wtSize :: float64
  wtFeeRateBps :: float64
  wtStatus :: string
  wtTakerOrderId :: string
  wtTimestamp :: int
  wtTradeOwner :: string
  wtType :: string

text \<open>\<^verbatim>\<open>strings.Trim(s, "\"")\<close>, and the decoder of \<^verbatim>\<open>SafeFloat64\<close>.\<close>

definition trim_quotes :: "string \<Rightarrow> string" where
  "trim_quotes s = rev (dropWhile (\<lambda>c. c = quote_char) (rev (dropWhile (\<lambda>c. c = quote_char) s)))"

definition SafeFloat64_UnmarshalJSON :: "bytes \<Rightarrow> float64 result" where
  "SafeFloat64_UnmarshalJSON b = (let str = trim_quotes (string_of b) in
     if str = [] \<or> str = ''null'' then Inr (Fin 0)
     else (case parseFloat str of Inl e \<Rightarrow> Inl e | Inr v \<Rightarrow> Inr v))"

subsection \<open>The monitor\<close>

datatype TradeEventType = TradeEventTypeTrade | TradeEventTypeOrder | TradeEventTypeUnknown

record TradeEvent =
  teEventType :: TradeEventType
  teReceivedAt :: int
  teRaw :: bytes
  teTrade :: "WSTrade option"
  teOrder :: "WSOrder option"
  teParseErr :: "failure option"

record TradeMonitor =
  tmWs :: "wsClient option"
  tmCreds :: "ApiKeyCreds option"
  tmUrl :: string
  tmEventCh :: "TradeEvent chan"

definition NewTradeMonitor :: "string \<Rightarrow> ApiKeyCreds option \<Rightarrow> TradeMonitor" where
  "NewTradeMonitor wsBaseURL creds =
     \<lparr>tmWs = None, tmCreds = creds, tmUrl = wsBaseURL @ ''/ws/user'', tmEventCh = make_chan 4096\<rparr>"

definition tm_config :: "TradeMonitor \<Rightarrow> WSConfig" where
  "tm_config tm = \<lparr>wcURL = tmUrl tm, wcHandshakeTimeout = 0, wcMsgBufferSize = 0, wcWorkerNum = 0,
     wcReadBufferSize = 0, wcWriteBufferSize = 0, wcPingInterval = 10 * second, wcPongWait = 0,
     wcTextHeartbeat = True, wcTextHeartbeatMsg = None, wcReconnect = True, wcReconnectDelay = 0,
     wcMaxReconnect = 20\<rparr>"

definition tm_alive :: "TradeMonitor \<Rightarrow> bool" where
  "tm_alive tm = (case tmWs tm of None \<Rightarrow> False | Some w \<Rightarrow> IsAlive w)"

definition tm_Run_start :: "int \<Rightarrow> TradeMonitor \<Rightarrow> TradeMonitor result" where
  "tm_Run_start numCPU tm = (if tm_alive tm then Inr tm
     else bind_res (NewWSClient numCPU (tm_config tm) True) (\<lambda>w. Inr (tm\<lparr>tmWs := Some w\<rparr>)))"

definition tm_Close :: "bool \<Rightarrow> TradeMonitor \<Rightarrow> TradeMonitor" where
  "tm_Close io tm = tm\<lparr>tmWs := map_option (Close io) (tmWs tm)\<rparr>"

definition getAuth :: "TradeMonitor \<Rightarrow> WSUserAuth option" where
  "getAuth tm = map_option (\<lambda>c. \<lparr>waAPIKey = akKey c, waSecret = akSecret c, waPassphrase = akPassphrase c\<rparr>)
     (tmCreds tm)"

text \<open>\<^verbatim>\<open>json.Marshal\<close> of the subscription: a map is written with its keys in order.\<close>

definition auth_json :: "WSUserAuth option \<Rightarrow> json" where
  "auth_json auth = (case auth of None \<Rightarrow> JNul
     | Some a \<Rightarrow> JObj [(''apiKey'', JStr (waAPIKey a)), (''secret'', JStr (waSecret a)),
         (''passphrase'', JStr (waPassphrase a))])"

definition subscribeUserTrade :: "string list \<Rightarrow> TradeMonitor \<Rightarrow> TradeMonitor" where
  "subscribeUserTrade markets tm =
     (if \<not> tm_alive tm then tm
      else let data = json_marshal (JObj ((''auth'', auth_json (getAuth tm)) #
             (if markets = [] then [] else [(''markets'', JArr (map JStr markets))]) @
             [(''type'', JStr ''user'')]))
        in tm\<lparr>tmWs := map_option (\<lambda>w. snd (Send data w)) (tmWs tm)\<rparr>)"

definition tm_OnOpen :: "TradeMonitor \<Rightarrow> TradeMonitor" where
  "tm_OnOpen tm = subscribeUserTrade [] tm"

definition tm_OnReconnect :: "TradeMonitor \<Rightarrow> TradeMonitor" where
  "tm_OnReconnect tm = subscribeUserTrade [] tm"

definition emitEvent :: "TradeEvent \<Rightarrow> TradeMonitor \<Rightarrow> TradeMonitor" where
  "emitEvent ev tm = tm\<lparr>tmEventCh := push_drop_newest ev (tmEventCh tm)\<rparr>"

definition procTrade :: "(bytes \<Rightarrow> WSTrade result) \<Rightarrow> int \<Rightarrow> bytes \<Rightarrow> TradeMonitor \<Rightarrow> TradeMonitor" where
  "procTrade decode now msg tm = (case decode msg of
       Inl err \<Rightarrow> emitEvent \<lparr>teEventType = TradeEventTypeTrade, teReceivedAt = now, teRaw = msg,
         teTrade = None, teOrder = None, teParseErr = Some err\<rparr> tm
     | Inr wsTrade \<Rightarrow> emitEvent \<lparr>teEventType = TradeEventTypeTrade, teReceivedAt = now, teRaw = msg,
         teTrade = Some wsTrade, teOrder = None, teParseErr = None\<rparr> tm)"

definition procOrder :: "(bytes \<Rightarrow> WSOrder result) \<Rightarrow> int \<Rightarrow> bytes \<Rightarrow> TradeMonitor \<Rightarrow> TradeMonitor" where
  "procOrder decode now msg tm = (case decode msg of
       Inl err \<Rightarrow> emitEvent \<lparr>teEventType = TradeEventTypeOrder, teReceivedAt = now, teRaw = msg,
         teTrade = None, teOrder = None, teParseErr = Some err\<rparr> tm
     | Inr wsOrder \<Rightarrow> emitEvent \<lparr>teEventType = TradeEventTypeOrder, teReceivedAt = now, teRaw = msg,
         teTrade = None, teOrder = Some wsOrder, teParseErr = None\<rparr> tm)"

text \<open>The two decoders.\<close>

record decoders =
  decTrade :: "bytes \<Rightarrow> WSTrade result"
  decOrder :: "bytes \<Rightarrow> WSOrder result"

definition tm_handleMessage ::
  "'j gjson_lib \<Rightarrow> decoders \<Rightarrow> int \<Rightarrow> bytes \<Rightarrow> TradeMonitor \<Rightarrow> TradeMonitor" where
  "tm_handleMessage J dec now msg tm = (let eventType = getS J (gParse J (string_of msg)) ''event_type'' in
     if eventType = ''trade'' then procTrade (decTrade dec) now msg tm
     else if eventType = ''order'' then procOrder (decOrder dec) now msg tm
     else emitEvent \<lparr>teEventType = TradeEventTypeUnknown, teReceivedAt = now, teRaw = msg,
       teTrade = None, teOrder = None, teParseErr = None\<rparr> tm)"

definition isHeartbeatMessage :: "bytes \<Rightarrow> bool" where
  "isHeartbeatMessage msg = (let trimmed = trimSpace (string_of msg) in
     trimmed = '''' \<or> trimmed = ''PONG'' \<or> trimmed = ''{}'')"

definition tm_OnMessage ::
  "'j gjson_lib \<Rightarrow> decoders \<Rightarrow> int \<Rightarrow> bytes \<Rightarrow> TradeMonitor \<Rightarrow> TradeMonitor" where
  "tm_OnMessage J dec now msg tm = (if isHeartbeatMessage msg then tm else tm_handleMessage J dec now msg tm)"

subsection \<open>The event stream\<close>

interpretation event_stream: oldest_survive emitEvent
  "\<lambda>tm. ch_buf (tmEventCh tm)" "\<lambda>tm. ch_cap (tmEventCh tm)"
  by unfold_locales (simp_all add: emitEvent_def raw_newest.emit_oldest)

text \<open>The one event a message gives.\<close>

definition event_of :: "'j gjson_lib \<Rightarrow> decoders \<Rightarrow> int \<times> bytes \<Rightarrow> TradeEvent" where
  "event_of J dec nm = (let t = getS J (gParse J (string_of (snd nm))) ''event_type'' in
     \<lparr>teEventType = (if t = ''trade'' then TradeEventTypeTrade else if t = ''order'' then TradeEventTypeOrder
        else TradeEventTypeUnknown),
      teReceivedAt = fst nm, teRaw = snd nm,
      teTrade = (if t = ''trade'' then (case decTrade dec (snd nm) of Inr x \<Rightarrow> Some x | Inl _ \<Rightarrow> None) else None),
      teOrder = (if t = ''order'' then (case decOrder dec (snd nm) of Inr x \<Rightarrow> Some x | Inl _ \<Rightarrow> None) else None),
      teParseErr = (if t = ''trade'' then (case decTrade dec (snd nm) of Inl e \<Rightarrow> Some e | Inr _ \<Rightarrow> None)
        else if t = ''order'' then (case decOrder dec (snd nm) of Inl e \<Rightarrow> Some e | Inr _ \<Rightarrow> None) else None)\<rparr>)"

lemma handleMessage_event: "tm_handleMessage J dec now msg tm = emitEvent (event_of J dec (now, msg)) tm"
  by (simp add: tm_handleMessage_def procTrade_def procOrder_def event_of_def Let_def split: sum.split)

lemma messages_events:
  "fold (\<lambda>(now, msg). tm_OnMessage J dec now msg) nms tm =
     fold emitEvent (map (event_of J dec) (filter (\<lambda>nm. \<not> isHeartbeatMessage (snd nm)) nms)) tm"
  by (induction nms arbitrary: tm) (auto simp: tm_OnMessage_def handleMessage_event)

lemma int_str_no_quote: "c \<in> set (int_str n) \<Longrightarrow> c \<noteq> quote_char"
proof -
  assume "c \<in> set (int_str n)"
  then have "c = CHR ''-'' \<or> char_digit c \<noteq> None"
    using nat_str_digits [of n c] nat_str_digits [of "- n" c] by (auto simp: int_str_def split: if_splits)
  moreover have "char_digit quote_char = None" "quote_char \<noteq> CHR ''-''" by code_simp+
  ultimately show ?thesis by auto
qed

lemma trim_quotes_plain:
  assumes "s \<noteq> []" and "\<forall>c \<in> set s. c \<noteq> quote_char"
  shows "trim_quotes s = s" "trim_quotes (quote_char # s @ [quote_char]) = s"
proof -
  have d: "dropWhile (\<lambda>c. c = quote_char) (s @ ys) = s @ ys" for ys using assms by (cases s) auto
  have r: "dropWhile (\<lambda>c. c = quote_char) (rev s) = rev s"
    using assms by (cases s rule: rev_cases) auto
  show "trim_quotes s = s" "trim_quotes (quote_char # s @ [quote_char]) = s"
    using d [of "[]"] d [of "[quote_char]"] r by (simp_all add: trim_quotes_def)
qed

subsection \<open>Properties\<close>

text \<open>
  C37: every message is passed on. Each message that is not a heartbeat gives exactly one event with
  its raw bytes, decoded or with the decoding error, in the order of arrival; once the channel of a
  new monitor holds 4096 events that nobody reads, later ones are dropped.
\<close>

theorem tm_passes_everything:
  "ch_buf (tmEventCh (fold (\<lambda>(now, msg). tm_OnMessage J dec now msg) nms (NewTradeMonitor url creds))) =
     take 4096 (map (event_of J dec) (filter (\<lambda>nm. \<not> isHeartbeatMessage (snd nm)) nms))"
  using event_stream.emits_oldest [of "NewTradeMonitor url creds"]
  by (simp add: messages_events NewTradeMonitor_def make_chan_def)

text \<open>
  The fee decoder. A missing, empty or null fee reads as 0, and an integer fee that a double can
  hold reads as that number, with or without quotes around it.
\<close>

theorem safe_float_decodes:
  assumes "is_f64 (Fin (of_int n))"
  shows "SafeFloat64_UnmarshalJSON (bytes_of '''') = Inr (Fin 0) \<and>
   SafeFloat64_UnmarshalJSON (bytes_of ''null'') = Inr (Fin 0) \<and>
   SafeFloat64_UnmarshalJSON (bytes_of [quote_char, quote_char]) = Inr (Fin 0) \<and>
   SafeFloat64_UnmarshalJSON (bytes_of (int_str n)) = Inr (Fin (of_int n)) \<and>
   SafeFloat64_UnmarshalJSON (bytes_of (quote_char # int_str n @ [quote_char])) = Inr (Fin (of_int n))"
proof -
  have ne: "int_str n \<noteq> []" by (simp add: int_str_def)
  have nn: "int_str n \<noteq> ''null''"
  proof
    assume "int_str n = ''null''"
    with setString10_int_str [of n] show False
      by (simp add: setString10_def parse_nat_def char_digit_def)
  qed
  have pf: "parseFloat (int_str n) = Inr (Fin (of_int n))"
    using assms by (simp add: parseFloat_int_str finish_float_def)
  have tq: "trim_quotes (int_str n) = int_str n" "trim_quotes (quote_char # int_str n @ [quote_char]) = int_str n"
    using trim_quotes_plain [OF ne] int_str_no_quote by blast+
  have "trim_quotes '''' = ''''" "trim_quotes ''null'' = ''null''" "trim_quotes [quote_char, quote_char] = ''''"
    by code_simp+
  then show ?thesis
    using tq pf ne nn by (simp add: SafeFloat64_UnmarshalJSON_def Let_def)
qed

theorem safe_float_decodes_witness:
  "SafeFloat64_UnmarshalJSON (bytes_of (quote_char # int_str 1000 @ [quote_char])) = Inr (Fin 1000)"
proof -
  have "is_f64 (Fin (of_int 1000))" by code_simp
  from safe_float_decodes [OF this] show ?thesis by simp
qed

end
