(* ===== verification/SafeTx.thy ===== *)
theory SafeTx
  imports HttpClient Signature
begin

text \<open>
  Safe transactions: \<^verbatim>\<open>relayer/types.go\<close>, \<^verbatim>\<open>relayer/derive.go\<close>, \<^verbatim>\<open>relayer/utils.go\<close> and
  \<^verbatim>\<open>relayer/safe.go\<close>. Wallet addresses by CREATE2, the packing of several transactions into one, the
  signature of the typed data and the request for the relayer. A big integer is never nil here.
\<close>

subsection \<open>Types\<close>

record SafeTransaction =
  stTo :: address
  stOperation :: int
  stData :: bytes
  stValue :: int

definition TT_SAFE :: string where "TT_SAFE = ''SAFE''"
definition TT_PROXY :: string where "TT_PROXY = ''PROXY''"
definition TT_SAFE_CREATE :: string where "TT_SAFE_CREATE = ''SAFE-CREATE''"

record SafeTransactionArgs =
  saFrom :: address
  saNonce :: int
  saChainId :: int
  saTransactions :: "SafeTransaction list"

record SafeContractConfig =
  scSafeFactory :: address
  scSafeMultisend :: address

record SignatureParams =
  spGasPrice :: "string option"
  spRelayerFee :: "string option"
  spGasLimit :: "string option"
  spRelayHub :: "string option"
  spRelay :: "string option"
  spOperation :: "string option"
  spSafeTxnGas :: "string option"
  spBaseGas :: "string option"
  spGasToken :: "string option"
  spRefundReceiver :: "string option"
  spPaymentToken :: "string option"
  spPayment :: "string option"
  spPaymentReceiver :: "string option"

record TransactionRequest =
  trFrom :: string
  trTo :: string
  trProxyWallet :: "string option"
  trData :: string
  trNonce :: "string option"
  trSignature :: string
  trSignatureParams :: SignatureParams
  trType :: string

definition no_signature_params :: SignatureParams where
  "no_signature_params = \<lparr>spGasPrice = None, spRelayerFee = None, spGasLimit = None, spRelayHub = None, spRelay = None,
     spOperation = None, spSafeTxnGas = None, spBaseGas = None, spGasToken = None, spRefundReceiver = None,
     spPaymentToken = None, spPayment = None, spPaymentReceiver = None\<rparr>"

subsection \<open>Constants\<close>

definition SAFE_MULTISEND :: string where "SAFE_MULTISEND = ''0xA238CBeb142c10Ef7Ad8442C6D1f9E89e07e7761''"
definition SAFE_INIT_CODE_HASH :: string where
  "SAFE_INIT_CODE_HASH = ''0x2bce2127ff07fb632d16c8347c4ebf501f4841168bed00d9e6ef715ddb6fcecf''"
definition PROXY_INIT_CODE_HASH :: string where
  "PROXY_INIT_CODE_HASH = ''0xd21df8dc65880a8606f09fe0ce3df9b8869287ab0b058be05aa9e8af6330a00b''"

definition ZeroAddress :: "('k, 'p) eth_lib \<Rightarrow> address" where
  "ZeroAddress E = hexToAddress E ''0x0000000000000000000000000000000000000000''"

definition HashZero :: "('k, 'p) eth_lib \<Rightarrow> hash32" where
  "HashZero E = hexToHash E ''0x0000000000000000000000000000000000000000000000000000000000000000''"

definition CTF_COLLATERAL_ADAPTER :: "('k, 'p) eth_lib \<Rightarrow> address" where
  "CTF_COLLATERAL_ADAPTER E = hexToAddress E ''0xAdA100Db00Ca00073811820692005400218FcE1f''"

definition CTF_COLLATERAL_ADAPTER_NEGRISK :: "('k, 'p) eth_lib \<Rightarrow> address" where
  "CTF_COLLATERAL_ADAPTER_NEGRISK E = hexToAddress E ''0xadA2005600Dec949baf300f4C6120000bDB6eAab''"

definition DefaultSafeContractConfig :: "('k, 'p) eth_lib \<Rightarrow> int \<Rightarrow> SafeContractConfig" where
  "DefaultSafeContractConfig E chainId = \<lparr>scSafeFactory = ccSafeProxyFactory (getContractConfig E chainId),
     scSafeMultisend = hexToAddress E SAFE_MULTISEND\<rparr>"

subsection \<open>Wallet addresses\<close>

text \<open>\<^verbatim>\<open>var salt [32]byte; copy(salt[:], b)\<close>.\<close>

definition copy32 :: "bytes \<Rightarrow> bytes" where
  "copy32 b = take 32 b @ replicate (32 - length b) 0"

definition GetCreate2Address :: "('k, 'p) eth_lib \<Rightarrow> address \<Rightarrow> bytes \<Rightarrow> bytes \<Rightarrow> address" where
  "GetCreate2Address E deployer salt initCode =
     (let initCodeHash = (if 32 < length initCode then keccak256 E initCode else initCode);
          hash = keccak256 E (0xff # deployer @ salt @ initCodeHash)
      in bytesToAddress E (drop 12 hash))"

definition DeriveProxyWallet :: "('k, 'p) eth_lib \<Rightarrow> address \<Rightarrow> address \<Rightarrow> address" where
  "DeriveProxyWallet E a proxyFactory =
     GetCreate2Address E proxyFactory (copy32 (keccak256 E a)) (hexToHash E PROXY_INIT_CODE_HASH)"

definition DeriveSafe :: "('k, 'p) eth_lib \<Rightarrow> address \<Rightarrow> address \<Rightarrow> address" where
  "DeriveSafe E a safeFactory =
     GetCreate2Address E safeFactory (copy32 (keccak256 E (replicate 12 0 @ a))) (fromHex E SAFE_INIT_CODE_HASH)"

subsection \<open>Several transactions in one\<close>

text \<open>\<^verbatim>\<open>big.Int.Bytes\<close>: the absolute value, big-endian, without leading zeros.\<close>

definition int_bytes :: "int \<Rightarrow> bytes" where
  "int_bytes n = be_bytes (nat \<bar>n\<bar>)"

definition pack_tx :: "('k, 'p) eth_lib \<Rightarrow> SafeTransaction \<Rightarrow> bytes" where
  "pack_tx E tx = word_of_int (stOperation tx) # stTo tx @ leftPadBytes E (int_bytes (stValue tx)) 32
     @ leftPadBytes E (int_bytes (int64 (int (length (stData tx))))) 32 @ stData tx"

definition multisend_bytes :: "('k, 'p) eth_lib \<Rightarrow> SafeTransaction list \<Rightarrow> bytes" where
  "multisend_bytes E txns = concat (map (pack_tx E) txns)"

definition CreateSafeMultisendTransaction ::
  "('k, 'p) eth_lib \<Rightarrow> SafeTransaction list \<Rightarrow> address \<Rightarrow> SafeTransaction result" where
  "CreateSafeMultisendTransaction E txns safeMultisendAddress =
     bind_res (abiCall E MultisendABI ''multiSend'' [AbiBytes (multisend_bytes E txns)]) (\<lambda>data.
     Inr \<lparr>stTo = safeMultisendAddress, stOperation = safeOperationDelegateCall E, stData = data, stValue = 0\<rparr>)"

definition AggregateTransaction ::
  "('k, 'p) eth_lib \<Rightarrow> SafeTransaction list \<Rightarrow> address \<Rightarrow> SafeTransaction result" where
  "AggregateTransaction E txns safeMultisend =
     (if length txns = 1 then Inr (txns ! 0) else CreateSafeMultisendTransaction E txns safeMultisend)"

subsection \<open>Signing\<close>

definition map_err :: "(string \<Rightarrow> string) \<Rightarrow> 'a result \<Rightarrow> 'a result" where
  "map_err f r = (case r of Inl (Error e) \<Rightarrow> Inl (Error (f e)) | _ \<Rightarrow> r)"

text \<open>
  The digest of the typed data is signed as a personal message; the last byte tells the Safe contract
  so. \<^verbatim>\<open>signature[len(signature)-1]\<close> panics on an empty signature.
\<close>

definition SignTypedData :: "('k, 'p) eth_lib \<Rightarrow> 'k \<Rightarrow> typed_data \<Rightarrow> bytes result" where
  "SignTypedData E k typedData =
     bind_res (map_err (newEIP712Error E ''failed to hash domain'') (hashStruct E typedData ''EIP712Domain''))
       (\<lambda>domainSeparator.
     bind_res (map_err (newEIP712Error E ''failed to hash message'') (hashStruct E typedData (tdPrimaryType typedData)))
       (\<lambda>typedDataHash.
     let digest = keccak256 E ([0x19, 0x01] @ domainSeparator @ typedDataHash) in
     bind_res (map_err (\<lambda>e. newSignatureError E ''failed to sign'' (Some e)) (personalSign E k (string_of digest)))
       (\<lambda>signature.
     if signature = [] then Inl (Panic ''index out of range [-1]'')
     else
       let n = length signature - 1; v = signature ! n in
       if v = 0 \<or> v = 1 then Inr (signature[n := v + 31])
       else if v = 27 \<or> v = 28 then Inr (signature[n := v + 4])
       else Inl (Error (newSignatureError E ''invalid signature v value'' None)))))"

definition safe_typed_data :: "('k, 'p) eth_lib \<Rightarrow> SafeTransactionArgs \<Rightarrow> SafeTransaction \<Rightarrow> address \<Rightarrow> typed_data" where
  "safe_typed_data E args tx safeAddress = buildSafeTransactionTypedData E (saChainId args) safeAddress (stTo tx)
     (stValue tx) (stData tx) (stOperation tx) 0 0 0 (ZeroAddress E) (ZeroAddress E) (saNonce args)"

text \<open>
  The error of \<^verbatim>\<open>SignTypedData\<close> is assigned and never read: on an error the signature is the nil slice.
  A panic still propagates.
\<close>

definition BuildSafeTransactionRequest ::
  "('k, 'p) eth_lib \<Rightarrow> 'k Signer \<Rightarrow> SafeTransactionArgs \<Rightarrow> SafeContractConfig \<Rightarrow> TransactionRequest result" where
  "BuildSafeTransactionRequest E signer args cfg =
     bind_res (AggregateTransaction E (saTransactions args) (scSafeMultisend cfg)) (\<lambda>tx.
     let safeAddress = DeriveSafe E (saFrom args) (scSafeFactory cfg) in
     case SignTypedData E (sgPrivateKey signer) (safe_typed_data E args tx safeAddress) of
       Inl (Panic p) \<Rightarrow> Inl (Panic p)
     | r \<Rightarrow>
        let sig = (case r of Inl _ \<Rightarrow> [] | Inr s \<Rightarrow> s) in
        Inr \<lparr>trFrom = addressHex E (saFrom args),
             trTo = addressHex E (stTo tx),
             trProxyWallet = Some (addressHex E safeAddress),
             trData = ''0x'' @ bytes2Hex E (stData tx),
             trNonce = Some (int_str (saNonce args)),
             trSignature = ''0x'' @ bytes2Hex E sig,
             trSignatureParams = no_signature_params\<lparr>spGasPrice := Some (int_str 0),
               spOperation := Some (int_str (stOperation tx)), spSafeTxnGas := Some (int_str 0),
               spBaseGas := Some (int_str 0), spGasToken := Some (addressHex E (ZeroAddress E)),
               spRefundReceiver := Some (addressHex E (ZeroAddress E))\<rparr>,
             trType = TT_SAFE\<rparr>)"

subsection \<open>How the MultiSend contract reads the bytes\<close>

text \<open>
  The reference: an operation byte, 20 bytes of address, two 32-byte numbers (value and length) and
  the data of that length, until the bytes are used up.
\<close>

function multisend_decode :: "bytes \<Rightarrow> SafeTransaction list option" where
  "multisend_decode bs = (if bs = [] then Some []
     else if length bs < 85 then None
     else let len = be_val (take 32 (drop 53 bs)); rest = drop 85 bs in
       if length rest < len then None
       else case multisend_decode (drop len rest) of
           None \<Rightarrow> None
         | Some txs \<Rightarrow> Some (\<lparr>stTo = take 20 (drop 1 bs), stOperation = uint (hd bs), stData = take len rest,
             stValue = int (be_val (take 32 (drop 21 bs)))\<rparr> # txs))"
  by pat_completeness auto
termination by (relation "measure length") auto

declare multisend_decode.simps [simp del]

definition tx_ok :: "SafeTransaction \<Rightarrow> bool" where
  "tx_ok tx \<longleftrightarrow> length (stTo tx) = 20 \<and> 0 \<le> stOperation tx \<and> stOperation tx < 256 \<and>
     0 \<le> stValue tx \<and> stValue tx < 2 ^ 256 \<and> length (stData tx) < 2 ^ 63"

lemma int_bytes_padded:
  assumes "left_pad_zeroes E" "0 \<le> n" "n < 2 ^ 256"
  shows "length (leftPadBytes E (int_bytes n) 32) = 32" "be_val (leftPadBytes E (int_bytes n) 32) = nat n"
proof -
  have "nat n < 256 ^ 32" using assms(2,3) by (simp add: nat_less_iff)
  with assms(1,2) show "length (leftPadBytes E (int_bytes n) 32) = 32" "be_val (leftPadBytes E (int_bytes n) 32) = nat n"
    by (simp_all add: left_pad_zeroes_def int_bytes_def length_left_pad_be)
qed

lemma decode_pack_tx:
  assumes E: "left_pad_zeroes E" and tx: "tx_ok tx"
  shows "multisend_decode (pack_tx E tx @ bs) = map_option (Cons tx) (multisend_decode bs)"
proof -
  note t = tx [unfolded tx_ok_def]
  define v where "v = leftPadBytes E (int_bytes (stValue tx)) 32"
  define l where "l = leftPadBytes E (int_bytes (int (length (stData tx)))) 32"
  have v: "length v = 32" "be_val v = nat (stValue tx)"
    unfolding v_def using int_bytes_padded [OF E] t by simp_all
  have l: "length l = 32" "be_val l = length (stData tx)"
    unfolding l_def using int_bytes_padded [OF E, of "int (length (stData tx))"] t by simp_all
  have "int64 (int (length (stData tx))) = int (length (stData tx))" using t by (intro int64_id) simp_all
  then have p: "pack_tx E tx @ bs = word_of_int (stOperation tx) # stTo tx @ v @ l @ stData tx @ bs"
    by (simp add: pack_tx_def v_def l_def)
  have o: "uint (word_of_int (stOperation tx) :: byte) = stOperation tx" using t by (simp add: uint_word_of_int)
  show ?thesis
    unfolding p by (subst multisend_decode.simps) (use t v l o in \<open>simp add: Let_def split: option.split\<close>)
qed

lemma multisend_decode_bytes:
  assumes "left_pad_zeroes E" "\<forall>tx \<in> set txns. tx_ok tx"
  shows "multisend_decode (multisend_bytes E txns) = Some txns"
  using assms(2)
proof (induction txns)
  case Nil
  then show ?case by (simp add: multisend_bytes_def multisend_decode.simps)
next
  case (Cons tx txns)
  then show ?case by (simp add: multisend_bytes_def decode_pack_tx [OF assms(1)])
qed

subsection \<open>Signatures\<close>

text \<open>The recovery bytes 0, 1 and 27, 28 become 31, 32.\<close>

definition safe_v :: "byte \<Rightarrow> byte option" where
  "safe_v v = (if v = 0 \<or> v = 27 then Some 31 else if v = 1 \<or> v = 28 then Some 32 else None)"

definition safe_digest :: "('k, 'p) eth_lib \<Rightarrow> typed_data \<Rightarrow> bytes \<Rightarrow> bool" where
  "safe_digest E td digest \<longleftrightarrow> (\<exists>d h. hashStruct E td ''EIP712Domain'' = Inr d \<and>
     hashStruct E td (tdPrimaryType td) = Inr h \<and> digest = keccak256 E ([0x19, 0x01] @ d @ h))"

lemma map_err_Inr [simp]: "map_err f r = Inr x \<longleftrightarrow> r = Inr x"
  by (auto simp: map_err_def split: sum.split failure.split)

lemma set_recovery_byte:
  "(if s0 = [] then Inl (Panic p)
    else if s0 ! (length s0 - 1) = 0 \<or> s0 ! (length s0 - 1) = 1 then Inr (s0[length s0 - 1 := s0 ! (length s0 - 1) + 31])
    else if s0 ! (length s0 - 1) = 27 \<or> s0 ! (length s0 - 1) = 28 then Inr (s0[length s0 - 1 := s0 ! (length s0 - 1) + 4])
    else Inl (Error e)) = Inr sig \<longleftrightarrow> s0 \<noteq> [] \<and> (\<exists>v. safe_v (last s0) = Some v \<and> sig = butlast s0 @ [v])"
proof (cases s0 rule: rev_cases)
  case (snoc s1 v)
  then show ?thesis by (auto simp: safe_v_def)
qed simp

lemma SignTypedData_Inr:
  "SignTypedData E k td = Inr sig \<longleftrightarrow> (\<exists>digest s0 v. safe_digest E td digest \<and>
     personalSign E k (string_of digest) = Inr s0 \<and> s0 \<noteq> [] \<and> safe_v (last s0) = Some v \<and> sig = butlast s0 @ [v])"
  unfolding SignTypedData_def Let_def bind_res_eq_Inr map_err_Inr set_recovery_byte safe_digest_def by blast

text \<open>The signature part of a request: nothing when signing failed with an error.\<close>

definition sig_part :: "('k, 'p) eth_lib \<Rightarrow> bytes result \<Rightarrow> string" where
  "sig_part E r = ''0x'' @ bytes2Hex E (case r of Inl _ \<Rightarrow> [] | Inr s \<Rightarrow> s)"

lemma BuildSafe_Inr:
  assumes "BuildSafeTransactionRequest E signer args cfg = Inr req"
  shows "\<exists>tx. AggregateTransaction E (saTransactions args) (scSafeMultisend cfg) = Inr tx \<and>
    trFrom req = addressHex E (saFrom args) \<and> trTo req = addressHex E (stTo tx) \<and>
    trProxyWallet req = Some (addressHex E (DeriveSafe E (saFrom args) (scSafeFactory cfg))) \<and>
    trData req = ''0x'' @ bytes2Hex E (stData tx) \<and> trNonce req = Some (int_str (saNonce args)) \<and>
    spOperation (trSignatureParams req) = Some (int_str (stOperation tx)) \<and>
    trSignature req = sig_part E (SignTypedData E (sgPrivateKey signer)
      (safe_typed_data E args tx (DeriveSafe E (saFrom args) (scSafeFactory cfg))))"
proof -
  define sd where "sd tx = SignTypedData E (sgPrivateKey signer)
      (safe_typed_data E args tx (DeriveSafe E (saFrom args) (scSafeFactory cfg)))" for tx
  obtain tx where tx: "AggregateTransaction E (saTransactions args) (scSafeMultisend cfg) = Inr tx"
    using assms by (auto simp: BuildSafeTransactionRequest_def)
  have np: "sd tx \<noteq> Inl (Panic p)" for p
    using assms unfolding BuildSafeTransactionRequest_def Let_def sd_def [symmetric] tx by auto
  show ?thesis
  proof (cases "sd tx")
    case (Inl e)
    with np obtain m where "sd tx = Inl (Error m)" by (cases e) auto
    with assms tx show ?thesis unfolding BuildSafeTransactionRequest_def Let_def sd_def [symmetric] sig_part_def by auto
  next
    case (Inr sig)
    with assms tx show ?thesis unfolding BuildSafeTransactionRequest_def Let_def sd_def [symmetric] sig_part_def by auto
  qed
qed

subsection \<open>Properties\<close>

text \<open>
  C6: nothing is lost in a batch. A single transaction is passed on as it is; any other number becomes one
  delegate call of the multisend contract without value, whose argument that contract's own reading
  turns back into exactly the given transactions, in order.
\<close>

theorem aggregate_exact:
  assumes "left_pad_zeroes E" and "list_all tx_ok txns" and "AggregateTransaction E txns ms = Inr t"
  shows "if length txns = 1 then txns = [t]
    else stTo t = ms \<and> stValue t = 0 \<and> stOperation t = safeOperationDelegateCall E \<and>
      (\<exists>packed. abiCall E MultisendABI ''multiSend'' [AbiBytes packed] = Inr (stData t) \<and>
         multisend_decode packed = Some txns)"
  using assms multisend_decode_bytes [of E txns]
  by (auto simp: AggregateTransaction_def CreateSafeMultisendTransaction_def list_all_iff length_Suc_conv split: if_splits)

definition sample_txns :: "SafeTransaction list" where
  "sample_txns = [\<lparr>stTo = replicate 20 7, stOperation = 0, stData = [1, 2, 3], stValue = 5\<rparr>,
     \<lparr>stTo = replicate 20 9, stOperation = 1, stData = [], stValue = 2 ^ 255\<rparr>]"

theorem aggregate_exact_witness:
  "\<exists>t packed. AggregateTransaction toy_eth sample_txns (replicate 20 1) = Inr t \<and>
     stTo t = replicate 20 1 \<and> multisend_decode packed = Some sample_txns"
proof -
  obtain t where t: "AggregateTransaction toy_eth sample_txns (replicate 20 1) = Inr t"
    by (simp add: AggregateTransaction_def CreateSafeMultisendTransaction_def sample_txns_def toy_eth_def)
  have "list_all tx_ok sample_txns" by (simp add: sample_txns_def tx_ok_def)
  from aggregate_exact [OF toy_hypotheses(3) this t] t show ?thesis
    by (auto simp: sample_txns_def)
qed

text \<open>
  C22: the request for the relayer. It carries the owner's address, the address of the owner's Safe, the
  target, data and operation of the aggregated transaction and the nonce; its signature is the
  personal signature of the typed data's digest with the last byte mapped to 31 or 32 -- or, since the error of
  \<open>SignTypedData\<close> is not checked, the empty text 0x when hashing or signing failed.
\<close>

theorem safe_request_spec:
  assumes "BuildSafeTransactionRequest E signer args cfg = Inr req"
  shows "\<exists>tx. AggregateTransaction E (saTransactions args) (scSafeMultisend cfg) = Inr tx \<and>
    trFrom req = addressHex E (saFrom args) \<and> trTo req = addressHex E (stTo tx) \<and>
    trData req = ''0x'' @ bytes2Hex E (stData tx) \<and> trNonce req = Some (int_str (saNonce args)) \<and>
    (let safe = DeriveSafe E (saFrom args) (scSafeFactory cfg); td = safe_typed_data E args tx safe in
     trProxyWallet req = Some (addressHex E safe) \<and>
     ((\<exists>digest s0 v. safe_digest E td digest \<and> personalSign E (sgPrivateKey signer) (string_of digest) = Inr s0 \<and>
         s0 \<noteq> [] \<and> safe_v (last s0) = Some v \<and> trSignature req = ''0x'' @ bytes2Hex E (butlast s0 @ [v])) \<or>
      (\<exists>e. SignTypedData E (sgPrivateKey signer) td = Inl e) \<and> trSignature req = ''0x'' @ bytes2Hex E []))"
proof -
  obtain tx where tx: "AggregateTransaction E (saTransactions args) (scSafeMultisend cfg) = Inr tx"
    "trFrom req = addressHex E (saFrom args)" "trTo req = addressHex E (stTo tx)"
    "trProxyWallet req = Some (addressHex E (DeriveSafe E (saFrom args) (scSafeFactory cfg)))"
    "trData req = ''0x'' @ bytes2Hex E (stData tx)" "trNonce req = Some (int_str (saNonce args))"
    "trSignature req = sig_part E (SignTypedData E (sgPrivateKey signer)
      (safe_typed_data E args tx (DeriveSafe E (saFrom args) (scSafeFactory cfg))))"
    using BuildSafe_Inr [OF assms] by blast
  show ?thesis
  proof (cases "SignTypedData E (sgPrivateKey signer) (safe_typed_data E args tx (DeriveSafe E (saFrom args) (scSafeFactory cfg)))")
    case (Inl e)
    with tx show ?thesis by (intro exI [of _ tx]) (simp add: sig_part_def Let_def)
  next
    case (Inr sig)
    from this [unfolded SignTypedData_Inr] Inr tx show ?thesis
      by (intro exI [of _ tx]) (auto simp: sig_part_def Let_def)
  qed
qed

definition unsigned_eth :: "(address, address) eth_lib" where
  "unsigned_eth = toy_eth\<lparr>personalSign := (\<lambda>k s. Inl (Error ''no key''))\<rparr>"

theorem safe_request_spec_witness:
  "\<exists>req tx. BuildSafeTransactionRequest unsigned_eth \<lparr>sgPrivateKey = [7], sgAddress = replicate 20 7\<rparr>
       \<lparr>saFrom = replicate 20 7, saNonce = 4, saChainId = 137, saTransactions = sample_txns\<rparr>
       \<lparr>scSafeFactory = replicate 20 3, scSafeMultisend = replicate 20 1\<rparr> = Inr req \<and>
     AggregateTransaction unsigned_eth sample_txns (replicate 20 1) = Inr tx \<and>
     trTo req = addressHex unsigned_eth (stTo tx) \<and> trSignature req = ''0x''"
proof -
  let ?signer = "\<lparr>sgPrivateKey = [7], sgAddress = replicate 20 7\<rparr> :: address Signer"
  let ?args = "\<lparr>saFrom = replicate 20 7, saNonce = 4, saChainId = 137, saTransactions = sample_txns\<rparr>"
  let ?cfg = "\<lparr>scSafeFactory = replicate 20 3, scSafeMultisend = replicate 20 1\<rparr>"
  have fail: "SignTypedData unsigned_eth k td = Inl (Error ''failed to sign'')" for k td
    by (simp add: SignTypedData_def unsigned_eth_def toy_eth_def map_err_def)
  have p: "personalSign unsigned_eth k x \<noteq> Inr y" for k x y by (simp add: unsigned_eth_def)
  obtain tx where tx: "AggregateTransaction unsigned_eth sample_txns (replicate 20 1) = Inr tx"
    by (simp add: AggregateTransaction_def CreateSafeMultisendTransaction_def sample_txns_def unsigned_eth_def toy_eth_def)
  obtain req where req: "BuildSafeTransactionRequest unsigned_eth ?signer ?args ?cfg = Inr req"
    by (simp add: BuildSafeTransactionRequest_def tx fail Let_def)
  from safe_request_spec [OF req] tx p have "trTo req = addressHex unsigned_eth (stTo tx)"
    "trSignature req = ''0x'' @ bytes2Hex unsigned_eth []"
    by (auto simp: Let_def)
  moreover have "bytes2Hex unsigned_eth [] = []" by (simp add: unsigned_eth_def toy_eth_def)
  ultimately show ?thesis using req tx by auto
qed

end
