(* ===== verification/RelayClient.thy ===== *)
theory RelayClient
  imports SafeTx OrderHelper GoJson
begin

text \<open>
  \<^verbatim>\<open>relayer/relay_client.go\<close>: the client of the relayer. Nonce and deployment queries, the submission of
  Safe transactions, and the token operations built on it. The client is the state of its operations;
  its HTTP library is the parameter \<open>L\<close>, the world (clock, server, trace) a field. Logging is left out.
\<close>

subsection \<open>The client and its requests\<close>

record RelayerTransactionResponse =
  rtTransactionID :: string
  rtState :: string
  rtHash :: string
  rtTransactionHash :: string

record RelayPayload =
  rpAddress :: string
  rpNonce :: string

definition GET_NONCE :: string where "GET_NONCE = ''/nonce''"
definition GET_RELAY_PAYLOAD :: string where "GET_RELAY_PAYLOAD = ''/relay-payload''"
definition GET_DEPLOYED :: string where "GET_DEPLOYED = ''/deployed''"
definition SUBMIT_TRANSACTION :: string where "SUBMIT_TRANSACTION = ''/submit''"

record ('k, 's) RelayClient =
  rlBaseURL :: string
  rlChainId :: int
  rlSigner :: "'k Signer option"
  rlBuilderCreds :: "ApiKeyCreds option"
  rlSafeConfig :: "SafeContractConfig option"
  rlRelayerKey :: "RelayerKey option"
  rlWorld :: "'s world"

definition NewRelayClient ::
  "('k, 'p) eth_lib \<Rightarrow> string \<Rightarrow> string \<Rightarrow> int \<Rightarrow> ApiKeyCreds option \<Rightarrow> SafeContractConfig option \<Rightarrow>
     RelayerKey option \<Rightarrow> 's world \<Rightarrow> ('k, 's) RelayClient result" where
  "NewRelayClient E relayerUrl signerKey chainId builderCreds safeConfig relayerKey w =
     (case hexToECDSA E (trimPrefix signerKey ''0x'') of
        Inl (Error e) \<Rightarrow> Inl (Panic e)
      | Inl (Panic p) \<Rightarrow> Inl (Panic p)
      | Inr privateKey \<Rightarrow> Inr \<lparr>rlBaseURL = relayerUrl, rlChainId = chainId,
          rlSigner = Some \<lparr>sgPrivateKey = privateKey, sgAddress = keyAddress E privateKey\<rparr>,
          rlBuilderCreds = builderCreds,
          rlSafeConfig = Some (case safeConfig of None \<Rightarrow> DefaultSafeContractConfig E chainId | Some s \<Rightarrow> s),
          rlRelayerKey = relayerKey, rlWorld = w\<rparr>)"

definition relay_send :: "'s http_lib \<Rightarrow> 'j gjson_lib \<Rightarrow> http_request \<Rightarrow> ('j, ('k, 's) RelayClient) op" where
  "relay_send L J rq c =
     (let (r, w) = do_request L Background rq (rlWorld c); c = c\<lparr>rlWorld := w\<rparr> in
      case r of Inl e \<Rightarrow> (Inl e, c)
      | Inr resp \<Rightarrow> if 400 \<le> rsStatus resp then (Inl (Error (status_error resp)), c)
          else (Inr (gParse J (rsBody resp)), c))"

definition relay_Get ::
  "'s http_lib \<Rightarrow> 'j gjson_lib \<Rightarrow> string \<Rightarrow> headers option \<Rightarrow> headers option \<Rightarrow> ('j, ('k, 's) RelayClient) op" where
  "relay_Get L J url params hs = relay_send L J
     \<lparr>rqMethod = MethodGet, rqURL = url, rqParams = the_headers params, rqBody = None,
      rqHeaders = the_headers (OverloadRelayHeaders MethodPost hs)\<rparr>"

definition relay_Post ::
  "'s http_lib \<Rightarrow> 'j gjson_lib \<Rightarrow> string \<Rightarrow> string option \<Rightarrow> headers option \<Rightarrow> ('j, ('k, 's) RelayClient) op" where
  "relay_Post L J url body hs = relay_send L J
     \<lparr>rqMethod = MethodPost, rqURL = url, rqParams = Map.empty, rqBody = body,
      rqHeaders = the_headers (OverloadRelayHeaders MethodPost hs)\<rparr>"

definition GetNonce ::
  "('k, 'p) eth_lib \<Rightarrow> 's http_lib \<Rightarrow> 'j gjson_lib \<Rightarrow> address \<Rightarrow> string \<Rightarrow> (int, ('k, 's) RelayClient) op" where
  "GetNonce E L J signerAddress signerType c =
     bind_op (relay_Get L J (rlBaseURL c @ GET_NONCE)
         (Some [''address'' \<mapsto> addressHex E signerAddress, ''type'' \<mapsto> signerType]) None) (\<lambda>result.
       let nonceStr = getS J result ''nonce'' in
       pure_op (case setString10 nonceStr of None \<Rightarrow> Inl (Error (''failed to parse nonce: '' @ nonceStr))
         | Some nonce \<Rightarrow> Inr nonce)) c"

definition GetDeployed ::
  "('k, 'p) eth_lib \<Rightarrow> 's http_lib \<Rightarrow> 'j gjson_lib \<Rightarrow> address \<Rightarrow> (bool, ('k, 's) RelayClient) op" where
  "GetDeployed E L J safe c =
     bind_op (relay_Get L J (rlBaseURL c @ GET_DEPLOYED) (Some [''address'' \<mapsto> addressHex E safe]) None)
       (\<lambda>result. pure_op (Inr (getB J result ''deployed''))) c"

definition GetRelayPayload ::
  "('k, 'p) eth_lib \<Rightarrow> 's http_lib \<Rightarrow> 'j gjson_lib \<Rightarrow> address \<Rightarrow> string \<Rightarrow> (RelayPayload, ('k, 's) RelayClient) op" where
  "GetRelayPayload E L J signerAddress signerType c =
     bind_op (relay_Get L J (rlBaseURL c @ GET_RELAY_PAYLOAD)
         (Some [''address'' \<mapsto> addressHex E signerAddress, ''type'' \<mapsto> signerType]) None) (\<lambda>result.
       pure_op (Inr \<lparr>rpAddress = getS J result ''address'', rpNonce = getS J result ''nonce''\<rparr>)) c"

subsection \<open>Submitting transactions\<close>

text \<open>\<^verbatim>\<open>json.Marshal\<close> of the request: fields in order, nil pointers left out.\<close>

definition opt_fields :: "(string \<times> string option) list \<Rightarrow> (string \<times> json) list" where
  "opt_fields kvs = concat (map (\<lambda>(k, v). case v of None \<Rightarrow> [] | Some x \<Rightarrow> [(k, JStr x)]) kvs)"

definition signature_params_json :: "SignatureParams \<Rightarrow> json" where
  "signature_params_json p = JObj (opt_fields
     [(''gasPrice'', spGasPrice p), (''relayerFee'', spRelayerFee p), (''gasLimit'', spGasLimit p),
      (''relayHub'', spRelayHub p), (''relay'', spRelay p), (''operation'', spOperation p),
      (''safeTxnGas'', spSafeTxnGas p), (''baseGas'', spBaseGas p), (''gasToken'', spGasToken p),
      (''refundReceiver'', spRefundReceiver p), (''paymentToken'', spPaymentToken p),
      (''payment'', spPayment p), (''paymentReceiver'', spPaymentReceiver p)])"

definition request_json :: "TransactionRequest \<Rightarrow> json" where
  "request_json r = JObj (opt_fields [(''from'', Some (trFrom r)), (''to'', Some (trTo r)),
       (''proxyWallet'', trProxyWallet r), (''data'', Some (trData r)), (''nonce'', trNonce r),
       (''signature'', Some (trSignature r))]
     @ [(''signatureParams'', signature_params_json (trSignatureParams r)), (''type'', JStr (trType r))])"

definition GetExpectedSafe :: "('k, 'p) eth_lib \<Rightarrow> address \<Rightarrow> ('k, 's) RelayClient \<Rightarrow> address result" where
  "GetExpectedSafe E signer c = (case rlSafeConfig c of
     None \<Rightarrow> Inl (Panic ''invalid memory address or nil pointer dereference'')
   | Some cfg \<Rightarrow> Inr (DeriveSafe E signer (scSafeFactory cfg)))"

definition submit_headers :: "string \<Rightarrow> (headers option, ('k, 's) RelayClient) op" where
  "submit_headers body c =
     (bind_res (case rlBuilderCreds c of None \<Rightarrow> Inr None
        | Some k \<Rightarrow> bind_res (CreateBuilderHeaders (wNow (rlWorld c) div seconds) (Some k) MethodPost SUBMIT_TRANSACTION
              (Some body) None) (\<lambda>h. Inr (Some h))) (\<lambda>builderHeaders.
      case rlRelayerKey c of None \<Rightarrow> Inr builderHeaders
      | Some k \<Rightarrow> bind_res (CreateRelayerHeaders (Some k)) (\<lambda>relayerHeaders.
          Inr (Some (case builderHeaders of None \<Rightarrow> relayerHeaders | Some b \<Rightarrow> b ++ relayerHeaders)))), c)"

definition read_response :: "'j gjson_lib \<Rightarrow> 'j \<Rightarrow> RelayerTransactionResponse" where
  "read_response J resp = \<lparr>rtTransactionID = getS J resp ''transactionID'', rtState = getS J resp ''state'',
     rtHash = getS J resp ''hash'', rtTransactionHash = getS J resp ''transactionHash''\<rparr>"

definition EexecuteSafeTransactions ::
  "('k, 'p) eth_lib \<Rightarrow> 's http_lib \<Rightarrow> 'j gjson_lib \<Rightarrow> SafeTransaction list \<Rightarrow>
     (RelayerTransactionResponse, ('k, 's) RelayClient) op" where
  "EexecuteSafeTransactions E L J txns c = (case rlSigner c of
     None \<Rightarrow> (Inl (Error ''signer is nil''), c)
   | Some signer \<Rightarrow>
     bind_op (pure_op (GetExpectedSafe E (sgAddress signer) c)) (\<lambda>safe.
     bind_op (GetDeployed E L J safe) (\<lambda>deployed.
     if \<not> deployed then pure_op (Inl (Error ''safe is not deployed''))
     else
     bind_op (GetNonce E L J (sgAddress signer) TT_SAFE) (\<lambda>nonce c.
     case rlSafeConfig c of None \<Rightarrow> (Inl (Error ''safeContractConfig is nil''), c)
     | Some cfg \<Rightarrow>
       bind_op (pure_op (BuildSafeTransactionRequest E signer \<lparr>saFrom = sgAddress signer, saNonce = nonce,
           saChainId = rlChainId c, saTransactions = txns\<rparr> cfg)) (\<lambda>request.
       let body = json_text (request_json request) in
       bind_op (submit_headers body) (\<lambda>hs.
       bind_op (relay_Post L J (rlBaseURL c @ SUBMIT_TRANSACTION) (Some body) hs) (\<lambda>resp.
       pure_op (Inr (read_response J resp))))) c))) c)"

subsection \<open>Token operations\<close>

definition call_tx :: "('k, 'p) eth_lib \<Rightarrow> address \<Rightarrow> bytes \<Rightarrow> SafeTransaction" where
  "call_tx E to calldata = \<lparr>stTo = to, stOperation = safeOperationCall E, stData = calldata, stValue = 0\<rparr>"

definition redeem_tx ::
  "('k, 'p) eth_lib \<Rightarrow> int \<Rightarrow> string \<times> bool \<times> int list \<Rightarrow> SafeTransaction result" where
  "redeem_tx E chainId = (\<lambda>(conditionId, negRisk, ams).
     let cc = getContractConfig E chainId in
     if negRisk then
       bind_res (map_err (\<lambda>e. ''failed to pack redeemPositions calldata: '' @ e)
           (abiCall E NegRiskAdapterABI ''redeemPositions'' [AbiBytes32 (hexToHash E conditionId), AbiUint256s ams]))
         (\<lambda>calldata. Inr (call_tx E (ccNegRiskCtfCollateralAdapter cc) calldata))
     else
       bind_res (map_err (\<lambda>e. ''failed to pack redeemPositions calldata: '' @ e)
           (abiCall E ConditionalTokensABI ''redeemPositions'' [AbiAddress (ccCollateralToken cc),
              AbiBytes32 (HashZero E), AbiBytes32 (hexToHash E conditionId), AbiUint256s [1, 2]]))
         (\<lambda>calldata. Inr (call_tx E (ccCtfCollateralAdapter cc) calldata)))"

fun map_res :: "('a \<Rightarrow> 'b result) \<Rightarrow> 'a list \<Rightarrow> 'b list result" where
  "map_res f [] = Inr []"
| "map_res f (x # xs) = bind_res (f x) (\<lambda>y. bind_res (map_res f xs) (\<lambda>ys. Inr (y # ys)))"

definition parse_abi :: "('k, 'p) eth_lib \<Rightarrow> abi_name \<Rightarrow> string \<Rightarrow> unit result" where
  "parse_abi E a prefix = map_err (\<lambda>e. prefix @ e) (abiParse E a)"

definition RedeemBatch ::
  "('k, 'p) eth_lib \<Rightarrow> 's http_lib \<Rightarrow> 'j gjson_lib \<Rightarrow> string list option \<Rightarrow> bool list \<Rightarrow> int list list \<Rightarrow>
     (RelayerTransactionResponse, ('k, 's) RelayClient) op" where
  "RedeemBatch E L J conditionIds negRisks amounts c = (case conditionIds of
     None \<Rightarrow> (Inl (Error ''conditionIds is nil''), c)
   | Some ids \<Rightarrow>
     if length ids \<noteq> length negRisks \<or> length ids \<noteq> length amounts
     then (Inl (Error ''conditionIds, negRisks, amounts length not match''), c)
     else
       bind_op (pure_op (bind_res (parse_abi E NegRiskAdapterABI ''failed to parse NegRiskAdapter ABI: '') (\<lambda>_.
         bind_res (parse_abi E ConditionalTokensABI ''failed to parse ConditionalTokens ABI: '') (\<lambda>_.
         map_res (redeem_tx E (rlChainId c)) (zip ids (zip negRisks amounts))))))
       (EexecuteSafeTransactions E L J) c)"

text \<open>The transaction of \<^verbatim>\<open>SplitTokens\<close> and \<^verbatim>\<open>MergeTokens\<close>, which differ in the called method only.\<close>

definition position_tx ::
  "('k, 'p) eth_lib \<Rightarrow> 'd decimal_lib \<Rightarrow> string \<Rightarrow> int \<Rightarrow> string \<Rightarrow> string \<Rightarrow> bool \<Rightarrow> SafeTransaction result" where
  "position_tx E D meth chainId conditionId amount negRisk =
     (if conditionId = [] then Inl (Error ''conditionId is empty'')
      else if amount = [] then Inl (Error ''amount invalid'')
      else
        bind_res (parse_abi E ConditionalTokensABI ''failed to parse ConditionalTokens ABI: '') (\<lambda>_.
        bind_res (map_err (\<lambda>e. ''amount invalid: '' @ e) (ParseUnits D amount CollateralTokenDecimals)) (\<lambda>value.
        bind_res (map_err (\<lambda>e. ''failed to pack '' @ meth @ '' calldata: '' @ e)
            (abiCall E ConditionalTokensABI meth [AbiAddress (ccCollateralToken (getContractConfig E chainId)),
               AbiBytes32 (HashZero E), AbiBytes32 (hexToHash E conditionId), AbiUint256s [1, 2], AbiUint256 value]))
          (\<lambda>calldata.
        Inr (call_tx E (if negRisk then CTF_COLLATERAL_ADAPTER_NEGRISK E else CTF_COLLATERAL_ADAPTER E) calldata)))))"

definition SplitTokens ::
  "('k, 'p) eth_lib \<Rightarrow> 'd decimal_lib \<Rightarrow> 's http_lib \<Rightarrow> 'j gjson_lib \<Rightarrow> string \<Rightarrow> string \<Rightarrow> bool \<Rightarrow>
     (RelayerTransactionResponse, ('k, 's) RelayClient) op" where
  "SplitTokens E D L J conditionId amount negRisk c =
     bind_op (pure_op (position_tx E D ''splitPosition'' (rlChainId c) conditionId amount negRisk))
       (\<lambda>tx. EexecuteSafeTransactions E L J [tx]) c"

definition MergeTokens ::
  "('k, 'p) eth_lib \<Rightarrow> 'd decimal_lib \<Rightarrow> 's http_lib \<Rightarrow> 'j gjson_lib \<Rightarrow> string \<Rightarrow> string \<Rightarrow> bool \<Rightarrow>
     (RelayerTransactionResponse, ('k, 's) RelayClient) op" where
  "MergeTokens E D L J conditionId amount negRisk c =
     bind_op (pure_op (position_tx E D ''mergePositions'' (rlChainId c) conditionId amount negRisk))
       (\<lambda>tx. EexecuteSafeTransactions E L J [tx]) c"

definition erc20_tx ::
  "('k, 'p) eth_lib \<Rightarrow> 'd decimal_lib \<Rightarrow> string \<Rightarrow> string \<Rightarrow> string \<Rightarrow> string \<Rightarrow> int \<Rightarrow> SafeTransaction result" where
  "erc20_tx E D meth erc20Address to amount decimals =
     bind_res (abiParse E ERC20TransferABI) (\<lambda>_.
     bind_res (ParseUnits D amount decimals) (\<lambda>amt.
     bind_res (abiCall E ERC20TransferABI meth [AbiAddress (hexToAddress E to), AbiUint256 amt]) (\<lambda>calldata.
     Inr (call_tx E (hexToAddress E erc20Address) calldata))))"

definition Transfer ::
  "('k, 'p) eth_lib \<Rightarrow> 'd decimal_lib \<Rightarrow> 's http_lib \<Rightarrow> 'j gjson_lib \<Rightarrow> string \<Rightarrow> string \<Rightarrow> string \<Rightarrow> int \<Rightarrow>
     (RelayerTransactionResponse, ('k, 's) RelayClient) op" where
  "Transfer E D L J erc20Address to amount decimals =
     bind_op (pure_op (erc20_tx E D ''transfer'' erc20Address to amount decimals))
       (\<lambda>tx. EexecuteSafeTransactions E L J [tx])"

definition Approve ::
  "('k, 'p) eth_lib \<Rightarrow> 'd decimal_lib \<Rightarrow> 's http_lib \<Rightarrow> 'j gjson_lib \<Rightarrow> string \<Rightarrow> string \<Rightarrow> string \<Rightarrow> int \<Rightarrow>
     (RelayerTransactionResponse, ('k, 's) RelayClient) op" where
  "Approve E D L J erc20Address spender value decimals =
     bind_op (pure_op (erc20_tx E D ''approve'' erc20Address spender value decimals))
       (\<lambda>tx. EexecuteSafeTransactions E L J [tx])"

subsection \<open>What is sent\<close>

text \<open>The POST requests of a trace, in order.\<close>

definition posted :: "('k, 's) RelayClient \<Rightarrow> http_request list" where
  "posted c = concat (map (\<lambda>ev. case ev of Sent rq _ \<Rightarrow> if rqMethod rq = MethodPost then [rq] else [] | Waited _ _ \<Rightarrow> [])
     (wTrace (rlWorld c)))"

definition same_relay :: "('k, 's) RelayClient \<Rightarrow> ('k, 's) RelayClient \<Rightarrow> bool" where
  "same_relay c d \<longleftrightarrow> d = c\<lparr>rlWorld := rlWorld d\<rparr>"

lemma same_relay_fields:
  assumes "same_relay c d"
  shows "rlBaseURL d = rlBaseURL c" "rlChainId d = rlChainId c" "rlSigner d = rlSigner c"
    "rlBuilderCreds d = rlBuilderCreds c" "rlSafeConfig d = rlSafeConfig c" "rlRelayerKey d = rlRelayerKey c"
  using assms unfolding same_relay_def by (metis RelayClient.select_convs RelayClient.surjective RelayClient.update_convs(7))+

lemma relay_send_sent:
  assumes "relay_send L J rq c = (r, d)"
  shows "posted d = posted c @ (if rqMethod rq = MethodPost then [rq] else [])" and "same_relay c d"
  using assms by (auto simp: relay_send_def do_request_def posted_def same_relay_def Let_def split: prod.splits sum.splits if_splits)

lemma relay_Get_posted:
  assumes "relay_Get L J url ps hs c = (r, d)" shows "posted d = posted c" and "same_relay c d"
  using relay_send_sent [OF assms [unfolded relay_Get_def]] by (simp_all add: MethodGet_def MethodPost_def)

lemma GetDeployed_posted:
  assumes "GetDeployed E L J a c = (r, d)" shows "posted d = posted c \<and> same_relay c d"
  using assms by (auto simp: GetDeployed_def bind_op_def dest: relay_Get_posted split: prod.splits sum.splits)

lemma GetNonce_posted:
  assumes "GetNonce E L J a t c = (r, d)" shows "posted d = posted c \<and> same_relay c d"
  using assms by (auto simp: GetNonce_def bind_op_def Let_def dest: relay_Get_posted split: prod.splits sum.splits option.splits)

text \<open>A request that submits \<open>txns\<close> with a nonce, signed with the builder's credentials if there are any.\<close>

definition submission ::
  "('k, 'p) eth_lib \<Rightarrow> 'k Signer \<Rightarrow> SafeContractConfig \<Rightarrow> SafeTransaction list \<Rightarrow> int \<Rightarrow> ('k, 's) RelayClient \<Rightarrow>
     http_request \<Rightarrow> TransactionRequest \<Rightarrow> bool" where
  "submission E signer cfg txns nonce c rq req \<longleftrightarrow>
     BuildSafeTransactionRequest E signer \<lparr>saFrom = sgAddress signer, saNonce = nonce, saChainId = rlChainId c,
       saTransactions = txns\<rparr> cfg = Inr req \<and>
     rqMethod rq = ''POST'' \<and> rqURL rq = rlBaseURL c @ ''/submit'' \<and> rqBody rq = Some (json_text (request_json req)) \<and>
     (\<forall>k. rlBuilderCreds c = Some k \<longrightarrow> (\<exists>ts. rqHeaders rq ''POLY_BUILDER_TIMESTAMP'' = Some (int_str ts) \<and>
        rqHeaders rq ''POLY_BUILDER_SIGNATURE'' = Some (GenSignature (akSecret k) ts ''POST'' ''/submit'' (rqBody rq))))"

lemma submit_headers_signed:
  assumes "submit_headers body c = (Inr hs, d)"
  shows "d = c" and "rlBuilderCreds c = Some k \<Longrightarrow> \<exists>ts. the_headers (OverloadRelayHeaders MethodPost hs) ''POLY_BUILDER_TIMESTAMP'' = Some (int_str ts) \<and>
    the_headers (OverloadRelayHeaders MethodPost hs) ''POLY_BUILDER_SIGNATURE'' = Some (GenSignature (akSecret k) ts ''POST'' ''/submit'' (Some body))"
  using assms by (auto simp: submit_headers_def CreateBuilderHeaders_def CreateRelayerHeaders_def OverloadRelayHeaders_def
      the_headers_def Let_def MethodPost_def MethodGet_def SUBMIT_TRANSACTION_def split: option.splits)

lemma submit_headers_total: "\<exists>hs. submit_headers body c = (Inr hs, c)"
  by (cases "rlBuilderCreds c"; cases "rlRelayerKey c")
    (simp_all add: submit_headers_def CreateBuilderHeaders_def CreateRelayerHeaders_def Let_def)

lemma Eexecute_cases:
  assumes ex: "EexecuteSafeTransactions E L J txns c = (r, c')"
    and s: "rlSigner c = Some signer" "rlSafeConfig c = Some cfg"
  shows "posted c' = posted c \<and> (\<exists>e. r = Inl e) \<or>
    (\<exists>c1 c2 n req rq. GetDeployed E L J (DeriveSafe E (sgAddress signer) (scSafeFactory cfg)) c = (Inr True, c1) \<and>
       GetNonce E L J (sgAddress signer) TT_SAFE c1 = (Inr n, c2) \<and>
       submission E signer cfg txns n c rq req \<and> posted c' = posted c @ [rq])"
proof -
  obtain x c1 where d: "GetDeployed E L J (DeriveSafe E (sgAddress signer) (scSafeFactory cfg)) c = (x, c1)" by fastforce
  note p1 = GetDeployed_posted [OF d]
  note ex' = ex [unfolded EexecuteSafeTransactions_def s option.case GetExpectedSafe_def, simplified bind_op_def [of "pure_op _"], simplified, unfolded bind_op_def [of "GetDeployed E L J _"] d]
  show ?thesis
  proof (cases "x = Inr True")
    case False
    with ex' p1 show ?thesis by (auto split: sum.splits)
  next
    case x: True
    obtain y c2 where n: "GetNonce E L J (sgAddress signer) TT_SAFE c1 = (y, c2)" by fastforce
    note p2 = GetNonce_posted [OF n]
    note f = same_relay_fields [OF conjunct2 [OF p1]] same_relay_fields [OF conjunct2 [OF p2]]
    show ?thesis
    proof (cases y)
      case (Inl e)
      with ex' x n p1 p2 show ?thesis by (auto simp: bind_op_def)
    next
      case (Inr nonce)
      define b where "b = BuildSafeTransactionRequest E signer \<lparr>saFrom = sgAddress signer, saNonce = nonce,
         saChainId = rlChainId c, saTransactions = txns\<rparr> cfg"
      show ?thesis
      proof (cases b)
        case (Inl e)
        with ex' x n Inr p1 p2 f s show ?thesis by (auto simp: bind_op_def b_def)
      next
        case req: (Inr req)
        define body where "body = json_text (request_json req)"
        obtain hs where hs: "submit_headers body c2 = (Inr hs, c2)" using submit_headers_total by blast
        obtain z c3 where z: "relay_Post L J (rlBaseURL c2 @ SUBMIT_TRANSACTION) (Some body) hs c2 = (z, c3)" by fastforce
        have c': "c' = c3"
          using ex' x n Inr f s hs z req by (auto simp: bind_op_def b_def body_def Let_def split: sum.splits)
        define rq where "rq = \<lparr>rqMethod = MethodPost, rqURL = rlBaseURL c2 @ SUBMIT_TRANSACTION, rqParams = Map.empty,
          rqBody = Some body, rqHeaders = the_headers (OverloadRelayHeaders MethodPost hs)\<rparr>"
        have "posted c' = posted c @ [rq]"
          using relay_send_sent(1) [OF z [unfolded relay_Post_def]] p1 p2 c' by (simp add: rq_def)
        moreover have "submission E signer cfg txns nonce c rq req"
          using req f submit_headers_signed(2) [OF hs]
          by (simp add: submission_def b_def rq_def body_def MethodPost_def SUBMIT_TRANSACTION_def)
        ultimately show ?thesis using d n x Inr by blast
      qed
    qed
  qed
qed

lemma map_res_nth:
  "map_res f xs = Inr ys \<Longrightarrow> length ys = length xs \<and> (\<forall>i < length xs. f (xs ! i) = Inr (ys ! i))"
  by (induction xs arbitrary: ys) (auto simp: nth_Cons split: nat.split)

text \<open>Contract addresses have 20 bytes, the call operation fits a byte, and no redeem
  call data is longer than a Go slice can be.\<close>

definition relay_lib_ok :: "('k, 'p) eth_lib \<Rightarrow> bool" where
  "relay_lib_ok E \<longleftrightarrow> (\<forall>n. length (ccCtfCollateralAdapter (getContractConfig E n)) = 20 \<and>
       length (ccNegRiskCtfCollateralAdapter (getContractConfig E n)) = 20) \<and>
     0 \<le> safeOperationCall E \<and> safeOperationCall E < 256 \<and>
     (\<forall>a vs d. (\<forall>b. AbiBytes b \<notin> set vs) \<longrightarrow> abiCall E a ''redeemPositions'' vs = Inr d \<longrightarrow> length d < 2 ^ 63)"

lemma redeem_tx_ok:
  assumes E: "relay_lib_ok E" and tx: "redeem_tx E n x = Inr tx" shows "tx_ok tx"
proof -
  have d: "length d < 2 ^ 63" if "abiCall E a ''redeemPositions'' vs = Inr d" "\<forall>b. AbiBytes b \<notin> set vs" for a vs d
    using E that unfolding relay_lib_ok_def by blast
  obtain a vs d to where "abiCall E a ''redeemPositions'' vs = Inr d" "\<forall>b. AbiBytes b \<notin> set vs" "tx = call_tx E to d"
      "length to = 20"
    using tx E by (cases x) (auto simp: redeem_tx_def relay_lib_ok_def Let_def split: if_splits)
  with d E show ?thesis by (auto simp: relay_lib_ok_def tx_ok_def call_tx_def)
qed

lemma RedeemBatch_cases:
  assumes "RedeemBatch E L J (Some ids) negRisks amounts c = (Inr resp, c')"
  obtains txs where "length negRisks = length ids" "length amounts = length ids" "length txs = length ids"
    "\<forall>i < length ids. redeem_tx E (rlChainId c) (ids ! i, negRisks ! i, amounts ! i) = Inr (txs ! i)"
    "EexecuteSafeTransactions E L J txs c = (Inr resp, c')"
proof -
  have l: "length negRisks = length ids" "length amounts = length ids"
    using assms by (auto simp: RedeemBatch_def split: if_splits)
  then obtain txs where t: "map_res (redeem_tx E (rlChainId c)) (zip ids (zip negRisks amounts)) = Inr txs"
    and e: "EexecuteSafeTransactions E L J txs c = (Inr resp, c')"
    using assms by (simp add: RedeemBatch_def bind_op_Inr) blast
  from map_res_nth [OF t] l show thesis by (intro that [OF l _ _ e]) auto
qed

lemma list_all_nth_ok:
  "length ys = n \<Longrightarrow> \<forall>i < n. f i = Inr (ys ! i) \<Longrightarrow> (\<And>i y. f i = Inr y \<Longrightarrow> P y) \<Longrightarrow> list_all P ys"
  by (auto simp: list_all_length)

subsection \<open>Properties\<close>

text \<open>
  C7: nothing is submitted before its time. A submission posts at most one request, and only after the
  relayer has confirmed the deployment of the signer's Safe and given a nonce; that request is the one
  built from the transactions, the nonce and the chain, and with builder credentials its signature header
  is the HMAC of exactly that body. A call that posts nothing returns an error.
\<close>

theorem submit_safety:
  assumes "rlSigner c = Some signer" and "rlSafeConfig c = Some cfg"
    and "EexecuteSafeTransactions E L J txns c = (r, c')"
  shows "posted c' = posted c \<and> (\<exists>e. r = Inl e) \<or>
    (\<exists>c1 c2 n req rq. GetDeployed E L J (DeriveSafe E (sgAddress signer) (scSafeFactory cfg)) c = (Inr True, c1) \<and>
       GetNonce E L J (sgAddress signer) TT_SAFE c1 = (Inr n, c2) \<and>
       submission E signer cfg txns n c rq req \<and> posted c' = posted c @ [rq])"
  by (rule Eexecute_cases [OF assms(3,1,2)])

text \<open>A relayer for evaluation: it answers every request alike.\<close>

definition relay_doc :: "doc gjson_lib" where
  "relay_doc = doc_lib (\<lambda>_. DObj [(''deployed'', DBool True), (''nonce'', DStr ''4''), (''transactionID'', DStr ''t1'')])"

definition relay_answers :: "http_response list" where
  "relay_answers = replicate 3 \<lparr>rsStatus = 200, rsRetryAfter = [], rsBody = []\<rparr>"

definition sample_relay :: "(address, http_response list) RelayClient" where
  "sample_relay = \<lparr>rlBaseURL = [], rlChainId = 137, rlSigner = Some \<lparr>sgPrivateKey = [7], sgAddress = replicate 20 7\<rparr>,
     rlBuilderCreds = None, rlSafeConfig = Some (DefaultSafeContractConfig toy_eth 137), rlRelayerKey = None,
     rlWorld = new_world relay_answers\<rparr>"

lemma relay_answer:
  assumes "wServer (rlWorld c) = \<lparr>rsStatus = 200, rsRetryAfter = [], rsBody = []\<rparr> # rs"
  shows "\<exists>d. relay_send list_server J rq c = (Inr (gParse J []), d) \<and> wServer (rlWorld d) = rs"
  using assms by (simp add: relay_send_def do_request_def list_server_def Let_def)

lemma sample_execute:
  assumes c: "wServer (rlWorld c) = relay_answers" "rlSigner c = Some signer" "rlSafeConfig c = Some cfg"
    and b: "\<And>args. saTransactions args = txns \<Longrightarrow> \<exists>req. BuildSafeTransactionRequest toy_eth signer args cfg = Inr req"
  shows "\<exists>resp c'. EexecuteSafeTransactions toy_eth list_server relay_doc txns c = (Inr resp, c')"
proof -
  let ?r = "\<lparr>rsStatus = 200, rsRetryAfter = [], rsBody = []\<rparr>"
  have j: "getB relay_doc (gParse relay_doc []) ''deployed''" "getS relay_doc (gParse relay_doc []) ''nonce'' = ''4''"
    "setString10 ''4'' = Some 4" by code_simp+
  obtain g where g: "relay_Get list_server relay_doc (rlBaseURL c @ GET_DEPLOYED)
      (Some [''address'' \<mapsto> addressHex toy_eth (DeriveSafe toy_eth (sgAddress signer) (scSafeFactory cfg))]) None c =
      (Inr (gParse relay_doc []), g)" "wServer (rlWorld g) = [?r, ?r]"
    using relay_answer [of c "[?r, ?r]" relay_doc] c(1) by (auto simp: relay_Get_def relay_answers_def numeral_3_eq_3)
  then obtain c1 where d: "GetDeployed toy_eth list_server relay_doc (DeriveSafe toy_eth (sgAddress signer) (scSafeFactory cfg)) c = (Inr True, c1)"
    and s1: "wServer (rlWorld c1) = [?r, ?r]"
    using j(1) by (simp add: GetDeployed_def bind_op_def)
  obtain g' where "relay_Get list_server relay_doc (rlBaseURL c1 @ GET_NONCE)
      (Some [''address'' \<mapsto> addressHex toy_eth (sgAddress signer), ''type'' \<mapsto> TT_SAFE]) None c1 =
      (Inr (gParse relay_doc []), g')" "wServer (rlWorld g') = [?r]"
    using relay_answer [of c1 "[?r]" relay_doc] s1 by (auto simp: relay_Get_def)
  then obtain c2 where n: "GetNonce toy_eth list_server relay_doc (sgAddress signer) TT_SAFE c1 = (Inr 4, c2)"
    and s2: "wServer (rlWorld c2) = [?r]"
    using j(2,3) by (simp add: GetNonce_def bind_op_def Let_def)
  have f: "rlSafeConfig c2 = Some cfg"
    using GetDeployed_posted [OF d] GetNonce_posted [OF n] c(3) same_relay_fields(5) by metis
  obtain req where req: "BuildSafeTransactionRequest toy_eth signer \<lparr>saFrom = sgAddress signer, saNonce = 4,
      saChainId = rlChainId c2, saTransactions = txns\<rparr> cfg = Inr req" using b by fastforce
  obtain hs where hs: "submit_headers (json_text (request_json req)) c2 = (Inr hs, c2)" using submit_headers_total by blast
  obtain c3 where "relay_Post list_server relay_doc (rlBaseURL c2 @ SUBMIT_TRANSACTION) (Some (json_text (request_json req))) hs c2 =
      (Inr (gParse relay_doc []), c3)"
    using relay_answer [OF s2] by (auto simp: relay_Post_def)
  with c d n f req hs show ?thesis
    by (simp add: EexecuteSafeTransactions_def GetExpectedSafe_def bind_op_def Let_def)
qed

lemma sample_safe:
  assumes "\<exists>tx. AggregateTransaction toy_eth (saTransactions args) (scSafeMultisend cfg) = Inr tx"
  shows "\<exists>req. BuildSafeTransactionRequest toy_eth signer args cfg = Inr req"
proof -
  have "\<exists>sig. SignTypedData toy_eth k td = Inr sig" for k td
    by (simp add: SignTypedData_def toy_eth_def map_err_def Let_def nth_append)
  with assms show ?thesis by (auto simp: BuildSafeTransactionRequest_def Let_def) (metis sum.simps(6))
qed

theorem submit_safety_witness:
  "\<exists>resp c' rq. EexecuteSafeTransactions toy_eth list_server relay_doc sample_txns sample_relay = (Inr resp, c') \<and>
     posted c' = posted sample_relay @ [rq]"
proof -
  let ?signer = "\<lparr>sgPrivateKey = [7], sgAddress = replicate 20 7\<rparr>"
  let ?cfg = "DefaultSafeContractConfig toy_eth 137"
  have c: "wServer (rlWorld sample_relay) = relay_answers" "rlSigner sample_relay = Some ?signer"
    "rlSafeConfig sample_relay = Some ?cfg" by (simp_all add: sample_relay_def new_world_def)
  have "\<exists>tx. AggregateTransaction toy_eth sample_txns m = Inr tx" for m
    by (simp add: AggregateTransaction_def CreateSafeMultisendTransaction_def toy_eth_def sample_txns_def)
  then obtain resp c' where ex: "EexecuteSafeTransactions toy_eth list_server relay_doc sample_txns sample_relay = (Inr resp, c')"
    using sample_execute [OF c, of sample_txns] sample_safe by metis
  from submit_safety [OF c(2,3) ex] ex show ?thesis by auto
qed


lemma toy_relay_ok: "relay_lib_ok toy_eth"
proof -
  have "concat (map (case_abi_value (\<lambda>_. []) (\<lambda>_. []) (\<lambda>_. []) (\<lambda>_. []) (\<lambda>b. b) (\<lambda>_. [])) vs) = []"
    if "\<forall>b. AbiBytes b \<notin> set vs" for vs
    unfolding concat_eq_Nil_conv using that by (auto split: abi_value.split)
  then show ?thesis by (simp add: relay_lib_ok_def toy_eth_def toy_contracts_def del: concat_eq_Nil_conv)
qed


end
