(* ===== verification/GoTime.thy ===== *)
theory GoTime
  imports GoPrelude "HOL-Library.Signed_Division"
begin

text \<open>
  The part of Go's \<^verbatim>\<open>time\<close> package the SDK uses: instants with the offset of their zone (every
  zone, the local one included, is taken to have one fixed offset), the Gregorian calendar, RFC 3339 texts,
  and the time functions of \<^verbatim>\<open>utils/utils.go\<close> built on them. The text of a parse error is shortened.
\<close>

subsection \<open>The calendar\<close>

text \<open>
  Years are counted from March, so that the leap day comes last: \<open>mp\<close> is the month from March on, \<open>yoe\<close> the
  year and \<open>doe\<close> the day of a cycle of 400 years, \<open>doy\<close> the day of the year.
\<close>

definition month_start :: "int \<Rightarrow> int" where
  "month_start mp = (153 * mp + 2) div 5"

definition days_from_civil :: "int \<Rightarrow> int \<Rightarrow> int \<Rightarrow> int" where
  "days_from_civil y m d =
     (let y' = (if m \<le> 2 then y - 1 else y); yoe = y' mod 400; mp = (m + 9) mod 12;
          doe = 365 * yoe + yoe div 4 - yoe div 100 + month_start mp + d - 1
      in 146097 * (y' div 400) + doe - 719468)"

definition civil_from_days :: "int \<Rightarrow> int \<times> int \<times> int" where
  "civil_from_days z =
     (let doe = (z + 719468) mod 146097;
          n100 = min 3 (doe div 36524); r100 = doe - 36524 * n100;
          n4 = r100 div 1461; r4 = r100 mod 1461;
          n1 = min 3 (r4 div 365); doy = r4 - 365 * n1;
          yoe = 100 * n100 + 4 * n4 + n1;
          mp = (5 * doy + 2) div 153;
          m = (if mp < 10 then mp + 3 else mp - 9);
          y = yoe + 400 * ((z + 719468) div 146097)
      in (if m \<le> 2 then y + 1 else y, m, doy - month_start mp + 1))"

definition is_leap :: "int \<Rightarrow> bool" where
  "is_leap y \<longleftrightarrow> y mod 4 = 0 \<and> (y mod 100 \<noteq> 0 \<or> y mod 400 = 0)"

definition days_in :: "int \<Rightarrow> int \<Rightarrow> int" where
  "days_in y m = (if m = 2 then if is_leap y then 29 else 28 else if m \<in> {4, 6, 9, 11} then 30 else 31)"

text \<open>The parts of a day number, with their bounds.\<close>

lemma civil_parts:
  assumes "civil_from_days z = (y, m, d)"
  obtains yoe mp doy where "0 \<le> yoe" "yoe < 400" "0 \<le> mp" "mp < 12" "0 \<le> doy" "doy \<le> 365"
    "m = (if mp < 10 then mp + 3 else mp - 9)" "mp = (5 * doy + 2) div 153" "d = doy - month_start mp + 1"
    "(if m \<le> 2 then y - 1 else y) = yoe + 400 * ((z + 719468) div 146097)"
    "365 * yoe + yoe div 4 - yoe div 100 + doy = (z + 719468) mod 146097"
proof -
  define doe where "doe = (z + 719468) mod 146097"
  define n100 where "n100 = min 3 (doe div 36524)"
  define r100 where "r100 = doe - 36524 * n100"
  define n4 where "n4 = r100 div 1461"
  define r4 where "r4 = r100 mod 1461"
  define n1 where "n1 = min 3 (r4 div 365)"
  define doy where "doy = r4 - 365 * n1"
  define yoe where "yoe = 100 * n100 + 4 * n4 + n1"
  define mp where "mp = (5 * doy + 2) div 153"
  have doe: "0 \<le> doe" "doe < 146097" by (simp_all add: doe_def)
  have n100: "0 \<le> n100" "n100 \<le> 3" "0 \<le> r100" "r100 \<le> 36524"
    using doe by (auto simp: n100_def r100_def min_def)
  have n4: "0 \<le> n4" "n4 \<le> 24" "0 \<le> r4" "r4 < 1461" "r100 = 1461 * n4 + r4"
    using n100 by (auto simp: n4_def r4_def)
  have n1: "0 \<le> n1" "n1 \<le> 3" "0 \<le> doy" "doy \<le> 365"
    using n4 by (auto simp: n1_def doy_def min_def)
  have y: "0 \<le> yoe" "yoe < 400" "yoe div 4 = 25 * n100 + n4" "yoe div 100 = n100"
    using n100 n4 n1 by (auto simp: yoe_def)
  have mp: "0 \<le> mp" "mp < 12" using n1 by (auto simp: mp_def)
  have c: "civil_from_days z = (if (if mp < 10 then mp + 3 else mp - 9) \<le> 2 then yoe + 400 * ((z + 719468) div 146097) + 1
      else yoe + 400 * ((z + 719468) div 146097), if mp < 10 then mp + 3 else mp - 9, doy - month_start mp + 1)"
    by (simp only: civil_from_days_def Let_def doe_def n100_def r100_def n4_def r4_def n1_def doy_def yoe_def mp_def)
  have s: "365 * yoe + yoe div 4 - yoe div 100 + doy = doe"
    unfolding y(3,4) using n4(5) by (simp add: yoe_def doy_def r100_def)
  show thesis
    by (rule that [OF y(1,2) mp n1(3,4) _ mp_def])
      (use assms c s in \<open>auto simp: doe_def\<close>)
qed

lemma days_civil: "civil_from_days z = (y, m, d) \<Longrightarrow> days_from_civil y m d = z"
proof (erule civil_parts)
  fix yoe mp doy
  assume b: "0 \<le> yoe" "yoe < 400" "0 \<le> mp" "mp < 12" "m = (if mp < 10 then mp + 3 else mp - 9)"
    and d: "d = doy - month_start mp + 1" and y: "(if m \<le> 2 then y - 1 else y) = yoe + 400 * ((z + 719468) div 146097)"
    and e: "365 * yoe + yoe div 4 - yoe div 100 + doy = (z + 719468) mod 146097"
  have mp: "(m + 9) mod 12 = mp" using b by auto
  have "(yoe + 400 * ((z + 719468) div 146097)) mod 400 = yoe" "(yoe + 400 * ((z + 719468) div 146097)) div 400 = (z + 719468) div 146097"
    using b by simp_all
  then have "days_from_civil y m d = 146097 * ((z + 719468) div 146097) + (365 * yoe + yoe div 4 - yoe div 100 + doy) - 719468"
    unfolding days_from_civil_def Let_def y mp d by simp
  then show "days_from_civil y m d = z" unfolding e mult_div_mod_eq by simp
qed

lemma civil_month: "civil_from_days z = (y, m, d) \<Longrightarrow> 1 \<le> m \<and> m \<le> 12"
  by (erule civil_parts) auto

lemma days_from_civil_day: "days_from_civil y m (d + k) = days_from_civil y m d + k"
  by (simp add: days_from_civil_def Let_def)

text \<open>The days before a March year, over all cycles; a month is 28 to 31 days long.\<close>

lemma year_days:
  "146097 * (y div 400) + 365 * (y mod 400) + y mod 400 div 4 - y mod 400 div 100 =
     365 * y + y div 4 - y div 100 + y div (400 :: int)"
proof -
  define q r where "q = y div 400" and "r = y mod 400"
  have y: "y = 400 * q + r" "0 \<le> r" "r < 400" by (simp_all add: q_def r_def)
  have "(400 * q + r) div 4 = 100 * q + r div 4" using div_mult_self4 [of 4 "100 * q" r] by simp
  moreover have "(400 * q + r) div 100 = 4 * q + r div 100" using div_mult_self4 [of 100 "4 * q" r] by simp
  ultimately show ?thesis unfolding q_def [symmetric] r_def [symmetric] unfolding y(1) by simp
qed

lemma div_step: "0 < n \<Longrightarrow> y div n - (y - 1) div n = (if n dvd y then 1 else 0)" for n y :: int
proof (cases "n dvd y")
  case True
  assume n: "0 < n"
  from True obtain k where k: "y = n * k" by blast
  have "(n * (k - 1) + (n - 1)) div n = (k - 1) + (n - 1) div n" by (rule div_mult_self4) (use n in simp)
  moreover have "(n - 1) div n = 0" by (rule div_pos_pos_trivial) (use n in simp_all)
  moreover have "n * (k - 1) + (n - 1) = y - 1" by (simp add: k algebra_simps)
  moreover have "y div n = k" unfolding k by (rule nonzero_mult_div_cancel_left) (use n in simp)
  ultimately show ?thesis using True by simp
next
  case False
  assume n: "0 < n"
  define q r where "q = y div n" and "r = y mod n"
  have y: "y = n * q + r" and r: "0 < r" "r < n"
    using False n by (auto simp: q_def r_def dvd_eq_mod_eq_0 intro: le_neq_trans)
  have "(n * q + (r - 1)) div n = q + (r - 1) div n" by (rule div_mult_self4) (use n in simp)
  moreover have "(r - 1) div n = 0" by (rule div_pos_pos_trivial) (use r in simp_all)
  moreover have "n * q + (r - 1) = y - 1" using y by simp
  ultimately have "(y - 1) div n = q" by simp
  then show ?thesis using False by (simp add: q_def)
qed

text \<open>The leap days up to a year.\<close>

definition leaps :: "int \<Rightarrow> int" where
  "leaps y = y div 4 - y div 100 + y div 400"

lemma leaps_step: "leaps y = leaps (y - 1) \<or> leaps y = leaps (y - 1) + 1"
proof -
  have "(400 :: int) dvd y \<Longrightarrow> 100 dvd y" "(100 :: int) dvd y \<Longrightarrow> 4 dvd y"
    using dvd_trans [of 100 400 y] dvd_trans [of 4 100 y] by simp_all
  moreover have "leaps y - leaps (y - 1) =
      (y div 4 - (y - 1) div 4) - (y div 100 - (y - 1) div 100) + (y div 400 - (y - 1) div 400)"
    by (simp only: leaps_def algebra_simps)
  ultimately show ?thesis
    using div_step [of 4 y] div_step [of 100 y] div_step [of 400 y] by (auto split: if_splits)
qed

lemma days_from_civil_eq:
  "days_from_civil y m d = (let y' = (if m \<le> 2 then y - 1 else y) in
     365 * y' + leaps y' + month_start ((m + 9) mod 12) + d - 719469)"
  using year_days [of "if m \<le> 2 then y - 1 else y"] by (simp only: days_from_civil_def leaps_def Let_def)

lemma next_month:
  assumes "1 \<le> m" "m \<le> 12"
  shows "days_from_civil y m d + 28 \<le> days_from_civil (y + m div 12) (m mod 12 + 1) d \<and>
    days_from_civil (y + m div 12) (m mod 12 + 1) d \<le> days_from_civil y m d + 31"
proof -
  have "m = 1 \<or> m = 2 \<or> m = 3 \<or> m = 4 \<or> m = 5 \<or> m = 6 \<or> m = 7 \<or> m = 8 \<or> m = 9 \<or> m = 10 \<or> m = 11 \<or> m = 12"
    using assms by arith
  with leaps_step [of y] show ?thesis
    by (elim disjE) (simp_all add: days_from_civil_eq month_start_def)
qed

subsection \<open>Times\<close>

text \<open>Nanoseconds since 1970 and the offset of the zone in seconds.\<close>

record gotime =
  tmNano :: int
  tmZone :: int

definition giga :: int where "giga = 1000000000"

text \<open>\<^verbatim>\<open>time.Time{}\<close> is midnight of 1 January of the year 1.\<close>

definition zero_time :: gotime where
  "zero_time = \<lparr>tmNano = giga * 86400 * days_from_civil 1 1 1, tmZone = 0\<rparr>"

definition local_seconds :: "gotime \<Rightarrow> int" where
  "local_seconds t = tmNano t div giga + tmZone t"

definition local_date :: "gotime \<Rightarrow> int \<times> int \<times> int" where
  "local_date t = civil_from_days (local_seconds t div 86400)"

definition local_hour :: "gotime \<Rightarrow> int" where "local_hour t = local_seconds t mod 86400 div 3600"
definition local_minute :: "gotime \<Rightarrow> int" where "local_minute t = local_seconds t mod 3600 div 60"
definition local_second :: "gotime \<Rightarrow> int" where "local_second t = local_seconds t mod 60"
definition local_nano :: "gotime \<Rightarrow> int" where "local_nano t = tmNano t mod giga"

text \<open>\<^verbatim>\<open>time.Date\<close>: values out of their range are carried over.\<close>

definition go_date :: "int \<Rightarrow> int \<Rightarrow> int \<Rightarrow> int \<Rightarrow> int \<Rightarrow> int \<Rightarrow> int \<Rightarrow> int \<Rightarrow> gotime" where
  "go_date y m d h mi s ns zone =
     (let day = days_from_civil (y + (m - 1) div 12) ((m - 1) mod 12 + 1) d
      in \<lparr>tmNano = giga * (86400 * day + 3600 * h + 60 * mi + s - zone) + ns, tmZone = zone\<rparr>)"

definition AddDate :: "int \<Rightarrow> int \<Rightarrow> int \<Rightarrow> gotime \<Rightarrow> gotime" where
  "AddDate years months days t = (let (y, m, d) = local_date t in
     go_date (y + years) (m + months) (d + days) (local_hour t) (local_minute t) (local_second t) (local_nano t) (tmZone t))"

definition time_Add :: "int \<Rightarrow> gotime \<Rightarrow> gotime" where
  "time_Add d t = t\<lparr>tmNano := tmNano t + d\<rparr>"

definition unixMilli :: "gotime \<Rightarrow> int" where
  "unixMilli t = tmNano t div 1000000"

lemma nano_parts: "giga * (86400 * (local_seconds t div 86400) + 3600 * local_hour t + 60 * local_minute t + local_second t - tmZone t)
    + local_nano t = tmNano t"
proof -
  have "local_seconds t mod 86400 = 3600 * local_hour t + local_seconds t mod 3600"
    using mult_div_mod_eq [of 3600 "local_seconds t mod 86400"] by (simp add: local_hour_def mod_mod_cancel)
  moreover have "local_seconds t mod 3600 = 60 * local_minute t + local_second t"
    using mult_div_mod_eq [of 60 "local_seconds t mod 3600"] by (simp add: local_minute_def local_second_def mod_mod_cancel)
  ultimately have "86400 * (local_seconds t div 86400) + 3600 * local_hour t + 60 * local_minute t + local_second t = local_seconds t"
    using mult_div_mod_eq [of 86400 "local_seconds t"] by simp
  then show ?thesis by (simp add: local_seconds_def local_nano_def)
qed

lemma gotime_eq: "tmNano a = tmNano b \<Longrightarrow> tmZone a = tmZone b \<Longrightarrow> a = (b :: gotime)"
  by (cases a; cases b) simp

lemma go_date_shift:
  assumes "days_from_civil (y + (m - 1) div 12) ((m - 1) mod 12 + 1) d = local_seconds t div 86400 + k"
  shows "go_date y m d (local_hour t) (local_minute t) (local_second t) (local_nano t) (tmZone t) = time_Add (86400 * giga * k) t"
  by (rule gotime_eq) (use nano_parts [of t] assms in \<open>simp_all add: go_date_def Let_def time_Add_def algebra_simps\<close>)

text \<open>In a zone of fixed offset, adding days adds 24 hours each; one month later is 28 to 31 days later.\<close>

lemma AddDate_days: "AddDate 0 0 n t = time_Add (86400 * giga * n) t"
proof -
  obtain y m d where l: "local_date t = (y, m, d)" by (metis prod_cases3)
  note z = days_civil [OF l [unfolded local_date_def]] and m = civil_month [OF l [unfolded local_date_def]]
  have m': "y + (m - 1) div 12 = y" "(m - 1) mod 12 + 1 = m" using m by (simp_all add: div_pos_pos_trivial mod_pos_pos_trivial)
  show ?thesis unfolding AddDate_def l Let_def prod.case add_0_right
    by (rule go_date_shift) (simp only: m' days_from_civil_day z)
qed

lemma AddDate_month: "\<exists>k. 28 \<le> k \<and> k \<le> 31 \<and> AddDate 0 1 0 t = time_Add (86400 * giga * k) t"
proof -
  obtain y m d where l: "local_date t = (y, m, d)" by (metis prod_cases3)
  note z = days_civil [OF l [unfolded local_date_def]] and m = civil_month [OF l [unfolded local_date_def]]
  define k where "k = days_from_civil (y + m div 12) (m mod 12 + 1) d - local_seconds t div 86400"
  have "28 \<le> k \<and> k \<le> 31" using next_month [of m y d] m z by (simp add: k_def)
  moreover have "AddDate 0 1 0 t = time_Add (86400 * giga * k) t" unfolding AddDate_def l Let_def prod.case add_0_right
    by (rule go_date_shift) (simp add: k_def)
  ultimately show ?thesis by blast
qed

subsection \<open>RFC 3339 texts\<close>

text \<open>
  \<^verbatim>\<open>time.Parse(time.RFC3339, s)\<close>: digit fields in order (the hour may have one digit), an optional fraction of
  the second after a point or comma of which nine digits count, and a zone. Every reader returns the
  value and the rest of the text.
\<close>

definition read_digits :: "nat \<Rightarrow> string \<Rightarrow> (int \<times> string) option" where
  "read_digits n s = (if length s < n then None else
     case parse_nat (take n s) of None \<Rightarrow> None | Some v \<Rightarrow> Some (v, drop n s))"

definition read_hour :: "string \<Rightarrow> (int \<times> string) option" where
  "read_hour s = (case read_digits 2 s of Some r \<Rightarrow> Some r | None \<Rightarrow> read_digits 1 s)"

definition read_lit :: "char \<Rightarrow> string \<Rightarrow> string option" where
  "read_lit c s = (if s \<noteq> [] \<and> hd s = c then Some (tl s) else None)"

definition read_fraction :: "string \<Rightarrow> int \<times> string" where
  "read_fraction s =
     (if 2 \<le> length s \<and> (hd s = CHR ''.'' \<or> hd s = CHR '','') \<and> char_digit (s ! 1) \<noteq> None then
        let ds = takeWhile (\<lambda>c. char_digit c \<noteq> None) (tl s); used = take 9 ds;
            v = (case parse_nat used of None \<Rightarrow> 0 | Some v \<Rightarrow> v)
        in (v * 10 ^ (9 - length used), drop (length ds) (tl s))
      else (0, s))"

definition read_zone :: "string \<Rightarrow> (int \<times> string) option" where
  "read_zone s =
     (if s = [] then None
      else if hd s = CHR ''Z'' then Some (0, tl s)
      else if length s < 6 \<or> s ! 3 \<noteq> CHR '':'' then None
      else case (read_digits 2 (drop 1 s), read_digits 2 (drop 4 s)) of
          (Some (hr, _), Some (mm, rest)) \<Rightarrow>
            let off = 60 * (60 * hr + mm) in
            if 24 < hr \<or> 60 < mm then None
            else if hd s = CHR ''+'' then Some (off, rest)
            else if hd s = CHR ''-'' then Some (- off, rest) else None
        | _ \<Rightarrow> None)"

definition parse_fields :: "string \<Rightarrow> gotime option" where
  "parse_fields s =
     Option.bind (read_digits 4 s) (\<lambda>(y, s). Option.bind (read_lit CHR ''-'' s) (\<lambda>s.
     Option.bind (read_digits 2 s) (\<lambda>(mo, s). Option.bind (read_lit CHR ''-'' s) (\<lambda>s.
     Option.bind (read_digits 2 s) (\<lambda>(d, s). Option.bind (read_lit CHR ''T'' s) (\<lambda>s.
     Option.bind (read_hour s) (\<lambda>(h, s). Option.bind (read_lit CHR '':'' s) (\<lambda>s.
     Option.bind (read_digits 2 s) (\<lambda>(mi, s). Option.bind (read_lit CHR '':'' s) (\<lambda>s.
     Option.bind (read_digits 2 s) (\<lambda>(sec, s).
     case read_fraction s of (ns, s) \<Rightarrow>
     Option.bind (read_zone s) (\<lambda>(off, rest).
     if rest = [] \<and> 1 \<le> mo \<and> mo \<le> 12 \<and> 1 \<le> d \<and> d \<le> days_in y mo \<and> h < 24 \<and> mi < 60 \<and> sec < 60
     then Some (go_date y mo d h mi sec ns off) else None))))))))))))"

definition parse_rfc3339 :: "string \<Rightarrow> gotime result" where
  "parse_rfc3339 s = (case parse_fields s of Some t \<Rightarrow> Inr t | None \<Rightarrow> Inl (Error (''parsing time '' @ s)))"

text \<open>A number with leading zeros up to a width.\<close>

definition pad_int :: "nat \<Rightarrow> int \<Rightarrow> string" where
  "pad_int w n = (let ds = nat_str \<bar>n\<bar> in (if n < 0 then ''-'' else []) @ replicate (w - length ds) CHR ''0'' @ ds)"

subsection \<open>The time functions of the utilities\<close>

definition TimeParse :: "string \<Rightarrow> gotime" where
  "TimeParse timeStr = (case parse_rfc3339 timeStr of Inr t \<Rightarrow> t | Inl _ \<Rightarrow> zero_time)"

definition ToTimestamp :: "string \<Rightarrow> int result" where
  "ToTimestamp dateStr = bind_res (parse_rfc3339 dateStr) (\<lambda>t. Inr (unixMilli t))"

text \<open>\<^verbatim>\<open>t.UTC().Truncate(time.Millisecond).Format("2006-01-02T15:04:05.000Z")\<close>.\<close>

definition ToISOString :: "gotime \<Rightarrow> string" where
  "ToISOString t =
     (let u = \<lparr>tmNano = 1000000 * (tmNano t div 1000000), tmZone = 0\<rparr>; (y, m, d) = local_date u in
      pad_int 4 y @ ''-'' @ pad_int 2 m @ ''-'' @ pad_int 2 d @ ''T'' @ pad_int 2 (local_hour u) @ '':'' @
      pad_int 2 (local_minute u) @ '':'' @ pad_int 2 (local_second u) @ ''.'' @
      pad_int 3 (local_nano u div 1000000) @ ''Z'')"

text \<open>\<open>date\<close> is the optional argument, \<open>now\<close> the reading of the clock used without it. Go's \<^verbatim>\<open>/\<close> panics on 0.\<close>

definition RoundToMinutes :: "int \<Rightarrow> gotime \<Rightarrow> gotime option \<Rightarrow> int result" where
  "RoundToMinutes m now date =
     (let t = (case date of None \<Rightarrow> now | Some t \<Rightarrow> t) in
      if m = 0 then Inl (Panic ''integer divide by zero'')
      else let floored = (local_minute t sdiv m) * m; (y, mo, d) = local_date t in
        Inr (tmNano (go_date y mo d (local_hour t) floored 0 0 (tmZone t)) div giga))"

end
