(* ===== verification/CryptoPriceMonitor.thy ===== *)
theory CryptoPriceMonitor
  imports WSClient GoContext JsonLib GoJson
begin

text \<open>
  \<^verbatim>\<open>polymarket/crypto_price_monitor.go\<close>: the monitor of external reference prices. It subscribes to
  price topics, keeps the latest price of each symbol per source and passes every update on.
\<close>

subsection \<open>Constants and data\<close>

definition SYMBOL_SUFFIX_BINANCE :: string where "SYMBOL_SUFFIX_BINANCE = ''usdt''"
definition SYMBOL_SUFFIX_CHAINLINK :: string where "SYMBOL_SUFFIX_CHAINLINK = ''/usd''"
definition TOPIC_CHAINLINK_TWAP_THIRTY :: string where "TOPIC_CHAINLINK_TWAP_THIRTY = ''crypto_prices_twap_thirty''"
definition TOPIC_CHAINLINK_TWAP_SIXTY :: string where "TOPIC_CHAINLINK_TWAP_SIXTY = ''crypto_prices_twap_sixty''"
definition ChainlinkTwapWindowThirty :: int where "ChainlinkTwapWindowThirty = 30"
definition ChainlinkTwapWindowSixty :: int where "ChainlinkTwapWindowSixty = 60"

lemmas topic_defs = TOPIC_CHAINLINK_TWAP_THIRTY_def TOPIC_CHAINLINK_TWAP_SIXTY_def
lemmas window_defs = ChainlinkTwapWindowThirty_def ChainlinkTwapWindowSixty_def

datatype MonitorType = MonitorAll | MonitorBinance | MonitorChainlink | MonitorChainlinkTwap | MonitorOther string

record ExternalPrice =
  xpSymbol :: string
  xpPrice :: float64
  xpSource :: string
  xpTimestamp :: int
  xpWindowSeconds :: int

record subscription =
  sbTopic :: string
  sbType :: string
  sbFilters :: string

record CryptoPriceMonitor =
  cpWs :: "wsClient option"
  cpBinance :: "string \<rightharpoonup> float64"
  cpChainlink :: "string \<rightharpoonup> float64"
  cpTwap30 :: "string \<rightharpoonup> float64"
  cpTwap60 :: "string \<rightharpoonup> float64"
  cpSubscriptions :: "subscription list"
  cpPriceCh :: "ExternalPrice chan"
  cpCtx :: "context_t option"

subsection \<open>Subscriptions\<close>

text \<open>\<^verbatim>\<open>fmt.Sprintf("{\"symbol\":\"%s%s\"}", ...)\<close>, and the bracketed list, empty for no symbols.\<close>

definition symbol_filter :: "string \<Rightarrow> string \<Rightarrow> string" where
  "symbol_filter symbol suffix =
     ''{'' @ [quote_char] @ ''symbol'' @ [quote_char] @ '':'' @ [quote_char] @ symbol @ suffix @ [quote_char] @ ''}''"

definition filter_list :: "string list \<Rightarrow> string" where
  "filter_list fs = (if fs = [] then [] else ''['' @ join fs '','' @ '']'')"

text \<open>The loop over the symbols: the window suffix decides the list a symbol's filter goes to.\<close>

fun twap_split :: "string list \<Rightarrow> string list \<times> string list" where
  "twap_split [] = ([], [])"
| "twap_split (symbol # rest) =
     (let lower = toLower symbol; n = length symbol - 3;
          (base, window) =
            (if hasSuffix lower ''_60'' then (take n symbol, ChainlinkTwapWindowSixty)
             else if hasSuffix lower ''_30'' then (take n symbol, ChainlinkTwapWindowThirty)
             else (symbol, ChainlinkTwapWindowThirty));
          f = symbol_filter (toLower base) SYMBOL_SUFFIX_CHAINLINK;
          (s30, s60) = twap_split rest
      in if window = ChainlinkTwapWindowSixty then (s30, f # s60) else (f # s30, s60))"

definition buildTwapFilters :: "string list \<Rightarrow> string \<times> string" where
  "buildTwapFilters symbols = (let (s30, s60) = twap_split symbols in (filter_list s30, filter_list s60))"

definition update_sub :: "string \<Rightarrow> string \<Rightarrow> subscription" where
  "update_sub topic filters = \<lparr>sbTopic = topic, sbType = ''update'', sbFilters = filters\<rparr>"

definition NewCryptoPriceMonitor :: "MonitorType \<Rightarrow> string list \<Rightarrow> CryptoPriceMonitor" where
  "NewCryptoPriceMonitor monitorType symbols =
     (let sb = filter_list (map (\<lambda>s. symbol_filter (toLower s) SYMBOL_SUFFIX_BINANCE) symbols);
          sc = filter_list (map (\<lambda>s. symbol_filter (toLower s) SYMBOL_SUFFIX_CHAINLINK) symbols);
          subs = (if monitorType = MonitorAll \<or> monitorType = MonitorBinance
            then [update_sub ''crypto_prices'' sb] else []);
          subs = subs @ (if monitorType = MonitorAll \<or> monitorType = MonitorChainlink
            then [update_sub ''crypto_prices_chainlink'' sc] else []);
          subs = subs @ (if monitorType = MonitorChainlinkTwap then
              (let (filters30, filters60) = buildTwapFilters symbols in
               if symbols = [] then [update_sub TOPIC_CHAINLINK_TWAP_THIRTY [], update_sub TOPIC_CHAINLINK_TWAP_SIXTY []]
               else (if filters30 \<noteq> [] then [update_sub TOPIC_CHAINLINK_TWAP_THIRTY filters30] else []) @
                    (if filters60 \<noteq> [] then [update_sub TOPIC_CHAINLINK_TWAP_SIXTY filters60] else []))
            else if monitorType = MonitorAll then
              [update_sub TOPIC_CHAINLINK_TWAP_THIRTY sc, update_sub TOPIC_CHAINLINK_TWAP_SIXTY sc]
            else [])
      in \<lparr>cpWs = None, cpBinance = Map.empty, cpChainlink = Map.empty, cpTwap30 = Map.empty, cpTwap60 = Map.empty,
          cpSubscriptions = subs, cpPriceCh = make_chan 65536, cpCtx = None\<rparr>)"

definition sub_json :: "subscription \<Rightarrow> json" where
  "sub_json s = JObj [(''filters'', JStr (sbFilters s)), (''topic'', JStr (sbTopic s)), (''type'', JStr (sbType s))]"

definition cp_alive :: "CryptoPriceMonitor \<Rightarrow> bool" where
  "cp_alive ep = (case cpWs ep of None \<Rightarrow> False | Some w \<Rightarrow> IsAlive w)"

definition cp_subscribe :: "CryptoPriceMonitor \<Rightarrow> CryptoPriceMonitor" where
  "cp_subscribe ep = (if \<not> cp_alive ep then ep
     else ep\<lparr>cpWs := map_option (\<lambda>w. snd (Send (json_marshal (JObj
       [(''action'', JStr ''subscribe''), (''subscriptions'', JArr (map sub_json (cpSubscriptions ep)))])) w)) (cpWs ep)\<rparr>)"

definition cp_OnOpen :: "CryptoPriceMonitor \<Rightarrow> CryptoPriceMonitor" where
  "cp_OnOpen ep = cp_subscribe ep"

definition cp_OnReconnect :: "CryptoPriceMonitor \<Rightarrow> CryptoPriceMonitor" where
  "cp_OnReconnect ep = cp_subscribe ep"

text \<open>The start of \<^verbatim>\<open>Run\<close>: the context kept for later requests, and the websocket client.\<close>

definition cp_config :: "string \<Rightarrow> WSConfig" where
  "cp_config url = \<lparr>wcURL = url, wcHandshakeTimeout = 0, wcMsgBufferSize = 0, wcWorkerNum = 0,
     wcReadBufferSize = 0, wcWriteBufferSize = 0, wcPingInterval = 5 * second, wcPongWait = 0,
     wcTextHeartbeat = True, wcTextHeartbeatMsg = None, wcReconnect = True, wcReconnectDelay = 0,
     wcMaxReconnect = 20\<rparr>"

definition cp_Run_start :: "int \<Rightarrow> string \<Rightarrow> context_t \<Rightarrow> CryptoPriceMonitor \<Rightarrow> CryptoPriceMonitor result" where
  "cp_Run_start numCPU url ctx ep =
     (let ep = ep\<lparr>cpCtx := Some (WithoutCancel ctx)\<rparr> in
      if cp_alive ep then Inr ep
      else bind_res (NewWSClient numCPU (cp_config url) True) (\<lambda>w. Inr (ep\<lparr>cpWs := Some w\<rparr>)))"

text \<open>The context of a price request: the one kept, or the background one before any \<^verbatim>\<open>Run\<close>.\<close>

definition request_ctx :: "CryptoPriceMonitor \<Rightarrow> context_t" where
  "request_ctx ep = (case cpCtx ep of None \<Rightarrow> Background | Some c \<Rightarrow> c)"

subsection \<open>Messages and prices\<close>

definition emitPrice :: "ExternalPrice \<Rightarrow> CryptoPriceMonitor \<Rightarrow> CryptoPriceMonitor" where
  "emitPrice price ep = ep\<lparr>cpPriceCh := push_drop_newest price (cpPriceCh ep)\<rparr>"

definition cp_handleMessage :: "'j gjson_lib \<Rightarrow> string \<Rightarrow> CryptoPriceMonitor \<Rightarrow> CryptoPriceMonitor" where
  "cp_handleMessage J msg ep = (let m = gParse J msg in
     if getS J m ''type'' \<noteq> ''update'' then ep
     else let topic = getS J m ''topic''; raw = getS J m ''payload.symbol''; price = getF J m ''payload.value'';
              timestamp = getI J m ''payload.timestamp'' in
       if topic = ''crypto_prices'' then
         let symbol = toUpper (remove_first raw ''usdt'') in
         if symbol = [] then ep
         else emitPrice \<lparr>xpSymbol = symbol, xpPrice = price, xpSource = ''Binance'', xpTimestamp = timestamp,
                xpWindowSeconds = 0\<rparr> (ep\<lparr>cpBinance := (cpBinance ep)(symbol \<mapsto> price)\<rparr>)
       else if topic = ''crypto_prices_chainlink'' then
         let symbol = toUpper (remove_first raw ''/usd'') in
         if symbol = [] then ep
         else emitPrice \<lparr>xpSymbol = symbol, xpPrice = price, xpSource = ''Chainlink'', xpTimestamp = timestamp,
                xpWindowSeconds = 0\<rparr> (ep\<lparr>cpChainlink := (cpChainlink ep)(symbol \<mapsto> price)\<rparr>)
       else if topic = TOPIC_CHAINLINK_TWAP_THIRTY \<or> topic = TOPIC_CHAINLINK_TWAP_SIXTY then
         let window = getI J m ''payload.window_s''; symbol = toUpper (remove_first raw ''/usd'') in
         if symbol \<noteq> [] \<and> (window = ChainlinkTwapWindowThirty \<or> window = ChainlinkTwapWindowSixty) then
           let ep = (if window = ChainlinkTwapWindowThirty then ep\<lparr>cpTwap30 := (cpTwap30 ep)(symbol \<mapsto> price)\<rparr>
                     else ep\<lparr>cpTwap60 := (cpTwap60 ep)(symbol \<mapsto> price)\<rparr>)
           in emitPrice \<lparr>xpSymbol = symbol, xpPrice = price, xpSource = ''ChainlinkTWAP'' @ int_str window,
                xpTimestamp = timestamp, xpWindowSeconds = window\<rparr> ep
         else ep
       else ep)"

definition cp_OnMessage :: "'j gjson_lib \<Rightarrow> bytes \<Rightarrow> CryptoPriceMonitor \<Rightarrow> CryptoPriceMonitor" where
  "cp_OnMessage J data ep = (let msg = string_of data in
     if msg \<noteq> ''PONG'' \<and> msg \<noteq> [] then cp_handleMessage J msg ep else ep)"

definition price_or_zero :: "float64 option \<Rightarrow> float64" where
  "price_or_zero p = (case p of None \<Rightarrow> Fin 0 | Some x \<Rightarrow> x)"

definition GetExternalPrice :: "string \<Rightarrow> string \<Rightarrow> CryptoPriceMonitor \<Rightarrow> float64" where
  "GetExternalPrice symbol resolutionSource ep =
     (if contains resolutionSource ''data.chain.link'' then price_or_zero (cpChainlink ep (toUpper symbol))
      else if contains resolutionSource ''www.binance.com'' then price_or_zero (cpBinance ep (toUpper symbol))
      else Fin 0)"

definition GetTwapPrice :: "string \<Rightarrow> int \<Rightarrow> CryptoPriceMonitor \<Rightarrow> float64" where
  "GetTwapPrice symbol windowSeconds ep = (let symbol = toUpper symbol in
     if windowSeconds = ChainlinkTwapWindowThirty then price_or_zero (cpTwap30 ep symbol)
     else if windowSeconds = ChainlinkTwapWindowSixty then price_or_zero (cpTwap60 ep symbol)
     else Fin 0)"

subsection \<open>Symbols on the wire\<close>

lemma remove_first_suffix:
  "p = c # cs \<Longrightarrow> c \<notin> set s \<Longrightarrow> remove_first (s @ p) p = s"
proof (induction s)
  case (Cons x s)
  then have "\<not> hasPrefix (x # s @ p) p" by (auto simp: hasPrefix_def)
  with Cons show ?case by simp
qed (simp add: hasPrefix_def)

lemma remove_suffix_usdt: "CHR ''u'' \<notin> set s \<Longrightarrow> remove_first (s @ ''usdt'') ''usdt'' = s"
  by (rule remove_first_suffix) auto

lemma remove_suffix_usd: "CHR ''/'' \<notin> set s \<Longrightarrow> remove_first (s @ ''/usd'') ''/usd'' = s"
  by (rule remove_first_suffix) auto

interpretation price_stream: oldest_survive emitPrice
  "\<lambda>ep. ch_buf (cpPriceCh ep)" "\<lambda>ep. ch_cap (cpPriceCh ep)"
  by unfold_locales (simp_all add: emitPrice_def raw_newest.emit_oldest)

lemma emitPrice_frame [simp]:
  "cpBinance (emitPrice p ep) = cpBinance ep" "cpChainlink (emitPrice p ep) = cpChainlink ep"
  "cpTwap30 (emitPrice p ep) = cpTwap30 ep" "cpTwap60 (emitPrice p ep) = cpTwap60 ep"
  by (simp_all add: emitPrice_def)

lemma toUpper_Nil [simp]: "toUpper s = [] \<longleftrightarrow> s = []"
  by (simp add: toUpper_def)

text \<open>An update message of a topic for a symbol, as the server sends it for a subscription.\<close>

definition is_update :: "'j gjson_lib \<Rightarrow> string \<Rightarrow> string \<Rightarrow> string \<Rightarrow> bool" where
  "is_update J msg topic wire_symbol \<longleftrightarrow> getS J (gParse J msg) ''type'' = ''update'' \<and>
     getS J (gParse J msg) ''topic'' = topic \<and> getS J (gParse J msg) ''payload.symbol'' = wire_symbol"

subsection \<open>Properties\<close>



text \<open>Messages that are not updates are ignored, and each source keeps its own prices.\<close>

lemma cp_sources_separate:
  "getS J (gParse J msg) ''type'' \<noteq> ''update'' \<Longrightarrow> cp_handleMessage J msg ep = ep"
  "is_update J msg ''crypto_prices'' r \<Longrightarrow> cpChainlink (cp_handleMessage J msg ep) = cpChainlink ep"
  "is_update J msg ''crypto_prices_chainlink'' r \<Longrightarrow> cpBinance (cp_handleMessage J msg ep) = cpBinance ep"
  by (auto simp: is_update_def cp_handleMessage_def Let_def)

text \<open>
  The windows of averaged prices. Every symbol is filtered in exactly one of the two windows, in
  order: those with the suffix \<^verbatim>\<open>_60\<close> in the 60 second window and all others in the 30 second window,
  where \<^verbatim>\<open>_30\<close> is the default and may be left out.
\<close>

theorem cp_twap_windows:
  "length (fst (twap_split symbols)) + length (snd (twap_split symbols)) = length symbols \<and>
   snd (twap_split symbols) = map (\<lambda>s. symbol_filter (toLower (take (length s - 3) s)) SYMBOL_SUFFIX_CHAINLINK)
     (filter (\<lambda>s. hasSuffix (toLower s) ''_60'') symbols) \<and>
   (\<not> hasSuffix (toLower s) ''_60'' \<longrightarrow> \<not> hasSuffix (toLower s) ''_30'' \<longrightarrow>
     twap_split ((s @ ''_30'') # symbols) = twap_split (s # symbols))"
proof -
  have a: "length (fst (twap_split symbols)) + length (snd (twap_split symbols)) = length symbols"
    by (induction symbols) (auto simp: Let_def window_defs split: prod.splits)
  have b: "snd (twap_split symbols) = map (\<lambda>s. symbol_filter (toLower (take (length s - 3) s)) SYMBOL_SUFFIX_CHAINLINK)
     (filter (\<lambda>s. hasSuffix (toLower s) ''_60'') symbols)"
    by (induction symbols) (auto simp: Let_def window_defs split: prod.splits)
  have l: "toLower (s @ ''_30'') = toLower s @ ''_30''" by (simp add: toLower_def lower_char_def is_upper_def)
  have h: "hasSuffix (t @ ''_30'') ''_30''" "\<not> hasSuffix (t @ ''_30'') ''_60''" for t
    by (simp_all add: hasSuffix_def)
  have c: "twap_split ((s @ ''_30'') # symbols) = twap_split (s # symbols)"
    if "\<not> hasSuffix (toLower s) ''_60''" "\<not> hasSuffix (toLower s) ''_30''"
    using that h [of "toLower s"] by (simp add: l window_defs Let_def)
  show ?thesis using a b c by blast
qed

theorem cp_twap_windows_witness:
  "twap_split [''btc_30'', ''eth_60''] = twap_split [''btc'', ''eth_60'']"
proof -
  have "\<not> hasSuffix (toLower ''btc'') ''_60''" "\<not> hasSuffix (toLower ''btc'') ''_30''" by code_simp+
  with cp_twap_windows [of "[''eth_60'']" "''btc''"] show ?thesis by simp
qed

text \<open>
  C39: the context kept for requests has no deadline. Whatever deadline the caller's context has,
  even one that has passed, the context that \<open>Run\<close> keeps for later price requests has none and is
  never done: \<^verbatim>\<open>WithoutCancel\<close> drops the deadline with the cancellation.
\<close>

theorem cp_request_ctx_unbounded:
  assumes "cp_Run_start n url ctx ep = Inr ep'"
  shows "cxDeadline (request_ctx ep') = None \<and> ctxErr now (request_ctx ep') = None"
  using assms by (auto simp: cp_Run_start_def request_ctx_def WithoutCancel_def Background_def Let_def ctxErr_def done_at_def
      split: if_splits)

theorem cp_request_ctx_unbounded_witness:
  "\<exists>ep'. cp_Run_start 8 ''wss://host'' \<lparr>cxCancelAt = Some 0, cxDeadline = Some 5\<rparr>
      (NewCryptoPriceMonitor MonitorAll []) = Inr ep' \<and> cxDeadline (request_ctx ep') = None"
proof -
  obtain w where w: "NewWSClient 8 (cp_config ''wss://host'') True = Inr w"
    by (simp add: NewWSClient_def Let_def ws_defaults_def cp_config_def)
  then obtain ep' where e: "cp_Run_start 8 ''wss://host'' \<lparr>cxCancelAt = Some 0, cxDeadline = Some 5\<rparr>
      (NewCryptoPriceMonitor MonitorAll []) = Inr ep'"
    by (auto simp: cp_Run_start_def Let_def cp_alive_def NewCryptoPriceMonitor_def)
  with cp_request_ctx_unbounded [OF e] show ?thesis by blast
qed

end
