(* ===== verification/OpenPrice.thy ===== *)
theory OpenPrice
  imports GoTime HttpClient CryptoPriceMonitor
begin

text \<open>
  \<^verbatim>\<open>polymarket/helper.go\<close> and the opening price queries (\<^verbatim>\<open>FetchOpenPrice\<close> of the client and of the
  crypto price monitor): from the tags and the end date of a market to the request for its prices. The
  order in which Go's \<^verbatim>\<open>range\<close> visits the keys of the symbol table is a parameter; lower-casing is for ASCII.
\<close>

subsection \<open>Tags\<close>

definition TIME_UNITS :: "string list" where
  "TIME_UNITS = [''15m'', ''hourly'', ''4h'', ''daily'', ''weekly'', ''monthly'', ''5m'']"

definition TIME_UNIT_MAP :: "string \<rightharpoonup> string" where
  "TIME_UNIT_MAP = map_of [(''5m'', ''fiveminute''), (''15m'', ''fifteen''), (''hourly'', ''hourly''), (''4h'', ''fourhour''),
     (''daily'', ''daily''), (''weekly'', ''weekly''), (''monthly'', ''monthly'')]"

definition SYMBOL_MAP :: "string \<rightharpoonup> string" where
  "SYMBOL_MAP = map_of [(''sol'', ''SOL''), (''solana'', ''SOL''), (''eth'', ''ETH''), (''ethereum'', ''ETH''),
     (''btc'', ''BTC''), (''bitcoin'', ''BTC''), (''xrp'', ''XRP''), (''dogecoin'', ''DOGE'')]"

definition tag_slugs :: "'j gjson_lib \<Rightarrow> 'j list \<Rightarrow> string list" where
  "tag_slugs J tags = map (\<lambda>t. toLower (getS J t ''slug'')) tags"

definition GetSymbol :: "'j gjson_lib \<Rightarrow> string list \<Rightarrow> 'j list \<Rightarrow> string result" where
  "GetSymbol J SLUGS tags = (case find (\<lambda>slug. slug \<in> set (tag_slugs J tags)) SLUGS of
     None \<Rightarrow> Inl (Error ''no symbol'')
   | Some slug \<Rightarrow> Inr (case SYMBOL_MAP slug of None \<Rightarrow> [] | Some s \<Rightarrow> s))"

definition GetTimeUnit :: "'j gjson_lib \<Rightarrow> 'j list \<Rightarrow> string result" where
  "GetTimeUnit J tags = (case find (\<lambda>unit. unit \<in> set (tag_slugs J tags)) TIME_UNITS of
     None \<Rightarrow> Inl (Error ''no timeUnit'') | Some unit \<Rightarrow> Inr unit)"

definition GetSearchTimeUnit :: "string \<Rightarrow> string result" where
  "GetSearchTimeUnit unit = (case TIME_UNIT_MAP unit of None \<Rightarrow> Inl (Error ''no SearchTimeUnit'') | Some u \<Rightarrow> Inr u)"

definition minutes :: int where "minutes = 60 * seconds"
definition hours :: int where "hours = 60 * minutes"

definition GetStartTime :: "string \<Rightarrow> string \<Rightarrow> gotime" where
  "GetStartTime unit endDate = (let startDate = TimeParse endDate in
     if unit = TIME_UNITS ! 0 then time_Add (- 15 * minutes) startDate
     else if unit = TIME_UNITS ! 1 then time_Add (- 1 * hours) startDate
     else if unit = TIME_UNITS ! 2 then time_Add (- 4 * hours) startDate
     else if unit = TIME_UNITS ! 3 then AddDate 0 0 (- 1) startDate
     else if unit = TIME_UNITS ! 4 then AddDate 0 0 (- 7) startDate
     else if unit = TIME_UNITS ! 5 then AddDate 0 1 0 startDate
     else if unit = TIME_UNITS ! 6 then time_Add (- 5 * minutes) startDate
     else startDate)"

subsection \<open>The price request\<close>

definition price_params :: "string \<Rightarrow> gotime \<Rightarrow> gotime \<Rightarrow> string \<Rightarrow> bool \<Rightarrow> int \<Rightarrow> headers" where
  "price_params symbol startTime endDate variant twapEnabled twapLookbackSeconds =
     [''symbol'' \<mapsto> symbol, ''eventStartTime'' \<mapsto> ToISOString startTime, ''endDate'' \<mapsto> ToISOString endDate,
      ''variant'' \<mapsto> variant, ''twapEnabled'' \<mapsto> (if twapEnabled then ''true'' else ''false''),
      ''twapLookbackSeconds'' \<mapsto> int_str twapLookbackSeconds]"

text \<open>An error of the request is logged and answered with two zeros; a panic propagates.\<close>

definition FetchOpenPriceContext ::
  "'s http_lib \<Rightarrow> 'j gjson_lib \<Rightarrow> context_t option \<Rightarrow> string \<Rightarrow> gotime \<Rightarrow> gotime \<Rightarrow> string \<Rightarrow> bool \<Rightarrow> int \<Rightarrow>
     (float64 \<times> float64, ('k, 's) PolymarketClient) op" where
  "FetchOpenPriceContext L J ctx symbol startTime endDate variant twapEnabled twapLookbackSeconds c =
     (let url = pmCryptoPriceURL (cfPolymarket (pcCfg c));
          url = (if url = [] then ''https://polymarket.com/api/crypto/crypto-price'' else url)
      in case GetContext L J ctx url
           (Some (price_params symbol startTime endDate variant twapEnabled twapLookbackSeconds)) None c of
           (Inl (Error e), c') \<Rightarrow> (Inr (Fin 0, Fin 0), c')
         | (Inl (Panic p), c') \<Rightarrow> (Inl (Panic p), c')
         | (Inr result, c') \<Rightarrow> (Inr (getF J result ''openPrice'', getF J result ''closePrice''), c'))"

definition FetchOpenPrice ::
  "'s http_lib \<Rightarrow> 'j gjson_lib \<Rightarrow> string \<Rightarrow> gotime \<Rightarrow> gotime \<Rightarrow> string \<Rightarrow> bool \<Rightarrow> int \<Rightarrow>
     (float64 \<times> float64, ('k, 's) PolymarketClient) op" where
  "FetchOpenPrice L J symbol startTime endDate variant twapEnabled twapLookbackSeconds =
     FetchOpenPriceContext L J (Some Background) symbol startTime endDate variant twapEnabled twapLookbackSeconds"

text \<open>The error of \<^verbatim>\<open>GetSearchTimeUnit\<close> is assigned and never read: the unit is then empty.\<close>

definition cp_FetchOpenPrice ::
  "'s http_lib \<Rightarrow> 'j gjson_lib \<Rightarrow> string list \<Rightarrow> CryptoPriceMonitor \<Rightarrow> 'j \<Rightarrow> bool \<Rightarrow> int \<Rightarrow>
     (float64 \<times> float64, ('k, 's) PolymarketClient) op" where
  "cp_FetchOpenPrice L J SLUGS ep market twapEnabled twapLookbackSeconds c =
     (let tags = getA J market ''tags''; endDate = getS J market ''endDate'' in
      case GetSymbol J SLUGS tags of Inl _ \<Rightarrow> (Inr (Fin 0, Fin 0), c)
      | Inr symbol \<Rightarrow>
        (case GetTimeUnit J tags of Inl _ \<Rightarrow> (Inr (Fin 0, Fin 0), c)
         | Inr u \<Rightarrow>
             let unit = (case GetSearchTimeUnit u of Inl _ \<Rightarrow> [] | Inr x \<Rightarrow> x) in
             FetchOpenPriceContext L J (Some (request_ctx ep)) symbol (GetStartTime u endDate) (TimeParse endDate)
               unit twapEnabled twapLookbackSeconds c))"

subsection \<open>Symbols and map order\<close>

text \<open>
  With tags for one symbol only, the order of the map does not matter; with tags for two symbols, either
  can be the answer.
\<close>

lemma find_in: "find P xs = Some x \<Longrightarrow> x \<in> set xs \<and> P x"
  by (auto simp: find_Some_iff)

lemma symbol_any_order:
  assumes keys: "set SLUGS = dom SYMBOL_MAP"
    and tag: "slug \<in> set (tag_slugs J tags)" "SYMBOL_MAP slug = Some x"
    and one: "\<And>s y. s \<in> set (tag_slugs J tags) \<Longrightarrow> SYMBOL_MAP s = Some y \<Longrightarrow> y = x"
  shows "GetSymbol J SLUGS tags = Inr x"
proof (cases "find (\<lambda>slug. slug \<in> set (tag_slugs J tags)) SLUGS")
  case None
  then have "slug \<notin> set SLUGS" using tag(1) by (auto simp: find_None_iff)
  with keys tag(2) show ?thesis by auto
next
  case (Some s)
  with find_in [OF this] keys obtain y where "SYMBOL_MAP s = Some y" "s \<in> set (tag_slugs J tags)" by auto
  with one Some show ?thesis by (auto simp: GetSymbol_def)
qed

lemma symbol_depends_on_order:
  assumes "s1 \<in> set (tag_slugs J tags)" "SYMBOL_MAP s1 = Some x1" and "s2 \<in> set (tag_slugs J tags)" "SYMBOL_MAP s2 = Some x2"
  shows "\<exists>o1 o2. Keys SYMBOL_MAP o1 \<and> Keys SYMBOL_MAP o2 \<and> GetSymbol J o1 tags = Inr x1 \<and> GetSymbol J o2 tags = Inr x2"
proof -
  have "\<exists>ks. Keys SYMBOL_MAP ks \<and> GetSymbol J ks tags = Inr x" if s: "s \<in> set (tag_slugs J tags)" "SYMBOL_MAP s = Some x" for s x
  proof -
    have "finite (dom SYMBOL_MAP)" by (simp add: SYMBOL_MAP_def finite_dom_map_of)
    then obtain ks where "distinct ks" "set ks = dom SYMBOL_MAP - {s}" using finite_distinct_list by (metis finite_Diff)
    then have "Keys SYMBOL_MAP (s # ks)" using s(2) by (auto simp: Keys_def)
    moreover have "GetSymbol J (s # ks) tags = Inr x" using s by (simp add: GetSymbol_def)
    ultimately show ?thesis by blast
  qed
  with assms show ?thesis by metis
qed

subsection \<open>Rounding to minutes\<close>

lemma round_minutes:
  assumes "0 < m"
  shows "\<exists>r. RoundToMinutes m now (Some t) = Inr r \<and> r \<le> tmNano t div giga \<and> tmNano t div giga - r < 60 * m"
proof -
  obtain y mo d where l: "local_date t = (y, mo, d)" by (metis prod_cases3)
  note z = days_civil [OF l [unfolded local_date_def]] and b = civil_month [OF l [unfolded local_date_def]]
  have m': "y + (mo - 1) div 12 = y" "(mo - 1) mod 12 + 1 = mo" using b by (simp_all add: div_pos_pos_trivial mod_pos_pos_trivial)
  define f where "f = (local_minute t sdiv m) * m"
  have mi: "0 \<le> local_minute t" "0 \<le> local_second t" "local_second t < 60" by (simp_all add: local_minute_def local_second_def)
  have f: "f = local_minute t - local_minute t mod m"
    using mi(1) assms by (simp add: f_def signed_divide_int_def minus_mod_eq_div_mult [symmetric] sgn_if)
  have md: "0 \<le> local_minute t mod m" "local_minute t mod m < m" using assms by simp_all
  have s: "tmNano t div giga = 86400 * (local_seconds t div 86400) + 3600 * local_hour t + 60 * local_minute t + local_second t - tmZone t"
    using nano_parts [of t] by (auto simp: giga_def local_nano_def)
  have r: "RoundToMinutes m now (Some t) = Inr (86400 * (local_seconds t div 86400) + 3600 * local_hour t + 60 * f - tmZone t)"
    using assms by (simp add: RoundToMinutes_def l f_def [symmetric] go_date_def Let_def m' z giga_def)
  show ?thesis unfolding r s using mi md by (auto simp: f)
qed

subsection \<open>Properties\<close>


end
